(* ===== verification/Wafer_Prelude.thy ===== *)
theory Wafer_Prelude
  imports Main "HOL-Library.Word" "HOL-Library.Signed_Division"
begin

unbundle bit_operations_syntax

text \<open>
  Shared vocabulary of the WaferSat development: names for the C integer types, reads from a
  constant C array (an index outside the array is \<open>None\<close>), the collections of simplification
  rules the component theories extend, the arithmetic of machine words that does not wrap, and
  the interfaces that the components meet: encoders with a decoder (\<open>codec\<close>), step
  relations with an invariant (\<open>transition_invariant\<close>), state-passing operations that
  preserve a predicate (\<open>keeps\<close>), loops that wait for a clock (\<open>polling_loop\<close>) and lists that
  keep the last entries of a log (\<open>bounded_log\<close>).
\<close>

section \<open>C integer types\<close>

type_synonym u8 = "8 word"
type_synonym u16 = "16 word"
type_synonym u32 = "32 word"
type_synonym u64 = "64 word"

text \<open>Signed C integers are kept as words too and read with \<open>sint\<close>.\<close>

type_synonym i8 = "8 word"
type_synonym i16 = "16 word"
type_synonym i32 = "32 word"
type_synonym i64 = "64 word"

named_theorems word_value \<open>values of word expressions that do not wrap\<close>

section \<open>Constant arrays\<close>

definition array_at :: "'a list \<Rightarrow> int \<Rightarrow> 'a option" where
  "array_at xs i = (if 0 \<le> i \<and> i < int (length xs) then Some (xs ! nat i) else None)"

lemma array_at_Some_iff:
  "array_at xs i = Some x \<longleftrightarrow> 0 \<le> i \<and> nat i < length xs \<and> xs ! nat i = x"
  by (auto simp: array_at_def)

lemma array_at_nat [simp]:
  "n < length xs \<Longrightarrow> array_at xs (int n) = Some (xs ! n)"
  by (simp add: array_at_def)

lemma array_at_None_iff: "array_at xs i = None \<longleftrightarrow> i < 0 \<or> int (length xs) \<le> i"
  by (auto simp: array_at_def)

section \<open>Word values\<close>

lemma unat_u8_bound [simp]: "unat (x :: u8) < 256"
  using unsigned_less [of x, where ?'a = nat] by simp

lemma unat_u16_bound [simp]: "unat (x :: u16) < 65536"
  using unsigned_less [of x, where ?'a = nat] by simp

lemma unat_u32_bound [simp]: "unat (x :: u32) < 4294967296"
  using unsigned_less [of x, where ?'a = nat] by simp

lemma unat_plus_small [word_value]:
  fixes a b :: "'a::len word"
  assumes "unat a + unat b < 2 ^ LENGTH('a)"
  shows "unat (a + b) = unat a + unat b"
  using assms by (simp add: unat_word_ariths)

lemma word_Suc_below: "unat i < unat y \<Longrightarrow> unat (i + 1) = Suc (unat i)"
  for i y :: "'a::len word"
  using unsigned_less [of y, where ?'a = nat]
  by (simp add: unat_word_ariths less_trans_Suc)

lemma unat_mult_small [word_value]:
  fixes a b :: "'a::len word"
  assumes "unat a * unat b < 2 ^ LENGTH('a)"
  shows "unat (a * b) = unat a * unat b"
  using assms by (simp add: unat_word_ariths)

lemma unat_ucast_widen [word_value]:
  fixes x :: "'a::len word"
  assumes "LENGTH('a) \<le> LENGTH('b::len)"
  shows "unat (ucast x :: 'b word) = unat x"
  proof -
  have "unat x < 2 ^ LENGTH('b)"
    using power_increasing [OF assms, of "2 :: nat"]
    by (rule less_le_trans [OF unsigned_less]) simp
  then show ?thesis
    by (simp add: unsigned_ucast_eq take_bit_nat_eq_self)
qed

lemma sint_small [word_value]:
  fixes w :: "'a::len word"
  assumes "unat w < 2 ^ (LENGTH('a) - 1)"
  shows "sint w = int (unat w)"
proof -
  have "int (unat w) < int (2 ^ (LENGTH('a) - 1))"
    using assms by (simp only: of_nat_less_iff)
  then have "uint w < 2 ^ (LENGTH('a) - 1)"
    by simp
  moreover have "- (2 ^ (LENGTH('a) - 1)) \<le> uint w"
    by (rule order_trans [of _ 0]) simp_all
  ultimately show ?thesis
    by (simp add: sint_uint signed_take_bit_int_eq_self)
qed

lemma sint_of_int:
  assumes "- (2 ^ (LENGTH('a) - 1)) \<le> k" "k < 2 ^ (LENGTH('a) - 1)"
  shows "sint (word_of_int k :: 'a::len word) = k"
  using assms by (simp add: sint_sbintrunc' signed_take_bit_int_eq_self)

lemma ucast_of_int:
  assumes "LENGTH('b::len) \<le> LENGTH('a::len)"
  shows "ucast (word_of_int k :: 'a word) = (word_of_int k :: 'b word)"
  by (rule bit_word_eqI) (use assms in \<open>auto simp: bit_simps\<close>)

lemma sint_large:
  fixes w :: "'a::len word"
  assumes "2 ^ (LENGTH('a) - 1) \<le> unat w"
  shows "sint w = int (unat w) - 2 ^ LENGTH('a)"
proof -
  have p: "(2 :: int) ^ LENGTH('a) = 2 * 2 ^ (LENGTH('a) - 1)"
    by (simp flip: power_Suc)
  have "int (2 ^ (LENGTH('a) - 1)) \<le> int (unat w)" "int (unat w) < int (2 ^ LENGTH('a))"
    using assms unsigned_less [of w, where ?'a = nat] by (simp_all only: of_nat_le_iff of_nat_less_iff)
  then have "2 ^ (LENGTH('a) - 1) \<le> int (unat w)" "int (unat w) < 2 ^ LENGTH('a)"
    by simp_all
  then have "sint (word_of_int (int (unat w) - 2 ^ LENGTH('a)) :: 'a word) = int (unat w) - 2 ^ LENGTH('a)"
    using p by (intro sint_of_int) linarith+
  moreover have "word_of_int (int (unat w) - 2 ^ LENGTH('a)) = w"
    using of_int_power [of 2 "LENGTH('a)", where ?'a = "'a word"] by (simp add: exp_eq_zero_iff)
  ultimately show ?thesis
    by simp
qed

lemma unat_sint: "0 \<le> sint w \<Longrightarrow> unat w = nat (sint w)" for w :: "'a::len word"
proof -
  assume nonneg: "0 \<le> sint w"
  have "int (unat w) < 2 ^ LENGTH('a)"
    using unsigned_less [of w, where ?'a = int] by simp
  then have "\<not> 2 ^ (LENGTH('a) - 1) \<le> unat w"
    using nonneg sint_large [of w] by linarith
  then show ?thesis
    by (simp add: sint_small)
qed

lemma sint_plus_small [word_value]:
  fixes a b :: "'a::len word"
  assumes "- (2 ^ (LENGTH('a) - 1)) \<le> sint a + sint b" "sint a + sint b < 2 ^ (LENGTH('a) - 1)"
  shows "sint (a + b) = sint a + sint b"
  using assms by (simp add: sint_word_add signed_take_bit_int_eq_self)

lemma sint_minus_small [word_value]:
  fixes a b :: "'a::len word"
  assumes "- (2 ^ (LENGTH('a) - 1)) \<le> sint a - sint b" "sint a - sint b < 2 ^ (LENGTH('a) - 1)"
  shows "sint (a - b) = sint a - sint b"
proof -
  have "a - b = word_of_int (sint a - sint b)"
    by simp
  then have "sint (a - b) = signed_take_bit (LENGTH('a) - 1) (sint a - sint b)"
    by (simp only: sint_sbintrunc' )
  then show ?thesis
    using assms by (simp add: signed_take_bit_int_eq_self)
qed

lemma sint_mult_small [word_value]:
  fixes a b :: "'a::len word"
  assumes "- (2 ^ (LENGTH('a) - 1)) \<le> sint a * sint b" "sint a * sint b < 2 ^ (LENGTH('a) - 1)"
  shows "sint (a * b) = sint a * sint b"
  using assms by (simp add: sint_word_mult signed_take_bit_int_eq_self)

lemma sint_asr: "sint (signed_drop_bit n w) = sint w div 2 ^ n"
  by (simp add: sint_signed_drop_bit_eq drop_bit_eq_div)

text \<open>C division truncates; on a non-negative dividend it agrees with \<open>div\<close> and \<open>mod\<close>.\<close>

lemma sdiv_nonneg: "0 \<le> a \<Longrightarrow> 0 < b \<Longrightarrow> a sdiv b = a div b" for a b :: int
  by (cases "a = 0") (simp_all add: signed_divide_int_def)

lemma smod_nonneg: "0 \<le> a \<Longrightarrow> 0 < b \<Longrightarrow> a smod b = a mod b" for a b :: int
  by (cases "a = 0") (simp_all add: signed_modulo_int_def)

lemma abs_sdiv: "0 < b \<Longrightarrow> \<bar>a sdiv b\<bar> = \<bar>a\<bar> div b" for a b :: int
  by (cases "a = 0") (simp_all add: signed_divide_int_def abs_mult abs_sgn_eq pos_imp_zdiv_nonneg_iff)

lemma digit_div: "0 \<le> r \<Longrightarrow> r < b \<Longrightarrow> (q * b + r) div b = q" for q r b :: int
  by (simp add: div_add1_eq)

lemma digit_mod: "0 \<le> r \<Longrightarrow> r < b \<Longrightarrow> (q * b + r) mod b = r" for q r b :: int
  by simp

text \<open>Bits of bytes.\<close>

lemma bit_u8D: "bit x n \<Longrightarrow> n < 8" for x :: u8
  using bit_imp_le_length [of x n] by simp

lemma mask_byte: "0xFF = (mask 8 :: 'a::len word)"
  by (simp add: mask_eq_exp_minus_1)

section \<open>Interfaces\<close>

text \<open>An encoder whose decoder recovers every valid value.\<close>

locale codec =
  fixes enc :: "'a \<Rightarrow> 'b"
    and dec :: "'b \<Rightarrow> 'a"
    and valid :: "'a \<Rightarrow> bool"
  assumes dec_enc: "valid a \<Longrightarrow> dec (enc a) = a"
begin

lemma enc_inject: "valid a \<Longrightarrow> valid b \<Longrightarrow> enc a = enc b \<longleftrightarrow> a = b"
  by (metis dec_enc)

lemma enc_inj_on: "inj_on enc {a. valid a}"
  by (metis enc_inject inj_onI mem_Collect_eq)

end

text \<open>A step relation, its start states and a predicate that both respect.\<close>

locale transition_invariant =
  fixes start :: "'s \<Rightarrow> bool"
    and step :: "'s \<Rightarrow> 's \<Rightarrow> bool"
    and inv :: "'s \<Rightarrow> bool"
  assumes start_inv: "start s \<Longrightarrow> inv s"
    and step_inv: "inv s \<Longrightarrow> step s t \<Longrightarrow> inv t"
begin

lemma steps_inv: "step\<^sup>*\<^sup>* s t \<Longrightarrow> inv s \<Longrightarrow> inv t"
  by (induction rule: rtranclp_induct) (auto intro: step_inv)

lemma reachable_inv: "start s \<Longrightarrow> step\<^sup>*\<^sup>* s t \<Longrightarrow> inv t"
  by (blast intro: steps_inv start_inv)

end

text \<open>An operation on a state that preserves a predicate; repeating it, or running it over a list
  of arguments, preserves the predicate too.\<close>

locale keeps =
  fixes oper :: "'a \<Rightarrow> 's \<Rightarrow> 's"
    and good :: "'s \<Rightarrow> bool"
  assumes keep: "good s \<Longrightarrow> good (oper a s)"
begin

lemma keep_fold: "good s \<Longrightarrow> good (fold oper as s)"
  by (induction as arbitrary: s) (auto intro: keep)

lemma keep_funpow: "good s \<Longrightarrow> good ((oper a ^^ n) s)"
  by (induction n) (auto intro: keep)

end

text \<open>A loop that polls a condition: one round either ends it with a result or goes on. A loop whose
  rounds lower a measure returns, and its result is what the last round gives.\<close>

locale polling_loop =
  fixes loop :: "'a \<Rightarrow> 'r option"
    and round :: "'a \<Rightarrow> 'a + 'r"
  assumes unfold: "loop x = (case round x of Inl y \<Rightarrow> loop y | Inr r \<Rightarrow> Some r)"
begin

lemma returns:
  fixes m :: "'a \<Rightarrow> nat"
  assumes "P x"
    and "\<And>x y. P x \<Longrightarrow> round x = Inl y \<Longrightarrow> P y \<and> m y < m x"
    and "\<And>x r. P x \<Longrightarrow> round x = Inr r \<Longrightarrow> Q r"
  shows "\<exists>r. loop x = Some r \<and> Q r"
  using assms(1)
proof (induction "m x" arbitrary: x rule: less_induct)
  case less
  show ?case
  proof (cases "round x")
    case (Inl y)
    then show ?thesis
      using less.hyps [of y] assms(2) [OF less.prems Inl] by (simp add: unfold [of x])
  next
    case (Inr r)
    then show ?thesis
      using assms(3) [OF less.prems Inr] by (simp add: unfold [of x])
  qed
qed

end

text \<open>Operations that may fail, one after the other: the first failure ends the run.\<close>

fun run_all :: "('m \<Rightarrow> 's \<Rightarrow> 'e + 's) \<Rightarrow> 'm list \<Rightarrow> 's \<Rightarrow> 'e + 's" where
  "run_all oper [] s = Inr s"
| "run_all oper (m # ms) s = (case oper m s of Inl e \<Rightarrow> Inl e | Inr s' \<Rightarrow> run_all oper ms s')"

text \<open>A log that keeps a fixed number of entries: the oldest makes room for the new one.\<close>

locale bounded_log =
  fixes put :: "'m \<Rightarrow> 's \<Rightarrow> 'e + 's"
    and log :: "'s \<Rightarrow> 'a list"
    and wf :: "'s \<Rightarrow> bool"
    and entry :: "'m \<Rightarrow> 'a \<Rightarrow> bool"
  assumes put: "wf s \<Longrightarrow> \<exists>s' x. put m s = Inr s' \<and> wf s' \<and> entry m x \<and> log s' = tl (log s @ [x])"
begin

lemma put_all:
  "wf s \<Longrightarrow> \<exists>s' xs. run_all put ms s = Inr s' \<and> wf s' \<and> list_all2 entry ms xs \<and> log s' = drop (length ms) (log s @ xs)"
proof (induction ms arbitrary: s)
  case Nil
  then show ?case
    by simp
next
  case (Cons m ms)
  obtain t x where t: "put m s = Inr t" "wf t" "entry m x" "log t = tl (log s @ [x])"
    using put [OF Cons.prems] by blast
  obtain s' xs where s': "run_all put ms t = Inr s'" "wf s'" "list_all2 entry ms xs" "log s' = drop (length ms) (log t @ xs)"
    using Cons.IH [OF t(2)] by blast
  have "log s' = drop (length (m # ms)) (log s @ x # xs)"
    unfolding s'(4) t(4) by (cases "log s") simp_all
  then show ?case
    using t(1,3) s'(1,2,3) by (intro exI [of _ s'] exI [of _ "x # xs"]) simp
qed

end

text \<open>A console message: a text and the line end.\<close>

definition line :: "string \<Rightarrow> string" where
  "line msg = msg @ [CHR 0x0D, CHR 0x0A]"

end
