(* ===== verification/Ptime.thy ===== *)
theory Ptime
  imports Wafer_Prelude
begin

text \<open>
  The calendar arithmetic of \<open>src/ptime.c\<close>: conversion of a date to a UNIX timestamp and back,
  and the access to the real-time clock. The operations follow the C text on the C widths; the
  \<^emph>\<open>reference calendar\<close> below them (\<open>secs_of_year\<close>, \<open>valid_date\<close>) is the every-fourth-year
  calendar the file header promises, on natural numbers.
\<close>

section \<open>Data\<close>

record ptime_t =
  year :: u16
  month :: u8
  day :: u8
  hour :: u8
  minute :: u8
  second :: u8

definition nonLeapYear :: "u16 list" where
  "nonLeapYear = [0,31,59,90,120,151,181,212,243,273,304,334,365]"

definition leapYear :: "u16 list" where
  "leapYear = [0,31,60,91,121,152,182,213,244,274,305,335,366]"

definition year_table :: "u16 \<Rightarrow> u16 list" where
  "year_table y = (if y mod 4 \<noteq> 0 then nonLeapYear else leapYear)"

section \<open>Operations\<close>

text \<open>The loop of \<open>date2UnixTimestamp\<close> that adds the seconds of the years before.\<close>

function add_years :: "u16 \<Rightarrow> u16 \<Rightarrow> u32 \<Rightarrow> u32" where
  "add_years i y timeC =
     (if i < y
      then add_years (i + 1) y (timeC + (if i mod 4 = 0 then 31622400 else 31536000))
      else timeC)"
  by pat_completeness auto
termination
proof (relation "measure (\<lambda>(i, y, timeC). unat y - unat i)")
  show "wf (measure (\<lambda>(i :: u16, y :: u16, timeC :: u32). unat y - unat i))"
    by simp
next
  fix i y :: u16 and timeC :: u32
  assume "i < y"
  then show "((i + 1, y, timeC + (if i mod 4 = 0 then 31622400 else 31536000)), i, y, timeC)
      \<in> measure (\<lambda>(i, y, timeC). unat y - unat i)"
    by (simp add: word_less_nat_alt word_Suc_below)
qed

declare add_years.simps [simp del]

definition date2UnixTimestamp :: "ptime_t \<Rightarrow> u32 option" where
  "date2UnixTimestamp date =
     (let timeC = ucast (second date);
          timeC = timeC + ucast (minute date) * 60;
          timeC = timeC + ucast (hour date) * 3600;
          timeC = timeC + (ucast (day date) - 1) * 86400
      in case array_at (if year date mod 4 = 0 then leapYear else nonLeapYear)
                (int (unat (month date)) - 1) of
           None \<Rightarrow> None
         | Some days \<Rightarrow> Some (add_years 1970 (year date) (timeC + ucast days * 86400)))"

text \<open>The two loops of \<open>unixTimestamp2Date\<close>: split off whole years, then search the month.\<close>

function split_years :: "u16 \<Rightarrow> u32 \<Rightarrow> u16 \<times> u32" where
  "split_years y time =
     (let secondsInThisYear = (if y mod 4 \<noteq> 0 then 31536000 else 31622400)
      in if time \<ge> secondsInThisYear then split_years (y + 1) (time - secondsInThisYear)
         else (y, time))"
  by pat_completeness auto
termination
  by (relation "measure (\<lambda>(y, time). unat time)")
    (auto simp: word_le_nat_alt word_less_nat_alt unat_sub split: if_splits)

declare split_years.simps [simp del]

function find_month :: "u16 \<Rightarrow> u8 \<Rightarrow> u32 \<Rightarrow> u8 option" where
  "find_month y m time =
     (case array_at (year_table y) (int (unat m)) of
        None \<Rightarrow> None
      | Some days \<Rightarrow> if ucast days * 86400 \<le> time then find_month y (m + 1) time else Some m)"
  by pat_completeness auto
termination
proof (relation "measure (\<lambda>(y, m, time). 13 - unat m)")
  fix y :: u16 and m :: u8 and time :: u32 and days :: u16
  assume "array_at (year_table y) (int (unat m)) = Some days"
  then have "unat m < 13"
    by (auto simp: array_at_Some_iff year_table_def nonLeapYear_def leapYear_def split: if_splits)
  then show "((y, m + 1, time), y, m, time) \<in> measure (\<lambda>(y, m, time). 13 - unat m)"
    by (simp add: unat_plus_small)
qed simp

declare find_month.simps [simp del]

definition unixTimestamp2Date :: "u32 \<Rightarrow> ptime_t option" where
  "unixTimestamp2Date time =
     (let (y, time) = split_years 1970 time
      in case find_month y 1 time of
           None \<Rightarrow> None
         | Some m \<Rightarrow>
           (case array_at (year_table y) (int (unat m) - 1) of
              None \<Rightarrow> None
            | Some days \<Rightarrow>
              (let time = time - ucast days * 86400
               in Some \<lparr> year = y, month = m,
                    day = ucast (time div 86400 + 1),
                    hour = ucast (time mod 86400 div 3600),
                    minute = ucast (time mod 3600 div 60),
                    second = ucast (time mod 60) \<rparr>)))"

text \<open>
  \<open>getTime\<close> and \<open>setTime\<close> go through the ChibiOS RTC driver. Its \<open>RTCDateTime\<close> fields the file
  touches are integers here; \<open>RTC_BASE_YEAR\<close>, \<open>rtcGetTime\<close> and \<open>rtcSetTime\<close> belong to the
  driver and are parameters.
\<close>

record RTCDateTime =
  rtc_year :: int
  rtc_month :: int
  rtc_day :: int
  rtc_millisecond :: int

definition getTime :: "int \<Rightarrow> ('r \<Rightarrow> RTCDateTime) \<Rightarrow> 'r \<Rightarrow> ptime_t" where
  "getTime RTC_BASE_YEAR rtcGetTime rtcd =
     (let timespec = rtcGetTime rtcd
      in \<lparr> year = word_of_int (rtc_year timespec + RTC_BASE_YEAR),
           month = word_of_int (rtc_month timespec),
           day = word_of_int (rtc_day timespec),
           hour = word_of_int (rtc_millisecond timespec sdiv 3600000),
           minute = word_of_int ((rtc_millisecond timespec smod 3600000) sdiv 60000),
           second = word_of_int ((rtc_millisecond timespec sdiv 1000) smod 60) \<rparr>)"

definition setTime :: "int \<Rightarrow> (RTCDateTime \<Rightarrow> 'r \<Rightarrow> 'r) \<Rightarrow> ptime_t \<Rightarrow> 'r \<Rightarrow> 'r" where
  "setTime RTC_BASE_YEAR rtcSetTime date rtcd =
     rtcSetTime \<lparr> rtc_year = uint (year date) - RTC_BASE_YEAR,
                  rtc_month = uint (month date),
                  rtc_day = uint (day date),
                  rtc_millisecond = uint (hour date) * 3600000 + uint (minute date) * 60000
                                    + uint (second date) * 1000 \<rparr> rtcd"

section \<open>The reference calendar\<close>

definition secs_of_year :: "nat \<Rightarrow> nat" where
  "secs_of_year y = (if y mod 4 = 0 then 31622400 else 31536000)"

definition days_before :: "nat \<Rightarrow> nat \<Rightarrow> nat" where
  "days_before y m =
     (if y mod 4 = 0 then [0,31,60,91,121,152,182,213,244,274,305,335,366]
      else [0,31,59,90,120,151,181,212,243,273,304,334,365]) ! m"

definition epoch_secs :: "nat \<Rightarrow> nat" where
  "epoch_secs y = (\<Sum>k = 1970..<y. secs_of_year k)"

text \<open>A date of the reference calendar, and the seconds since the epoch it stands for.\<close>

definition valid_date :: "ptime_t \<Rightarrow> bool" where
  "valid_date d \<longleftrightarrow>
     1970 \<le> unat (year d) \<and> 1 \<le> unat (month d) \<and> unat (month d) \<le> 12 \<and>
     1 \<le> unat (day d) \<and>
     unat (day d) \<le> days_before (unat (year d)) (unat (month d))
                     - days_before (unat (year d)) (unat (month d) - 1) \<and>
     unat (hour d) < 24 \<and> unat (minute d) < 60 \<and> unat (second d) < 60"

definition date_secs :: "ptime_t \<Rightarrow> nat" where
  "date_secs d = epoch_secs (unat (year d)) + days_before (unat (year d)) (unat (month d) - 1) * 86400
     + (unat (day d) - 1) * 86400 + unat (hour d) * 3600 + unat (minute d) * 60 + unat (second d)"

lemma leap_word_iff: "y mod 4 = 0 \<longleftrightarrow> unat y mod 4 = 0" for y :: u16
  by (simp add: word_unat_eq_iff unat_mod_distrib)

lemma secs_of_year_bounds: "31536000 \<le> secs_of_year y" "secs_of_year y \<le> 31622400"
  by (simp_all add: secs_of_year_def)

lemma secs_of_year_days: "secs_of_year y = days_before y 12 * 86400"
  by (simp add: secs_of_year_def days_before_def)

lemma le_12_cases:
  "n \<le> 12 \<Longrightarrow> n \<in> {0, 1, 2, 3, 4, 5, 6, 7, 8, 9, 10, 11, 12}" for n :: nat
  unfolding insert_iff empty_iff by arith

lemma year_table_at:
  assumes "n \<le> 12"
  shows "\<exists>days. array_at (year_table y) (int n) = Some days \<and> unat days = days_before (unat y) n"
  using le_12_cases [OF assms]
  by (auto simp: array_at_def year_table_def leap_word_iff days_before_def nonLeapYear_def
      leapYear_def simp del: mod_eq_0_iff_dvd)

lemma year_table_beyond: "12 < n \<Longrightarrow> array_at (year_table y) (int n) = None"
  by (simp add: array_at_def year_table_def nonLeapYear_def leapYear_def)

lemma days_before_mono: "m \<le> n \<Longrightarrow> n \<le> 12 \<Longrightarrow> days_before y m \<le> days_before y n"
  unfolding days_before_def by (intro sorted_nth_mono) simp_all

lemma days_before_le: "n \<le> 12 \<Longrightarrow> days_before y n \<le> 366"
  using days_before_mono [of n 12 y] by (simp add: days_before_def split: if_splits)

lemma month_length_le:
  "1 \<le> m \<Longrightarrow> m \<le> 12 \<Longrightarrow> days_before y m - days_before y (m - 1) \<le> 31"
  using le_12_cases [of m] by (auto simp: days_before_def)

lemma day_seconds: "unat days \<le> 366 \<Longrightarrow> unat (ucast days * 86400 :: u32) = unat days * 86400"
  for days :: u16
  by (simp add: unat_mult_small unat_ucast_widen)

section \<open>The loops\<close>

lemma add_years_eq:
  "add_years i y t = t + of_nat (\<Sum>k = unat i..<unat y. secs_of_year k)"
proof (induction i y t rule: add_years.induct)
  case (1 i y t)
  show ?case
  proof (cases "i < y")
    case True
    then have lt: "unat i < unat y"
      by (simp add: word_less_nat_alt)
    then have "(\<Sum>k = unat i..<unat y. secs_of_year k)
        = secs_of_year (unat i) + (\<Sum>k = unat (i + 1)..<unat y. secs_of_year k)"
      by (simp add: word_Suc_below sum.atLeast_Suc_lessThan)
    with True 1 show ?thesis
      by (simp add: add_years.simps [of i y t] leap_word_iff secs_of_year_def
          del: mod_eq_0_iff_dvd)
  next
    case False
    then show ?thesis
      by (simp add: add_years.simps [of i y t] word_less_nat_alt)
  qed
qed

lemma split_years_spec:
  assumes "unat y + unat t div 31536000 < 65535"
  shows "unat y \<le> unat (fst (split_years y t)) \<and>
    unat t = unat (snd (split_years y t))
             + (\<Sum>k = unat y..<unat (fst (split_years y t)). secs_of_year k) \<and>
    unat (snd (split_years y t)) < secs_of_year (unat (fst (split_years y t)))"
  using assms
proof (induction y t rule: split_years.induct)
  case (1 y t)
  define secs :: u32 where "secs = (if y mod 4 \<noteq> 0 then 31536000 else 31622400)"
  have secs: "unat secs = secs_of_year (unat y)"
    by (simp add: secs_def secs_of_year_def leap_word_iff del: mod_eq_0_iff_dvd)
  have eq: "split_years y t = (if t \<ge> secs then split_years (y + 1) (t - secs) else (y, t))"
    by (simp add: split_years.simps [of y t] secs_def)
  show ?case
  proof (cases "t \<ge> secs")
    case False
    then show ?thesis
      by (simp add: eq secs [symmetric] word_le_nat_alt)
  next
    case True
    then have le: "secs_of_year (unat y) \<le> unat t"
      by (simp add: secs [symmetric] word_le_nat_alt)
    have t': "unat (t - secs) = unat t - secs_of_year (unat y)"
      using True by (simp add: unat_sub secs)
    have y': "unat (y + 1) = Suc (unat y)"
      using 1(2) by (simp add: unat_plus_small)
    have "unat (t - secs) div 31536000 < unat t div 31536000"
      using le secs_of_year_bounds(1) [of "unat y"] unfolding t' by linarith
    then have "unat (y + 1) + unat (t - secs) div 31536000 < 65535"
      using 1(2) y' by simp
    with 1(1) True have IH: "unat (y + 1) \<le> unat (fst (split_years (y + 1) (t - secs))) \<and>
       unat (t - secs) = unat (snd (split_years (y + 1) (t - secs)))
         + (\<Sum>k = unat (y + 1)..<unat (fst (split_years (y + 1) (t - secs))). secs_of_year k) \<and>
       unat (snd (split_years (y + 1) (t - secs)))
         < secs_of_year (unat (fst (split_years (y + 1) (t - secs))))"
      by (simp add: secs_def)
    then show ?thesis
      using True le t' y' by (simp add: eq sum.atLeast_Suc_lessThan) linarith
  qed
qed

lemma find_month_spec:
  assumes "1 \<le> unat m" "unat m \<le> 12"
    and "days_before (unat y) (unat m - 1) * 86400 \<le> unat t"
    and "unat t < days_before (unat y) 12 * 86400"
  shows "\<exists>m'. find_month y m t = Some m' \<and> 1 \<le> unat m' \<and> unat m' \<le> 12 \<and>
    days_before (unat y) (unat m' - 1) * 86400 \<le> unat t \<and>
    unat t < days_before (unat y) (unat m') * 86400"
  using assms
proof (induction y m t rule: find_month.induct)
  case (1 y m t)
  from year_table_at [OF 1(3), of y] obtain days where
    days: "array_at (year_table y) (int (unat m)) = Some days"
      "unat days = days_before (unat y) (unat m)"
    by blast
  have v: "unat (ucast days * 86400 :: u32) = days_before (unat y) (unat m) * 86400"
    using day_seconds [of days] days_before_le [OF 1(3)] days(2) by simp
  show ?case
  proof (cases "ucast days * 86400 \<le> t")
    case False
    then show ?thesis
      using 1(2-) days v by (simp add: find_month.simps [of y m t] word_le_nat_alt)
  next
    case True
    then have ge: "days_before (unat y) (unat m) * 86400 \<le> unat t"
      by (simp add: word_le_nat_alt v)
    have ne: "unat m \<noteq> 12"
      using ge 1(5) by auto
    have m': "unat (m + 1) = Suc (unat m)"
      using 1(3) by (simp add: unat_plus_small)
    have "\<exists>m'. find_month y (m + 1) t = Some m' \<and> 1 \<le> unat m' \<and> unat m' \<le> 12 \<and>
        days_before (unat y) (unat m' - 1) * 86400 \<le> unat t \<and>
        unat t < days_before (unat y) (unat m') * 86400"
      using 1(1) [OF days(1) True] 1(3,5) ne ge m' by simp
    then show ?thesis
      using True days(1) by (simp add: find_month.simps [of y m t])
  qed
qed

section \<open>Values of the two conversions\<close>

lemma epoch_secs_Suc: "1970 \<le> y \<Longrightarrow> epoch_secs (Suc y) = epoch_secs y + secs_of_year y"
  by (simp add: epoch_secs_def)

lemma epoch_secs_mono: "x \<le> y \<Longrightarrow> epoch_secs x \<le> epoch_secs y"
  unfolding epoch_secs_def by (rule sum_mono2) auto

lemma epoch_split_unique:
  assumes "epoch_secs y + r = epoch_secs y' + r'" "1970 \<le> y" "1970 \<le> y'"
    and "r < secs_of_year y" "r' < secs_of_year y'"
  shows "y = y' \<and> r = r'"
proof -
  have "\<not> y < y'"
    using assms epoch_secs_mono [of "Suc y" y'] by (auto simp: epoch_secs_Suc)
  moreover have "\<not> y' < y"
    using assms epoch_secs_mono [of "Suc y'" y] by (auto simp: epoch_secs_Suc)
  ultimately show ?thesis
    using assms(1) by auto
qed

lemma month_unique:
  assumes "days_before y (m - 1) \<le> d" "d < days_before y m"
    and "days_before y (n - 1) \<le> d" "d < days_before y n"
    and "1 \<le> m" "m \<le> 12" "1 \<le> n" "n \<le> 12"
  shows "m = n"
proof -
  have "\<not> m < n"
    using assms(2,3,8) days_before_mono [of m "n - 1" y] by fastforce
  moreover have "\<not> n < m"
    using assms(1,4,6) days_before_mono [of n "m - 1" y] by fastforce
  ultimately show ?thesis
    by simp
qed

lemma add_years_epoch: "add_years 1970 y t = t + of_nat (epoch_secs (unat y))"
proof -
  have "unat (1970 :: u16) = 1970"
    by simp
  then show ?thesis
    by (simp only: add_years_eq epoch_secs_def)
qed

lemma leap_table: "(if y mod 4 = 0 then leapYear else nonLeapYear) = year_table y"
  by (simp add: year_table_def)

lemma year_table_before:
  fixes m :: u8
  assumes "1 \<le> unat m" "unat m \<le> 12"
  shows "\<exists>days. array_at (year_table y) (int (unat m) - 1) = Some days \<and>
    unat days = days_before (unat y) (unat m - 1)"
proof -
  have "int (unat m) - 1 = int (unat m - 1)"
    using assms by (simp add: of_nat_diff)
  then show ?thesis
    using year_table_at [of "unat m - 1" y] assms by simp
qed

lemma date2UnixTimestamp_value:
  assumes "1 \<le> unat (month d)" "unat (month d) \<le> 12" "1 \<le> unat (day d)"
  shows "date2UnixTimestamp d = Some (of_nat (date_secs d))"
proof -
  from year_table_before [OF assms(1,2), of "year d"] obtain days where
    days: "array_at (year_table (year d)) (int (unat (month d)) - 1) = Some days"
      "unat days = days_before (unat (year d)) (unat (month d) - 1)"
    by blast
  define D B where "D = unat (day d) - 1" and "B = days_before (unat (year d)) (unat (month d) - 1)"
  have D: "ucast (day d) - 1 = (of_nat D :: u32)"
    using assms(3) by (simp add: D_def of_nat_diff)
  have "ucast days = (of_nat (unat days) :: u32)"
    by simp
  then have B: "ucast days = (of_nat B :: u32)"
    by (simp only: days(2) B_def)
  have "date2UnixTimestamp d = Some (ucast (second d) + ucast (minute d) * 60
      + ucast (hour d) * 3600 + of_nat D * 86400 + of_nat B * 86400
      + of_nat (epoch_secs (unat (year d))))"
    by (simp only: date2UnixTimestamp_def Let_def leap_table days(1) option.case D B
        add_years_epoch)
  then show ?thesis
    unfolding date_secs_def D_def [symmetric] B_def [symmetric] by simp
qed

lemma time_of_day:
  fixes q :: u32
  assumes "unat q div 86400 < 31"
  shows "unat (ucast (q div 86400 + 1) :: u8) = unat q div 86400 + 1"
    and "unat (ucast (q mod 86400 div 3600) :: u8) = unat q mod 86400 div 3600"
    and "unat (ucast (q mod 3600 div 60) :: u8) = unat q mod 3600 div 60"
    and "unat (ucast (q mod 60) :: u8) = unat q mod 60"
proof -
  have b: "unat q mod 86400 div 3600 < 256" "unat q mod 3600 div 60 < 256" "unat q mod 60 < 256"
    by (simp_all add: div_less_iff_less_mult less_trans [OF mod_less_divisor])
  have "unat (q div 86400 + 1) = unat q div 86400 + 1"
    using assms by (simp add: unat_plus_small unat_div_distrib)
  then show "unat (ucast (q div 86400 + 1) :: u8) = unat q div 86400 + 1"
    using assms by (simp add: unsigned_ucast_eq take_bit_nat_eq_self)
  show "unat (ucast (q mod 86400 div 3600) :: u8) = unat q mod 86400 div 3600"
    using b by (simp add: unsigned_ucast_eq take_bit_nat_eq_self unat_div_distrib unat_mod_distrib)
  show "unat (ucast (q mod 3600 div 60) :: u8) = unat q mod 3600 div 60"
    using b by (simp add: unsigned_ucast_eq take_bit_nat_eq_self unat_div_distrib unat_mod_distrib)
  show "unat (ucast (q mod 60) :: u8) = unat q mod 60"
    using b by (simp add: unsigned_ucast_eq take_bit_nat_eq_self unat_mod_distrib)
qed
lemma seconds_split:
  "n div 86400 * 86400 + n mod 86400 div 3600 * 3600 + n mod 3600 div 60 * 60 + n mod 60 = n"
  for n :: nat
proof -
  have "n mod 3600 = n mod 86400 mod 3600" "n mod 60 = n mod 3600 mod 60"
    by (simp_all add: mod_mod_cancel)
  moreover have "n div 86400 * 86400 + n mod 86400 = n"
    "n mod 86400 div 3600 * 3600 + n mod 86400 mod 3600 = n mod 86400"
    "n mod 3600 div 60 * 60 + n mod 3600 mod 60 = n mod 3600"
    by (rule div_mult_mod_eq)+
  ultimately show ?thesis
    by linarith
qed

lemma unixTimestamp2Date_spec:
  "\<exists>d. unixTimestamp2Date t = Some d \<and> valid_date d \<and> date_secs d = unat t"
proof -
  obtain y r where sp: "split_years 1970 t = (y, r)"
    by (cases "split_years 1970 t")
  have "unat (1970 :: u16) + unat t div 31536000 < 65535"
    using less_trans [OF unat_u32_bound [of t], of 2004585840000]
    by (simp add: div_less_iff_less_mult)
  from split_years_spec [OF this] have y: "1970 \<le> unat y"
    "unat t = unat r + epoch_secs (unat y)" "unat r < days_before (unat y) 12 * 86400"
    by (simp_all add: sp epoch_secs_def secs_of_year_days)
  have "days_before (unat y) 0 = 0"
    by (simp add: days_before_def)
  then obtain m where m: "find_month y 1 r = Some m" "1 \<le> unat m" "unat m \<le> 12"
    "days_before (unat y) (unat m - 1) * 86400 \<le> unat r"
    "unat r < days_before (unat y) (unat m) * 86400"
    using find_month_spec [of 1 y r] y(3) by auto
  obtain days where days: "array_at (year_table y) (int (unat m) - 1) = Some days"
    "unat days = days_before (unat y) (unat m - 1)"
    using year_table_before [OF m(2,3)] by blast
  define q where "q = r - ucast days * 86400"
  have "unat (ucast days * 86400 :: u32) = days_before (unat y) (unat m - 1) * 86400"
    using day_seconds [of days] days_before_le [of "unat m - 1" "unat y"] m(3)
    unfolding days(2) by simp
  then have q: "unat q = unat r - days_before (unat y) (unat m - 1) * 86400"
    using m(4) by (simp add: q_def unat_sub word_le_nat_alt)
  then have T: "unat t = epoch_secs (unat y) + days_before (unat y) (unat m - 1) * 86400 + unat q"
    using y(2) m(4) by simp
  have "unat q < (days_before (unat y) (unat m) - days_before (unat y) (unat m - 1)) * 86400"
    using m(4,5) by (simp add: q diff_mult_distrib)
  then have qd: "unat q div 86400 < days_before (unat y) (unat m) - days_before (unat y) (unat m - 1)"
    by (simp add: div_less_iff_less_mult)
  then have q31: "unat q div 86400 < 31"
    using month_length_le [OF m(2,3), of "unat y"] by simp
  define d where "d = \<lparr> year = y, month = m, day = ucast (q div 86400 + 1),
    hour = ucast (q mod 86400 div 3600), minute = ucast (q mod 3600 div 60),
    second = ucast (q mod 60) \<rparr>"
  have "unixTimestamp2Date t = Some d"
    by (simp only: unixTimestamp2Date_def sp m(1) days(1) d_def q_def Let_def prod.case option.case)
  moreover have "valid_date d"
    using y(1) m(2,3) qd by (simp add: valid_date_def d_def time_of_day [OF q31] div_less_iff_less_mult)
  moreover have "date_secs d = unat t"
    using seconds_split [of "unat q"] T by (simp add: date_secs_def d_def time_of_day [OF q31])
  ultimately show ?thesis
    by blast
qed

lemma valid_date_fields:
  assumes "valid_date d"
  shows "1970 \<le> unat (year d)" "1 \<le> unat (month d)" "unat (month d) \<le> 12" "1 \<le> unat (day d)"
  using assms by (auto simp: valid_date_def)

text \<open>The day of the year and the second of the day of a date, both counted from zero.\<close>

definition yday :: "ptime_t \<Rightarrow> nat" where
  "yday d = days_before (unat (year d)) (unat (month d) - 1) + (unat (day d) - 1)"

definition dsec :: "ptime_t \<Rightarrow> nat" where
  "dsec d = unat (hour d) * 3600 + unat (minute d) * 60 + unat (second d)"

lemma date_secs_eq: "date_secs d = epoch_secs (unat (year d)) + (yday d * 86400 + dsec d)"
  by (simp add: date_secs_def yday_def dsec_def)

lemma yday_bounds:
  assumes "valid_date d"
  shows "days_before (unat (year d)) (unat (month d) - 1) \<le> yday d"
    and "yday d < days_before (unat (year d)) (unat (month d))"
    and "yday d < days_before (unat (year d)) 12"
proof -
  show "days_before (unat (year d)) (unat (month d) - 1) \<le> yday d"
    by (simp add: yday_def)
  show lt: "yday d < days_before (unat (year d)) (unat (month d))"
    using assms by (auto simp: yday_def valid_date_def)
  show "yday d < days_before (unat (year d)) 12"
    using lt days_before_mono [OF valid_date_fields(3) [OF assms]] by (meson less_le_trans order_refl)
qed

lemma dsec_bound: "valid_date d \<Longrightarrow> dsec d < 86400"
  by (auto simp: dsec_def valid_date_def)

lemma digit_unique:
  fixes a b c d n :: nat
  assumes "a * n + b = c * n + d" "b < n" "d < n"
  shows "a = c \<and> b = d"
proof -
  have "(a * n + b) div n = a" "(a * n + b) mod n = b" "(c * n + d) div n = c" "(c * n + d) mod n = d"
    using assms(2,3) by auto
  then show ?thesis
    using assms(1) by simp
qed

lemma dsec_inject:
  assumes "valid_date d" "valid_date e" "dsec d = dsec e"
  shows "hour d = hour e \<and> minute d = minute e \<and> second d = second e"
proof -
  have b: "unat (minute d) < 60" "unat (minute e) < 60" "unat (second d) < 60" "unat (second e) < 60"
    using assms(1,2) by (simp_all add: valid_date_def)
  have "(unat (hour d) * 60 + unat (minute d)) * 60 + unat (second d)
      = (unat (hour e) * 60 + unat (minute e)) * 60 + unat (second e)"
    using assms(3) by (simp add: dsec_def)
  from digit_unique [OF this b(3,4)]
  have s: "unat (second d) = unat (second e)"
    and hm: "unat (hour d) * 60 + unat (minute d) = unat (hour e) * 60 + unat (minute e)"
    by simp_all
  show ?thesis
    using s digit_unique [OF hm b(1,2)] by (simp add: word_unat_eq_iff)
qed

text \<open>Two valid dates that stand for the same second are the same date.\<close>

lemma date_secs_inject:
  assumes d: "valid_date d" and e: "valid_date e" and eq: "date_secs d = date_secs e"
  shows "d = e"
proof -
  have lt: "yday d * 86400 + dsec d < secs_of_year (unat (year d))" if "valid_date d" for d
    using yday_bounds(3) [OF that] dsec_bound [OF that] by (simp add: secs_of_year_days)
  have yr: "unat (year d) = unat (year e)" and "yday d * 86400 + dsec d = yday e * 86400 + dsec e"
    using epoch_split_unique [OF eq [unfolded date_secs_eq] valid_date_fields(1) [OF d]
        valid_date_fields(1) [OF e] lt [OF d] lt [OF e]] by auto
  then have yd: "yday d = yday e" and ds: "dsec d = dsec e"
    using digit_unique dsec_bound [OF d] dsec_bound [OF e] by blast+
  have mo: "unat (month d) = unat (month e)"
    using month_unique [OF yday_bounds(1,2) [OF d], of "unat (month e)"] yday_bounds(1,2) [OF e]
      valid_date_fields [OF d] valid_date_fields [OF e] yr yd by simp
  have "unat (day d) = unat (day e)"
    using yd yr mo valid_date_fields(4) [OF d] valid_date_fields(4) [OF e] by (simp add: yday_def)
  then show ?thesis
    using yr mo dsec_inject [OF d e ds] by (simp add: word_unat_eq_iff ptime_t.equality)
qed

lemma epoch_secs_four_years:
  assumes "1970 \<le> y" "y mod 4 = 2"
  shows "epoch_secs (Suc (Suc (Suc (Suc y)))) = epoch_secs y + 126230400"
  using assms by (simp add: epoch_secs_Suc secs_of_year_def mod_Suc)

lemma epoch_secs_cycle: "epoch_secs (1970 + 4 * n) = n * 126230400"
proof (induction n)
  case 0
  then show ?case
    by (simp add: epoch_secs_def)
next
  case (Suc n)
  then show ?case
    using epoch_secs_four_years [of "1970 + 4 * n"] by (simp add: mod_add_eq [symmetric])
qed

lemma epoch_secs_2106: "epoch_secs 2106 = 4291833600"
  using epoch_secs_cycle [of 34] by simp

lemma date_secs_bound:
  assumes "valid_date d" "unat (year d) \<le> 2105"
  shows "date_secs d < 2 ^ 32"
proof -
  have "yday d < 366"
    using yday_bounds(3) [OF assms(1)] days_before_le [of 12 "unat (year d)"] by simp
  then have "date_secs d < epoch_secs (unat (year d)) + secs_of_year (unat (year d))"
    using yday_bounds(3) [OF assms(1)] dsec_bound [OF assms(1)]
    by (simp add: date_secs_eq secs_of_year_days)
  also have "\<dots> = epoch_secs (Suc (unat (year d)))"
    using valid_date_fields(1) [OF assms(1)] by (simp add: epoch_secs_Suc)
  also have "\<dots> \<le> epoch_secs 2106"
    using assms(2) by (intro epoch_secs_mono) simp
  finally show ?thesis
    by (simp add: epoch_secs_2106)
qed

section \<open>Round trips\<close>

text \<open>
  Encoding a date as a timestamp and decoding it again, as an instance of the codec interface
  on the dates before 2106; \<open>ptime_enc\<close> and \<open>ptime_dec\<close> are the two conversions with their
  results read out of the option.
\<close>

definition ptime_enc :: "ptime_t \<Rightarrow> u32" where
  "ptime_enc d = (case date2UnixTimestamp d of Some t \<Rightarrow> t | None \<Rightarrow> 0)"

definition ptime_dec :: "u32 \<Rightarrow> ptime_t" where
  "ptime_dec t = (case unixTimestamp2Date t of
     Some d \<Rightarrow> d | None \<Rightarrow> \<lparr>year = 0, month = 0, day = 0, hour = 0, minute = 0, second = 0\<rparr>)"

lemma timestamp_of_date:
  assumes "valid_date d" "unat (year d) \<le> 2105"
  shows "date2UnixTimestamp d = Some (of_nat (date_secs d))"
    and "unat (of_nat (date_secs d) :: u32) = date_secs d"
  using date2UnixTimestamp_value [of d] valid_date_fields [OF assms(1)] date_secs_bound [OF assms]
  by (simp_all add: unat_of_nat)

interpretation ptime: codec ptime_enc ptime_dec "\<lambda>d. valid_date d \<and> unat (year d) \<le> 2105"
proof
  fix d
  assume d: "valid_date d \<and> unat (year d) \<le> 2105"
  obtain e where e: "unixTimestamp2Date (of_nat (date_secs d)) = Some e" "valid_date e"
    "date_secs e = unat (of_nat (date_secs d) :: u32)"
    using unixTimestamp2Date_spec by blast
  with d have "e = d"
    using timestamp_of_date(2) [of d] date_secs_inject [of e d] by simp
  with d e(1) show "ptime_dec (ptime_enc d) = d"
    using timestamp_of_date(1) [of d] by (simp add: ptime_enc_def ptime_dec_def)
qed


text \<open>C19: encoding the date decoded from a timestamp gives the timestamp back, for all
  \<open>2\<^sup>3\<^sup>2\<close> timestamps.\<close>
theorem timestamp_round_trip: "Option.bind (unixTimestamp2Date t) date2UnixTimestamp = Some t"
proof -
  obtain d where d: "unixTimestamp2Date t = Some d" "valid_date d" "date_secs d = unat t"
    using unixTimestamp2Date_spec by blast
  then show ?thesis
    using date2UnixTimestamp_value [of d] valid_date_fields [OF d(2)] by simp
qed

text \<open>C20: decoding the timestamp of a valid date before 2106 gives the date back.\<close>
theorem date_round_trip:
  assumes "valid_date d" "unat (year d) \<le> 2105"
  shows "Option.bind (date2UnixTimestamp d) unixTimestamp2Date = Some d"
proof -
  obtain e where "unixTimestamp2Date (of_nat (date_secs d)) = Some e"
    using unixTimestamp2Date_spec by blast
  then show ?thesis
    using assms timestamp_of_date [OF assms] ptime.dec_enc [of d]
    by (simp add: ptime_enc_def ptime_dec_def)
qed

theorem date_round_trip_witness:
  "Option.bind (date2UnixTimestamp \<lparr>year = 2000, month = 2, day = 29, hour = 23, minute = 59, second = 58\<rparr>)
     unixTimestamp2Date = Some \<lparr>year = 2000, month = 2, day = 29, hour = 23, minute = 59, second = 58\<rparr>"
  by (rule date_round_trip) (simp_all add: valid_date_def days_before_def)

lemma time_fields:
  fixes h m s :: int
  assumes "0 \<le> h" "0 \<le> m" "m < 60" "0 \<le> s" "s < 60"
  shows "(h * 3600000 + m * 60000 + s * 1000) sdiv 3600000 = h"
    and "((h * 3600000 + m * 60000 + s * 1000) smod 3600000) sdiv 60000 = m"
    and "((h * 3600000 + m * 60000 + s * 1000) sdiv 1000) smod 60 = s"
proof -
  let ?ms = "h * 3600000 + m * 60000 + s * 1000"
  have r: "0 \<le> m * 60000 + s * 1000" "m * 60000 + s * 1000 < 3600000" "0 \<le> s * 1000"
    "s * 1000 < 60000" "0 \<le> ?ms" "0 \<le> (h * 60 + m) * 60 + s"
    using assms by simp_all
  have 1: "?ms div 3600000 = h" "?ms mod 3600000 = m * 60000 + s * 1000"
    using digit_div [OF r(1,2), of h] digit_mod [OF r(1,2), of h] by (simp_all only: add.assoc)
  have 2: "(m * 60000 + s * 1000) div 60000 = m"
    by (rule digit_div [OF r(3,4)])
  have eq: "?ms = ((h * 60 + m) * 60 + s) * 1000 + 0"
    by (simp add: distrib_right)
  have 3: "?ms div 1000 = (h * 60 + m) * 60 + s"
    unfolding eq by (rule digit_div) simp_all
  have 4: "((h * 60 + m) * 60 + s) mod 60 = s"
    using assms by (intro digit_mod)
  show "?ms sdiv 3600000 = h" 
    using sdiv_nonneg [OF r(5), of 3600000] 1 by simp
  show "?ms smod 3600000 sdiv 60000 = m"
    using smod_nonneg [OF r(5), of 3600000] sdiv_nonneg [OF r(1), of 60000] 1 2 by simp
  show "?ms sdiv 1000 smod 60 = s"
    using sdiv_nonneg [OF r(5), of 1000] smod_nonneg [OF r(6), of 60] 3 4 by simp
qed

text \<open>Reading the clock after setting it returns the date that was set, for a driver that
  gives back every time specification it can store: year offsets of one byte, months, days and a
  millisecond of the day.\<close>
theorem getTime_setTime:
  assumes "\<And>ts r. 0 \<le> rtc_year ts \<Longrightarrow> rtc_year ts < 256 \<Longrightarrow> 1 \<le> rtc_month ts \<Longrightarrow> rtc_month ts \<le> 12 \<Longrightarrow>
      1 \<le> rtc_day ts \<Longrightarrow> rtc_day ts \<le> 31 \<Longrightarrow> 0 \<le> rtc_millisecond ts \<Longrightarrow> rtc_millisecond ts < 86400000 \<Longrightarrow>
      rtcGetTime (rtcSetTime ts r) = ts"
    and "valid_date d" "RTC_BASE_YEAR \<le> uint (year d)" "uint (year d) < RTC_BASE_YEAR + 256"
  shows "getTime RTC_BASE_YEAR rtcGetTime (setTime RTC_BASE_YEAR rtcSetTime d r) = d"
proof -
  have f: "1 \<le> uint (month d)" "uint (month d) \<le> 12" "1 \<le> uint (day d)" "uint (day d) \<le> 31"
    "uint (hour d) < 24" "uint (minute d) < 60" "uint (second d) < 60"
    using assms(2) month_length_le [of "unat (month d)" "unat (year d)"]
    unfolding valid_date_def uint_nat by linarith+
  define ts where "ts = \<lparr> rtc_year = uint (year d) - RTC_BASE_YEAR, rtc_month = uint (month d),
    rtc_day = uint (day d), rtc_millisecond = uint (hour d) * 3600000 + uint (minute d) * 60000
      + uint (second d) * 1000 \<rparr>"
  have "rtcGetTime (rtcSetTime ts r) = ts"
    using assms(3,4) f by (intro assms(1)) (simp_all add: ts_def)
  moreover have "setTime RTC_BASE_YEAR rtcSetTime d r = rtcSetTime ts r"
    by (simp add: setTime_def ts_def)
  ultimately show ?thesis
    using f by (simp add: getTime_def ts_def time_fields)
qed

theorem getTime_setTime_witness:
  "getTime 1980 (\<lambda>r. r) (setTime 1980 (\<lambda>ts r. ts)
       \<lparr>year = 2018, month = 11, day = 8, hour = 13, minute = 5, second = 59\<rparr>
       \<lparr>rtc_year = 0, rtc_month = 1, rtc_day = 1, rtc_millisecond = 0\<rparr>)
     = \<lparr>year = 2018, month = 11, day = 8, hour = 13, minute = 5, second = 59\<rparr>"
  by (rule getTime_setTime) (simp_all add: valid_date_def days_before_def)

end
