(* ===== verification/Chibios.thy ===== *)
theory Chibios
  imports Wafer_Prelude
begin

text \<open>
  The part of ChibiOS that every module of the firmware uses: console output, sleeping and the
  system clock. ChibiOS is not in the repository, so its calls are the fields of a record
  \<open>os_hal\<close> of functions on an arbitrary type \<open>'w\<close> of worlds; the operations of the model take the
  record as an argument, and the drivers of the other modules extend it. Reading the clock returns
  a new world too, because time passes between two reads.
\<close>

datatype msg_t = MSG_OK | MSG_TIMEOUT | MSG_RESET

record 'w os_hal =
  chprintf :: "string \<Rightarrow> int list \<Rightarrow> 'w \<Rightarrow> 'w"
  TIME_MS2I :: "nat \<Rightarrow> u32"
  chThdSleep :: "u32 \<Rightarrow> 'w \<Rightarrow> 'w"
  chThdSleepMilliseconds :: "nat \<Rightarrow> 'w \<Rightarrow> 'w"
  chVTGetSystemTimeX :: "'w \<Rightarrow> u32 \<times> 'w"

text \<open>The ways a call can fail to return: through a null pointer, through a failed
  assertion that halts the system, by an access outside an array or by a division by zero.\<close>

datatype fault = Null_call | Halted | Out_of_bounds | Div_by_zero

text \<open>The state of a module: its variables, of which the world is the first. Other modules extend
  the record.\<close>

record 'w module_state =
  world :: 'w

definition on_world :: "('w \<Rightarrow> 'w) \<Rightarrow> ('w, 's) module_state_scheme \<Rightarrow> ('w, 's) module_state_scheme" where
  "on_world f s = s\<lparr>world := f (world s)\<rparr>"

lemma world_on_world [simp]: "world (on_world f s) = f (world s)"
  by (simp add: on_world_def)

text \<open>An observer of the world that console output, sleeping and the clock do not change.\<close>

definition os_unseen :: "('w, 'h) os_hal_scheme \<Rightarrow> ('w \<Rightarrow> 'o) \<Rightarrow> bool" where
  "os_unseen hal obs \<longleftrightarrow>
     (\<forall>f xs w. obs (chprintf hal f xs w) = obs w) \<and>
     (\<forall>t w. obs (chThdSleep hal t w) = obs w) \<and>
     (\<forall>t w. obs (chThdSleepMilliseconds hal t w) = obs w) \<and>
     (\<forall>w. obs (snd (chVTGetSystemTimeX hal w)) = obs w)"

lemma os_unseenD:
  assumes "os_unseen hal obs"
  shows "obs (chprintf hal f xs w) = obs w"
    and "obs (chThdSleep hal t w) = obs w"
    and "obs (chThdSleepMilliseconds hal n w) = obs w"
    and "obs (snd (chVTGetSystemTimeX hal w)) = obs w"
  using assms by (simp_all add: os_unseen_def)

end
