(* ===== verification/Pi2c.thy ===== *)
theory Pi2c
  imports Chibios
begin

text \<open>
  The I2C wrapper of \<open>src/pi2c.c\<close>. The ChibiOS I2C driver is not part of the
  repository: its calls are further fields of the record of external functions (\<open>i2c_hal\<close>). A transfer returns its
  status, the contents of the receive buffer afterwards (whatever they are) and the new world. The
  record \<open>pi2c\<close> is the module's own state; other modules extend it.

  The lemmas show the byte order of the register accesses, the meaning of the error flag, and that
  every access keeps to the bus protocol acquire, start, transfer, stop, release, for every driver
  whose calls are seen by an observer (\<open>i2c_traced\<close>).
\<close>

section \<open>The driver interface\<close>

datatype i2copmode_t = OPMODE_I2C | OPMODE_SMBUS_DEVICE | OPMODE_SMBUS_HOST

datatype i2cdutycycle_t = STD_DUTY_CYCLE | FAST_DUTY_CYCLE_2 | FAST_DUTY_CYCLE_16_9

record I2CConfig =
  op_mode :: i2copmode_t
  clock_speed :: u32
  duty_cycle :: i2cdutycycle_t

record 'w i2c_hal = "'w os_hal" +
  i2cAcquireBus :: "'w \<Rightarrow> 'w"
  i2cReleaseBus :: "'w \<Rightarrow> 'w"
  i2cStart :: "I2CConfig \<Rightarrow> 'w \<Rightarrow> 'w"
  i2cStop :: "'w \<Rightarrow> 'w"
  i2cMasterTransmitTimeout ::
    "u8 \<Rightarrow> u8 list \<Rightarrow> nat \<Rightarrow> u32 \<Rightarrow> 'w \<Rightarrow> msg_t \<times> (nat \<Rightarrow> u8) \<times> 'w"

record 'w pi2c = "'w module_state" +
  i2c_error :: u8

section \<open>Operations\<close>

definition i2cfg :: I2CConfig where
  "i2cfg = \<lparr> op_mode = OPMODE_I2C, clock_speed = 50000, duty_cycle = STD_DUTY_CYCLE \<rparr>"

definition I2C_transmit ::
  "('w, 'h) i2c_hal_scheme \<Rightarrow> u8 \<Rightarrow> u8 list \<Rightarrow> nat \<Rightarrow> u32 \<Rightarrow> ('w, 's) pi2c_scheme
     \<Rightarrow> bool \<times> (nat \<Rightarrow> u8) \<times> ('w, 's) pi2c_scheme" where
  "I2C_transmit hal addr txbuf rxbytes timeout s =
     (let w = i2cAcquireBus hal (world s);
          w = i2cStart hal i2cfg w;
          (i2c_status, rxbuf, w) = i2cMasterTransmitTimeout hal addr txbuf rxbytes timeout w;
          w = i2cStop hal w;
          w = i2cReleaseBus hal w;
          (w, e) =
            (if i2c_status = MSG_TIMEOUT
             then (chprintf hal (line ''I2C  > TIMEOUT (ADDR 0x%02x)'') [uint addr] w, 1)
             else if i2c_status = MSG_RESET
             then (chprintf hal (line ''I2C  > RESET (ADDR 0x%02x)'') [uint addr] w, 0)
             else (w, 0))
      in (i2c_status = MSG_OK, rxbuf, s\<lparr>world := w, i2c_error := e\<rparr>))"

definition I2C_Lock :: "('w, 'h) i2c_hal_scheme \<Rightarrow> ('w, 's) pi2c_scheme \<Rightarrow> ('w, 's) pi2c_scheme" where
  "I2C_Lock hal s = s\<lparr>world := i2cAcquireBus hal (world s)\<rparr>"

definition I2C_Unlock :: "('w, 'h) i2c_hal_scheme \<Rightarrow> ('w, 's) pi2c_scheme \<Rightarrow> ('w, 's) pi2c_scheme" where
  "I2C_Unlock hal s = s\<lparr>world := i2cReleaseBus hal (world s)\<rparr>"

definition I2C_write8 ::
  "('w, 'h) i2c_hal_scheme \<Rightarrow> u8 \<Rightarrow> u8 \<Rightarrow> u8 \<Rightarrow> ('w, 's) pi2c_scheme \<Rightarrow> bool \<times> ('w, 's) pi2c_scheme" where
  "I2C_write8 hal address reg value s =
     (let (ret, _, s) = I2C_transmit hal address [reg, value] 0 (TIME_MS2I hal 100) s in (ret, s))"

definition I2C_writeN ::
  "('w, 'h) i2c_hal_scheme \<Rightarrow> u8 \<Rightarrow> u8 list \<Rightarrow> u32 \<Rightarrow> ('w, 's) pi2c_scheme
     \<Rightarrow> bool \<times> ('w, 's) pi2c_scheme" where
  "I2C_writeN hal address txbuf len s =
     (let (ret, _, s) = I2C_transmit hal address (take (unat len) txbuf) 0 (TIME_MS2I hal 100) s
      in (ret, s))"

definition I2C_read8 ::
  "('w, 'h) i2c_hal_scheme \<Rightarrow> u8 \<Rightarrow> u8 \<Rightarrow> ('w, 's) pi2c_scheme
     \<Rightarrow> bool \<times> u8 \<times> ('w, 's) pi2c_scheme" where
  "I2C_read8 hal address reg s =
     (let (ret, rxbuf, s) = I2C_transmit hal address [reg] 1 (TIME_MS2I hal 100) s
      in (ret, rxbuf 0, s))"

definition I2C_read16 ::
  "('w, 'h) i2c_hal_scheme \<Rightarrow> u8 \<Rightarrow> u8 \<Rightarrow> ('w, 's) pi2c_scheme
     \<Rightarrow> bool \<times> u16 \<times> ('w, 's) pi2c_scheme" where
  "I2C_read16 hal address reg s =
     (let (ret, rxbuf, s) = I2C_transmit hal address [reg] 2 (TIME_MS2I hal 100) s
      in (ret, ucast (push_bit 8 (ucast (rxbuf 0) :: i32) OR ucast (rxbuf 1)), s))"

definition I2C_read16_LE ::
  "('w, 'h) i2c_hal_scheme \<Rightarrow> u8 \<Rightarrow> u8 \<Rightarrow> ('w, 's) pi2c_scheme
     \<Rightarrow> bool \<times> u16 \<times> ('w, 's) pi2c_scheme" where
  "I2C_read16_LE hal address reg s =
     (let (ret, val, s) = I2C_read16 hal address reg s
      in (ret, ucast (signed_drop_bit 8 (ucast val :: i32) OR push_bit 8 (ucast val)), s))"

definition I2C_read8_16bitreg ::
  "('w, 'h) i2c_hal_scheme \<Rightarrow> u8 \<Rightarrow> u16 \<Rightarrow> ('w, 's) pi2c_scheme
     \<Rightarrow> bool \<times> u8 \<times> ('w, 's) pi2c_scheme" where
  "I2C_read8_16bitreg hal address reg s =
     (let (ret, rxbuf, s) =
        I2C_transmit hal address [ucast (drop_bit 8 reg), ucast (reg AND 0xFF)] 1 (TIME_MS2I hal 100) s
      in (ret, rxbuf 0, s))"

definition I2C_write8_16bitreg ::
  "('w, 'h) i2c_hal_scheme \<Rightarrow> u8 \<Rightarrow> u16 \<Rightarrow> u8 \<Rightarrow> ('w, 's) pi2c_scheme
     \<Rightarrow> bool \<times> ('w, 's) pi2c_scheme" where
  "I2C_write8_16bitreg hal address reg value s =
     (let (ret, _, s) =
        I2C_transmit hal address [ucast (drop_bit 8 reg), ucast (reg AND 0xFF), value] 0
          (TIME_MS2I hal 100) s
      in (ret, s))"

definition I2C_hasError :: "('w, 's) pi2c_scheme \<Rightarrow> u8" where
  "I2C_hasError s = i2c_error s"

section \<open>The bus protocol\<close>

text \<open>
  What an observer of the driver sees, and the protocol of the bus: a thread takes the free bus,
  starts the driver, transfers, stops the driver and gives the bus back. The ChibiOS bus lock is a
  mutex that is not recursive, so taking a bus that is held is outside the protocol.
\<close>

datatype bus_event = Acquire | Start I2CConfig | Transmit u8 "u8 list" nat | Stop | Release

datatype bus_phase = Bus_Free | Bus_Held | Bus_On

fun bus_step :: "bus_phase \<Rightarrow> bus_event \<Rightarrow> bus_phase option" where
  "bus_step Bus_Free Acquire = Some Bus_Held"
| "bus_step Bus_Held (Start _) = Some Bus_On"
| "bus_step Bus_On (Transmit _ _ _) = Some Bus_On"
| "bus_step Bus_On Stop = Some Bus_Held"
| "bus_step Bus_Held Release = Some Bus_Free"
| "bus_step _ _ = None"

fun bus_run :: "bus_phase \<Rightarrow> bus_event list \<Rightarrow> bus_phase option" where
  "bus_run p [] = Some p"
| "bus_run p (e # es) = (case bus_step p e of None \<Rightarrow> None | Some q \<Rightarrow> bus_run q es)"

text \<open>A driver whose calls are appended, in order, to what the observer \<open>trace\<close> sees.\<close>

definition i2c_traced :: "('w, 'h) i2c_hal_scheme \<Rightarrow> ('w \<Rightarrow> bus_event list) \<Rightarrow> bool" where
  "i2c_traced hal trace \<longleftrightarrow>
     (\<forall>w. trace (i2cAcquireBus hal w) = trace w @ [Acquire]) \<and>
     (\<forall>w. trace (i2cReleaseBus hal w) = trace w @ [Release]) \<and>
     (\<forall>c w. trace (i2cStart hal c w) = trace w @ [Start c]) \<and>
     (\<forall>w. trace (i2cStop hal w) = trace w @ [Stop]) \<and>
     (\<forall>a tx n t w. trace (snd (snd (i2cMasterTransmitTimeout hal a tx n t w)))
        = trace w @ [Transmit a tx n]) \<and>
     os_unseen hal trace"

text \<open>What one access puts on the bus.\<close>

definition bus_access :: "u8 \<Rightarrow> u8 list \<Rightarrow> nat \<Rightarrow> bus_event list" where
  "bus_access addr tx n = [Acquire, Start i2cfg, Transmit addr tx n, Stop, Release]"

definition bus_quiet ::
  "('w, 'h) i2c_hal_scheme \<Rightarrow> ('w \<Rightarrow> bus_event list) \<Rightarrow> ('w, 's) pi2c_scheme \<Rightarrow> bool" where
  "bus_quiet hal trace s \<longleftrightarrow>
     i2c_traced hal trace \<and> bus_run Bus_Free (trace (world s)) = Some Bus_Free"

text \<open>The public accesses of the module as one type of calls.\<close>

datatype i2c_call = Write8 u8 u8 u8 | WriteN u8 "u8 list" u32 | Read8 u8 u8 | Read16 u8 u8
  | Read16_LE u8 u8 | Read8_16bitreg u8 u16 | Write8_16bitreg u8 u16 u8

fun i2c_perform ::
  "('w, 'h) i2c_hal_scheme \<Rightarrow> i2c_call \<Rightarrow> ('w, 's) pi2c_scheme \<Rightarrow> ('w, 's) pi2c_scheme" where
  "i2c_perform hal (Write8 a r v) s = snd (I2C_write8 hal a r v s)"
| "i2c_perform hal (WriteN a tx n) s = snd (I2C_writeN hal a tx n s)"
| "i2c_perform hal (Read8 a r) s = snd (snd (I2C_read8 hal a r s))"
| "i2c_perform hal (Read16 a r) s = snd (snd (I2C_read16 hal a r s))"
| "i2c_perform hal (Read16_LE a r) s = snd (snd (I2C_read16_LE hal a r s))"
| "i2c_perform hal (Read8_16bitreg a r) s = snd (snd (I2C_read8_16bitreg hal a r s))"
| "i2c_perform hal (Write8_16bitreg a r v) s = snd (I2C_write8_16bitreg hal a r v s)"

lemma bus_run_append:
  "bus_run p (xs @ ys) = (case bus_run p xs of None \<Rightarrow> None | Some q \<Rightarrow> bus_run q ys)"
  by (induction xs arbitrary: p) (auto split: option.splits)

lemma bus_run_access [simp]: "bus_run Bus_Free (bus_access a tx n) = Some Bus_Free"
  by (simp add: bus_access_def)

lemma bus_run_held_access [simp]: "bus_run Bus_Held (bus_access a tx n) = None"
  by (simp add: bus_access_def)

named_theorems bus_trace \<open>what an operation appends to the observed bus events\<close>

lemma I2C_transmit_trace [bus_trace]:
  "i2c_traced hal tr \<Longrightarrow>
     tr (world (snd (snd (I2C_transmit hal a tx n t s)))) = tr (world s) @ bus_access a tx n"
  by (simp add: I2C_transmit_def i2c_traced_def os_unseen_def Let_def bus_access_def case_prod_unfold)

lemma I2C_call_trace [bus_trace]:
  assumes "i2c_traced hal tr"
  shows "tr (world (snd (I2C_write8 hal a r v s))) = tr (world s) @ bus_access a [r, v] 0"
    and "tr (world (snd (I2C_writeN hal a tx n s))) = tr (world s) @ bus_access a (take (unat n) tx) 0"
    and "tr (world (snd (snd (I2C_read8 hal a r s)))) = tr (world s) @ bus_access a [r] 1"
    and "tr (world (snd (snd (I2C_read16 hal a r s)))) = tr (world s) @ bus_access a [r] 2"
    and "tr (world (snd (snd (I2C_read16_LE hal a r s)))) = tr (world s) @ bus_access a [r] 2"
    and "tr (world (snd (snd (I2C_read8_16bitreg hal a q s)))) = tr (world s)
           @ bus_access a [ucast (drop_bit 8 q), ucast (q AND 0xFF)] 1"
    and "tr (world (snd (I2C_write8_16bitreg hal a q v s))) = tr (world s)
           @ bus_access a [ucast (drop_bit 8 q), ucast (q AND 0xFF), v] 0"
  using I2C_transmit_trace [OF assms]
  by (simp_all add: I2C_write8_def I2C_writeN_def I2C_read8_def I2C_read16_def I2C_read16_LE_def
      I2C_read8_16bitreg_def I2C_write8_16bitreg_def case_prod_unfold Let_def)

lemma bus_quiet_access:
  assumes "bus_quiet hal tr s" "tr (world s') = tr (world s) @ bus_access a tx n"
  shows "bus_quiet hal tr s'"
  using assms by (simp add: bus_quiet_def bus_run_append)

lemma i2c_perform_trace:
  assumes "i2c_traced hal tr"
  shows "\<exists>a tx n. tr (world (i2c_perform hal c s)) = tr (world s) @ bus_access a tx n"
  by (cases c) (use assms in \<open>auto simp: bus_trace\<close>)

interpretation i2c: keeps "i2c_perform hal" "bus_quiet hal tr" for hal tr
  by unfold_locales (metis i2c_perform_trace bus_quiet_access bus_quiet_def)

section \<open>Byte order\<close>

definition reg_bytes :: "u16 \<Rightarrow> u8 \<times> u8" where
  "reg_bytes reg = (ucast (drop_bit 8 reg), ucast (reg AND 0xFF))"

definition reg_of_bytes :: "u8 \<times> u8 \<Rightarrow> u16" where
  "reg_of_bytes b = (case b of (hi, lo) \<Rightarrow> push_bit 8 (ucast hi) OR ucast lo)"

interpretation reg: codec reg_bytes reg_of_bytes "\<lambda>_. True"
proof unfold_locales
  fix reg :: u16
  show "reg_of_bytes (reg_bytes reg) = reg"
    unfolding reg_of_bytes_def reg_bytes_def prod.case mask_byte
    by (rule bit_word_eqI) (auto simp: bit_simps)
qed

lemma reg_of_bytes_value: "unat (reg_of_bytes (a, b)) = 256 * unat a + unat b"
proof -
  have "reg_of_bytes (a, b) = push_bit 8 (ucast a) + ucast b"
    unfolding reg_of_bytes_def prod.case
    by (rule disjunctive_add [symmetric]) (auto simp: bit_simps dest: bit_u8D)
  then show ?thesis
    using unat_u8_bound [of a] unat_u8_bound [of b]
    by (simp add: push_bit_eq_mult unat_word_ariths unat_ucast_widen del: unat_u8_bound)
qed

lemma byte_pair: "ucast (push_bit 8 (ucast a :: i32) OR ucast b) = reg_of_bytes (a, b)" for a b :: u8
  unfolding reg_of_bytes_def prod.case by (rule bit_word_eqI) (auto simp: bit_simps)

lemma reg_swap:
  "(ucast (signed_drop_bit 8 (ucast (reg_of_bytes (a, b)) :: i32) OR push_bit 8 (ucast (reg_of_bytes (a, b)))) :: u16)
     = reg_of_bytes (b, a)"
  unfolding reg_of_bytes_def prod.case
  by (rule bit_word_eqI) (auto simp: bit_simps not_less dest: bit_u8D)

section \<open>Devices with fixed registers\<close>

text \<open>Devices that answer every transfer in the same way: \<open>dev\<close> gives the bytes that an address answers to
  the bytes sent, or \<open>None\<close> where no device answers.\<close>

type_synonym i2c_devices = "u8 \<Rightarrow> u8 list \<Rightarrow> (nat \<Rightarrow> u8) option"

definition i2c_answers :: "('w, 'h) i2c_hal_scheme \<Rightarrow> i2c_devices \<Rightarrow> bool" where
  "i2c_answers hal dev \<longleftrightarrow>
     (\<forall>a tx n t w. case dev a tx of
        None \<Rightarrow> fst (i2cMasterTransmitTimeout hal a tx n t w) \<noteq> MSG_OK
      | Some rx \<Rightarrow> fst (i2cMasterTransmitTimeout hal a tx n t w) = MSG_OK
          \<and> fst (snd (i2cMasterTransmitTimeout hal a tx n t w)) = rx)"

lemma i2c_answersD:
  assumes "i2c_answers hal dev"
  shows "fst (I2C_transmit hal a tx n t s) \<longleftrightarrow> dev a tx \<noteq> None"
    and "dev a tx \<noteq> None \<Longrightarrow> fst (snd (I2C_transmit hal a tx n t s)) = the (dev a tx)"
proof -
  let ?x = "i2cMasterTransmitTimeout hal a tx n t (i2cStart hal i2cfg (i2cAcquireBus hal (world s)))"
  have x: "case dev a tx of None \<Rightarrow> fst ?x \<noteq> MSG_OK | Some rx \<Rightarrow> fst ?x = MSG_OK \<and> fst (snd ?x) = rx"
    using assms unfolding i2c_answers_def by (rule allE [where x = a]) blast
  have res: "fst (I2C_transmit hal a tx n t s) \<longleftrightarrow> fst ?x = MSG_OK"
    "fst (snd (I2C_transmit hal a tx n t s)) = fst (snd ?x)"
    by (simp_all add: I2C_transmit_def case_prod_unfold Let_def)
  show "fst (I2C_transmit hal a tx n t s) \<longleftrightarrow> dev a tx \<noteq> None"
    using x unfolding res by (auto split: option.splits)
  show "dev a tx \<noteq> None \<Longrightarrow> fst (snd (I2C_transmit hal a tx n t s)) = the (dev a tx)"
    using x unfolding res by auto
qed

lemma device_reads:
  assumes "i2c_answers hal dev"
  shows "fst (I2C_read8 hal a r s) \<longleftrightarrow> dev a [r] \<noteq> None"
    and "fst (I2C_read16 hal a r s) \<longleftrightarrow> dev a [r] \<noteq> None"
    and "fst (I2C_read16_LE hal a r s) \<longleftrightarrow> dev a [r] \<noteq> None"
    and "dev a [r] \<noteq> None \<Longrightarrow> fst (snd (I2C_read8 hal a r s)) = the (dev a [r]) 0"
    and "dev a [r] \<noteq> None \<Longrightarrow> fst (snd (I2C_read16 hal a r s)) = reg_of_bytes (the (dev a [r]) 0, the (dev a [r]) 1)"
    and "dev a [r] \<noteq> None \<Longrightarrow> fst (snd (I2C_read16_LE hal a r s)) = reg_of_bytes (the (dev a [r]) 1, the (dev a [r]) 0)"
  by (simp_all add: I2C_read8_def I2C_read16_def I2C_read16_LE_def case_prod_unfold Let_def
      byte_pair reg_swap i2c_answersD [OF assms] del: not_None_eq)

section \<open>Properties\<close>

text \<open>A driver that records its calls and answers every transfer with the same bytes.\<close>

definition log_hal :: "msg_t \<Rightarrow> (nat \<Rightarrow> u8) \<Rightarrow> bus_event list i2c_hal" where
  "log_hal st rx =
     \<lparr> chprintf = (\<lambda>f xs w. w), TIME_MS2I = (\<lambda>ms. of_nat (10 * ms)),
       chThdSleep = (\<lambda>t w. w), chThdSleepMilliseconds = (\<lambda>t w. w),
       chVTGetSystemTimeX = (\<lambda>w. (of_nat (length w), w)),
       i2cAcquireBus = (\<lambda>w. w @ [Acquire]), i2cReleaseBus = (\<lambda>w. w @ [Release]),
       i2cStart = (\<lambda>c w. w @ [Start c]), i2cStop = (\<lambda>w. w @ [Stop]),
       i2cMasterTransmitTimeout = (\<lambda>a tx n t w. (st, rx, w @ [Transmit a tx n])) \<rparr>"

lemma log_hal_traced: "i2c_traced (log_hal st rx) (\<lambda>w. w)"
  by (simp add: i2c_traced_def os_unseen_def log_hal_def)

text \<open>C7: whatever sequence of register accesses the modules make, and whether the transfers succeed,
  time out or are reset, the bus lock and the driver are always taken and given back in the order
  of the protocol, and the bus is free afterwards.\<close>
theorem i2c_calls_keep_protocol:
  assumes "bus_quiet hal tr s"
  shows "bus_run Bus_Free (tr (world (fold (i2c_perform hal) calls s))) = Some Bus_Free"
  using i2c.keep_fold [OF assms] by (simp add: bus_quiet_def)

theorem i2c_calls_keep_protocol_witness:
  "bus_run Bus_Free (world (fold (i2c_perform (log_hal MSG_TIMEOUT (\<lambda>_. 0)))
     [Read8 0x3C 7, Write8_16bitreg 0x3C 0x3008 0x82] \<lparr>world = [], i2c_error = 0\<rparr>)) = Some Bus_Free"
  by (rule i2c_calls_keep_protocol [where tr = "\<lambda>w. w"]) (simp add: bus_quiet_def log_hal_traced)

text \<open>A register access made while the bus is held through \<open>I2C_Lock\<close> takes the bus lock a second
  time and leaves the protocol; the bus is free again after \<open>I2C_Lock\<close> followed by
  \<open>I2C_Unlock\<close>.\<close>
theorem i2c_locked_access:
  assumes "bus_quiet hal tr s"
  shows "bus_run Bus_Free (tr (world (i2c_perform hal c (I2C_Lock hal s)))) = None
    \<and> bus_run Bus_Free (tr (world (I2C_Unlock hal (I2C_Lock hal s)))) = Some Bus_Free"
proof -
  have tr: "i2c_traced hal tr" "bus_run Bus_Free (tr (world s)) = Some Bus_Free"
    using assms by (auto simp: bus_quiet_def)
  then have lock: "tr (world (I2C_Lock hal s)) = tr (world s) @ [Acquire]"
    "tr (world (I2C_Unlock hal (I2C_Lock hal s))) = tr (world s) @ [Acquire, Release]"
    by (simp_all add: I2C_Lock_def I2C_Unlock_def i2c_traced_def)
  obtain a tx n where "tr (world (i2c_perform hal c (I2C_Lock hal s)))
      = tr (world (I2C_Lock hal s)) @ bus_access a tx n"
    using i2c_perform_trace [OF tr(1)] by blast
  with tr(2) lock show ?thesis
    by (simp add: bus_run_append)
qed

theorem i2c_locked_access_witness:
  "bus_run Bus_Free (world (i2c_perform (log_hal MSG_OK (\<lambda>_. 0)) (Read8 0x76 0xD0)
     (I2C_Lock (log_hal MSG_OK (\<lambda>_. 0)) \<lparr>world = [], i2c_error = 0\<rparr>))) = None"
  using i2c_locked_access [of "log_hal MSG_OK (\<lambda>_. 0)" "\<lambda>w. w" "\<lparr>world = [], i2c_error = 0\<rparr>"]
  by (simp add: bus_quiet_def log_hal_traced del: i2c_perform.simps)

text \<open>The two 16-bit reads return the two received bytes, \<open>I2C_read16\<close> with the first byte as the
  high one and \<open>I2C_read16_LE\<close> with the first byte as the low one.\<close>
theorem I2C_read16_value:
  "let rx = fst (snd (I2C_transmit hal address [reg] 2 (TIME_MS2I hal 100) s))
   in unat (fst (snd (I2C_read16 hal address reg s))) = 256 * unat (rx 0) + unat (rx 1)
    \<and> unat (fst (snd (I2C_read16_LE hal address reg s))) = unat (rx 0) + 256 * unat (rx 1)"
  by (simp add: I2C_read16_def I2C_read16_LE_def byte_pair reg_swap reg_of_bytes_value case_prod_unfold Let_def)

text \<open>An access to a 16-bit register sends the register address with its high byte first, followed
  by the value when it is a write, in a single transfer.\<close>
theorem reg16_address_on_bus:
  assumes "i2c_traced hal tr"
  shows "\<exists>hi lo. 256 * unat hi + unat lo = unat reg
    \<and> tr (world (snd (I2C_write8_16bitreg hal a reg v s))) = tr (world s) @ bus_access a [hi, lo, v] 0
    \<and> tr (world (snd (snd (I2C_read8_16bitreg hal a reg s)))) = tr (world s) @ bus_access a [hi, lo] 1"
proof (intro exI conjI)
  show "256 * unat (ucast (drop_bit 8 reg) :: u8) + unat (ucast (reg AND 0xFF) :: u8) = unat reg"
    using reg.dec_enc [of reg] by (simp add: reg_of_bytes_value [symmetric] reg_bytes_def)
qed (rule I2C_call_trace [OF assms])+

theorem reg16_address_on_bus_witness:
  "\<exists>hi lo. 256 * unat hi + unat lo = unat (0x300A :: u16)
    \<and> world (snd (I2C_write8_16bitreg (log_hal MSG_OK (\<lambda>_. 0x56)) 0x3C 0x300A 1
        \<lparr>world = [], i2c_error = 0\<rparr>)) = bus_access 0x3C [hi, lo, 1] 0
    \<and> world (snd (snd (I2C_read8_16bitreg (log_hal MSG_OK (\<lambda>_. 0x56)) 0x3C 0x300A
        \<lparr>world = [], i2c_error = 0\<rparr>))) = bus_access 0x3C [hi, lo] 1"
  using reg16_address_on_bus [OF log_hal_traced,
      of "0x300A" MSG_OK "\<lambda>_. 0x56" "0x3C" 1 "\<lparr>world = [], i2c_error = 0\<rparr>"] by simp


end
