(* ===== verification/Dcmi_Dma.thy ===== *)
theory Dcmi_Dma
  imports Pi2c
begin

text \<open>
  The double-buffered DMA transfer of camera data, \<open>src/dcmi_dma.c\<close>. The stream driver of ChibiOS and
  the stream's hardware registers are fields of the record \<open>dma_hal\<close>; the module's variables are
  the record \<open>dcmi_dma\<close>. The control-register bits and the interrupt flags are sets of named bits.
  A callback is a code pointer of type \<open>'c\<close>, and the code behind the pointers is an argument of the
  interrupt handlers; a handler that calls through a null pointer, or whose callback halts the
  system, returns a \<open>fault\<close>.

  The lemmas of this theory are about the search for a block size; the transfer itself is the subject of
  \<open>Dcmi_Transfer\<close>.
\<close>

section \<open>The stream driver\<close>

datatype dma_isr_flag = HTIF | TCIF | TEIF | DMEIF | FEIF

datatype dma_cr_flag = CHSEL nat | DIR_P2M | MINC | PSIZE_WORD | MSIZE_WORD | MBURST_INCR4
  | PBURST_SINGLE | TCIE | CT | DBM

datatype dma_handler = Shuffle_isr | Shuffle_isr_open_ended

datatype dma_fifo = FTH_FULL

text \<open>The last three fields are the hardware's: the mode bits of the stream, whether the stream is
  enabled, and what the stream does when it has filled the current block.\<close>

record 'w dma_hal = "'w i2c_hal" +
  dmaStreamAllocate :: "nat \<Rightarrow> dma_handler \<Rightarrow> 'w \<Rightarrow> 'w"
  dmaStreamSetPeripheral :: "u32 \<Rightarrow> 'w \<Rightarrow> 'w"
  dmaStreamSetTransactionSize :: "u32 \<Rightarrow> 'w \<Rightarrow> 'w"
  dmaStreamSetMode :: "dma_cr_flag set \<Rightarrow> 'w \<Rightarrow> 'w"
  dmaStreamSetFIFO :: "dma_fifo \<Rightarrow> 'w \<Rightarrow> 'w"
  dmaStreamSetMemory0 :: "u32 \<Rightarrow> 'w \<Rightarrow> 'w"
  dmaStreamSetMemory1 :: "u32 \<Rightarrow> 'w \<Rightarrow> 'w"
  dmaStreamGetCurrentTarget :: "'w \<Rightarrow> nat"
  dmaStreamEnable :: "'w \<Rightarrow> 'w"
  dmaStreamDisable :: "'w \<Rightarrow> 'w"
  stream_M0AR :: "'w \<Rightarrow> u32"
  stream_M1AR :: "'w \<Rightarrow> u32"
  stream_ifcr_write :: "dma_isr_flag set \<Rightarrow> 'w \<Rightarrow> 'w"
  stream_mode :: "'w \<Rightarrow> dma_cr_flag set"
  stream_enabled :: "'w \<Rightarrow> bool"
  stream_block_end :: "'w \<Rightarrow> 'w"

record ('w, 'c) dcmi_dma = "'w pi2c" +
  dcmi_dma_buffer :: u32
  dcmi_dma_image_size :: u32
  dcmi_dma_buffer_size :: u32
  dcmi_dma_bytes_received :: u32
  dcmi_dma_done_callback :: "'c option"
  dcmi_dma_done_callback_data :: u32
  dcmi_dma_error_callback :: "'c option"
  dcmi_dma_error_callback_data :: u32
  blocks_done :: i32
  block_size :: i32
  num_blocks :: i32
  stream_control_register :: "dma_cr_flag set"

definition dmaStreamClearInterrupt_CompleteOnly :: "('w, 'h) dma_hal_scheme \<Rightarrow> 'w \<Rightarrow> 'w" where
  "dmaStreamClearInterrupt_CompleteOnly hal w = stream_ifcr_write hal {TCIF} w"

definition dmaStreamGetMemory0 :: "('w, 'h) dma_hal_scheme \<Rightarrow> 'w \<Rightarrow> u32" where
  "dmaStreamGetMemory0 hal w = stream_M0AR hal w"

definition dmaStreamGetMemory1 :: "('w, 'h) dma_hal_scheme \<Rightarrow> 'w \<Rightarrow> u32" where
  "dmaStreamGetMemory1 hal w = stream_M1AR hal w"

definition DCMI_REG_DR_ADDRESS :: u32 where
  "DCMI_REG_DR_ADDRESS = 0x50050000 + 0x28"

section \<open>The interrupt handlers\<close>

type_synonym ('w, 'c, 's) dma_code =
  "'c \<Rightarrow> u32 \<Rightarrow> dma_isr_flag set \<Rightarrow> ('w, 'c, 's) dcmi_dma_scheme \<Rightarrow> fault + ('w, 'c, 's) dcmi_dma_scheme"

text \<open>A call through a callback pointer.\<close>

definition call_isr ::
  "('w, 'c, 's) dma_code \<Rightarrow> 'c option \<Rightarrow> u32 \<Rightarrow> dma_isr_flag set \<Rightarrow> ('w, 'c, 's) dcmi_dma_scheme
     \<Rightarrow> fault + ('w, 'c, 's) dcmi_dma_scheme" where
  "call_isr code cb p flags s = (case cb of None \<Rightarrow> Inl Null_call | Some c \<Rightarrow> code c p flags s)"

text \<open>The two steps the handlers share: acknowledge and count a completed block, and aim the address
  register that is not in use at the block after the next.\<close>

definition count_block ::
  "('w, 'h) dma_hal_scheme \<Rightarrow> ('w, 'c, 's) dcmi_dma_scheme \<Rightarrow> ('w, 'c, 's) dcmi_dma_scheme" where
  "count_block hal s =
     (let s = on_world (dmaStreamClearInterrupt_CompleteOnly hal) s
      in s\<lparr>blocks_done := blocks_done s + 1\<rparr>)"

definition program_block ::
  "('w, 'h) dma_hal_scheme \<Rightarrow> ('w, 'c, 's) dcmi_dma_scheme \<Rightarrow> ('w, 'c, 's) dcmi_dma_scheme" where
  "program_block hal s =
     (let block_addr = dcmi_dma_buffer s + block_size s * (blocks_done s + 1)
      in if dmaStreamGetCurrentTarget hal (world s) = 0
         then on_world (dmaStreamSetMemory1 hal block_addr) s
         else on_world (dmaStreamSetMemory0 hal block_addr) s)"

definition dcmi_dma_shuffle_isr ::
  "('w, 'h) dma_hal_scheme \<Rightarrow> ('w, 'c, 's) dma_code \<Rightarrow> dma_isr_flag set
     \<Rightarrow> ('w, 'c, 's) dcmi_dma_scheme \<Rightarrow> fault + ('w, 'c, 's) dcmi_dma_scheme" where
  "dcmi_dma_shuffle_isr hal code flags s =
     (let flags = flags - {HTIF} in
      if flags = {} then Inr s
      else
        case (if flags \<noteq> {TCIF} then
                (case (if dcmi_dma_error_callback s \<noteq> None
                       then call_isr code (dcmi_dma_error_callback s)
                              (dcmi_dma_error_callback_data s) flags s
                       else Inr s) of
                   Inl f \<Rightarrow> Inl f
                 | Inr s \<Rightarrow> Inr (on_world (dmaStreamDisable hal) s))
              else Inr s) of
          Inl f \<Rightarrow> Inl f
        | Inr s \<Rightarrow>
          (let s = count_block hal s
           in if blocks_done s = num_blocks s then
                (case (if dcmi_dma_done_callback s \<noteq> None
                       then call_isr code (dcmi_dma_done_callback s)
                              (dcmi_dma_done_callback_data s) flags s
                       else Inr s) of
                   Inl f \<Rightarrow> Inl f
                 | Inr s \<Rightarrow> Inr (on_world (dmaStreamDisable hal) s))
              else Inr (program_block hal s)))"

definition dcmi_dma_shuffle_isr_open_ended ::
  "('w, 'h) dma_hal_scheme \<Rightarrow> ('w, 'c, 's) dma_code \<Rightarrow> dma_isr_flag set
     \<Rightarrow> ('w, 'c, 's) dcmi_dma_scheme \<Rightarrow> fault + ('w, 'c, 's) dcmi_dma_scheme" where
  "dcmi_dma_shuffle_isr_open_ended hal code flags s =
     (let flags = flags - {HTIF} in
      if flags = {} then Inr s
      else
        case (if flags \<noteq> {TCIF} then
                (case (if dcmi_dma_error_callback s \<noteq> None
                       then call_isr code (dcmi_dma_error_callback s)
                              (dcmi_dma_error_callback_data s) flags s
                       else Inr s) of
                   Inl f \<Rightarrow> Inl f
                 | Inr s \<Rightarrow> Inr (on_world (dmaStreamDisable hal) s))
              else Inr s) of
          Inl f \<Rightarrow> Inl f
        | Inr s \<Rightarrow>
          (let s = count_block hal s
           in if blocks_done s = num_blocks s then
                (case (if dcmi_dma_done_callback s \<noteq> None
                       then call_isr code (dcmi_dma_error_callback s)
                              (dcmi_dma_error_callback_data s) flags s
                       else Inr s) of
                   Inl f \<Rightarrow> Inl f
                 | Inr s \<Rightarrow> Inr (on_world (dmaStreamDisable hal) s))
              else Inr (program_block hal s)))"

section \<open>Configuration\<close>

text \<open>The quotients the search for a number of blocks works with.\<close>

lemma block_words:
  fixes x n :: u32
  defines "w \<equiv> x div n div 4"
  shows "unat w = unat x div unat n div 4" "sint w = int (unat x div unat n div 4)"
proof -
  show u: "unat w = unat x div unat n div 4"
    by (simp add: w_def unat_div_distrib)
  have "unat x div unat n < 4294967296"
    using unat_u32_bound [of x] div_le_dividend [of "unat x" "unat n"] by (rule le_less_trans [rotated])
  then have "unat w < 2147483648"
    unfolding u by (simp add: div_less_iff_less_mult)
  then have "sint w = int (unat w)"
    by (intro sint_small) simp
  then show "sint w = int (unat x div unat n div 4)"
    unfolding u .
qed

lemma block_count_bound:
  fixes x n :: u32
  assumes "256 \<le> unat x div unat n div 4"
  shows "0 < unat n" "unat n * 1024 \<le> unat x" "unat (n + 1) = Suc (unat n)"
proof -
  show "0 < unat n"
    using assms by (rule contrapos_pp) simp
  moreover have "1024 \<le> unat x div unat n"
    using assms by linarith
  ultimately show le: "unat n * 1024 \<le> unat x"
    by (simp add: less_eq_div_iff_mult_less_eq mult.commute)
  show "unat (n + 1) = Suc (unat n)"
    using le unat_u32_bound [of x] by (simp add: unat_plus_small del: unat_u32_bound)
qed

lemma find_blocks_measure:
  fixes x n :: u32
  assumes "\<not> sint (x div n div 4) < 256"
  shows "unat x - unat (n + 1) < unat x - unat n"
proof -
  have "256 \<le> unat x div unat n div 4"
    using assms by (simp add: block_words)
  from block_count_bound [OF this] show ?thesis
    by linarith
qed

text \<open>The search for a number of blocks that divides the image: \<open>None\<close> when it gives up.\<close>

function find_blocks :: "u32 \<Rightarrow> i32 \<Rightarrow> (i32 \<times> i32) option" where
  "find_blocks image_size new_num_blocks =
     (let block_size_words = image_size div new_num_blocks div 4
      in if sint block_size_words < 256 then None
         else if 4 * block_size_words * new_num_blocks \<noteq> image_size
              then find_blocks image_size (new_num_blocks + 1)
         else if sint block_size_words > 65535 then find_blocks image_size (new_num_blocks + 1)
         else Some (new_num_blocks, 4 * block_size_words))"
  by pat_completeness auto
termination
  by (relation "measure (\<lambda>(x, n). unat x - unat n)")
    (use find_blocks_measure in \<open>simp_all only: wf_measure in_measure prod.case not_less\<close>)

declare find_blocks.simps [simp del]

text \<open>The part of the stream set-up that the two initialisations share, in the order of the calls.\<close>

definition dma_mode_single :: "dma_cr_flag set" where
  "dma_mode_single = {CHSEL 1, DIR_P2M, MINC, PSIZE_WORD, MSIZE_WORD, MBURST_INCR4, PBURST_SINGLE, TCIE}"

definition dma_stream_setup ::
  "('w, 'h) dma_hal_scheme \<Rightarrow> dma_handler \<Rightarrow> ('w, 'c, 's) dcmi_dma_scheme \<Rightarrow> ('w, 'c, 's) dcmi_dma_scheme" where
  "dma_stream_setup hal handler s =
     (let transactions = word_of_int (sint (block_size s) sdiv 4);
          single = dma_mode_single - {CT};
          double = single \<union> {DBM};
          s = on_world (\<lambda>w.
            let w = dmaStreamAllocate hal 10 handler w;
                w = dmaStreamSetPeripheral hal DCMI_REG_DR_ADDRESS w;
                w = dmaStreamSetTransactionSize hal transactions w;
                w = dmaStreamSetMode hal single w
            in dmaStreamSetFIFO hal FTH_FULL w) s
      in if sint (num_blocks s) > 1
         then (on_world (dmaStreamSetMode hal double) s)\<lparr>stream_control_register := double\<rparr>
         else s\<lparr>stream_control_register := single\<rparr>)"

definition dcmi_dma_init ::
  "('w, 'h) dma_hal_scheme \<Rightarrow> ('w, 'c, 's) dcmi_dma_scheme \<Rightarrow> i32 \<times> ('w, 'c, 's) dcmi_dma_scheme" where
  "dcmi_dma_init hal s =
     (if dcmi_dma_buffer s = 0 \<or> dcmi_dma_image_size s = 0
      then (-1, on_world (chprintf hal (line ''CAM  > dcmi_dma: failure'') []) s)
      else
        case find_blocks (dcmi_dma_image_size s) 1 of
          None \<Rightarrow> (-1, s)
        | Some (nb, bs) \<Rightarrow>
          (let s = s\<lparr>num_blocks := nb, block_size := bs\<rparr>;
               s = on_world (chprintf hal (line ''CAM  > dcmi_dma: %d byte image, transferring as %d blocks of %d bytes'')
                     [sint (dcmi_dma_image_size s), sint (num_blocks s), sint (block_size s)]) s;
               s = dma_stream_setup hal Shuffle_isr s
           in (0, s)))"

definition dcmi_dma_init_open_ended ::
  "('w, 'h) dma_hal_scheme \<Rightarrow> ('w, 'c, 's) dcmi_dma_scheme \<Rightarrow> i32 \<times> ('w, 'c, 's) dcmi_dma_scheme" where
  "dcmi_dma_init_open_ended hal s =
     (if dcmi_dma_buffer s = 0 \<or> dcmi_dma_buffer_size s = 0
      then (-1, on_world (chprintf hal (line ''CAM  > dcmi_dma: failure'') []) s)
      else
        (let block_size_words = (65534 :: i32);
             s = s\<lparr>block_size := 4 * block_size_words\<rparr>;
             s = s\<lparr>num_blocks := dcmi_dma_buffer_size s div block_size s - 1\<rparr>;
             s = on_world (chprintf hal (line ''CAM  > dcmi_dma: %d byte image, transferring as %d blocks of %d bytes'')
                   [sint (dcmi_dma_buffer_size s), sint (num_blocks s), sint (block_size s)]) s;
             s = dma_stream_setup hal Shuffle_isr_open_ended s
         in (0, s)))"

definition dcmi_dma_open_ended_stop ::
  "('w, 'h) dma_hal_scheme \<Rightarrow> ('w, 'c, 's) dcmi_dma_scheme \<Rightarrow> ('w, 'c, 's) dcmi_dma_scheme" where
  "dcmi_dma_open_ended_stop hal s =
     (let s = on_world (dmaStreamDisable hal) s;
          top_addr = dmaStreamGetMemory0 hal (world s);
          top_addr_alt = dmaStreamGetMemory1 hal (world s);
          top_addr = (if top_addr_alt > top_addr then top_addr_alt else top_addr)
      in s\<lparr>dcmi_dma_bytes_received := top_addr - dcmi_dma_buffer s\<rparr>)"

definition dcmi_dma_arm ::
  "('w, 'h) dma_hal_scheme \<Rightarrow> ('w, 'c, 's) dcmi_dma_scheme \<Rightarrow> i32 \<times> ('w, 'c, 's) dcmi_dma_scheme" where
  "dcmi_dma_arm hal s =
     (let s = s\<lparr>blocks_done := 0\<rparr>;
          s = on_world (dmaStreamSetMode hal (stream_control_register s)) s;
          s = on_world (dmaStreamSetMemory0 hal (dcmi_dma_buffer s)) s;
          s = on_world (dmaStreamSetMemory1 hal (dcmi_dma_buffer s + block_size s)) s;
          s = on_world (dmaStreamEnable hal) s
      in (0, s))"

section \<open>The search for a block size\<close>

text \<open>The factorings of an image size that the search accepts, and the first of them with at least
  \<open>n\<close> blocks.\<close>

definition splits_image :: "nat \<Rightarrow> nat \<Rightarrow> nat \<Rightarrow> bool" where
  "splits_image x m w \<longleftrightarrow> 4 * w * m = x \<and> 256 \<le> w \<and> w \<le> 65535"

definition first_split :: "nat \<Rightarrow> nat \<Rightarrow> (i32 \<times> i32) option \<Rightarrow> bool" where
  "first_split x n r \<longleftrightarrow>
     (case r of
        None \<Rightarrow> \<forall>m w. n \<le> m \<longrightarrow> \<not> splits_image x m w
      | Some (nb, bs) \<Rightarrow> n \<le> unat nb \<and> (\<exists>w. unat bs = 4 * w \<and> splits_image x (unat nb) w)
          \<and> (\<forall>m w. n \<le> m \<and> m < unat nb \<longrightarrow> \<not> splits_image x m w))"

lemma splits_image_words: "splits_image x m w \<Longrightarrow> 0 < m \<Longrightarrow> x div m div 4 = w"
  by (auto simp: splits_image_def)

lemma splits_image_large: "splits_image x m w \<Longrightarrow> 1024 * m \<le> x"
  by (auto simp: splits_image_def)

lemma first_split_Suc:
  assumes "first_split x (Suc n) r" "\<And>w. \<not> splits_image x n w"
  shows "first_split x n r"
proof -
  have "Suc n \<le> m \<or> m = n" if "n \<le> m" for m
    using that by arith
  then show ?thesis
    using assms unfolding first_split_def by (auto split: option.splits dest: Suc_leD)
qed

lemma first_split_None: "x < 1024 * n \<Longrightarrow> first_split x n None"
  unfolding first_split_def option.case
  using splits_image_large by fastforce

lemma block_bytes:
  fixes x n :: u32
  shows "unat (4 * (x div n div 4)) = 4 * (unat x div unat n div 4)"
    and "unat (4 * (x div n div 4) * n) = 4 * (unat x div unat n div 4) * unat n"
proof -
  have le: "4 * (unat x div unat n div 4) \<le> unat x div unat n" "unat x div unat n \<le> unat x"
    by simp_all
  have "4 * (unat x div unat n div 4) * unat n \<le> unat x div unat n * unat n"
    using le(1) by (rule mult_le_mono1)
  also have "\<dots> \<le> unat x"
    by simp
  finally have le2: "4 * (unat x div unat n div 4) * unat n < 4294967296"
    using unat_u32_bound [of x] by (rule le_less_trans)
  have le3: "4 * (unat x div unat n div 4) < 4294967296"
    using le unat_u32_bound [of x] by linarith
  show 1: "unat (4 * (x div n div 4)) = 4 * (unat x div unat n div 4)"
    using le3 by (subst unat_mult_small) (simp_all only: block_words unat_numeral, simp_all)
  show "unat (4 * (x div n div 4) * n) = 4 * (unat x div unat n div 4) * unat n"
    using le2 by (subst unat_mult_small) (simp_all only: 1, simp)
qed

lemma find_blocks_first_split:
  "0 < unat n \<Longrightarrow> first_split (unat x) (unat n) (find_blocks x n)"
proof (induction x n rule: find_blocks.induct)
  case (1 x n)
  let ?w = "unat x div unat n div 4"
  have step: "find_blocks x n =
      (if ?w < 256 then None
       else if 4 * ?w * unat n \<noteq> unat x \<or> 65535 < ?w then find_blocks x (n + 1)
       else Some (n, 4 * (x div n div 4)))"
    by (subst find_blocks.simps) (auto simp: Let_def block_words block_bytes word_unat_eq_iff)
  consider "?w < 256" | "256 \<le> ?w" "4 * ?w * unat n \<noteq> unat x \<or> 65535 < ?w"
    | "256 \<le> ?w" "4 * ?w * unat n = unat x" "?w \<le> 65535"
    by linarith
  then show ?case
  proof cases
    case 1
    then have "unat x < 1024 * unat n"
      using "1.prems" by (simp add: div_less_iff_less_mult)
    with 1 show ?thesis
      by (simp add: step first_split_None)
  next
    case 2
    have "\<not> splits_image (unat x) (unat n) w" for w
    proof
      assume sp: "splits_image (unat x) (unat n) w"
      then have "?w = w"
        using "1.prems" by (rule splits_image_words)
      with 2 sp show False
        by (simp add: splits_image_def)
    qed
    moreover have "first_split (unat x) (Suc (unat n)) (find_blocks x (n + 1))"
      using 2 "1.IH" [OF refl] block_count_bound [OF 2(1)]
      by (auto simp: block_words block_bytes word_unat_eq_iff)
    ultimately show ?thesis
      using 2 by (simp add: step first_split_Suc)
  next
    case 3
    then show ?thesis
      by (auto simp: step first_split_def splits_image_def block_bytes)
  qed
qed

end
