(* ===== verification/Dcmi_Transfer.thy ===== *)
theory Dcmi_Transfer
  imports Dcmi_Dma
begin

text \<open>
  The double-buffered camera transfer as a whole: hardware and interrupt handlers of
  \<open>src/dcmi_dma.c\<close> together. The theory gives an abstract view of the stream with the handlers'
  effect on it (\<open>shuffle_view\<close>), a step relation of hardware and handler with its invariant
  (\<open>capture_step\<close>, \<open>capture_inv\<close>), the laws of the stream driver (\<open>dma_laws\<close>), and the refinement
  of both real handlers to the abstract one (locale \<open>shuffle_handler\<close>). The properties state that the
  blocks fill the buffer one after the other, where a transfer ends, and what the two
  initialisations configure.
\<close>

section \<open>The abstract transfer\<close>

text \<open>
  What matters of the stream and of the module's variables for the double-buffered transfer: the
  two memory address registers, which of them the hardware writes through, whether the stream is
  enabled and in which mode, and the block counters.
\<close>

record dma_view =
  v_M0 :: u32
  v_M1 :: u32
  v_target :: nat
  v_enabled :: bool
  v_mode :: "dma_cr_flag set"
  v_done :: u32
  v_num :: u32
  v_bs :: u32
  v_buffer :: u32

definition active :: "dma_view \<Rightarrow> u32" where
  "active v = (if v_target v = 0 then v_M0 v else v_M1 v)"

definition inactive :: "dma_view \<Rightarrow> u32" where
  "inactive v = (if v_target v = 0 then v_M1 v else v_M0 v)"

definition toggle :: "dma_view \<Rightarrow> dma_view" where
  "toggle v = v\<lparr>v_target := 1 - v_target v\<rparr>"

text \<open>What a handler does on a completed block: count it, and stop or aim the idle register at the
  block after the next.\<close>

definition shuffle_view :: "dma_view \<Rightarrow> dma_view" where
  "shuffle_view v =
     (let v = v\<lparr>v_done := v_done v + 1\<rparr>
      in if v_done v = v_num v then v\<lparr>v_enabled := False\<rparr>
         else let a = v_buffer v + v_bs v * (v_done v + 1)
              in if v_target v = 0 then v\<lparr>v_M1 := a\<rparr> else v\<lparr>v_M0 := a\<rparr>)"

text \<open>A transfer in progress: the view, whether a completed block waits for its handler, and the start
  addresses of the blocks the hardware has filled. The hardware fills a block and switches to the
  other register; the handler runs before the hardware completes another block.\<close>

record capture =
  view :: dma_view
  pending :: bool
  written :: "u32 list"

inductive capture_step :: "capture \<Rightarrow> capture \<Rightarrow> bool" where
  block_end: "v_enabled (view c) \<Longrightarrow> DBM \<in> v_mode (view c) \<Longrightarrow> \<not> pending c \<Longrightarrow>
    capture_step c (c\<lparr>view := toggle (view c), pending := True, written := written c @ [active (view c)]\<rparr>)"
| handler: "pending c \<Longrightarrow> capture_step c (c\<lparr>view := shuffle_view (view c), pending := False\<rparr>)"

inductive_cases capture_stepE: "capture_step c d"

definition capture_start :: "capture \<Rightarrow> bool" where
  "capture_start c \<longleftrightarrow>
     v_M0 (view c) = v_buffer (view c) \<and> v_M1 (view c) = v_buffer (view c) + v_bs (view c) \<and>
     v_target (view c) = 0 \<and> v_enabled (view c) \<and> DBM \<in> v_mode (view c) \<and>
     v_done (view c) = 0 \<and> 2 \<le> unat (v_num (view c)) \<and> \<not> pending c \<and> written c = []"

definition block_at :: "dma_view \<Rightarrow> nat \<Rightarrow> u32" where
  "block_at v i = v_buffer v + v_bs v * of_nat i"

definition capture_inv :: "capture \<Rightarrow> bool" where
  "capture_inv c \<longleftrightarrow>
     (let v = view c; n = unat (v_num v); k = unat (v_done v); h = length (written c)
      in 2 \<le> n \<and> k \<le> n \<and> h = k + (if pending c then 1 else 0) \<and> h \<le> n \<and>
         (v_enabled v \<longleftrightarrow> k < n) \<and> DBM \<in> v_mode v \<and> v_target v \<le> 1 \<and>
         written c = map (block_at v) [0..<h] \<and>
         active v = block_at v h \<and>
         inactive v = block_at v (if pending c \<or> k = n then h - 1 else h + 1))"

lemma block_at_0 [simp]: "block_at v 0 = v_buffer v"
  by (simp add: block_at_def)

lemma view_params [simp]:
  "v_num (toggle v) = v_num v" "v_bs (toggle v) = v_bs v" "v_buffer (toggle v) = v_buffer v"
  "v_mode (toggle v) = v_mode v" "v_enabled (toggle v) = v_enabled v" "v_done (toggle v) = v_done v"
  "v_num (shuffle_view v) = v_num v" "v_bs (shuffle_view v) = v_bs v"
  "v_buffer (shuffle_view v) = v_buffer v" "v_mode (shuffle_view v) = v_mode v"
  "v_target (toggle v) = 1 - v_target v" "v_target (shuffle_view v) = v_target v" "v_done (shuffle_view v) = v_done v + 1"
  by (simp_all add: toggle_def shuffle_view_def Let_def)

lemma block_at_view [simp]:
  "block_at (toggle v) = block_at v" "block_at (shuffle_view v) = block_at v"
  by (simp_all add: block_at_def fun_eq_iff)

lemma toggle_registers [simp]:
  "v_target v \<le> 1 \<Longrightarrow> active (toggle v) = inactive v"
  "v_target v \<le> 1 \<Longrightarrow> inactive (toggle v) = active v"
  by (auto simp: toggle_def active_def inactive_def)

lemma shuffle_registers:
  "active (shuffle_view v) = active v"
  "inactive (shuffle_view v) =
     (if v_done v + 1 = v_num v then inactive v else v_buffer v + v_bs v * (v_done v + 1 + 1))"
  "v_enabled (shuffle_view v) \<longleftrightarrow> v_enabled v \<and> v_done v + 1 \<noteq> v_num v"
  by (auto simp: shuffle_view_def active_def inactive_def Let_def)

interpretation capture: transition_invariant capture_start capture_step capture_inv
proof unfold_locales
  fix c assume "capture_start c"
  then show "capture_inv c"
    by (auto simp: capture_start_def capture_inv_def active_def inactive_def block_at_def Let_def)
next
  fix c d assume inv: "capture_inv c" and "capture_step c d"
  from this(2) show "capture_inv d"
  proof cases
    case block_end
    with inv show ?thesis
      by (auto simp: capture_inv_def Let_def)
  next
    case handler
    have k: "unat (v_done (view c)) < unat (v_num (view c))"
      using inv handler by (auto simp: capture_inv_def Let_def)
    note Suc = word_Suc_below [OF this]
    have "v_done (view c) + 1 = v_num (view c) \<longleftrightarrow> Suc (unat (v_done (view c))) = unat (v_num (view c))"
      by (simp add: word_unat_eq_iff Suc)
    moreover have "v_buffer (view c) + v_bs (view c) * (v_done (view c) + 1 + 1)
        = block_at (view c) (Suc (Suc (unat (v_done (view c)))))"
      by (simp add: block_at_def)
    ultimately show ?thesis
      using inv handler k Suc
      by (auto simp: capture_inv_def Let_def shuffle_registers simp del: upt_Suc)
  qed
qed

section \<open>The handlers refine the abstract transfer\<close>

text \<open>
  What the model relies on of the stream driver and the hardware: an address register returns what was
  written to it, the control calls touch nothing else, writing a mode with the target bit clear makes
  register 0 the target, and in double-buffer mode the end of a block switches the target.
\<close>

definition stream_obs :: "('w, 'h) dma_hal_scheme \<Rightarrow> 'w \<Rightarrow> u32 \<times> u32 \<times> nat \<times> bool \<times> dma_cr_flag set" where
  "stream_obs hal w =
     (stream_M0AR hal w, stream_M1AR hal w, dmaStreamGetCurrentTarget hal w, stream_enabled hal w,
      stream_mode hal w)"

definition dma_laws :: "('w, 'h) dma_hal_scheme \<Rightarrow> bool" where
  "dma_laws hal \<longleftrightarrow>
     os_unseen hal (stream_obs hal) \<and>
     (\<forall>n h w. stream_obs hal (dmaStreamAllocate hal n h w) = stream_obs hal w) \<and>
     (\<forall>a w. stream_obs hal (dmaStreamSetPeripheral hal a w) = stream_obs hal w) \<and>
     (\<forall>n w. stream_obs hal (dmaStreamSetTransactionSize hal n w) = stream_obs hal w) \<and>
     (\<forall>f w. stream_obs hal (dmaStreamSetFIFO hal f w) = stream_obs hal w) \<and>
     (\<forall>f w. stream_obs hal (stream_ifcr_write hal f w) = stream_obs hal w) \<and>
     (\<forall>a w. stream_obs hal (dmaStreamSetMemory0 hal a w) = (case stream_obs hal w of (m0, m) \<Rightarrow> (a, m))) \<and>
     (\<forall>a w. stream_obs hal (dmaStreamSetMemory1 hal a w) =
        (case stream_obs hal w of (m0, m1, m) \<Rightarrow> (m0, a, m))) \<and>
     (\<forall>m w. stream_M0AR hal (dmaStreamSetMode hal m w) = stream_M0AR hal w \<and>
        stream_M1AR hal (dmaStreamSetMode hal m w) = stream_M1AR hal w \<and>
        dmaStreamGetCurrentTarget hal (dmaStreamSetMode hal m w) = (if CT \<in> m then 1 else 0) \<and>
        stream_mode hal (dmaStreamSetMode hal m w) = m) \<and>
     (\<forall>w. stream_obs hal (dmaStreamEnable hal w) =
        (case stream_obs hal w of (m0, m1, t, en, m) \<Rightarrow> (m0, m1, t, True, m))) \<and>
     (\<forall>w. stream_obs hal (dmaStreamDisable hal w) =
        (case stream_obs hal w of (m0, m1, t, en, m) \<Rightarrow> (m0, m1, t, False, m))) \<and>
     (\<forall>w. stream_enabled hal w \<longrightarrow> DBM \<in> stream_mode hal w \<longrightarrow> stream_obs hal (stream_block_end hal w) =
        (case stream_obs hal w of (m0, m1, t, en, m) \<Rightarrow> (m0, m1, 1 - t, en, m)))"

definition dma_view :: "('w, 'h) dma_hal_scheme \<Rightarrow> ('w, 'c, 's) dcmi_dma_scheme \<Rightarrow> dma_view" where
  "dma_view hal s =
     \<lparr> v_M0 = stream_M0AR hal (world s), v_M1 = stream_M1AR hal (world s),
       v_target = dmaStreamGetCurrentTarget hal (world s), v_enabled = stream_enabled hal (world s),
       v_mode = stream_mode hal (world s), v_done = blocks_done s, v_num = num_blocks s,
       v_bs = block_size s, v_buffer = dcmi_dma_buffer s \<rparr>"

text \<open>Callbacks that leave the stream and the counters alone.\<close>

definition code_frames :: "('w, 'h) dma_hal_scheme \<Rightarrow> ('w, 'c, 's) dma_code \<Rightarrow> bool" where
  "code_frames hal code \<longleftrightarrow>
     (\<forall>c p flags s s'. code c p flags s = Inr s' \<longrightarrow> dma_view hal s' = dma_view hal s)"

lemma dma_lawsD:
  assumes "dma_laws hal"
  shows "stream_obs hal (stream_ifcr_write hal f w) = stream_obs hal w"
    and "stream_obs hal (chprintf hal g xs w) = stream_obs hal w"
    and "stream_obs hal (dmaStreamAllocate hal n h w) = stream_obs hal w"
    and "stream_obs hal (dmaStreamSetPeripheral hal a w) = stream_obs hal w"
    and "stream_obs hal (dmaStreamSetTransactionSize hal a w) = stream_obs hal w"
    and "stream_obs hal (dmaStreamSetFIFO hal q w) = stream_obs hal w"
    and "stream_obs hal (dmaStreamSetMemory0 hal a w) = (case stream_obs hal w of (m0, m) \<Rightarrow> (a, m))"
    and "stream_obs hal (dmaStreamSetMemory1 hal a w)
       = (case stream_obs hal w of (m0, m1, m) \<Rightarrow> (m0, a, m))"
    and "stream_obs hal (dmaStreamEnable hal w)
       = (case stream_obs hal w of (m0, m1, t, en, m) \<Rightarrow> (m0, m1, t, True, m))"
    and "stream_obs hal (dmaStreamDisable hal w)
       = (case stream_obs hal w of (m0, m1, t, en, m) \<Rightarrow> (m0, m1, t, False, m))"
    and "stream_enabled hal w \<Longrightarrow> DBM \<in> stream_mode hal w \<Longrightarrow> stream_obs hal (stream_block_end hal w)
       = (case stream_obs hal w of (m0, m1, t, en, m) \<Rightarrow> (m0, m1, 1 - t, en, m))"
  using assms by (simp_all add: dma_laws_def os_unseen_def)

lemma dma_setmodeD:
  assumes "dma_laws hal"
  shows "stream_M0AR hal (dmaStreamSetMode hal m w) = stream_M0AR hal w"
    and "stream_M1AR hal (dmaStreamSetMode hal m w) = stream_M1AR hal w"
    and "dmaStreamGetCurrentTarget hal (dmaStreamSetMode hal m w) = (if CT \<in> m then 1 else 0)"
    and "stream_mode hal (dmaStreamSetMode hal m w) = m"
  using assms by (simp_all add: dma_laws_def)

named_theorems dma_stream \<open>effect of the stream calls on the registers\<close>

lemma stream_calls [dma_stream]:
  assumes "dma_laws hal"
  shows "stream_M0AR hal (dmaStreamSetMemory0 hal a w) = a"
    and "stream_M1AR hal (dmaStreamSetMemory0 hal a w) = stream_M1AR hal w"
    and "stream_M0AR hal (dmaStreamSetMemory1 hal a w) = stream_M0AR hal w"
    and "stream_M1AR hal (dmaStreamSetMemory1 hal a w) = a"
    and "dmaStreamGetCurrentTarget hal (dmaStreamSetMemory0 hal a w) = dmaStreamGetCurrentTarget hal w"
    and "dmaStreamGetCurrentTarget hal (dmaStreamSetMemory1 hal a w) = dmaStreamGetCurrentTarget hal w"
    and "stream_enabled hal (dmaStreamSetMemory0 hal a w) = stream_enabled hal w"
    and "stream_enabled hal (dmaStreamSetMemory1 hal a w) = stream_enabled hal w"
    and "stream_mode hal (dmaStreamSetMemory0 hal a w) = stream_mode hal w"
    and "stream_mode hal (dmaStreamSetMemory1 hal a w) = stream_mode hal w"
  using dma_lawsD(7,8) [OF assms, of a w] by (simp_all add: stream_obs_def)

lemma stream_enable_calls [dma_stream]:
  assumes "dma_laws hal"
  shows "stream_M0AR hal (dmaStreamEnable hal w) = stream_M0AR hal w"
    and "stream_M1AR hal (dmaStreamEnable hal w) = stream_M1AR hal w"
    and "dmaStreamGetCurrentTarget hal (dmaStreamEnable hal w) = dmaStreamGetCurrentTarget hal w"
    and "stream_enabled hal (dmaStreamEnable hal w)"
    and "stream_mode hal (dmaStreamEnable hal w) = stream_mode hal w"
    and "stream_M0AR hal (dmaStreamDisable hal w) = stream_M0AR hal w"
    and "stream_M1AR hal (dmaStreamDisable hal w) = stream_M1AR hal w"
    and "dmaStreamGetCurrentTarget hal (dmaStreamDisable hal w) = dmaStreamGetCurrentTarget hal w"
    and "\<not> stream_enabled hal (dmaStreamDisable hal w)"
    and "stream_mode hal (dmaStreamDisable hal w) = stream_mode hal w"
  using dma_lawsD(9,10) [OF assms, of w] by (simp_all add: stream_obs_def)

lemma stream_obs_eq:
  "stream_obs hal w' = stream_obs hal w \<longleftrightarrow>
     stream_M0AR hal w' = stream_M0AR hal w \<and> stream_M1AR hal w' = stream_M1AR hal w \<and>
     dmaStreamGetCurrentTarget hal w' = dmaStreamGetCurrentTarget hal w \<and>
     stream_enabled hal w' = stream_enabled hal w \<and> stream_mode hal w' = stream_mode hal w"
  by (simp add: stream_obs_def)

lemmas stream_silent [dma_stream] = dma_lawsD(1-6) [unfolded stream_obs_eq]

lemma dma_view_block_end:
  assumes "dma_laws hal" "stream_enabled hal (world s)" "DBM \<in> stream_mode hal (world s)"
  shows "dma_view hal (on_world (stream_block_end hal) s) = toggle (dma_view hal s)"
  using dma_lawsD(11) [OF assms]
  by (simp add: stream_obs_def dma_view_def toggle_def on_world_def)

lemma dma_view_disable:
  "dma_laws hal \<Longrightarrow> dma_view hal (on_world (dmaStreamDisable hal) s) = (dma_view hal s)\<lparr>v_enabled := False\<rparr>"
  by (simp add: dma_view_def on_world_def dma_stream)

lemma call_isr_view:
  assumes "code_frames hal code" "call_isr code cb p flags s = Inr s'"
  shows "dma_view hal s' = dma_view hal s"
  using assms by (auto simp: call_isr_def code_frames_def split: option.splits)

lemma dma_view_count_block:
  "dma_laws hal \<Longrightarrow> dma_view hal (count_block hal s) = (dma_view hal s)\<lparr>v_done := blocks_done s + 1\<rparr>"
  by (simp add: dma_view_def on_world_def dmaStreamClearInterrupt_CompleteOnly_def count_block_def dma_stream)

lemma dma_view_fields [simp]:
  "v_done (dma_view hal s) = blocks_done s" "v_num (dma_view hal s) = num_blocks s"
  "v_bs (dma_view hal s) = block_size s" "v_buffer (dma_view hal s) = dcmi_dma_buffer s"
  "v_target (dma_view hal s) = dmaStreamGetCurrentTarget hal (world s)"
  "v_enabled (dma_view hal s) = stream_enabled hal (world s)"
  "v_mode (dma_view hal s) = stream_mode hal (world s)"
  "v_M0 (dma_view hal s) = stream_M0AR hal (world s)" "v_M1 (dma_view hal s) = stream_M1AR hal (world s)"
  by (simp_all add: dma_view_def)

lemma dma_view_set_memory:
  assumes "dma_laws hal"
  shows "dma_view hal (on_world (dmaStreamSetMemory0 hal a) s) = (dma_view hal s)\<lparr>v_M0 := a\<rparr>"
    and "dma_view hal (on_world (dmaStreamSetMemory1 hal a) s) = (dma_view hal s)\<lparr>v_M1 := a\<rparr>"
  using assms by (simp_all add: dma_view_def on_world_def dma_stream)

lemma count_block_fields [simp]:
  "blocks_done (count_block hal s) = blocks_done s + 1" "num_blocks (count_block hal s) = num_blocks s"
  "block_size (count_block hal s) = block_size s" "dcmi_dma_buffer (count_block hal s) = dcmi_dma_buffer s"
  "dcmi_dma_done_callback (count_block hal s) = dcmi_dma_done_callback s"
  "dcmi_dma_error_callback (count_block hal s) = dcmi_dma_error_callback s"
  "dcmi_dma_done_callback_data (count_block hal s) = dcmi_dma_done_callback_data s"
  "dcmi_dma_error_callback_data (count_block hal s) = dcmi_dma_error_callback_data s"
  by (simp_all add: count_block_def on_world_def)

lemma count_block_target [dma_stream]:
  "dma_laws hal \<Longrightarrow> dmaStreamGetCurrentTarget hal (world (count_block hal s))
     = dmaStreamGetCurrentTarget hal (world s)"
  by (simp add: count_block_def on_world_def dmaStreamClearInterrupt_CompleteOnly_def dma_stream)

text \<open>The two ways a handler can end.\<close>

lemma shuffle_view_last:
  assumes "dma_laws hal" "blocks_done s + 1 = num_blocks s"
    and "dma_view hal s' = dma_view hal (count_block hal s)"
  shows "dma_view hal (on_world (dmaStreamDisable hal) s') = shuffle_view (dma_view hal s)"
  using assms by (simp add: dma_view_disable dma_view_count_block shuffle_view_def)

lemma shuffle_view_next:
  assumes "dma_laws hal" "blocks_done s + 1 \<noteq> num_blocks s"
  shows "dma_view hal (program_block hal (count_block hal s)) = shuffle_view (dma_view hal s)"
  using assms
  by (simp add: program_block_def shuffle_view_def Let_def dma_view_set_memory dma_view_count_block
      dma_stream)

lemma on_world_fields [simp]:
  "blocks_done (on_world f s) = blocks_done s" "num_blocks (on_world f s) = num_blocks s"
  "block_size (on_world f s) = block_size s" "dcmi_dma_buffer (on_world f s) = dcmi_dma_buffer s"
  "dcmi_dma_done_callback (on_world f s) = dcmi_dma_done_callback s"
  "dcmi_dma_error_callback (on_world f s) = dcmi_dma_error_callback s"
  "dcmi_dma_done_callback_data (on_world f s) = dcmi_dma_done_callback_data s"
  "dcmi_dma_error_callback_data (on_world f s) = dcmi_dma_error_callback_data s"
  "dcmi_dma_image_size (on_world f s) = dcmi_dma_image_size s"
  "dcmi_dma_buffer_size (on_world f s) = dcmi_dma_buffer_size s"
  "stream_control_register (on_world f s) = stream_control_register s"
  by (simp_all add: on_world_def)

text \<open>The transfer of the real module: the end of a block, and the handler for the completed-block and
  half-block interrupts. The second and third components are those of \<open>capture\<close>.\<close>

inductive dma_step ::
  "('w, 'h) dma_hal_scheme
   \<Rightarrow> (dma_isr_flag set \<Rightarrow> ('w, 'c, 's) dcmi_dma_scheme \<Rightarrow> fault + ('w, 'c, 's) dcmi_dma_scheme)
   \<Rightarrow> ('w, 'c, 's) dcmi_dma_scheme \<times> bool \<times> u32 list \<Rightarrow> ('w, 'c, 's) dcmi_dma_scheme \<times> bool \<times> u32 list \<Rightarrow> bool"
  for hal isr where
  hw_block_end: "stream_enabled hal (world s) \<Longrightarrow> DBM \<in> stream_mode hal (world s) \<Longrightarrow>
    dma_step hal isr (s, False, wr)
      (on_world (stream_block_end hal) s, True,
       wr @ [if dmaStreamGetCurrentTarget hal (world s) = 0
             then stream_M0AR hal (world s) else stream_M1AR hal (world s)])"
| complete_isr: "flags - {HTIF} = {TCIF} \<Longrightarrow> isr flags s = Inr s' \<Longrightarrow>
    dma_step hal isr (s, True, wr) (s', False, wr)"
| half_isr: "flags \<subseteq> {HTIF} \<Longrightarrow> isr flags s = Inr s' \<Longrightarrow> dma_step hal isr (s, p, wr) (s', p, wr)"

definition dma_capture ::
  "('w, 'h) dma_hal_scheme \<Rightarrow> ('w, 'c, 's) dcmi_dma_scheme \<times> bool \<times> u32 list \<Rightarrow> capture" where
  "dma_capture hal x = (case x of (s, p, wr) \<Rightarrow> \<lparr> view = dma_view hal s, pending = p, written = wr \<rparr>)"

text \<open>A handler for completed blocks, as the step relation of the transfer uses it.\<close>

locale shuffle_handler =
  fixes isr :: "('w, 'h) dma_hal_scheme \<Rightarrow> ('w, 'c, 's) dma_code \<Rightarrow> dma_isr_flag set
      \<Rightarrow> ('w, 'c, 's) dcmi_dma_scheme \<Rightarrow> fault + ('w, 'c, 's) dcmi_dma_scheme"
  assumes half_transfer: "flags \<subseteq> {HTIF} \<Longrightarrow> isr hal code flags s = Inr s"
    and complete: "dma_laws hal \<Longrightarrow> code_frames hal code \<Longrightarrow> flags - {HTIF} = {TCIF} \<Longrightarrow>
      isr hal code flags s = Inr s' \<Longrightarrow> dma_view hal s' = shuffle_view (dma_view hal s)"
    and next_block: "flags - {HTIF} = {TCIF} \<Longrightarrow> blocks_done s + 1 \<noteq> num_blocks s \<Longrightarrow>
      isr hal code flags s = Inr (program_block hal (count_block hal s))"
begin

lemma step_refines:
  assumes laws: "dma_laws hal" "code_frames hal code" and "dma_step hal (isr hal code) x y"
  shows "capture_step\<^sup>*\<^sup>* (dma_capture hal x) (dma_capture hal y)"
  using assms(3)
proof cases
  case (hw_block_end s wr)
  have "capture_step (dma_capture hal x) (dma_capture hal y)"
    unfolding hw_block_end dma_capture_def prod.case dma_view_block_end [OF laws(1) hw_block_end(3,4)]
    using capture_step.block_end [of "\<lparr> view = dma_view hal s, pending = False, written = wr \<rparr>"] hw_block_end
    by (cases "dmaStreamGetCurrentTarget hal (world s) = 0") (simp_all add: active_def)
  then show ?thesis ..
next
  case (complete_isr flags s s' wr)
  have "capture_step (dma_capture hal x) (dma_capture hal y)"
    unfolding complete_isr dma_capture_def prod.case complete [OF laws complete_isr(3,4)]
    using capture_step.handler [of "\<lparr> view = dma_view hal s, pending = True, written = wr \<rparr>"] by simp
  then show ?thesis ..
next
  case (half_isr flags s s' p wr)
  then show ?thesis
    by (simp add: half_transfer)
qed

lemma steps_refine:
  assumes "dma_laws hal" "code_frames hal code" "(dma_step hal (isr hal code))\<^sup>*\<^sup>* x y"
  shows "capture_step\<^sup>*\<^sup>* (dma_capture hal x) (dma_capture hal y)"
  using assms(3)
  by (induction rule: rtranclp_induct) (auto intro: rtranclp_trans step_refines [OF assms(1,2)])

lemma reachable_capture:
  assumes "dma_laws hal" "code_frames hal code" "capture_start (dma_capture hal x)"
    and "(dma_step hal (isr hal code))\<^sup>*\<^sup>* x y"
  shows "capture_inv (dma_capture hal y)"
  using capture.reachable_inv assms(3) steps_refine [OF assms(1,2,4)] by blast

end

interpretation shuffle: shuffle_handler dcmi_dma_shuffle_isr
proof
  fix hal :: "('w, 'h) dma_hal_scheme" and code :: "('w, 'c, 's) dma_code" and flags s s'
  show "flags \<subseteq> {HTIF} \<Longrightarrow> dcmi_dma_shuffle_isr hal code flags s = Inr s"
    by (simp add: dcmi_dma_shuffle_isr_def)
  show "flags - {HTIF} = {TCIF} \<Longrightarrow> blocks_done s + 1 \<noteq> num_blocks s \<Longrightarrow>
      dcmi_dma_shuffle_isr hal code flags s = Inr (program_block hal (count_block hal s))"
    by (simp add: dcmi_dma_shuffle_isr_def)
  assume laws: "dma_laws hal" "code_frames hal code" and fl: "flags - {HTIF} = {TCIF}"
    and run: "dcmi_dma_shuffle_isr hal code flags s = Inr s'"
  show "dma_view hal s' = shuffle_view (dma_view hal s)"
  proof (cases "blocks_done s + 1 = num_blocks s")
    case True
    with run show ?thesis
      by (auto simp: dcmi_dma_shuffle_isr_def fl Let_def split: sum.splits if_splits
          intro!: shuffle_view_last [OF laws(1) True] dest: call_isr_view [OF laws(2)])
  next
    case False
    with run shuffle_view_next [OF laws(1) False] show ?thesis
      by (simp add: dcmi_dma_shuffle_isr_def fl Let_def)
  qed
qed

interpretation open_ended: shuffle_handler dcmi_dma_shuffle_isr_open_ended
proof
  fix hal :: "('w, 'h) dma_hal_scheme" and code :: "('w, 'c, 's) dma_code" and flags s s'
  show "flags \<subseteq> {HTIF} \<Longrightarrow> dcmi_dma_shuffle_isr_open_ended hal code flags s = Inr s"
    by (simp add: dcmi_dma_shuffle_isr_open_ended_def)
  show "flags - {HTIF} = {TCIF} \<Longrightarrow> blocks_done s + 1 \<noteq> num_blocks s \<Longrightarrow>
      dcmi_dma_shuffle_isr_open_ended hal code flags s = Inr (program_block hal (count_block hal s))"
    by (simp add: dcmi_dma_shuffle_isr_open_ended_def)
  assume laws: "dma_laws hal" "code_frames hal code" and fl: "flags - {HTIF} = {TCIF}"
    and run: "dcmi_dma_shuffle_isr_open_ended hal code flags s = Inr s'"
  show "dma_view hal s' = shuffle_view (dma_view hal s)"
  proof (cases "blocks_done s + 1 = num_blocks s")
    case True
    with run show ?thesis
      by (auto simp: dcmi_dma_shuffle_isr_open_ended_def fl Let_def split: sum.splits if_splits
          intro!: shuffle_view_last [OF laws(1) True] dest: call_isr_view [OF laws(2)])
  next
    case False
    with run shuffle_view_next [OF laws(1) False] show ?thesis
      by (simp add: dcmi_dma_shuffle_isr_open_ended_def fl Let_def)
  qed
qed

section \<open>Start and end of a transfer\<close>

text \<open>The configuration the initialisations leave when the image takes two blocks or more.\<close>

definition dma_ready :: "('w, 'c, 's) dcmi_dma_scheme \<Rightarrow> bool" where
  "dma_ready s \<longleftrightarrow>
     DBM \<in> stream_control_register s \<and> CT \<notin> stream_control_register s \<and> 2 \<le> unat (num_blocks s)"

lemma arm_view:
  assumes "dma_laws hal" "CT \<notin> stream_control_register s"
  shows "dma_view hal (snd (dcmi_dma_arm hal s)) =
     \<lparr> v_M0 = dcmi_dma_buffer s, v_M1 = dcmi_dma_buffer s + block_size s, v_target = 0,
       v_enabled = True, v_mode = stream_control_register s, v_done = 0, v_num = num_blocks s,
       v_bs = block_size s, v_buffer = dcmi_dma_buffer s \<rparr>"
  using assms
  by (simp add: dcmi_dma_arm_def dma_view_def on_world_def Let_def dma_stream dma_setmodeD)

lemma dcmi_dma_arm_fields [simp]:
  "blocks_done (snd (dcmi_dma_arm hal s)) = 0" "num_blocks (snd (dcmi_dma_arm hal s)) = num_blocks s"
  "block_size (snd (dcmi_dma_arm hal s)) = block_size s"
  "dcmi_dma_buffer (snd (dcmi_dma_arm hal s)) = dcmi_dma_buffer s"
  by (simp_all add: dcmi_dma_arm_def Let_def)

lemma arm_starts_capture:
  "dma_laws hal \<Longrightarrow> dma_ready s \<Longrightarrow>
     capture_start (dma_capture hal (snd (dcmi_dma_arm hal s), False, []))"
  by (simp add: dma_ready_def capture_start_def dma_capture_def arm_view del: dma_view_fields)

lemma block_at_value:
  assumes "unat (v_buffer v) + n * unat (v_bs v) < 2 ^ 32" "i \<le> n"
  shows "unat (block_at v i) = unat (v_buffer v) + i * unat (v_bs v)"
proof -
  have "unat (v_buffer v) + i * unat (v_bs v) \<le> unat (v_buffer v) + n * unat (v_bs v)"
    using assms(2) by (intro add_left_mono mult_le_mono1)
  then have lt: "unat (v_buffer v) + i * unat (v_bs v) < 2 ^ 32"
    using assms(1) by (rule le_less_trans)
  have "block_at v i = of_nat (unat (v_buffer v) + i * unat (v_bs v))"
    by (simp add: block_at_def mult.commute)
  also have "unat \<dots> = (unat (v_buffer v) + i * unat (v_bs v)) mod 2 ^ 32"
    by (simp only: unat_of_nat len_num1 len_bit0 mult_1_right) simp
  also have "\<dots> = unat (v_buffer v) + i * unat (v_bs v)"
    using lt by (rule mod_less)
  finally show ?thesis .
qed

lemma dma_mode_single_CT [simp]: "CT \<notin> dma_mode_single" "dma_mode_single - {CT} = dma_mode_single"
  by (auto simp: dma_mode_single_def)

lemma dma_stream_setup_fields [simp]:
  "num_blocks (dma_stream_setup hal h s) = num_blocks s"
  "block_size (dma_stream_setup hal h s) = block_size s"
  "dcmi_dma_buffer (dma_stream_setup hal h s) = dcmi_dma_buffer s"
  "dcmi_dma_buffer_size (dma_stream_setup hal h s) = dcmi_dma_buffer_size s"
  "stream_control_register (dma_stream_setup hal h s)
     = (if 1 < sint (num_blocks s) then dma_mode_single \<union> {DBM} else dma_mode_single)"
  by (simp_all add: dma_stream_setup_def Let_def)

lemma dcmi_dma_init_eq:
  assumes "dcmi_dma_buffer s \<noteq> 0" "dcmi_dma_image_size s \<noteq> 0"
    and "find_blocks (dcmi_dma_image_size s) 1 = Some (nb, bs)"
  shows "dcmi_dma_init hal s = (0, dma_stream_setup hal Shuffle_isr
    (on_world (chprintf hal (line ''CAM  > dcmi_dma: %d byte image, transferring as %d blocks of %d bytes'')
       [sint (dcmi_dma_image_size s), sint nb, sint bs]) (s\<lparr>num_blocks := nb, block_size := bs\<rparr>)))"
proof -
  have "\<not> (dcmi_dma_buffer s = 0 \<or> dcmi_dma_image_size s = 0)"
    using assms by simp
  then show ?thesis
    unfolding dcmi_dma_init_def assms(3) by (simp only: if_False option.case prod.case Let_def) simp
qed

lemma init_configuration:
  assumes "dcmi_dma_buffer s \<noteq> 0" "dcmi_dma_image_size s \<noteq> 0"
    and "find_blocks (dcmi_dma_image_size s) 1 = Some (nb, bs)"
  shows "fst (dcmi_dma_init hal s) = 0"
    and "num_blocks (snd (dcmi_dma_init hal s)) = nb"
    and "block_size (snd (dcmi_dma_init hal s)) = bs"
    and "dcmi_dma_buffer (snd (dcmi_dma_init hal s)) = dcmi_dma_buffer s"
    and "stream_control_register (snd (dcmi_dma_init hal s))
      = (if 1 < sint nb then dma_mode_single \<union> {DBM} else dma_mode_single)"
  unfolding dcmi_dma_init_eq [OF assms] by simp_all

lemma dcmi_dma_init_open_ended_eq:
  assumes "dcmi_dma_buffer s \<noteq> 0" "dcmi_dma_buffer_size s \<noteq> 0"
  defines "nb \<equiv> dcmi_dma_buffer_size s div 262136 - 1"
  shows "dcmi_dma_init_open_ended hal s = (0, dma_stream_setup hal Shuffle_isr_open_ended
    (on_world (chprintf hal (line ''CAM  > dcmi_dma: %d byte image, transferring as %d blocks of %d bytes'')
       [sint (dcmi_dma_buffer_size s), sint nb, 262136]) (s\<lparr>block_size := 262136, num_blocks := nb\<rparr>)))"
proof -
  have "\<not> (dcmi_dma_buffer s = 0 \<or> dcmi_dma_buffer_size s = 0)"
    using assms by simp
  then show ?thesis
    unfolding dcmi_dma_init_open_ended_def nb_def by (simp only: if_False Let_def) simp
qed

lemma init_open_ended_configuration:
  assumes "dcmi_dma_buffer s \<noteq> 0" "dcmi_dma_buffer_size s \<noteq> 0"
  shows "fst (dcmi_dma_init_open_ended hal s) = 0"
    and "num_blocks (snd (dcmi_dma_init_open_ended hal s)) = dcmi_dma_buffer_size s div 262136 - 1"
    and "block_size (snd (dcmi_dma_init_open_ended hal s)) = 262136"
    and "dcmi_dma_buffer (snd (dcmi_dma_init_open_ended hal s)) = dcmi_dma_buffer s"
    and "dcmi_dma_buffer_size (snd (dcmi_dma_init_open_ended hal s)) = dcmi_dma_buffer_size s"
    and "stream_control_register (snd (dcmi_dma_init_open_ended hal s))
      = (if 1 < sint (dcmi_dma_buffer_size s div 262136 - 1) then dma_mode_single \<union> {DBM}
         else dma_mode_single)"
  unfolding dcmi_dma_init_open_ended_eq [OF assms] by simp_all

text \<open>The configuration of a transfer does not change while it runs.\<close>

definition same_config :: "dma_view \<Rightarrow> dma_view \<Rightarrow> bool" where
  "same_config v u \<longleftrightarrow> v_num u = v_num v \<and> v_bs u = v_bs v \<and> v_buffer u = v_buffer v"

lemma capture_steps_config:
  "capture_step\<^sup>*\<^sup>* c d \<Longrightarrow> same_config (view c) (view d)"
  by (induction rule: rtranclp_induct) (auto simp: same_config_def elim!: capture_stepE)

lemma block_at_config: "same_config v u \<Longrightarrow> block_at u = block_at v"
  by (simp add: same_config_def block_at_def fun_eq_iff)

lemma capture_inv_facts:
  "capture_inv \<lparr> view = v, pending = p, written = wr \<rparr> \<longleftrightarrow>
     2 \<le> unat (v_num v) \<and> unat (v_done v) \<le> unat (v_num v) \<and>
     length wr = unat (v_done v) + (if p then 1 else 0) \<and> length wr \<le> unat (v_num v) \<and>
     (v_enabled v \<longleftrightarrow> unat (v_done v) < unat (v_num v)) \<and> DBM \<in> v_mode v \<and> v_target v \<le> 1 \<and>
     wr = map (block_at v) [0..<length wr] \<and> active v = block_at v (length wr) \<and>
     inactive v = block_at v (if p \<or> unat (v_done v) = unat (v_num v) then length wr - 1 else length wr + 1)"
  by (simp only: capture_inv_def Let_def capture.simps)

context shuffle_handler
begin

text \<open>What holds of every state of a transfer that starts with \<open>dcmi_dma_arm\<close>.\<close>

lemma armed_run:
  assumes "dma_laws hal" "code_frames hal code" "dma_ready s0"
    and "(dma_step hal (isr hal code))\<^sup>*\<^sup>* (snd (dcmi_dma_arm hal s0), False, []) (s, p, wr)"
  shows "capture_inv \<lparr> view = dma_view hal s, pending = p, written = wr \<rparr>"
    and "num_blocks s = num_blocks s0" "block_size s = block_size s0"
    and "dcmi_dma_buffer s = dcmi_dma_buffer s0"
proof -
  note start = arm_starts_capture [OF assms(1,3)]
  show "capture_inv \<lparr> view = dma_view hal s, pending = p, written = wr \<rparr>"
    using reachable_capture [OF assms(1,2) start assms(4)] by (simp add: dma_capture_def)
  have "same_config (view (dma_capture hal (snd (dcmi_dma_arm hal s0), False, [])))
      (view (dma_capture hal (s, p, wr)))"
    using steps_refine [OF assms(1,2,4)] by (rule capture_steps_config)
  then show "num_blocks s = num_blocks s0" "block_size s = block_size s0"
    "dcmi_dma_buffer s = dcmi_dma_buffer s0"
    by (simp_all add: same_config_def dma_capture_def)
qed

lemma armed_blocks:
  assumes "dma_laws hal" "code_frames hal code" "dma_ready s0"
    and "(dma_step hal (isr hal code))\<^sup>*\<^sup>* (snd (dcmi_dma_arm hal s0), False, []) (s, p, wr)"
    and fit: "unat (dcmi_dma_buffer s0) + unat (num_blocks s0) * unat (block_size s0) < 2 ^ 32"
  shows "length wr \<le> unat (num_blocks s0)"
    and "map unat wr = map (\<lambda>i. unat (dcmi_dma_buffer s0) + i * unat (block_size s0)) [0..<length wr]"
    and "blocks_done s = num_blocks s \<longleftrightarrow> \<not> stream_enabled hal (world s)"
    and "blocks_done s = num_blocks s \<Longrightarrow> length wr = unat (num_blocks s0)"
proof -
  note run = armed_run [OF assms(1-4)]
  have inv: "length wr \<le> unat (num_blocks s0)" "wr = map (block_at (dma_view hal s)) [0..<length wr]"
    "stream_enabled hal (world s) \<longleftrightarrow> unat (blocks_done s) < unat (num_blocks s0)"
    "unat (blocks_done s) \<le> length wr" "unat (blocks_done s) \<le> unat (num_blocks s0)"
    using run(1) unfolding capture_inv_facts dma_view_fields run(2) by (blast, blast, blast, linarith, blast)
  show "length wr \<le> unat (num_blocks s0)"
    by (rule inv(1))
  have "unat (block_at (dma_view hal s) i) = unat (dcmi_dma_buffer s0) + i * unat (block_size s0)"
    if "i < length wr" for i
    using block_at_value [of "dma_view hal s" "unat (num_blocks s0)" i] that inv(1) fit
    by (simp add: run)
  then show "map unat wr = map (\<lambda>i. unat (dcmi_dma_buffer s0) + i * unat (block_size s0)) [0..<length wr]"
    by (subst inv(2)) simp
  show "blocks_done s = num_blocks s \<longleftrightarrow> \<not> stream_enabled hal (world s)"
    using inv(3,5) by (auto simp: run(2) word_unat_eq_iff)
  show "blocks_done s = num_blocks s \<Longrightarrow> length wr = unat (num_blocks s0)"
    using inv(1,4) by (simp add: run(2))
qed

end

context shuffle_handler
begin

text \<open>A transfer can always go on to its last block.\<close>

lemma run_blocks:
  assumes laws: "dma_laws hal" "code_frames hal code" and ready: "dma_ready s0"
    and "k < unat (num_blocks s0)"
  shows "\<exists>s wr. (dma_step hal (isr hal code))\<^sup>*\<^sup>* (snd (dcmi_dma_arm hal s0), False, []) (s, False, wr)
    \<and> unat (blocks_done s) = k"
  using assms(4)
proof (induction k)
  case 0
  show ?case
    by (metis dcmi_dma_arm_fields(1) rtranclp.rtrancl_refl unsigned_0)
next
  case (Suc k)
  then obtain s wr where run: "(dma_step hal (isr hal code))\<^sup>*\<^sup>* (snd (dcmi_dma_arm hal s0), False, []) (s, False, wr)"
    and k: "unat (blocks_done s) = k"
    by auto
  note inv = armed_run [OF laws ready run]
  let ?s1 = "on_world (stream_block_end hal) s"
  have en: "stream_enabled hal (world s)" "DBM \<in> stream_mode hal (world s)"
    using inv(1) k Suc.prems unfolding capture_inv_facts dma_view_fields inv(2) by simp_all
  have k1: "unat (blocks_done s + 1) = Suc k"
    using word_Suc_below [of "blocks_done s" "num_blocks s0"] k Suc.prems by simp
  then have "blocks_done ?s1 + 1 \<noteq> num_blocks ?s1"
    using Suc.prems by (auto simp: inv(2))
  then have "isr hal code {TCIF} ?s1 = Inr (program_block hal (count_block hal ?s1))"
    by (intro next_block) auto
  then have "dma_step hal (isr hal code) (?s1, True, wr') (program_block hal (count_block hal ?s1), False, wr')" for wr'
    by (rule dma_step.complete_isr [rotated]) auto
  then have "(dma_step hal (isr hal code))\<^sup>*\<^sup>* (s, False, wr)
      (program_block hal (count_block hal ?s1), False,
       wr @ [if dmaStreamGetCurrentTarget hal (world s) = 0 then stream_M0AR hal (world s) else stream_M1AR hal (world s)])"
    by (meson dma_step.hw_block_end [OF en] converse_rtranclp_into_rtranclp r_into_rtranclp)
  moreover have "blocks_done (program_block hal (count_block hal ?s1)) = blocks_done s + 1"
    by (simp add: program_block_def Let_def)
  ultimately show ?case
    using rtranclp_trans [OF run] k1 by metis
qed

lemma run_last_block:
  assumes laws: "dma_laws hal" "code_frames hal code" and ready: "dma_ready s0"
  shows "\<exists>s wr. (dma_step hal (isr hal code))\<^sup>*\<^sup>* (snd (dcmi_dma_arm hal s0), False, []) (s, True, wr)
    \<and> length wr = unat (num_blocks s0) \<and> stream_enabled hal (world s)
    \<and> active (dma_view hal s) = dcmi_dma_buffer s0 + block_size s0 * num_blocks s0"
proof -
  have n: "2 \<le> unat (num_blocks s0)"
    using ready by (simp add: dma_ready_def)
  then obtain s wr where run: "(dma_step hal (isr hal code))\<^sup>*\<^sup>* (snd (dcmi_dma_arm hal s0), False, []) (s, False, wr)"
    and k: "unat (blocks_done s) = unat (num_blocks s0) - 1"
    using run_blocks [OF assms, of "unat (num_blocks s0) - 1"] by auto
  note inv = armed_run [OF laws ready run]
  have en: "stream_enabled hal (world s)" "DBM \<in> stream_mode hal (world s)" "length wr = unat (num_blocks s0) - 1"
    using inv(1) k n unfolding capture_inv_facts dma_view_fields inv(2) by simp_all
  let ?s1 = "on_world (stream_block_end hal) s"
  let ?wr = "wr @ [if dmaStreamGetCurrentTarget hal (world s) = 0 then stream_M0AR hal (world s) else stream_M1AR hal (world s)]"
  have run1: "(dma_step hal (isr hal code))\<^sup>*\<^sup>* (snd (dcmi_dma_arm hal s0), False, []) (?s1, True, ?wr)"
    by (rule rtranclp.rtrancl_into_rtrancl [OF run dma_step.hw_block_end [OF en(1,2)]])
  note inv1 = armed_run [OF laws ready run1]
  have len: "length ?wr = unat (num_blocks s0)"
    using en(3) n by simp
  then have "active (dma_view hal ?s1) = dcmi_dma_buffer s0 + block_size s0 * num_blocks s0"
    using inv1(1) unfolding capture_inv_facts len block_at_def dma_view_fields inv1(2-4) by simp
  moreover have "stream_enabled hal (world ?s1)"
    using inv1(1) len k n unfolding capture_inv_facts dma_view_fields inv1(2) by simp
  ultimately show ?thesis
    using run1 len by blast
qed

end

section \<open>Properties\<close>

text \<open>A stream made of its registers alone, for concrete runs.\<close>

record stream_regs =
  r_M0 :: u32
  r_M1 :: u32
  r_target :: nat
  r_enabled :: bool
  r_mode :: "dma_cr_flag set"

definition regs_hal :: "stream_regs dma_hal" where
  "regs_hal =
     \<lparr> chprintf = (\<lambda>f xs w. w), TIME_MS2I = (\<lambda>ms. of_nat (10 * ms)),
       chThdSleep = (\<lambda>t w. w), chThdSleepMilliseconds = (\<lambda>t w. w), chVTGetSystemTimeX = (\<lambda>w. (0, w)),
       i2cAcquireBus = (\<lambda>w. w), i2cReleaseBus = (\<lambda>w. w), i2cStart = (\<lambda>c w. w), i2cStop = (\<lambda>w. w),
       i2cMasterTransmitTimeout = (\<lambda>a tx n t w. (MSG_OK, \<lambda>_. 0, w)),
       dmaStreamAllocate = (\<lambda>n h w. w), dmaStreamSetPeripheral = (\<lambda>a w. w),
       dmaStreamSetTransactionSize = (\<lambda>n w. w),
       dmaStreamSetMode = (\<lambda>m w. w\<lparr>r_mode := m, r_target := (if CT \<in> m then 1 else 0), r_enabled := False\<rparr>),
       dmaStreamSetFIFO = (\<lambda>f w. w),
       dmaStreamSetMemory0 = (\<lambda>a w. w\<lparr>r_M0 := a\<rparr>), dmaStreamSetMemory1 = (\<lambda>a w. w\<lparr>r_M1 := a\<rparr>),
       dmaStreamGetCurrentTarget = r_target,
       dmaStreamEnable = (\<lambda>w. w\<lparr>r_enabled := True\<rparr>), dmaStreamDisable = (\<lambda>w. w\<lparr>r_enabled := False\<rparr>),
       stream_M0AR = r_M0, stream_M1AR = r_M1, stream_ifcr_write = (\<lambda>f w. w),
       stream_mode = r_mode, stream_enabled = r_enabled,
       stream_block_end = (\<lambda>w. w\<lparr>r_target := 1 - r_target w\<rparr>) \<rparr>"

lemma regs_hal_laws: "dma_laws regs_hal"
  by (simp add: dma_laws_def os_unseen_def stream_obs_def regs_hal_def)

text \<open>A camera configuration of the module before initialisation, with no callbacks.\<close>

definition sample_dma :: "u32 \<Rightarrow> (stream_regs, unit) dcmi_dma" where
  "sample_dma n =
     \<lparr> world = \<lparr> r_M0 = 0, r_M1 = 0, r_target = 0, r_enabled = False, r_mode = {} \<rparr>, i2c_error = 0,
       dcmi_dma_buffer = 0xD0000000, dcmi_dma_image_size = n, dcmi_dma_buffer_size = n,
       dcmi_dma_bytes_received = 0, dcmi_dma_done_callback = None, dcmi_dma_done_callback_data = 0,
       dcmi_dma_error_callback = None, dcmi_dma_error_callback_data = 0, blocks_done = 0,
       block_size = 0, num_blocks = 0, stream_control_register = {} \<rparr>"

definition no_code :: "(stream_regs, unit, unit) dma_code" where
  "no_code c p flags s = Inr s"

lemma no_code_frames: "code_frames hal no_code"
  by (simp add: code_frames_def no_code_def)

text \<open>C24: for a buffer and an image size that are not zero, \<open>dcmi_dma_init\<close> succeeds exactly when the
  image can be split into equal blocks of between 256 and 65535 words, and then chooses the split
  with the fewest blocks; otherwise it returns -1 and changes nothing.\<close>
theorem dcmi_dma_init_split:
  fixes hal :: "('w, 'h) dma_hal_scheme" and s :: "('w, 'c, 's) dcmi_dma_scheme"
  assumes "dcmi_dma_buffer s \<noteq> 0" "dcmi_dma_image_size s \<noteq> 0"
  defines "x \<equiv> unat (dcmi_dma_image_size s)" and "r \<equiv> dcmi_dma_init hal s"
  shows "if \<exists>m w. splits_image x m w
    then fst r = 0 \<and> (\<exists>w. unat (block_size (snd r)) = 4 * w \<and> splits_image x (unat (num_blocks (snd r))) w)
      \<and> (\<forall>m w. splits_image x m w \<longrightarrow> unat (num_blocks (snd r)) \<le> m)
    else r = (-1, s)"
proof -
  have first: "first_split x 1 (find_blocks (dcmi_dma_image_size s) 1)"
    using find_blocks_first_split [of 1 "dcmi_dma_image_size s"] by (simp add: x_def)
  have pos: "0 < m" if "splits_image x m w" for m w
    using that assms(2) by (cases "m = 0") (auto simp: splits_image_def x_def unat_eq_zero)
  show ?thesis
  proof (cases "find_blocks (dcmi_dma_image_size s) 1")
    case None
    then have "r = (-1, s)"
      using assms by (simp add: r_def dcmi_dma_init_def)
    moreover have "\<not> (\<exists>m w. splits_image x m w)"
      using first pos None by (fastforce simp: first_split_def)
    ultimately show ?thesis
      by simp
  next
    case (Some b)
    then obtain nb bs where b: "find_blocks (dcmi_dma_image_size s) 1 = Some (nb, bs)"
      by (cases b) auto
    note cfg = init_configuration [OF assms(1,2) b, of hal, folded r_def]
    have f: "\<exists>w. unat bs = 4 * w \<and> splits_image x (unat nb) w"
      "\<And>m w. 1 \<le> m \<and> m < unat nb \<Longrightarrow> \<not> splits_image x m w"
      using first unfolding b first_split_def by auto
    have "unat nb \<le> m" if "splits_image x m w" for m w
      using f(2) [of m w] pos [OF that] that by linarith
    with f(1) show ?thesis
      by (auto simp: cfg)
  qed
qed

theorem dcmi_dma_init_split_witness:
  "unat (num_blocks (snd (dcmi_dma_init regs_hal (sample_dma 6291456)))) \<le> 32
    \<and> fst (dcmi_dma_init regs_hal (sample_dma 1000)) = -1"
proof
  have "splits_image 6291456 32 49152"
    by (simp add: splits_image_def)
  then have "\<exists>m w. splits_image 6291456 m w"
    by blast
  with dcmi_dma_init_split [of "sample_dma 6291456" regs_hal] \<open>splits_image 6291456 32 49152\<close>
  show "unat (num_blocks (snd (dcmi_dma_init regs_hal (sample_dma 6291456)))) \<le> 32"
    by (simp add: sample_dma_def) blast
  have "\<not> splits_image 1000 m w" for m w
    using splits_image_large [of 1000 m w] by (cases m) (auto simp: splits_image_def)
  then have "\<not> (\<exists>m w. splits_image 1000 m w)"
    by blast
  with dcmi_dma_init_split [of "sample_dma 1000" regs_hal]
  show "fst (dcmi_dma_init regs_hal (sample_dma 1000)) = -1"
    by (simp add: sample_dma_def)
qed

text \<open>C2: whichever of the two handlers serves the stream, after \<open>dcmi_dma_arm\<close> the hardware fills the
  blocks of the buffer in order, without a gap or an overlap, never more than the number of blocks of
  the configuration; the stream is stopped exactly when all of them have been counted.\<close>
theorem transfer_fills_blocks:
  fixes hal :: "('w, 'h) dma_hal_scheme" and s s0 :: "('w, 'c, 's) dcmi_dma_scheme"
  assumes "dma_laws hal" "code_frames hal code" "dma_ready s0"
    and "isr = dcmi_dma_shuffle_isr hal code \<or> isr = dcmi_dma_shuffle_isr_open_ended hal code"
    and "(dma_step hal isr)\<^sup>*\<^sup>* (snd (dcmi_dma_arm hal s0), False, []) (s, p, wr)"
    and "unat (dcmi_dma_buffer s0) + unat (num_blocks s0) * unat (block_size s0) < 2 ^ 32"
  shows "map unat wr = map (\<lambda>i. unat (dcmi_dma_buffer s0) + i * unat (block_size s0)) [0..<length wr]
    \<and> length wr \<le> unat (num_blocks s0)
    \<and> (blocks_done s = num_blocks s \<longleftrightarrow> \<not> stream_enabled hal (world s))
    \<and> (blocks_done s = num_blocks s \<longrightarrow> length wr = unat (num_blocks s0))"
  using assms(4)
proof
  assume "isr = dcmi_dma_shuffle_isr hal code"
  then show ?thesis
    using shuffle.armed_blocks [OF assms(1-3) _ assms(6)] assms(5) by blast
next
  assume "isr = dcmi_dma_shuffle_isr_open_ended hal code"
  then show ?thesis
    using open_ended.armed_blocks [OF assms(1-3) _ assms(6)] assms(5) by blast
qed

text \<open>The open-ended configuration of the camera driver: 23 blocks of 262136 bytes.\<close>

definition sample_open_ended :: "(stream_regs, unit) dcmi_dma" where
  "sample_open_ended = snd (dcmi_dma_init_open_ended regs_hal (sample_dma 6291456))"

lemma sample_open_ended:
  "num_blocks sample_open_ended = 23" "block_size sample_open_ended = 262136"
  "dcmi_dma_buffer sample_open_ended = 0xD0000000" "dma_ready sample_open_ended"
proof -
  have "dcmi_dma_buffer (sample_dma 6291456) \<noteq> 0" "dcmi_dma_buffer_size (sample_dma 6291456) \<noteq> 0"
    by (simp_all add: sample_dma_def)
  note cfg = init_open_ended_configuration [OF this, of regs_hal, folded sample_open_ended_def]
  show f: "num_blocks sample_open_ended = 23" "block_size sample_open_ended = 262136"
    "dcmi_dma_buffer sample_open_ended = 0xD0000000"
    by (simp_all add: cfg sample_dma_def)
  show "dma_ready sample_open_ended"
    by (simp add: dma_ready_def cfg sample_dma_def)
qed

lemma sample_first_block:
  "(dma_step regs_hal isr)\<^sup>*\<^sup>* (snd (dcmi_dma_arm regs_hal sample_open_ended), False, [])
     (on_world (stream_block_end regs_hal) (snd (dcmi_dma_arm regs_hal sample_open_ended)), True, [0xD0000000])"
proof -
  let ?s = "snd (dcmi_dma_arm regs_hal sample_open_ended)"
  have v: "dma_view regs_hal ?s = \<lparr> v_M0 = 0xD0000000, v_M1 = 0xD0000000 + 262136, v_target = 0,
     v_enabled = True, v_mode = stream_control_register sample_open_ended, v_done = 0, v_num = 23,
     v_bs = 262136, v_buffer = 0xD0000000 \<rparr>"
    using sample_open_ended(4) unfolding dma_ready_def
    by (subst arm_view [OF regs_hal_laws]) (simp_all add: sample_open_ended)
  have "stream_enabled regs_hal (world ?s)" "DBM \<in> stream_mode regs_hal (world ?s)"
    "dmaStreamGetCurrentTarget regs_hal (world ?s) = 0" "stream_M0AR regs_hal (world ?s) = 0xD0000000"
    using sample_open_ended(4) unfolding dma_view_fields [of regs_hal ?s, symmetric] v
    by (simp_all add: dma_ready_def)
  with dma_step.hw_block_end [of regs_hal ?s isr "[]"] show ?thesis
    by auto
qed

theorem transfer_fills_blocks_witness:
  "map unat [0xD0000000 :: u32] = [unat (dcmi_dma_buffer sample_open_ended)]
    \<and> (blocks_done (on_world (stream_block_end regs_hal) (snd (dcmi_dma_arm regs_hal sample_open_ended))) = 23
       \<longleftrightarrow> \<not> stream_enabled regs_hal (world (on_world (stream_block_end regs_hal)
              (snd (dcmi_dma_arm regs_hal sample_open_ended)))))"
  using transfer_fills_blocks [OF regs_hal_laws no_code_frames sample_open_ended(4) disjI2 [OF refl]
      sample_first_block]
  by (simp add: sample_open_ended)

text \<open>The registers of a running transfer and the bounds of the buffer.\<close>

lemma capture_registers:
  assumes inv: "capture_inv \<lparr> view = v, pending = p, written = wr \<rparr>"
    and "a \<in> set wr \<union> {v_M0 v, v_M1 v}"
  shows "\<exists>i \<le> unat (v_num v). a = block_at v i"
proof -
  have inv: "length wr \<le> unat (v_num v)" "wr = map (block_at v) [0..<length wr]"
    "active v = block_at v (length wr)" "length wr = unat (v_done v) + (if p then 1 else 0)"
    "inactive v = block_at v (if p \<or> unat (v_done v) = unat (v_num v) then length wr - 1 else length wr + 1)"
    "unat (v_done v) \<le> unat (v_num v)"
    using inv unfolding capture_inv_facts by blast+
  have "a \<in> set wr \<or> a = active v \<or> a = inactive v"
    using assms(2) by (auto simp: active_def inactive_def)
  then consider "a \<in> set wr" | "a = active v" | "a = inactive v"
    by blast
  then show ?thesis
  proof cases
    case 1
    then have "a \<in> block_at v ` {0..<length wr}"
      using inv(2) by (metis set_map set_upt)
    then obtain i where "i < length wr" "a = block_at v i"
      by auto
    then show ?thesis
      using inv(1) by (intro exI [of _ i]) simp
  next
    case 2
    then show ?thesis
      using inv(1,3) by auto
  next
    case 3
    have "(if p \<or> unat (v_done v) = unat (v_num v) then length wr - 1 else length wr + 1) \<le> unat (v_num v)"
      using inv(1,4,6) by auto
    with 3 show ?thesis
      using inv(5) by metis
  qed
qed

lemma open_ended_blocks:
  fixes hal :: "('w, 'h) dma_hal_scheme" and s0 :: "('w, 'c, 's) dcmi_dma_scheme"
  assumes "dcmi_dma_buffer s0 \<noteq> 0" and size: "3 * 262136 \<le> unat (dcmi_dma_buffer_size s0)"
  defines "s1 \<equiv> snd (dcmi_dma_init_open_ended hal s0)"
  shows "dma_ready s1" "block_size s1 = 262136" "dcmi_dma_buffer s1 = dcmi_dma_buffer s0"
    and "(unat (num_blocks s1) + 1) * 262136 \<le> unat (dcmi_dma_buffer_size s0)"
proof -
  let ?q = "unat (dcmi_dma_buffer_size s0) div 262136"
  have "dcmi_dma_buffer_size s0 \<noteq> 0"
    using size by auto
  note cfg = init_open_ended_configuration [OF assms(1) this, of hal, folded s1_def]
  have "unat (dcmi_dma_buffer_size s0) < 562932773552128"
    using unat_u32_bound [of "dcmi_dma_buffer_size s0"] by linarith
  then have q: "3 \<le> ?q" "?q < 2147483648" "?q * 262136 \<le> unat (dcmi_dma_buffer_size s0)"
    using size
    by (simp_all add: less_eq_div_iff_mult_less_eq div_less_iff_less_mult)
  have "unat (dcmi_dma_buffer_size s0 div 262136) = ?q"
    by (simp add: unat_div_distrib)
  then have nb: "unat (num_blocks s1) = ?q - 1"
    using q(1) by (simp add: cfg unat_sub word_le_nat_alt)
  then have "sint (num_blocks s1) = int (?q - 1)"
    using q(2) by (subst sint_small) simp_all
  then have "1 < sint (num_blocks s1)"
    using q(1) by simp
  then show "dma_ready s1"
    using q(1) nb by (simp add: dma_ready_def cfg)
  show "block_size s1 = 262136" "dcmi_dma_buffer s1 = dcmi_dma_buffer s0"
    by (rule cfg)+
  show "(unat (num_blocks s1) + 1) * 262136 \<le> unat (dcmi_dma_buffer_size s0)"
    using q(1,3) nb by simp
qed

lemma open_ended_block_value:
  fixes hal :: "('w, 'h) dma_hal_scheme" and s0 :: "('w, 'c, 's) dcmi_dma_scheme"
  assumes "dcmi_dma_buffer s0 \<noteq> 0" and size: "3 * 262136 \<le> unat (dcmi_dma_buffer_size s0)"
    and fit: "unat (dcmi_dma_buffer s0) + unat (dcmi_dma_buffer_size s0) \<le> 2 ^ 32"
    and i: "i \<le> unat (num_blocks (snd (dcmi_dma_init_open_ended hal s0)))"
    and v: "v_buffer v = dcmi_dma_buffer s0" "v_bs v = 262136"
  shows "unat (block_at v i) = unat (dcmi_dma_buffer s0) + i * 262136"
    and "(i + 1) * 262136 \<le> unat (dcmi_dma_buffer_size s0)"
proof -
  show le: "(i + 1) * 262136 \<le> unat (dcmi_dma_buffer_size s0)"
    using i open_ended_blocks(4) [OF assms(1) size, of hal] by (meson le_trans mult_le_mono1 add_le_mono1)
  show "unat (block_at v i) = unat (dcmi_dma_buffer s0) + i * 262136"
    using block_at_value [of v i i] le fit by (simp add: v)
qed

text \<open>C22: in an open-ended transfer into a buffer of at least three blocks, every block the hardware has
  filled and every block it can be aimed at lies inside the buffer, the block that starts while the
  last interrupt is pending included.\<close>
theorem open_ended_in_bounds:
  fixes hal :: "('w, 'h) dma_hal_scheme" and s s0 :: "('w, 'c, 's) dcmi_dma_scheme"
  assumes "dma_laws hal" "code_frames hal code" "dcmi_dma_buffer s0 \<noteq> 0"
    and size: "3 * 262136 \<le> unat (dcmi_dma_buffer_size s0)"
    and fit: "unat (dcmi_dma_buffer s0) + unat (dcmi_dma_buffer_size s0) \<le> 2 ^ 32"
    and run: "(dma_step hal (dcmi_dma_shuffle_isr_open_ended hal code))\<^sup>*\<^sup>*
      (snd (dcmi_dma_arm hal (snd (dcmi_dma_init_open_ended hal s0))), False, []) (s, p, wr)"
    and "a \<in> set wr \<union> {stream_M0AR hal (world s), stream_M1AR hal (world s)}"
  shows "unat (dcmi_dma_buffer s0) \<le> unat a
    \<and> unat a + 262136 \<le> unat (dcmi_dma_buffer s0) + unat (dcmi_dma_buffer_size s0)"
proof -
  define s1 where "s1 = snd (dcmi_dma_init_open_ended hal s0)"
  note cfg = open_ended_blocks [OF assms(3) size, of hal, folded s1_def]
  note inv = open_ended.armed_run [OF assms(1,2) cfg(1) run [folded s1_def]]
  obtain i where i: "i \<le> unat (num_blocks s1)" "a = block_at (dma_view hal s) i"
    using capture_registers [OF inv(1)] assms(7) by (auto simp: inv(2))
  show ?thesis
    using open_ended_block_value [OF assms(3) size fit i(1) [unfolded s1_def], of "dma_view hal s"]
    by (simp add: i(2) inv cfg)
qed

lemma sample_dma_fields [simp]:
  "dcmi_dma_buffer (sample_dma n) = 0xD0000000" "dcmi_dma_buffer_size (sample_dma n) = n"
  "dcmi_dma_image_size (sample_dma n) = n"
  by (simp_all add: sample_dma_def)

theorem open_ended_in_bounds_witness:
  "unat (stream_M1AR regs_hal (world (on_world (stream_block_end regs_hal)
       (snd (dcmi_dma_arm regs_hal (snd (dcmi_dma_init_open_ended regs_hal (sample_dma 6291456)))))))) + 262136
     \<le> unat (dcmi_dma_buffer (sample_dma 6291456)) + unat (dcmi_dma_buffer_size (sample_dma 6291456))"
  by (rule open_ended_in_bounds [OF regs_hal_laws no_code_frames _ _ _
      sample_first_block [unfolded sample_open_ended_def], THEN conjunct2]) simp_all

lemma init_blocks:
  fixes hal :: "('w, 'h) dma_hal_scheme" and s0 :: "('w, 'c, 's) dcmi_dma_scheme"
  assumes "fst (dcmi_dma_init hal s0) = 0" "262144 \<le> unat (dcmi_dma_image_size s0)"
  defines "s1 \<equiv> snd (dcmi_dma_init hal s0)"
  shows "dma_ready s1" "dcmi_dma_buffer s1 = dcmi_dma_buffer s0"
    and "block_size s1 * num_blocks s1 = dcmi_dma_image_size s0"
proof -
  have nz: "dcmi_dma_buffer s0 \<noteq> 0" "dcmi_dma_image_size s0 \<noteq> 0"
    using assms(1) by (auto simp: dcmi_dma_init_def split: if_splits)
  then obtain nb bs where b: "find_blocks (dcmi_dma_image_size s0) 1 = Some (nb, bs)"
    using assms(1) by (cases "find_blocks (dcmi_dma_image_size s0) 1") (auto simp: dcmi_dma_init_def)
  note cfg = init_configuration [OF nz b, of hal, folded s1_def]
  obtain w where w: "unat bs = 4 * w" "splits_image (unat (dcmi_dma_image_size s0)) (unat nb) w"
    using find_blocks_first_split [of 1 "dcmi_dma_image_size s0"] unfolding b by (auto simp: first_split_def)
  then have wb: "4 * w * unat nb = unat (dcmi_dma_image_size s0)" "256 \<le> w" "w \<le> 65535"
    by (simp_all add: splits_image_def)
  have "2 \<le> unat nb"
  proof (rule ccontr)
    assume "\<not> 2 \<le> unat nb"
    then have "4 * w * unat nb \<le> 4 * w * 1"
      by (intro mult_le_mono2) simp
    with wb assms(2) show False
      by simp
  qed
  moreover have "unat nb < 2147483648"
  proof -
    have "1024 * unat nb \<le> unat (dcmi_dma_image_size s0)"
      using w(2) by (rule splits_image_large)
    then show ?thesis
      using unat_u32_bound [of "dcmi_dma_image_size s0"] by linarith
  qed
  then have "sint nb = int (unat nb)"
    by (intro sint_small) simp
  ultimately have "1 < sint nb"
    by linarith
  with \<open>2 \<le> unat nb\<close> show "dma_ready s1"
    by (simp add: dma_ready_def cfg)
  show "dcmi_dma_buffer s1 = dcmi_dma_buffer s0"
    by (rule cfg)
  have "of_nat (unat bs * unat nb) = (of_nat (unat (dcmi_dma_image_size s0)) :: u32)"
    using w(1) wb(1) by simp
  then show "block_size s1 * num_blocks s1 = dcmi_dma_image_size s0"
    by (simp add: cfg)
qed

text \<open>C25: the transfer of an image of 256 KiB or more that \<open>dcmi_dma_init\<close> accepts reaches a state in
  which all the blocks of the image are filled, the stream is still enabled and the hardware is
  already writing to the address behind the image: a buffer of exactly the size of the image is too
  small.\<close>
theorem transfer_runs_past_image:
  fixes hal :: "('w, 'h) dma_hal_scheme" and s0 :: "('w, 'c, 's) dcmi_dma_scheme"
  assumes "dma_laws hal" "code_frames hal code"
    and "fst (dcmi_dma_init hal s0) = 0" "262144 \<le> unat (dcmi_dma_image_size s0)"
  defines "s1 \<equiv> snd (dcmi_dma_init hal s0)"
  shows "\<exists>s wr. (dma_step hal (dcmi_dma_shuffle_isr hal code))\<^sup>*\<^sup>*
      (snd (dcmi_dma_arm hal s1), False, []) (s, True, wr)
    \<and> length wr = unat (num_blocks s1) \<and> stream_enabled hal (world s)
    \<and> (if dmaStreamGetCurrentTarget hal (world s) = 0 then stream_M0AR hal (world s)
       else stream_M1AR hal (world s)) = dcmi_dma_buffer s0 + dcmi_dma_image_size s0"
  using shuffle.run_last_block [OF assms(1,2) init_blocks(1) [OF assms(3,4)]]
  unfolding active_def dma_view_fields init_blocks(2,3) [OF assms(3,4)] s1_def .

theorem transfer_runs_past_image_witness:
  "\<exists>s wr. (dma_step regs_hal (dcmi_dma_shuffle_isr regs_hal no_code))\<^sup>*\<^sup>*
      (snd (dcmi_dma_arm regs_hal (snd (dcmi_dma_init regs_hal (sample_dma 262144)))), False, []) (s, True, wr)
    \<and> (if dmaStreamGetCurrentTarget regs_hal (world s) = 0 then stream_M0AR regs_hal (world s)
       else stream_M1AR regs_hal (world s)) = 0xD0040000"
proof -
  have "find_blocks 262144 1 = Some (2, 131072)"
    by (simp add: find_blocks.simps)
  then have "fst (dcmi_dma_init regs_hal (sample_dma 262144)) = 0"
    by (subst init_configuration) simp_all
  from transfer_runs_past_image [OF regs_hal_laws no_code_frames this]
  obtain s wr where "(dma_step regs_hal (dcmi_dma_shuffle_isr regs_hal no_code))\<^sup>*\<^sup>*
      (snd (dcmi_dma_arm regs_hal (snd (dcmi_dma_init regs_hal (sample_dma 262144)))), False, []) (s, True, wr)"
    "(if dmaStreamGetCurrentTarget regs_hal (world s) = 0 then stream_M0AR regs_hal (world s)
      else stream_M1AR regs_hal (world s)) = 0xD0040000"
    by auto
  then show ?thesis
    by blast
qed

lemma open_ended_stop_range:
  fixes hal :: "('w, 'h) dma_hal_scheme" and s s0 :: "('w, 'c, 's) dcmi_dma_scheme"
  assumes "dma_laws hal" "dcmi_dma_buffer s0 \<noteq> 0"
    and size: "3 * 262136 \<le> unat (dcmi_dma_buffer_size s0)"
    and fit: "unat (dcmi_dma_buffer s0) + unat (dcmi_dma_buffer_size s0) \<le> 2 ^ 32"
    and inv: "capture_inv \<lparr> view = dma_view hal s, pending = p, written = wr \<rparr>"
    and cfg: "num_blocks s = num_blocks (snd (dcmi_dma_init_open_ended hal s0))" "block_size s = 262136"
      "dcmi_dma_buffer s = dcmi_dma_buffer s0"
  defines "bytes \<equiv> unat (dcmi_dma_bytes_received (dcmi_dma_open_ended_stop hal s))"
  shows "length wr * 262136 \<le> bytes" "bytes \<le> unat (dcmi_dma_buffer_size s0)"
proof -
  let ?v = "dma_view hal s"
  define top where "top = max (stream_M0AR hal (world s)) (stream_M1AR hal (world s))"
  have bytes: "bytes = unat (top - dcmi_dma_buffer s0)"
    using assms(1) by (auto simp: dcmi_dma_open_ended_stop_def Let_def dmaStreamGetMemory0_def
        dmaStreamGetMemory1_def dma_stream cfg top_def max_def bytes_def)
  have range: "unat (block_at ?v i) = unat (dcmi_dma_buffer s0) + i * 262136"
    "(i + 1) * 262136 \<le> unat (dcmi_dma_buffer_size s0)" if "i \<le> unat (num_blocks s)" for i
    using open_ended_block_value [OF assms(2) size fit that [unfolded cfg(1)], of ?v] by (simp_all add: cfg)
  have "top \<in> set wr \<union> {v_M0 ?v, v_M1 ?v}"
    by (simp add: top_def max_def)
  then obtain i where i: "i \<le> unat (num_blocks s)" "top = block_at ?v i"
    using capture_registers [OF inv, of top] by auto
  have h: "length wr \<le> unat (num_blocks s)" "active ?v = block_at ?v (length wr)"
    using inv unfolding capture_inv_facts dma_view_fields by blast+
  have "unat (active ?v) \<le> unat top"
    by (auto simp: active_def top_def max_def word_le_nat_alt)
  then have le: "length wr * 262136 \<le> i * 262136"
    unfolding h(2) i(2) range(1) [OF h(1)] range(1) [OF i(1)] by simp
  have "unat (top - dcmi_dma_buffer s0) = i * 262136"
    using range(1) [OF i(1)] by (simp add: i(2) unat_sub word_le_nat_alt)
  with le range(2) [OF i(1)] show "length wr * 262136 \<le> bytes" "bytes \<le> unat (dcmi_dma_buffer_size s0)"
    unfolding bytes by simp_all
qed

text \<open>C23: \<open>dcmi_dma_open_ended_stop\<close> reports at least the bytes of the blocks the hardware has filled and
  never more than the size of the buffer, at whatever point of an open-ended transfer it is
  called.\<close>
theorem open_ended_stop_bounds:
  fixes hal :: "('w, 'h) dma_hal_scheme" and s s0 :: "('w, 'c, 's) dcmi_dma_scheme"
  assumes "dma_laws hal" "code_frames hal code" "dcmi_dma_buffer s0 \<noteq> 0"
    and size: "3 * 262136 \<le> unat (dcmi_dma_buffer_size s0)"
    and fit: "unat (dcmi_dma_buffer s0) + unat (dcmi_dma_buffer_size s0) \<le> 2 ^ 32"
    and run: "(dma_step hal (dcmi_dma_shuffle_isr_open_ended hal code))\<^sup>*\<^sup>*
      (snd (dcmi_dma_arm hal (snd (dcmi_dma_init_open_ended hal s0))), False, []) (s, p, wr)"
  shows "length wr * 262136 \<le> unat (dcmi_dma_bytes_received (dcmi_dma_open_ended_stop hal s))
    \<and> unat (dcmi_dma_bytes_received (dcmi_dma_open_ended_stop hal s)) \<le> unat (dcmi_dma_buffer_size s0)"
proof -
  note cfg = open_ended_blocks [OF assms(3) size, of hal]
  note inv = open_ended.armed_run [OF assms(1,2) cfg(1) run]
  show ?thesis
    using open_ended_stop_range [OF assms(1,3) size fit inv(1)] by (simp add: inv cfg)
qed

theorem open_ended_stop_bounds_witness:
  "1 * 262136 \<le> unat (dcmi_dma_bytes_received (dcmi_dma_open_ended_stop regs_hal
     (on_world (stream_block_end regs_hal) (snd (dcmi_dma_arm regs_hal sample_open_ended)))))"
  using open_ended_stop_bounds [OF regs_hal_laws no_code_frames _ _ _
      sample_first_block [unfolded sample_open_ended_def]] unfolding sample_open_ended_def by simp

text \<open>When the buffer of an open-ended transfer is used up, the handler calls the error callback if
  there is a done callback; with a done callback and no error callback it calls through a null
  pointer.\<close>
theorem open_ended_null_call:
  assumes "flags - {HTIF} = {TCIF}" "blocks_done s + 1 = num_blocks s"
  shows "dcmi_dma_shuffle_isr_open_ended hal code flags s =
    (case (dcmi_dma_done_callback s, dcmi_dma_error_callback s) of
       (None, _) \<Rightarrow> Inr (on_world (dmaStreamDisable hal) (count_block hal s))
     | (Some _, None) \<Rightarrow> Inl Null_call
     | (Some _, Some c) \<Rightarrow>
         (case code c (dcmi_dma_error_callback_data s) {TCIF} (count_block hal s) of
            Inl f \<Rightarrow> Inl f | Inr t \<Rightarrow> Inr (on_world (dmaStreamDisable hal) t)))"
  unfolding dcmi_dma_shuffle_isr_open_ended_def assms(1) Let_def count_block_fields
  by (cases "dcmi_dma_done_callback s"; cases "dcmi_dma_error_callback s")
    (simp_all add: assms(2) call_isr_def)

theorem open_ended_null_call_witness:
  "dcmi_dma_shuffle_isr_open_ended regs_hal no_code {TCIF, HTIF}
     ((sample_dma 6291456)\<lparr>dcmi_dma_done_callback := Some (), blocks_done := 22, num_blocks := 23\<rparr>) = Inl Null_call"
  by (subst open_ended_null_call) (auto simp: sample_dma_def)

end
