(* ===== verification/Ov5640_Regs.thy ===== *)
theory Ov5640_Regs
  imports Wafer_Prelude
begin

text \<open>
  The register tables of the camera driver, \<open>src/ov5640.c\<close>: the two initialisation sequences and one
  table for every output size. A table longer than a page of the source is given in parts. The RGB
  initialisation depends on the mode selected in \<open>src/ov5640.h\<close>, which is an argument here; the
  firmware is built with \<open>mode_2048x1536\<close>. This theory is the data alone;
  \<open>Reg_Table\<close> is about it.
\<close>

datatype regval_list = RV (rv_reg: u16) (rv_val: u8)

section \<open>Initialisation for JPEG\<close>

definition OV5640YUV_Sensor_Dvp_Init_1 :: "regval_list list" where
  "OV5640YUV_Sensor_Dvp_Init_1 =
    [RV 0x3008 0x82, RV 0x3008 0x42, RV 0x3034 0x1a, RV 0x3035 0x31, RV 0x3036 0xb4,
     RV 0x3037 0x13, RV 0x3039 0x00, RV 0x3103 0x02, RV 0x3108 0x01, RV 0x460c 0x22,
     RV 0x3824 0x04, RV 0x3002 0x00, RV 0x3006 0xff, RV 0x4740 0x24, RV 0x3017 0x7f,
     RV 0x3018 0xff, RV 0x302c 0x02, RV 0x4713 0x03, RV 0x4404 0x34, RV 0x3821 0x20,
     RV 0x4300 0xf8, RV 0x501f 0x00, RV 0x3a02 0x07, RV 0x3a03 0xb0, RV 0x3a0e 0x06,
     RV 0x3a0d 0x08, RV 0x3a14 0x07, RV 0x3a15 0xb0, RV 0x4001 0x02, RV 0x4004 0x06,
     RV 0x3406 0x01, RV 0x3400 0x06, RV 0x3401 0x80, RV 0x3402 0x04, RV 0x3403 0x00,
     RV 0x3404 0x06, RV 0x3405 0x00, RV 0x5180 0xff, RV 0x5181 0xf2, RV 0x5182 0x00,
     RV 0x5183 0x14, RV 0x5184 0x25, RV 0x5185 0x24, RV 0x5186 0x16, RV 0x5187 0x16,
     RV 0x5188 0x16, RV 0x5189 0x62, RV 0x518a 0x62, RV 0x518b 0xf0, RV 0x518c 0xb2,
     RV 0x518d 0x50, RV 0x518e 0x30, RV 0x518f 0x30, RV 0x5190 0x50, RV 0x5191 0xf8,
     RV 0x5192 0x04, RV 0x5193 0x70, RV 0x5194 0xf0, RV 0x5195 0xf0, RV 0x5196 0x03,
     RV 0x5197 0x01, RV 0x5198 0x04, RV 0x5199 0x12, RV 0x519a 0x04, RV 0x519b 0x00,
     RV 0x519c 0x06, RV 0x519d 0x82, RV 0x519e 0x38, RV 0x5381 0x1e, RV 0x5382 0x5b,
     RV 0x5383 0x14, RV 0x5384 0x06, RV 0x5385 0x82, RV 0x5386 0x88, RV 0x5387 0x7c,
     RV 0x5388 0x60, RV 0x5389 0x1c, RV 0x538a 0x01, RV 0x538b 0x98, RV 0x5300 0x08,
     RV 0x5301 0x30, RV 0x5302 0x3f, RV 0x5303 0x10, RV 0x5304 0x08, RV 0x5305 0x30,
     RV 0x5306 0x18, RV 0x5307 0x28, RV 0x5309 0x08, RV 0x530a 0x30, RV 0x530b 0x04,
     RV 0x530c 0x06, RV 0x5480 0x01, RV 0x5481 0x06, RV 0x5482 0x12, RV 0x5483 0x24,
     RV 0x5484 0x4a, RV 0x5485 0x58, RV 0x5486 0x65, RV 0x5487 0x72]"

definition OV5640YUV_Sensor_Dvp_Init_2 :: "regval_list list" where
  "OV5640YUV_Sensor_Dvp_Init_2 =
    [RV 0x5488 0x7d, RV 0x5489 0x88, RV 0x548a 0x92, RV 0x548b 0xa3, RV 0x548c 0xb2,
     RV 0x548d 0xc8, RV 0x548e 0xdd, RV 0x548f 0xf0, RV 0x5490 0x15, RV 0x5000 0xa7,
     RV 0x5800 0x20, RV 0x5801 0x19, RV 0x5802 0x17, RV 0x5803 0x16, RV 0x5804 0x18,
     RV 0x5805 0x21, RV 0x5806 0x0f, RV 0x5807 0x0a, RV 0x5808 0x07, RV 0x5809 0x07,
     RV 0x580a 0x0a, RV 0x580b 0x0c, RV 0x580c 0x0a, RV 0x580d 0x03, RV 0x580e 0x01,
     RV 0x580f 0x01, RV 0x5810 0x03, RV 0x5811 0x09, RV 0x5812 0x0a, RV 0x5813 0x03,
     RV 0x5814 0x01, RV 0x5815 0x01, RV 0x5816 0x03, RV 0x5817 0x08, RV 0x5818 0x10,
     RV 0x5819 0x0a, RV 0x581a 0x06, RV 0x581b 0x06, RV 0x581c 0x08, RV 0x581d 0x0e,
     RV 0x581e 0x22, RV 0x581f 0x18, RV 0x5820 0x13, RV 0x5821 0x12, RV 0x5822 0x16,
     RV 0x5823 0x1e, RV 0x5824 0x64, RV 0x5825 0x2a, RV 0x5826 0x2c, RV 0x5827 0x2a,
     RV 0x5828 0x46, RV 0x5829 0x2a, RV 0x582a 0x26, RV 0x582b 0x24, RV 0x582c 0x26,
     RV 0x582d 0x2a, RV 0x582e 0x28, RV 0x582f 0x42, RV 0x5830 0x40, RV 0x5831 0x42,
     RV 0x5832 0x08, RV 0x5833 0x28, RV 0x5834 0x26, RV 0x5835 0x24, RV 0x5836 0x26,
     RV 0x5837 0x2a, RV 0x5838 0x44, RV 0x5839 0x4a, RV 0x583a 0x2c, RV 0x583b 0x2a,
     RV 0x583c 0x46, RV 0x583d 0xce, RV 0x5688 0x22, RV 0x5689 0x22, RV 0x568a 0x42,
     RV 0x568b 0x24, RV 0x568c 0x42, RV 0x568d 0x24, RV 0x568e 0x22, RV 0x568f 0x22,
     RV 0x3a0f 0x30, RV 0x3a10 0x28, RV 0x3a1b 0x30, RV 0x3a1e 0x28, RV 0x3a11 0x61]"

definition OV5640YUV_Sensor_Dvp_Init_3 :: "regval_list list" where
  "OV5640YUV_Sensor_Dvp_Init_3 =
    [RV 0x3a1f 0x10, RV 0x3814 0x11, RV 0x3815 0x11, RV 0x5001 0x83, RV 0x3820 0x46,
     RV 0x3821 0x20, RV 0x3800 0x00, RV 0x3801 0x00, RV 0x3802 0x00, RV 0x3803 0x00,
     RV 0x3804 0x0a, RV 0x3805 0x3f, RV 0x3806 0x07, RV 0x3807 0x9f, RV 0x3808 0x0a,
     RV 0x3809 0x20, RV 0x380a 0x07, RV 0x380b 0x98, RV 0x380c 0x0b, RV 0x380d 0x1c,
     RV 0x380e 0x07, RV 0x380f 0xb0, RV 0x5680 0x00, RV 0x5681 0x00, RV 0x5682 0x0a,
     RV 0x5683 0x20, RV 0x5684 0x00, RV 0x5685 0x00, RV 0x5686 0x07, RV 0x5687 0x98,
     RV 0x4005 0x1a, RV 0x3406 0x00, RV 0x3503 0x00, RV 0x3008 0x02, RV 0xffff 0xff]"

definition OV5640YUV_Sensor_Dvp_Init :: "regval_list list" where
  "OV5640YUV_Sensor_Dvp_Init =
     OV5640YUV_Sensor_Dvp_Init_1 @ OV5640YUV_Sensor_Dvp_Init_2 @ OV5640YUV_Sensor_Dvp_Init_3"

section \<open>Output sizes\<close>

definition OV5640_JPEG_QSXGA :: "regval_list list" where
  "OV5640_JPEG_QSXGA =
    [RV 0x3814 0x11, RV 0x3815 0x11, RV 0x5001 0x83, RV 0x3800 0x00, RV 0x3801 0x00,
     RV 0x3802 0x00, RV 0x3803 0x00, RV 0x3804 0x0a, RV 0x3805 0x3f, RV 0x3806 0x07,
     RV 0x3807 0x9f, RV 0x3808 0x0a, RV 0x3809 0x20, RV 0x380a 0x07, RV 0x380b 0x98,
     RV 0x380c 0x0b, RV 0x380d 0x1c, RV 0x380e 0x07, RV 0x380f 0xb0, RV 0x5680 0x00,
     RV 0x5681 0x00, RV 0x5682 0x0a, RV 0x5683 0x20, RV 0x5684 0x00, RV 0x5685 0x00,
     RV 0x5686 0x07, RV 0x5687 0x98]"

definition OV5640_5MP_JPEG :: "regval_list list" where
  "OV5640_5MP_JPEG =
    [RV 0x3814 0x11, RV 0x3815 0x11, RV 0x5001 0x83, RV 0x3800 0x00, RV 0x3801 0x00,
     RV 0x3802 0x00, RV 0x3803 0x00, RV 0x3804 0x0a, RV 0x3805 0x3f, RV 0x3806 0x07,
     RV 0x3807 0x9f, RV 0x3808 0x0a, RV 0x3809 0x20, RV 0x380a 0x07, RV 0x380b 0x98,
     RV 0x380c 0x0b, RV 0x380d 0x1c, RV 0x380e 0x07, RV 0x380f 0xb0, RV 0x5680 0x00,
     RV 0x5681 0x00, RV 0x5682 0x0a, RV 0x5683 0x20, RV 0x5684 0x00, RV 0x5685 0x00,
     RV 0x5686 0x07, RV 0x5687 0x98, RV 0xffff 0xff]"

definition OV5640_QSXGA2QVGA :: "regval_list list" where
  "OV5640_QSXGA2QVGA =
    [RV 0x3800 0x00, RV 0x3801 0x00, RV 0x3802 0x00, RV 0x3803 0x00, RV 0x3804 0x0a,
     RV 0x3805 0x3f, RV 0x3806 0x07, RV 0x3807 0x9f, RV 0x3808 0x01, RV 0x3809 0x40,
     RV 0x380a 0x00, RV 0x380b 0xf0, RV 0x380c 0x0c, RV 0x380d 0x80, RV 0x380e 0x07,
     RV 0x380f 0xd0, RV 0x5001 0xa3, RV 0x5680 0x00, RV 0x5681 0x00, RV 0x5682 0x0a,
     RV 0x5683 0x20, RV 0x5684 0x00, RV 0x5685 0x00, RV 0x5686 0x07, RV 0x5687 0x98,
     RV 0xffff 0xff]"

definition OV5640_QSXGA2QQVGA :: "regval_list list" where
  "OV5640_QSXGA2QQVGA =
    [RV 0x3800 0x00, RV 0x3801 0x00, RV 0x3802 0x00, RV 0x3803 0x00, RV 0x3804 0x0a,
     RV 0x3805 0x3f, RV 0x3806 0x07, RV 0x3807 0x9f, RV 0x3808 0x00, RV 0x3809 0xa0,
     RV 0x380a 0x00, RV 0x380b 0x70, RV 0x380c 0x0c, RV 0x380d 0x80, RV 0x380e 0x07,
     RV 0x380f 0xd0, RV 0x5001 0xa3, RV 0x5680 0x00, RV 0x5681 0x00, RV 0x5682 0x0a,
     RV 0x5683 0x20, RV 0x5684 0x00, RV 0x5685 0x00, RV 0x5686 0x07, RV 0x5687 0x98,
     RV 0xffff 0xff]"

definition OV5640_QSXGA2VGA :: "regval_list list" where
  "OV5640_QSXGA2VGA =
    [RV 0x3800 0x00, RV 0x3801 0x00, RV 0x3802 0x00, RV 0x3803 0x00, RV 0x3804 0x0a,
     RV 0x3805 0x3f, RV 0x3806 0x07, RV 0x3807 0x9f, RV 0x3808 0x02, RV 0x3809 0x80,
     RV 0x380a 0x01, RV 0x380b 0xe0, RV 0x380c 0x0c, RV 0x380d 0x80, RV 0x380e 0x07,
     RV 0x380f 0xd0, RV 0x5001 0xa3, RV 0x5680 0x00, RV 0x5681 0x00, RV 0x5682 0x0a,
     RV 0x5683 0x20, RV 0x5684 0x00, RV 0x5685 0x00, RV 0x5686 0x07, RV 0x5687 0x98,
     RV 0xffff 0xff]"

definition OV5640_QSXGA2WVGA :: "regval_list list" where
  "OV5640_QSXGA2WVGA =
    [RV 0x3800 0x00, RV 0x3801 0x00, RV 0x3802 0x00, RV 0x3803 0x00, RV 0x3804 0x0a,
     RV 0x3805 0x3f, RV 0x3806 0x07, RV 0x3807 0x9f, RV 0x3808 0x03, RV 0x3809 0x20,
     RV 0x380a 0x01, RV 0x380b 0xe0, RV 0x380c 0x0c, RV 0x380d 0x80, RV 0x380e 0x07,
     RV 0x380f 0xd0, RV 0x3810 0x00, RV 0x3811 0x10, RV 0x3812 0x01, RV 0x3813 0x48,
     RV 0x5001 0xa3, RV 0x5680 0x00, RV 0x5681 0x00, RV 0x5682 0x0a, RV 0x5683 0x20,
     RV 0x5684 0x00, RV 0x5685 0x00, RV 0x5686 0x07, RV 0x5687 0x98, RV 0xffff 0xff]"

definition OV5640_QSXGA2CIF :: "regval_list list" where
  "OV5640_QSXGA2CIF =
    [RV 0x3800 0x00, RV 0x3801 0x00, RV 0x3802 0x00, RV 0x3803 0x00, RV 0x3804 0x0a,
     RV 0x3805 0x3f, RV 0x3806 0x07, RV 0x3807 0x9f, RV 0x3808 0x01, RV 0x3809 0x60,
     RV 0x380a 0x01, RV 0x380b 0x20, RV 0x380c 0x0c, RV 0x380d 0x80, RV 0x380e 0x07,
     RV 0x380f 0xd0, RV 0x3810 0x00, RV 0x3811 0x10, RV 0x3812 0x00, RV 0x3813 0x70,
     RV 0x5001 0xa3, RV 0x5680 0x00, RV 0x5681 0x00, RV 0x5682 0x0a, RV 0x5683 0x20,
     RV 0x5684 0x00, RV 0x5685 0x00, RV 0x5686 0x07, RV 0x5687 0x98, RV 0xffff 0xff]"

definition OV5640_QSXGA2SXGA :: "regval_list list" where
  "OV5640_QSXGA2SXGA =
    [RV 0x3800 0x00, RV 0x3801 0x00, RV 0x3802 0x00, RV 0x3803 0x00, RV 0x3804 0x0a,
     RV 0x3805 0x3f, RV 0x3806 0x07, RV 0x3807 0x9f, RV 0x3808 0x05, RV 0x3809 0x00,
     RV 0x380a 0x03, RV 0x380b 0xc0, RV 0x380c 0x0c, RV 0x380d 0x80, RV 0x380e 0x07,
     RV 0x380f 0xd0, RV 0x5001 0xa3, RV 0x5680 0x00, RV 0x5681 0x00, RV 0x5682 0x0a,
     RV 0x5683 0x20, RV 0x5684 0x00, RV 0x5685 0x00, RV 0x5686 0x07, RV 0x5687 0x98,
     RV 0xffff 0xff]"

definition OV5640_QSXGA2QXGA :: "regval_list list" where
  "OV5640_QSXGA2QXGA =
    [RV 0x3800 0x00, RV 0x3801 0x00, RV 0x3802 0x00, RV 0x3803 0x00, RV 0x3804 0x0a,
     RV 0x3805 0x3f, RV 0x3806 0x07, RV 0x3807 0x9f, RV 0x3808 0x08, RV 0x3809 0x00,
     RV 0x380a 0x06, RV 0x380b 0x00, RV 0x380c 0x0c, RV 0x380d 0x80, RV 0x380e 0x07,
     RV 0x380f 0xd0, RV 0x5001 0xa3, RV 0x5680 0x00, RV 0x5681 0x00, RV 0x5682 0x0a,
     RV 0x5683 0x20, RV 0x5684 0x00, RV 0x5685 0x00, RV 0x5686 0x07, RV 0x5687 0x98,
     RV 0xffff 0xff]"

definition OV5640_QSXGA2UXGA :: "regval_list list" where
  "OV5640_QSXGA2UXGA =
    [RV 0x3800 0x00, RV 0x3801 0x00, RV 0x3802 0x00, RV 0x3803 0x00, RV 0x3804 0x0a,
     RV 0x3805 0x3f, RV 0x3806 0x07, RV 0x3807 0x9f, RV 0x3808 0x06, RV 0x3809 0x40,
     RV 0x380a 0x04, RV 0x380b 0xb0, RV 0x380c 0x0c, RV 0x380d 0x80, RV 0x380e 0x07,
     RV 0x380f 0xd0, RV 0x5001 0xa3, RV 0x5680 0x00, RV 0x5681 0x00, RV 0x5682 0x0a,
     RV 0x5683 0x20, RV 0x5684 0x00, RV 0x5685 0x00, RV 0x5686 0x07, RV 0x5687 0x98,
     RV 0xffff 0xff]"

definition OV5640_QSXGA2XGA :: "regval_list list" where
  "OV5640_QSXGA2XGA =
    [RV 0x3800 0x00, RV 0x3801 0x00, RV 0x3802 0x00, RV 0x3803 0x00, RV 0x3804 0x0a,
     RV 0x3805 0x3f, RV 0x3806 0x07, RV 0x3807 0x9f, RV 0x3808 0x04, RV 0x3809 0x00,
     RV 0x380a 0x03, RV 0x380b 0x00, RV 0x380c 0x0c, RV 0x380d 0x80, RV 0x380e 0x07,
     RV 0x380f 0xd0, RV 0x5001 0xa3, RV 0x5680 0x00, RV 0x5681 0x00, RV 0x5682 0x0a,
     RV 0x5683 0x20, RV 0x5684 0x00, RV 0x5685 0x00, RV 0x5686 0x07, RV 0x5687 0x98,
     RV 0xffff 0xff]"

section \<open>Initialisation for RGB\<close>

datatype ov5640_mode = Mode_320x240 | Mode_640x480 | Mode_1280x960 | Mode_1280x960_2x2 | Mode_2048x1536

fun OV5640_MAXX :: "ov5640_mode \<Rightarrow> nat" where
  "OV5640_MAXX Mode_320x240 = 320"
| "OV5640_MAXX Mode_640x480 = 640"
| "OV5640_MAXX Mode_1280x960 = 1280"
| "OV5640_MAXX Mode_1280x960_2x2 = 1280"
| "OV5640_MAXX Mode_2048x1536 = 2048"

fun OV5640_MAXY :: "ov5640_mode \<Rightarrow> nat" where
  "OV5640_MAXY Mode_320x240 = 240"
| "OV5640_MAXY Mode_640x480 = 480"
| "OV5640_MAXY Mode_1280x960 = 960"
| "OV5640_MAXY Mode_1280x960_2x2 = 960"
| "OV5640_MAXY Mode_2048x1536 = 1536"

definition OV5640_NUM_PIXELS :: "ov5640_mode \<Rightarrow> nat" where
  "OV5640_NUM_PIXELS m = OV5640_MAXX m * OV5640_MAXY m"

definition Dvp_Init_RGB_start :: "regval_list list" where
  "Dvp_Init_RGB_start =
    [RV 0x3103 0x11, RV 0x3008 0x82, RV 0x3008 0x42, RV 0x3103 0x02, RV 0x3031 0x08,
     RV 0x3017 0xff, RV 0x3018 0xff, RV 0x4740 0x26, RV 0x460c 0x22, RV 0x3824 0x02,
     RV 0x3630 0x2e, RV 0x3632 0xe2, RV 0x3633 0x23, RV 0x3621 0xe0, RV 0x3704 0xa0,
     RV 0x3703 0x5a, RV 0x3715 0x78, RV 0x3717 0x01, RV 0x370b 0x60, RV 0x3705 0x1a,
     RV 0x3905 0x02, RV 0x3906 0x10, RV 0x3901 0x0a, RV 0x3731 0x12, RV 0x3600 0x08,
     RV 0x3601 0x33, RV 0x3618 0x00, RV 0x3612 0x49, RV 0x371b 0x20, RV 0x471c 0x50,
     RV 0x4713 0x03, RV 0x3635 0x1c, RV 0x3634 0x40, RV 0x3622 0x01]"

fun Dvp_Init_RGB_size :: "ov5640_mode \<Rightarrow> regval_list list" where
  "Dvp_Init_RGB_size Mode_320x240 =
    [RV 0x380c 0x07, RV 0x380d 0x68, RV 0x380e 0x01, RV 0x380f 0xf0, RV 0x3814 0x71,
     RV 0x3815 0x35, RV 0x3821 0x01, RV 0x3808 0x01, RV 0x3809 0x40, RV 0x380a 0x00,
     RV 0x380b 0xf0, RV 0x3811 0x08, RV 0x3813 0x02]"
| "Dvp_Init_RGB_size Mode_640x480 =
    [RV 0x380c 0x07, RV 0x380d 0x68, RV 0x380e 0x01, RV 0x380f 0xf0, RV 0x3814 0x71,
     RV 0x3815 0x35, RV 0x3821 0x01, RV 0x3808 0x02, RV 0x3809 0x80, RV 0x380a 0x01,
     RV 0x380b 0xe0, RV 0x3811 0x08, RV 0x3813 0x02]"
| "Dvp_Init_RGB_size Mode_1280x960 =
    [RV 0x3800 0x02, RV 0x3801 0x00, RV 0x3802 0x02, RV 0x3803 0x00, RV 0x3804 0x0a,
     RV 0x3805 0x2f, RV 0x3806 0x07, RV 0x3807 0x9b, RV 0x3808 0x05, RV 0x3809 0x00,
     RV 0x380a 0x03, RV 0x380b 0xc0, RV 0x380c 0x0b, RV 0x380d 0x1c, RV 0x380e 0x07,
     RV 0x380f 0xb0, RV 0x3810 0x00, RV 0x3811 0x00, RV 0x3812 0x00, RV 0x3813 0x00,
     RV 0x3814 0x11, RV 0x3815 0x11, RV 0x3821 0x00]"
| "Dvp_Init_RGB_size Mode_1280x960_2x2 =
    [RV 0x3800 0x00, RV 0x3801 0x10, RV 0x3802 0x00, RV 0x3803 0x04, RV 0x3804 0x0a,
     RV 0x3805 0x2f, RV 0x3806 0x07, RV 0x3807 0x9b, RV 0x3808 0x05, RV 0x3809 0x00,
     RV 0x380a 0x03, RV 0x380b 0xc0, RV 0x380c 0x0b, RV 0x380d 0x1c, RV 0x380e 0x07,
     RV 0x380f 0xb0, RV 0x3810 0x00, RV 0x3811 0x08, RV 0x3812 0x00, RV 0x3813 0x06,
     RV 0x3814 0x31, RV 0x3815 0x31, RV 0x3821 0x01]"
| "Dvp_Init_RGB_size Mode_2048x1536 =
    [RV 0x3824 0x01, RV 0x3800 0x00, RV 0x3801 0x10, RV 0x3802 0x00, RV 0x3803 0x04,
     RV 0x3804 0x0a, RV 0x3805 0x2f, RV 0x3806 0x07, RV 0x3807 0x9b, RV 0x3808 0x08,
     RV 0x3809 0x00, RV 0x380a 0x06, RV 0x380b 0x00, RV 0x380c 0x0b, RV 0x380d 0x1c,
     RV 0x380e 0x07, RV 0x380f 0xb0, RV 0x3810 0x00, RV 0x3811 0x08, RV 0x3812 0x00,
     RV 0x3813 0x06, RV 0x3814 0x11, RV 0x3815 0x11, RV 0x3821 0x00]"

definition Dvp_Init_RGB_rest_1 :: "regval_list list" where
  "Dvp_Init_RGB_rest_1 =
    [RV 0x0000 0x00, RV 0x0000 0x00, RV 0x3708 0x62, RV 0x3709 0x52, RV 0x370c 0x03,
     RV 0x4001 0x02, RV 0x4004 0x02, RV 0x3000 0x30, RV 0x3002 0x1c, RV 0x3004 0xcf,
     RV 0x4300 0x6f, RV 0x501f 0x01, RV 0x5000 0xa7, RV 0x5001 0x83, RV 0x3820 0x46,
     RV 0x3400 0x06, RV 0x3401 0x80, RV 0x3402 0x04, RV 0x3403 0x00, RV 0x3404 0x06,
     RV 0x3405 0x00, RV 0x5180 0xff, RV 0x5181 0xf2, RV 0x5182 0x00, RV 0x5183 0x14,
     RV 0x5184 0x25, RV 0x5185 0x24, RV 0x5186 0x16, RV 0x5187 0x16, RV 0x5188 0x16,
     RV 0x5189 0x62, RV 0x518a 0x62, RV 0x518b 0xf0, RV 0x518c 0xb2, RV 0x518d 0x50,
     RV 0x518e 0x30, RV 0x518f 0x30, RV 0x5190 0x50, RV 0x5191 0xf8, RV 0x5192 0x04,
     RV 0x5193 0x70, RV 0x5194 0xf0, RV 0x5195 0xf0, RV 0x5196 0x03, RV 0x5197 0x01,
     RV 0x5198 0x04, RV 0x5199 0x12, RV 0x519a 0x04, RV 0x519b 0x00, RV 0x519c 0x06,
     RV 0x519d 0x82, RV 0x519e 0x38, RV 0x5381 0x1e, RV 0x5382 0x5b, RV 0x5383 0x14,
     RV 0x5384 0x06, RV 0x5385 0x82, RV 0x5386 0x88, RV 0x5387 0x7c, RV 0x5388 0x60,
     RV 0x5389 0x1c, RV 0x538a 0x01, RV 0x538b 0x98, RV 0x5300 0x08, RV 0x5301 0x30,
     RV 0x5302 0x3f, RV 0x5303 0x10, RV 0x5304 0x08, RV 0x5305 0x30, RV 0x5306 0x18,
     RV 0x5307 0x28, RV 0x5309 0x08, RV 0x530a 0x30, RV 0x530b 0x04, RV 0x530c 0x06,
     RV 0x5480 0x01, RV 0x5481 0x06, RV 0x5482 0x12, RV 0x5483 0x24, RV 0x5484 0x4a,
     RV 0x5485 0x58, RV 0x5486 0x65, RV 0x5487 0x72, RV 0x5488 0x7d, RV 0x5489 0x88,
     RV 0x548a 0x92, RV 0x548b 0xa3, RV 0x548c 0xb2]"

definition Dvp_Init_RGB_rest_2 :: "regval_list list" where
  "Dvp_Init_RGB_rest_2 =
    [RV 0x548d 0xc8, RV 0x548e 0xdd, RV 0x548f 0xf0, RV 0x5490 0x15, RV 0x5580 0x06,
     RV 0x5583 0x40, RV 0x5584 0x20, RV 0x5589 0x10, RV 0x558a 0x00, RV 0x558b 0xf8,
     RV 0x5688 0x22, RV 0x5689 0x22, RV 0x568a 0x42, RV 0x568b 0x24, RV 0x568c 0x42,
     RV 0x568d 0x24, RV 0x568e 0x22, RV 0x568f 0x22, RV 0x3a0f 0x30, RV 0x3a10 0x28,
     RV 0x3a1b 0x30, RV 0x3a1e 0x28, RV 0x3a11 0x61, RV 0x3a1f 0x10, RV 0x4005 0x1a,
     RV 0x3406 0x01, RV 0x3503 0x00, RV 0xffff 0xff]"

definition OV5640YUV_Sensor_Dvp_Init_RGB :: "ov5640_mode \<Rightarrow> regval_list list" where
  "OV5640YUV_Sensor_Dvp_Init_RGB m =
     Dvp_Init_RGB_start @ Dvp_Init_RGB_size m @ Dvp_Init_RGB_rest_1 @ Dvp_Init_RGB_rest_2"

end
