(* ===== verification/Reg_Table.thy ===== *)
theory Reg_Table
  imports Ov5640_Regs
begin

text \<open>
  How the camera driver reads its register tables. A table ends with the entry (0xffff, 0xff), which is
  not a register; \<open>regval_prog\<close> is what comes before it. The locale \<open>reg_table\<close> is the contract
  the sending loops of \<open>src/ov5640.c\<close> rely on, met by every table they send. The lemmas show which
  image size and mode each table sets.
\<close>

section \<open>Reading a table\<close>

definition regval_end :: regval_list where
  "regval_end = RV 0xffff 0xff"

definition regval_prog :: "regval_list list \<Rightarrow> regval_list list" where
  "regval_prog tbl = takeWhile (\<lambda>rv. rv \<noteq> regval_end) tbl"

text \<open>The value a sequence of writes leaves in a register, and the output size it leaves in the
  registers 0x3808 to 0x380b.\<close>

fun reg_scan :: "u16 \<Rightarrow> u8 option \<Rightarrow> regval_list list \<Rightarrow> u8 option" where
  "reg_scan r v [] = v"
| "reg_scan r v (rv # rvs) = reg_scan r (if rv_reg rv = r then Some (rv_val rv) else v) rvs"

definition reg_value :: "regval_list list \<Rightarrow> u16 \<Rightarrow> u8 option" where
  "reg_value rvs r = reg_scan r None rvs"

definition reg_pair :: "regval_list list \<Rightarrow> u16 \<Rightarrow> nat option" where
  "reg_pair rvs r =
     (case (reg_value rvs r, reg_value rvs (r + 1)) of
        (Some hi, Some lo) \<Rightarrow> Some (256 * unat hi + unat lo)
      | _ \<Rightarrow> None)"

definition output_size :: "regval_list list \<Rightarrow> (nat \<times> nat) option" where
  "output_size tbl =
     (case (reg_pair (regval_prog tbl) 0x3808, reg_pair (regval_prog tbl) 0x380a) of
        (Some w, Some h) \<Rightarrow> Some (w, h)
      | _ \<Rightarrow> None)"

text \<open>A table that has an end mark; the locale is the contract of the loops that send tables.\<close>

locale reg_table =
  fixes tbl :: "regval_list list"
  assumes ends: "regval_end \<in> set tbl"
begin

lemma split_at_end: "\<exists>rest. tbl = regval_prog tbl @ regval_end # rest"
proof -
  have "dropWhile (\<lambda>rv. rv \<noteq> regval_end) tbl \<noteq> []"
    using ends by (simp add: dropWhile_eq_Nil_conv)
  then obtain x rest where x: "dropWhile (\<lambda>rv. rv \<noteq> regval_end) tbl = x # rest"
    by (cases "dropWhile (\<lambda>rv. rv \<noteq> regval_end) tbl") auto
  then have "x = regval_end"
    using hd_dropWhile [of "\<lambda>rv. rv \<noteq> regval_end" tbl] by simp
  then show ?thesis
    using x takeWhile_dropWhile_id [of "\<lambda>rv. rv \<noteq> regval_end" tbl] by (metis regval_prog_def)
qed

lemma end_not_sent: "regval_end \<notin> set (regval_prog tbl)"
  by (auto simp: regval_prog_def dest: set_takeWhileD)

end

lemmas reg_tables = OV5640_5MP_JPEG_def OV5640_QSXGA2QVGA_def OV5640_QSXGA2QQVGA_def
  OV5640_QSXGA2VGA_def OV5640_QSXGA2WVGA_def OV5640_QSXGA2CIF_def OV5640_QSXGA2SXGA_def
  OV5640_QSXGA2QXGA_def OV5640_QSXGA2UXGA_def OV5640_QSXGA2XGA_def

interpretation mp5: reg_table OV5640_5MP_JPEG
  by unfold_locales (simp add: reg_tables regval_end_def)

interpretation qvga: reg_table OV5640_QSXGA2QVGA
  by unfold_locales (simp add: reg_tables regval_end_def)

interpretation qqvga: reg_table OV5640_QSXGA2QQVGA
  by unfold_locales (simp add: reg_tables regval_end_def)

interpretation vga: reg_table OV5640_QSXGA2VGA
  by unfold_locales (simp add: reg_tables regval_end_def)

interpretation wvga: reg_table OV5640_QSXGA2WVGA
  by unfold_locales (simp add: reg_tables regval_end_def)

interpretation cif: reg_table OV5640_QSXGA2CIF
  by unfold_locales (simp add: reg_tables regval_end_def)

interpretation sxga: reg_table OV5640_QSXGA2SXGA
  by unfold_locales (simp add: reg_tables regval_end_def)

interpretation qxga: reg_table OV5640_QSXGA2QXGA
  by unfold_locales (simp add: reg_tables regval_end_def)

interpretation uxga: reg_table OV5640_QSXGA2UXGA
  by unfold_locales (simp add: reg_tables regval_end_def)

interpretation xga: reg_table OV5640_QSXGA2XGA
  by unfold_locales (simp add: reg_tables regval_end_def)

interpretation jpeg_init: reg_table OV5640YUV_Sensor_Dvp_Init
  by unfold_locales (simp add: OV5640YUV_Sensor_Dvp_Init_def OV5640YUV_Sensor_Dvp_Init_3_def regval_end_def)

interpretation rgb_init: reg_table "OV5640YUV_Sensor_Dvp_Init_RGB m" for m
  by unfold_locales (simp add: OV5640YUV_Sensor_Dvp_Init_RGB_def Dvp_Init_RGB_rest_2_def regval_end_def)

lemma regval_prog_append:
  "regval_prog (xs @ ys) = (if regval_end \<in> set xs then regval_prog xs else xs @ regval_prog ys)"
  by (auto simp: regval_prog_def takeWhile_append)

lemma reg_scan_None: "reg_scan r v rvs = (case reg_scan r None rvs of Some w \<Rightarrow> Some w | None \<Rightarrow> v)"
proof (induction rvs arbitrary: v)
  case (Cons rv rvs)
  have "reg_scan r v (rv # rvs) = (case reg_scan r None rvs of Some w \<Rightarrow> Some w
      | None \<Rightarrow> if rv_reg rv = r then Some (rv_val rv) else v)" for v
    unfolding reg_scan.simps by (rule Cons.IH)
  note step = this
  show ?case
    unfolding step [of v] step [of None] by (cases "reg_scan r None rvs") simp_all
qed simp

lemma reg_value_append:
  "reg_value (xs @ ys) r = (case reg_value ys r of Some v \<Rightarrow> Some v | None \<Rightarrow> reg_value xs r)"
proof -
  have "reg_scan r v (xs @ ys) = reg_scan r (reg_scan r v xs) ys" for v
    by (induction xs arbitrary: v) auto
  then show ?thesis
    unfolding reg_value_def using reg_scan_None [of r "reg_scan r None xs" ys] by (simp only:)
qed

text \<open>The initialisation tables up to their end marks.\<close>

lemma jpeg_init_prog:
  "regval_prog OV5640YUV_Sensor_Dvp_Init =
     OV5640YUV_Sensor_Dvp_Init_1 @ OV5640YUV_Sensor_Dvp_Init_2 @ butlast OV5640YUV_Sensor_Dvp_Init_3"
proof -
  have "regval_end \<notin> set OV5640YUV_Sensor_Dvp_Init_1" "regval_end \<notin> set OV5640YUV_Sensor_Dvp_Init_2"
    by (simp_all add: OV5640YUV_Sensor_Dvp_Init_1_def OV5640YUV_Sensor_Dvp_Init_2_def regval_end_def)
  moreover have "regval_prog OV5640YUV_Sensor_Dvp_Init_3 = butlast OV5640YUV_Sensor_Dvp_Init_3"
    by (simp add: OV5640YUV_Sensor_Dvp_Init_3_def regval_prog_def regval_end_def)
  ultimately show ?thesis
    by (simp add: OV5640YUV_Sensor_Dvp_Init_def regval_prog_append)
qed

lemma rgb_init_prog:
  "regval_prog (OV5640YUV_Sensor_Dvp_Init_RGB m) =
     Dvp_Init_RGB_start @ Dvp_Init_RGB_size m @ Dvp_Init_RGB_rest_1 @ butlast Dvp_Init_RGB_rest_2"
proof -
  have "regval_end \<notin> set Dvp_Init_RGB_start" "regval_end \<notin> set Dvp_Init_RGB_rest_1"
    by (simp_all add: Dvp_Init_RGB_start_def Dvp_Init_RGB_rest_1_def regval_end_def)
  moreover have "regval_end \<notin> set (Dvp_Init_RGB_size m)"
    by (cases m) (simp_all add: regval_end_def)
  moreover have "regval_prog Dvp_Init_RGB_rest_2 = butlast Dvp_Init_RGB_rest_2"
    by (simp add: Dvp_Init_RGB_rest_2_def regval_prog_def regval_end_def)
  ultimately show ?thesis
    by (simp add: OV5640YUV_Sensor_Dvp_Init_RGB_def regval_prog_append)
qed

lemma rgb_rest_keeps_size:
  "reg_value Dvp_Init_RGB_rest_1 0x3808 = None" "reg_value Dvp_Init_RGB_rest_1 0x3809 = None"
  "reg_value Dvp_Init_RGB_rest_1 0x380a = None" "reg_value Dvp_Init_RGB_rest_1 0x380b = None"
  by (simp_all add: Dvp_Init_RGB_rest_1_def reg_value_def)

lemma rgb_rest_keeps_size':
  "reg_value (butlast Dvp_Init_RGB_rest_2) 0x3808 = None"
  "reg_value (butlast Dvp_Init_RGB_rest_2) 0x3809 = None"
  "reg_value (butlast Dvp_Init_RGB_rest_2) 0x380a = None"
  "reg_value (butlast Dvp_Init_RGB_rest_2) 0x380b = None"
  by (simp_all add: Dvp_Init_RGB_rest_2_def reg_value_def)

lemma jpeg_init_last_part:
  "reg_value (butlast OV5640YUV_Sensor_Dvp_Init_3) 0x3808 = Some 0x0a"
  "reg_value (butlast OV5640YUV_Sensor_Dvp_Init_3) 0x3809 = Some 0x20"
  "reg_value (butlast OV5640YUV_Sensor_Dvp_Init_3) 0x380a = Some 0x07"
  "reg_value (butlast OV5640YUV_Sensor_Dvp_Init_3) 0x380b = Some 0x98"
  "reg_value (butlast OV5640YUV_Sensor_Dvp_Init_3) 0x3821 = Some 0x20"
  "butlast OV5640YUV_Sensor_Dvp_Init_3 \<noteq> []"
  "last (butlast OV5640YUV_Sensor_Dvp_Init_3) = RV 0x3008 0x02"
  by (simp_all add: reg_value_def OV5640YUV_Sensor_Dvp_Init_3_def)

text \<open>The image sizes the tables leave in the sensor.\<close>

lemma table_sizes:
  "output_size OV5640_5MP_JPEG = Some (2592, 1944)" "output_size OV5640_QSXGA2QVGA = Some (320, 240)"
  "output_size OV5640_QSXGA2QQVGA = Some (160, 112)" "output_size OV5640_QSXGA2VGA = Some (640, 480)"
  "output_size OV5640_QSXGA2WVGA = Some (800, 480)" "output_size OV5640_QSXGA2CIF = Some (352, 288)"
  "output_size OV5640_QSXGA2SXGA = Some (1280, 960)" "output_size OV5640_QSXGA2QXGA = Some (2048, 1536)"
  "output_size OV5640_QSXGA2UXGA = Some (1600, 1200)" "output_size OV5640_QSXGA2XGA = Some (1024, 768)"
  by (simp_all add: output_size_def reg_pair_def reg_value_def regval_prog_def regval_end_def reg_tables)

lemma rgb_init_size:
  "output_size (OV5640YUV_Sensor_Dvp_Init_RGB m) = Some (OV5640_MAXX m, OV5640_MAXY m)"
proof -
  have "reg_value (regval_prog (OV5640YUV_Sensor_Dvp_Init_RGB m)) r =
      (case reg_value (Dvp_Init_RGB_size m) r of Some v \<Rightarrow> Some v | None \<Rightarrow> reg_value Dvp_Init_RGB_start r)"
    if "r \<in> {0x3808, 0x3809, 0x380a, 0x380b}" for r
    using that unfolding rgb_init_prog reg_value_append
    by (auto simp: rgb_rest_keeps_size rgb_rest_keeps_size')
  then show ?thesis
    by (cases m) (simp_all add: output_size_def reg_pair_def reg_value_def [of "_ # _"])
qed

lemma jpeg_init_size: "output_size OV5640YUV_Sensor_Dvp_Init = Some (2592, 1944)"
  by (simp add: output_size_def reg_pair_def jpeg_init_prog reg_value_append jpeg_init_last_part)

lemma jpeg_qsxga_unterminated: "regval_end \<notin> set OV5640_JPEG_QSXGA"
  by (simp add: OV5640_JPEG_QSXGA_def regval_end_def)

end
