(* ===== verification/Ov5640.thy ===== *)
theory Ov5640
  imports Dcmi_Transfer Reg_Table No_Camera_Image
begin

text \<open>
  The camera driver, \<open>src/ov5640.c\<close>. The pin, clock and camera-interface registers of the
  microcontroller, the bit masks of its header files and the image buffer, which the DMA hardware
  writes, belong to the record \<open>cam_hal\<close>; the module's variables are the record \<open>ov5640\<close>. The loops
  that wait for an image are partial functions: \<open>None\<close> is a loop that does not end. The argument
  \<open>irq\<close> of these loops is what the interrupt handlers do while the thread sleeps. A call that halts
  the system or reads outside an array returns a \<open>fault\<close>.
\<close>

section \<open>The hardware interface and the state\<close>

datatype resolution_t = RES_NONE | RES_QQVGA | RES_QVGA | RES_VGA | RES_VGA_ZOOMED | RES_XGA
  | RES_UXGA | RES_5MP | RES_MAX

datatype pal_line = LINE_CAM_EN | LINE_CAM_RESET | LINE_ADC_VIN | LINE_LED_GREEN

datatype pal_pad = GPIOA_8 | GPIOD_LED_RED | GPIOD_LED_GREEN | GPIOD_LED_BLUE

datatype pal_mode = PAL_MODE_ALTERNATE nat | PAL_MODE_OUTPUT_PUSHPULL | PAL_MODE_INPUT | PAL_MODE_INPUT_ANALOG

datatype dcmi_cr_bit = DCMI_CR_CAPTURE | DCMI_CR_CM | DCMI_CR_JPEG | DCMI_CR_ESS | DCMI_CR_PCKPOL
  | DCMI_CR_HSPOL | DCMI_CR_VSPOL | DCMI_CR_FCRC_0 | DCMI_CR_FCRC_1 | DCMI_CR_EDM_0 | DCMI_CR_EDM_1
  | DCMI_CR_ENABLE

datatype ov5640_callback = DMA_AVAIL | DMA_ERROR

record 'w cam_hal = "'w dma_hal" +
  palSetPadMode :: "pal_pad \<Rightarrow> pal_mode \<Rightarrow> 'w \<Rightarrow> 'w"
  palSetPad :: "pal_pad \<Rightarrow> 'w \<Rightarrow> 'w"
  palClearPad :: "pal_pad \<Rightarrow> 'w \<Rightarrow> 'w"
  palSetLineMode :: "pal_line \<Rightarrow> pal_mode \<Rightarrow> 'w \<Rightarrow> 'w"
  palSetLine :: "pal_line \<Rightarrow> 'w \<Rightarrow> 'w"
  palClearLine :: "pal_line \<Rightarrow> 'w \<Rightarrow> 'w"
  RCC_AHB2ENR :: "'w \<Rightarrow> u32"
  RCC_AHB2ENR_write :: "u32 \<Rightarrow> 'w \<Rightarrow> 'w"
  DCMI_CR :: "'w \<Rightarrow> u32"
  DCMI_CR_write :: "u32 \<Rightarrow> 'w \<Rightarrow> 'w"
  DCMI_CR_mask :: "dcmi_cr_bit \<Rightarrow> u32"
  ram_buffer_addr :: u32
  OV5640_ram_buffer :: "'w \<Rightarrow> u8 list"
  ram_buffer_write :: "u8 list \<Rightarrow> 'w \<Rightarrow> 'w"

record 'w ov5640 = "('w, ov5640_callback) dcmi_dma" +
  lightIntensity :: u32
  cam_error :: u8
  samplingFinished :: bool
  last_res :: resolution_t
  OV5640_ram_buffer_length :: u32

definition OV5640_I2C_ADR :: u8 where
  "OV5640_I2C_ADR = 0x3C"

definition cam_print :: "('w, 'h) cam_hal_scheme \<Rightarrow> string \<Rightarrow> ('w, 's) ov5640_scheme \<Rightarrow> ('w, 's) ov5640_scheme" where
  "cam_print hal msg s = on_world (chprintf hal (line msg) []) s"

section \<open>Sending register tables\<close>

text \<open>The loop that sends a table: it stops at the end mark and runs off a table without one.\<close>

fun write_regs ::
  "('w, 'h) cam_hal_scheme \<Rightarrow> regval_list list \<Rightarrow> ('w, 's) ov5640_scheme \<Rightarrow> fault + ('w, 's) ov5640_scheme" where
  "write_regs hal [] s = Inl Out_of_bounds"
| "write_regs hal (rv # tbl) s =
     (if rv_reg rv \<noteq> 0xffff \<or> rv_val rv \<noteq> 0xff
      then write_regs hal tbl (snd (I2C_write8_16bitreg hal OV5640_I2C_ADR (rv_reg rv) (rv_val rv) s))
      else Inr s)"

definition OV5640_SetResolution ::
  "('w, 'h) cam_hal_scheme \<Rightarrow> resolution_t \<Rightarrow> ('w, 's) ov5640_scheme \<Rightarrow> fault + ('w, 's) ov5640_scheme" where
  "OV5640_SetResolution hal res s =
     (let s = on_world (chprintf hal ''CAM  > ... Configure Resolution '' []) s
      in case res of
           RES_QQVGA \<Rightarrow> write_regs hal OV5640_QSXGA2QQVGA (cam_print hal ''QQVGA'' s)
         | RES_QVGA \<Rightarrow> write_regs hal OV5640_QSXGA2QVGA (cam_print hal ''QVGA'' s)
         | RES_VGA \<Rightarrow> write_regs hal OV5640_QSXGA2VGA (cam_print hal ''VGA'' s)
         | RES_XGA \<Rightarrow> write_regs hal OV5640_QSXGA2XGA (cam_print hal ''XGA'' s)
         | RES_UXGA \<Rightarrow> write_regs hal OV5640_QSXGA2UXGA (cam_print hal ''UXGA'' s)
         | RES_5MP \<Rightarrow> write_regs hal OV5640_5MP_JPEG (cam_print hal ''5MP'' s)
         | RES_NONE \<Rightarrow> Inr (cam_print hal ''none'' s)
         | _ \<Rightarrow> write_regs hal OV5640_QSXGA2QVGA (cam_print hal ''QVGA'' s))"

definition OV5640_TransmitConfig_RGB ::
  "('w, 'h) cam_hal_scheme \<Rightarrow> ov5640_mode \<Rightarrow> ('w, 's) ov5640_scheme \<Rightarrow> fault + ('w, 's) ov5640_scheme" where
  "OV5640_TransmitConfig_RGB hal m s =
     (let s = cam_print hal ''CAM  > ... Software reset'' s;
          s = snd (I2C_write8_16bitreg hal OV5640_I2C_ADR 0x3103 0x11 s);
          s = snd (I2C_write8_16bitreg hal OV5640_I2C_ADR 0x3008 0x82 s);
          s = on_world (chThdSleep hal (TIME_MS2I hal 100)) s;
          s = on_world (chprintf hal (line ''CAM  > ... Configure RGB565 %dx%d'')
                [int (OV5640_MAXX m), int (OV5640_MAXY m)]) s
      in case write_regs hal (OV5640YUV_Sensor_Dvp_Init_RGB m) s of
           Inl f \<Rightarrow> Inl f
         | Inr s \<Rightarrow> Inr (on_world (chThdSleep hal (TIME_MS2I hal 500)) s))"

definition OV5640_TransmitConfig ::
  "('w, 'h) cam_hal_scheme \<Rightarrow> ('w, 's) ov5640_scheme \<Rightarrow> fault + ('w, 's) ov5640_scheme" where
  "OV5640_TransmitConfig hal s =
     (let s = cam_print hal ''CAM  > ... Software reset'' s;
          s = snd (I2C_write8_16bitreg hal OV5640_I2C_ADR 0x3103 0x11 s);
          s = snd (I2C_write8_16bitreg hal OV5640_I2C_ADR 0x3008 0x82 s);
          s = on_world (chThdSleep hal (TIME_MS2I hal 100)) s;
          s = cam_print hal ''CAM  > ... Initialization'' s
      in case write_regs hal OV5640YUV_Sensor_Dvp_Init s of
           Inl f \<Rightarrow> Inl f
         | Inr s \<Rightarrow> Inr (on_world (chThdSleep hal (TIME_MS2I hal 500)) s))"

section \<open>Pins, camera interface and DMA\<close>

definition OV5640_InitGPIO ::
  "('w, 'h) cam_hal_scheme \<Rightarrow> ('w, 's) ov5640_scheme \<Rightarrow> ('w, 's) ov5640_scheme" where
  "OV5640_InitGPIO hal s =
     on_world (\<lambda>w.
       let w = chprintf hal (line ''CAM  > Activate XCLK'') [] w;
           w = palSetPadMode hal GPIOA_8 (PAL_MODE_ALTERNATE 0) w;
           w = palSetLineMode hal LINE_CAM_EN PAL_MODE_OUTPUT_PUSHPULL w;
           w = palSetLineMode hal LINE_CAM_RESET PAL_MODE_OUTPUT_PUSHPULL w;
           w = palClearLine hal LINE_CAM_RESET w
       in chThdSleep hal (TIME_MS2I hal 10) w) s"

definition OV5640_powerup ::
  "('w, 'h) cam_hal_scheme \<Rightarrow> ('w, 's) ov5640_scheme \<Rightarrow> ('w, 's) ov5640_scheme" where
  "OV5640_powerup hal s =
     on_world (\<lambda>w.
       let w = palClearLine hal LINE_CAM_EN w;
           w = chThdSleep hal (TIME_MS2I hal 5) w;
           w = palSetLine hal LINE_CAM_RESET w
       in chThdSleep hal (TIME_MS2I hal 50) w) (OV5640_InitGPIO hal s)"

definition DCMI_CaptureMode_SnapShot :: u32 where
  "DCMI_CaptureMode_SnapShot = 0x0002"

definition DCMI_PCKPolarity_Rising :: u32 where
  "DCMI_PCKPolarity_Rising = 0x0020"

definition DCMI_HSPolarity_High :: u32 where
  "DCMI_HSPolarity_High = 0x0040"

definition DCMI_VSPolarity_High :: u32 where
  "DCMI_VSPolarity_High = 0x0080"

definition DCMI_SynchroMode_Hardware :: u32 where
  "DCMI_SynchroMode_Hardware = 0x0000"

definition DCMI_HSPolarity_Low :: u32 where
  "DCMI_HSPolarity_Low = 0x0000"

definition DCMI_CaptureRate_All_Frame :: u32 where
  "DCMI_CaptureRate_All_Frame = 0x0000"

definition DCMI_ExtendedDataMode_8b :: u32 where
  "DCMI_ExtendedDataMode_8b = 0x0000"

definition RCC_AHB2Periph_DCMI :: u32 where
  "RCC_AHB2Periph_DCMI = 0x00000001"

definition OV5640_InitDCMI_RGB ::
  "('w, 'h) cam_hal_scheme \<Rightarrow> ('w, 's) ov5640_scheme \<Rightarrow> ('w, 's) ov5640_scheme" where
  "OV5640_InitDCMI_RGB hal s =
     (let cleared = DCMI_CR_mask hal DCMI_CR_CM OR DCMI_CR_mask hal DCMI_CR_ESS
            OR DCMI_CR_mask hal DCMI_CR_PCKPOL OR DCMI_CR_mask hal DCMI_CR_HSPOL
            OR DCMI_CR_mask hal DCMI_CR_VSPOL OR DCMI_CR_mask hal DCMI_CR_FCRC_0
            OR DCMI_CR_mask hal DCMI_CR_FCRC_1 OR DCMI_CR_mask hal DCMI_CR_EDM_0
            OR DCMI_CR_mask hal DCMI_CR_EDM_1
      in on_world (\<lambda>w.
           let w = RCC_AHB2ENR_write hal (RCC_AHB2ENR hal w OR RCC_AHB2Periph_DCMI) w;
               w = DCMI_CR_write hal (DCMI_CR hal w AND NOT cleared) w;
               w = DCMI_CR_write hal (DCMI_CaptureMode_SnapShot OR DCMI_SynchroMode_Hardware
                     OR DCMI_PCKPolarity_Rising OR DCMI_VSPolarity_High OR DCMI_HSPolarity_High
                     OR DCMI_CaptureRate_All_Frame OR DCMI_ExtendedDataMode_8b) w;
               w = DCMI_CR_write hal (DCMI_CR hal w OR DCMI_CR_mask hal DCMI_CR_ENABLE) w
           in DCMI_CR_write hal (DCMI_CR hal w OR DCMI_CR_mask hal DCMI_CR_CAPTURE) w) s)"

definition OV5640_InitDCMI ::
  "('w, 'h) cam_hal_scheme \<Rightarrow> ('w, 's) ov5640_scheme \<Rightarrow> ('w, 's) ov5640_scheme" where
  "OV5640_InitDCMI hal s =
     (let cleared = DCMI_CR_mask hal DCMI_CR_CM OR DCMI_CR_mask hal DCMI_CR_JPEG
            OR DCMI_CR_mask hal DCMI_CR_ESS OR DCMI_CR_mask hal DCMI_CR_PCKPOL
            OR DCMI_CR_mask hal DCMI_CR_HSPOL OR DCMI_CR_mask hal DCMI_CR_VSPOL
            OR DCMI_CR_mask hal DCMI_CR_FCRC_0 OR DCMI_CR_mask hal DCMI_CR_FCRC_1
            OR DCMI_CR_mask hal DCMI_CR_EDM_0 OR DCMI_CR_mask hal DCMI_CR_EDM_1
      in on_world (\<lambda>w.
           let w = RCC_AHB2ENR_write hal (RCC_AHB2ENR hal w OR RCC_AHB2Periph_DCMI) w;
               w = DCMI_CR_write hal (DCMI_CR hal w AND NOT cleared) w;
               w = DCMI_CR_write hal (DCMI_CaptureMode_SnapShot OR DCMI_CR_mask hal DCMI_CR_JPEG
                     OR DCMI_SynchroMode_Hardware OR DCMI_PCKPolarity_Rising OR DCMI_VSPolarity_High
                     OR DCMI_HSPolarity_Low OR DCMI_CaptureRate_All_Frame OR DCMI_ExtendedDataMode_8b) w;
               w = DCMI_CR_write hal (DCMI_CR hal w OR DCMI_CR_mask hal DCMI_CR_ENABLE) w
           in DCMI_CR_write hal (DCMI_CR hal w OR DCMI_CR_mask hal DCMI_CR_CAPTURE) w) s)"

definition OV5640_DeinitDCMI ::
  "('w, 'h) cam_hal_scheme \<Rightarrow> ('w, 's) ov5640_scheme \<Rightarrow> ('w, 's) ov5640_scheme" where
  "OV5640_DeinitDCMI hal s =
     on_world (\<lambda>w. RCC_AHB2ENR_write hal (RCC_AHB2ENR hal w AND NOT RCC_AHB2Periph_DCMI) w) s"

definition OV5640_DeinitDMA ::
  "('w, 'h) cam_hal_scheme \<Rightarrow> ('w, 's) ov5640_scheme \<Rightarrow> ('w, 's) ov5640_scheme" where
  "OV5640_DeinitDMA hal s = on_world (dmaStreamDisable hal) s"

definition OV5640_InitDMA_RGB ::
  "('w, 'h) cam_hal_scheme \<Rightarrow> ov5640_mode \<Rightarrow> ('w, 's) ov5640_scheme \<Rightarrow> ('w, 's) ov5640_scheme" where
  "OV5640_InitDMA_RGB hal m s =
     (let s = s\<lparr>dcmi_dma_buffer := ram_buffer_addr hal,
                dcmi_dma_image_size := of_nat (OV5640_NUM_PIXELS m * 2),
                dcmi_dma_done_callback := Some DMA_AVAIL,
                dcmi_dma_error_callback := Some DMA_ERROR\<rparr>
      in snd (dcmi_dma_arm hal (snd (dcmi_dma_init hal s))))"

definition OV5640_InitDMA ::
  "('w, 'h) cam_hal_scheme \<Rightarrow> ov5640_mode \<Rightarrow> ('w, 's) ov5640_scheme \<Rightarrow> ('w, 's) ov5640_scheme" where
  "OV5640_InitDMA hal m s =
     (let s = s\<lparr>dcmi_dma_buffer := ram_buffer_addr hal,
                dcmi_dma_buffer_size := of_nat (OV5640_NUM_PIXELS m * 2),
                dcmi_dma_done_callback := Some DMA_AVAIL,
                dcmi_dma_error_callback := Some DMA_ERROR\<rparr>
      in snd (dcmi_dma_arm hal (snd (dcmi_dma_init_open_ended hal s))))"

text \<open>The two callbacks: the first reports a finished transfer, the second fails an assertion, which
  halts the system (\<open>CH_DBG_ENABLE_ASSERTS\<close> is set).\<close>

definition dma_avail :: "u32 \<Rightarrow> dma_isr_flag set \<Rightarrow> ('w, 's) ov5640_scheme \<Rightarrow> fault + ('w, 's) ov5640_scheme" where
  "dma_avail p flags s = Inr (s\<lparr>samplingFinished := True\<rparr>)"

definition dma_error :: "u32 \<Rightarrow> dma_isr_flag set \<Rightarrow> ('w, 's) ov5640_scheme \<Rightarrow> fault + ('w, 's) ov5640_scheme" where
  "dma_error p flags s = Inl Halted"

definition ov5640_code ::
  "ov5640_callback \<Rightarrow> u32 \<Rightarrow> dma_isr_flag set \<Rightarrow> ('w, 's) ov5640_scheme \<Rightarrow> fault + ('w, 's) ov5640_scheme" where
  "ov5640_code c = (case c of DMA_AVAIL \<Rightarrow> dma_avail | DMA_ERROR \<Rightarrow> dma_error)"

section \<open>Starting and stopping the camera\<close>

definition OV5640_init ::
  "('w, 'h) cam_hal_scheme \<Rightarrow> ('w, 's) ov5640_scheme \<Rightarrow> fault + ('w, 's) ov5640_scheme" where
  "OV5640_init hal s =
     (let s = OV5640_powerup hal (cam_print hal ''CAM  > Init pins'' s);
          s = cam_print hal ''CAM  > Transmit config to camera'' s
      in case OV5640_TransmitConfig hal s of
           Inl f \<Rightarrow> Inl f
         | Inr s \<Rightarrow> Inr (on_world (chThdSleep hal (TIME_MS2I hal 200)) s))"

definition OV5640_init_RGB ::
  "('w, 'h) cam_hal_scheme \<Rightarrow> ov5640_mode \<Rightarrow> ('w, 's) ov5640_scheme \<Rightarrow> fault + ('w, 's) ov5640_scheme" where
  "OV5640_init_RGB hal m s =
     (let s = OV5640_powerup hal (cam_print hal ''CAM  > Init pins'' s);
          s = cam_print hal ''CAM  > Transmit config to camera'' s
      in case OV5640_TransmitConfig_RGB hal m s of
           Inl f \<Rightarrow> Inl f
         | Inr s \<Rightarrow>
           (let s = on_world (chThdSleep hal (TIME_MS2I hal 200)) s;
                s = cam_print hal ''CAM  > Init DMA'' s
            in Inr (OV5640_InitDMA_RGB hal m s)))"

definition OV5640_deinit ::
  "('w, 'h) cam_hal_scheme \<Rightarrow> ('w, 's) ov5640_scheme \<Rightarrow> ('w, 's) ov5640_scheme" where
  "OV5640_deinit hal s =
     (let s = OV5640_DeinitDCMI hal (cam_print hal ''CAM  > Deinit DMA'' s);
          s = OV5640_DeinitDMA hal (cam_print hal ''CAM  > Deinit DCMI'' s);
          s = cam_print hal ''CAM  > Switch off'' s;
          s = on_world (\<lambda>w. palSetLineMode hal LINE_CAM_RESET PAL_MODE_INPUT
                (palSetLineMode hal LINE_CAM_EN PAL_MODE_INPUT w)) s
      in s\<lparr>last_res := RES_NONE\<rparr>)"

definition OV5640_isAvailable ::
  "('w, 'h) cam_hal_scheme \<Rightarrow> ('w, 's) ov5640_scheme \<Rightarrow> bool \<times> ('w, 's) ov5640_scheme" where
  "OV5640_isAvailable hal s =
     (let s = OV5640_powerup hal s;
          (ok, val, s) = I2C_read8_16bitreg hal OV5640_I2C_ADR 0x300A s;
          (ok, val2, s) = (if ok then I2C_read8_16bitreg hal OV5640_I2C_ADR 0x300B s else (False, 0, s));
          (ret, s) = (if ok then (val = 0x56 \<and> val2 = 0x40, s) else (False, s\<lparr>cam_error := 1\<rparr>))
      in (ret, OV5640_deinit hal s))"

definition OV5640_LockResourcesForCapture :: "('w, 's) ov5640_scheme \<Rightarrow> msg_t \<times> ('w, 's) ov5640_scheme" where
  "OV5640_LockResourcesForCapture s = (MSG_OK, s)"

definition OV5640_UnlockResourcesForCapture :: "('w, 's) ov5640_scheme \<Rightarrow> ('w, 's) ov5640_scheme" where
  "OV5640_UnlockResourcesForCapture s = s"

definition OV5640_Capture ::
  "('w, 'h) cam_hal_scheme \<Rightarrow> ('w, 's) ov5640_scheme \<Rightarrow> u32 \<times> ('w, 's) ov5640_scheme" where
  "OV5640_Capture hal s =
     (let (msg, s) = OV5640_LockResourcesForCapture s
      in if msg \<noteq> MSG_OK then (0, s)
         else
           (let s = OV5640_UnlockResourcesForCapture s;
                s = cam_print hal ''CAM  > Capture success'' s;
                s = s\<lparr>cam_error := 0\<rparr>
            in (ucast (cam_error s), s)))"

definition OV5640_setLightIntensity ::
  "('w, 'h) cam_hal_scheme \<Rightarrow> ('w, 's) ov5640_scheme \<Rightarrow> ('w, 's) ov5640_scheme" where
  "OV5640_setLightIntensity hal s =
     (let (_, val1, s) = I2C_read8_16bitreg hal OV5640_I2C_ADR 0x3C1B s;
          (_, val2, s) = I2C_read8_16bitreg hal OV5640_I2C_ADR 0x3C1C s;
          (_, val3, s) = I2C_read8_16bitreg hal OV5640_I2C_ADR 0x3C1D s
      in s\<lparr>lightIntensity := push_bit 16 (ucast val1) OR push_bit 8 (ucast val2) OR ucast val3\<rparr>)"

definition OV5640_getLastLightIntensity :: "('w, 's) ov5640_scheme \<Rightarrow> u32" where
  "OV5640_getLastLightIntensity s = lightIntensity s"

definition OV5640_hasError :: "('w, 's) ov5640_scheme \<Rightarrow> u8" where
  "OV5640_hasError s = cam_error s"

section \<open>Taking a picture\<close>

text \<open>The wait for the RGB transfer: the clock is read only while the transfer runs. A handler that
  halts the system while the thread sleeps ends the wait.\<close>

partial_function (option) wait_sampling ::
  "('w, 'h) cam_hal_scheme \<Rightarrow> (('w, 's) ov5640_scheme \<Rightarrow> fault + ('w, 's) ov5640_scheme) \<Rightarrow> u32
     \<Rightarrow> ('w, 's) ov5640_scheme \<Rightarrow> (fault + ('w, 's) ov5640_scheme) option" where
  "wait_sampling hal irq timeout s =
     (if samplingFinished s then Some (Inr s)
      else let (now, w) = chVTGetSystemTimeX hal (world s);
               s = s\<lparr>world := w\<rparr>
           in if now < timeout
              then case irq (on_world (chThdSleepMilliseconds hal 1) s) of
                     Inl f \<Rightarrow> Some (Inl f)
                   | Inr s \<Rightarrow> wait_sampling hal irq timeout s
              else Some (Inr s))"

definition snapshot_start_RGB ::
  "('w, 'h) cam_hal_scheme \<Rightarrow> ('w, 's) ov5640_scheme \<Rightarrow> ('w, 's) ov5640_scheme" where
  "snapshot_start_RGB hal s =
     (let s = on_world (palSetPad hal GPIOD_LED_RED) s;
          s = cam_print hal ''CAM  > Start RGB Capture'' s;
          s = OV5640_InitDCMI_RGB hal s
      in s\<lparr>samplingFinished := False\<rparr>)"

definition OV5640_Snapshot2RAM_RGB ::
  "('w, 'h) cam_hal_scheme \<Rightarrow> (('w, 's) ov5640_scheme \<Rightarrow> fault + ('w, 's) ov5640_scheme)
     \<Rightarrow> ('w, 's) ov5640_scheme \<Rightarrow> (fault + u32 \<times> ('w, 's) ov5640_scheme) option" where
  "OV5640_Snapshot2RAM_RGB hal irq s =
     (let s = snapshot_start_RGB hal s;
          (now, w) = chVTGetSystemTimeX hal (world s);
          s = s\<lparr>world := w\<rparr>;
          timeout = now + TIME_MS2I hal 1000
      in case wait_sampling hal irq timeout s of
           None \<Rightarrow> None
         | Some (Inl f) \<Rightarrow> Some (Inl f)
         | Some (Inr s) \<Rightarrow>
           (let (now, w) = chVTGetSystemTimeX hal (world s);
                s = s\<lparr>world := w\<rparr>
            in if now \<ge> timeout then Some (Inr (0, cam_print hal ''CAM  > No image captured'' s))
               else Some (Inr (1, cam_print hal ''CAM  > Capture Successful''
                      (on_world (palClearPad hal GPIOD_LED_RED) s)))))"

text \<open>The wait for the camera interface to clear its capture bit.\<close>

definition dcmi_idle :: "('w, 'h) cam_hal_scheme \<Rightarrow> 'w \<Rightarrow> bool" where
  "dcmi_idle hal w \<longleftrightarrow> DCMI_CR hal w AND 1 = 0"

partial_function (option) wait_dcmi ::
  "('w, 'h) cam_hal_scheme \<Rightarrow> (('w, 's) ov5640_scheme \<Rightarrow> fault + ('w, 's) ov5640_scheme) \<Rightarrow> u32
     \<Rightarrow> bool \<Rightarrow> ('w, 's) ov5640_scheme \<Rightarrow> (fault + bool \<times> ('w, 's) ov5640_scheme) option" where
  "wait_dcmi hal irq timeout finished s =
     (if finished then Some (Inr (finished, s))
      else let (now, w) = chVTGetSystemTimeX hal (world s);
               s = s\<lparr>world := w\<rparr>
           in if now < timeout
              then case irq (on_world (chThdSleepMilliseconds hal 1) s) of
                     Inl f \<Rightarrow> Some (Inl f)
                   | Inr s \<Rightarrow> wait_dcmi hal irq timeout (dcmi_idle hal (world s)) s
              else Some (Inr (finished, s)))"

text \<open>The loop that cuts the zero bytes off the end of the image.\<close>

fun trim_length :: "u8 list \<Rightarrow> nat \<Rightarrow> fault + nat" where
  "trim_length buf 0 = Inr 0"
| "trim_length buf (Suc n) =
     (if length buf \<le> n then Inl Out_of_bounds
      else if buf ! n = 0 then trim_length buf n
      else Inr (Suc n))"

text \<open>What the JPEG capture does before and after its wait: start the transfer into the cleared buffer,
  and stop it and cut the image to size, or put the stored picture in its place.\<close>

definition snapshot_start ::
  "('w, 'h) cam_hal_scheme \<Rightarrow> ov5640_mode \<Rightarrow> ('w, 's) ov5640_scheme \<Rightarrow> ('w, 's) ov5640_scheme" where
  "snapshot_start hal m s =
     (let s = cam_print hal ''CAM  > Start JPEG Capture'' s;
          s = cam_print hal ''CAM  > Start DCMI capture...'' s;
          s = on_world (ram_buffer_write hal (replicate (OV5640_NUM_PIXELS m * 2) 0)) s;
          s = OV5640_InitDMA hal m (cam_print hal ''CAM  > Init DMA'' s)
      in OV5640_InitDCMI hal (cam_print hal ''CAM  > Init DCMI'' s))"

definition snapshot_end ::
  "('w, 'h) cam_hal_scheme \<Rightarrow> bool \<Rightarrow> ('w, 's) ov5640_scheme \<Rightarrow> fault + u32 \<times> ('w, 's) ov5640_scheme" where
  "snapshot_end hal finished s =
     (let s = dcmi_dma_open_ended_stop hal s;
          s = s\<lparr>OV5640_ram_buffer_length := dcmi_dma_bytes_received s\<rparr>;
          s = on_world (chprintf hal (line ''CAM  > DCMI transfer done, %d bytes captured'')
                [uint (dcmi_dma_bytes_received s)]) s
      in if \<not> finished
         then
           (let s = on_world (palSetPad hal GPIOD_LED_RED) s;
                s = on_world (\<lambda>w. ram_buffer_write hal
                      (noCameraFound @ drop (length noCameraFound) (OV5640_ram_buffer hal w)) w) s;
                s = s\<lparr>OV5640_ram_buffer_length := of_nat (length noCameraFound)\<rparr>
            in Inr (0, cam_print hal ''CAM  > No image captured'' s))
         else
           case trim_length (OV5640_ram_buffer hal (world s)) (unat (OV5640_ram_buffer_length s)) of
             Inl f \<Rightarrow> Inl f
           | Inr n \<Rightarrow>
             (let s = s\<lparr>OV5640_ram_buffer_length := of_nat n\<rparr>
              in Inr (1, on_world (chprintf hal
                   (line ''CAM  > Capture successful, %d byte image data'') [int n]) s)))"

definition OV5640_Snapshot2RAM ::
  "('w, 'h) cam_hal_scheme \<Rightarrow> (('w, 's) ov5640_scheme \<Rightarrow> fault + ('w, 's) ov5640_scheme) \<Rightarrow> ov5640_mode
     \<Rightarrow> ('w, 's) ov5640_scheme \<Rightarrow> (fault + u32 \<times> ('w, 's) ov5640_scheme) option" where
  "OV5640_Snapshot2RAM hal irq m s =
     (let s = snapshot_start hal m s;
          (now, w) = chVTGetSystemTimeX hal (world s);
          s = s\<lparr>world := w\<rparr>;
          timeout = now + TIME_MS2I hal 5000
      in case wait_dcmi hal irq timeout (dcmi_idle hal (world s)) s of
           None \<Rightarrow> None
         | Some (Inl f) \<Rightarrow> Some (Inl f)
         | Some (Inr (finished, s)) \<Rightarrow> Some (snapshot_end hal finished s))"

end
