(* ===== verification/Sensors.thy ===== *)
theory Sensors
  imports Ov5640
begin

text \<open>
  Three sensors on the I2C bus: the temperature sensors of \<open>src/tmp100.c\<close>, the light sensor of
  \<open>src/ltr329.c\<close> and the accelerometer of \<open>src/mpu9250.c\<close>. The last two keep an error flag each, which the
  records \<open>ltr329\<close> and \<open>mpu9250\<close> add to the state of the firmware. The lemmas give the value of every
  reading as an integer.
\<close>

section \<open>Temperature sensor\<close>

definition TMP100_ADDR :: u8 where
  "TMP100_ADDR = 0x48"

definition TMP100_TEMP_REG :: u8 where
  "TMP100_TEMP_REG = 0x00"

definition TMP100_CONTR_REG :: u8 where
  "TMP100_CONTR_REG = 0x01"

definition TMP100_CONSECUTIVE_FAULTS_6 :: u8 where
  "TMP100_CONSECUTIVE_FAULTS_6 = 0x18"

definition TMP100_RESOLUTION_12_BIT :: u8 where
  "TMP100_RESOLUTION_12_BIT = 0x60"

definition tmp100_get_temperature ::
  "('w, 'h) i2c_hal_scheme \<Rightarrow> u8 \<Rightarrow> ('w, 's) pi2c_scheme \<Rightarrow> i16 \<times> ('w, 's) pi2c_scheme" where
  "tmp100_get_temperature hal n s =
     (let (ok, val, s) = I2C_read16 hal (TMP100_ADDR OR (n AND 0x07)) TMP100_TEMP_REG s
      in if \<not> ok then (0, s)
         else (word_of_int (sint (signed_drop_bit 4 (ucast val :: i32) * 25) sdiv 4), s))"

definition tmp100_isAvailable ::
  "('w, 'h) i2c_hal_scheme \<Rightarrow> u8 \<Rightarrow> ('w, 's) pi2c_scheme \<Rightarrow> bool \<times> ('w, 's) pi2c_scheme" where
  "tmp100_isAvailable hal n s =
     (let (ok, val, s) = I2C_read8 hal (TMP100_ADDR OR (n AND 0x07)) TMP100_CONTR_REG s
      in if ok then (True, s) else (False, s))"

definition tmp100_init ::
  "('w, 'h) i2c_hal_scheme \<Rightarrow> u8 \<Rightarrow> ('w, 's) pi2c_scheme \<Rightarrow> ('w, 's) pi2c_scheme" where
  "tmp100_init hal n s =
     snd (I2C_write8 hal (TMP100_ADDR OR (n AND 0x07)) TMP100_CONTR_REG
       (TMP100_CONSECUTIVE_FAULTS_6 OR TMP100_RESOLUTION_12_BIT) s)"

section \<open>Light sensor\<close>

record 'w ltr329 = "'w ov5640" +
  ltr329_error :: u8

definition LTR329_ADDR :: u8 where
  "LTR329_ADDR = 0x29"

definition LTR329_CONTR_REG :: u8 where
  "LTR329_CONTR_REG = 0x80"

definition LTR329_MEAS_RATE_REG :: u8 where
  "LTR329_MEAS_RATE_REG = 0x85"

definition LTR329_MANUFAC_ID :: u8 where
  "LTR329_MANUFAC_ID = 0x87"

definition LTR329_DATA_CH1_LOW :: u8 where
  "LTR329_DATA_CH1_LOW = 0x88"

definition LTR329_DATA_CH0_LOW :: u8 where
  "LTR329_DATA_CH0_LOW = 0x8A"

definition LTR329_ACTIVE :: u8 where
  "LTR329_ACTIVE = 0x01"

definition LTR329_GAIN_1X :: u8 where
  "LTR329_GAIN_1X = push_bit 2 0x00"

definition LTR329_INT_400 :: u8 where
  "LTR329_INT_400 = push_bit 3 0x03"

definition LTR329_RATE_500 :: u8 where
  "LTR329_RATE_500 = 0x03"

text \<open>The byte swap of the two intensity readings, with its operands promoted to \<open>int\<close>.\<close>

definition ltr329_swap :: "u16 \<Rightarrow> i16" where
  "ltr329_swap val =
     ucast ((signed_drop_bit 8 (ucast val :: i32) AND 0xFF) OR push_bit 8 ((ucast val :: i32) AND 0xFF))"

definition ltr329_get_intensity_ch0 ::
  "('w, 'h) i2c_hal_scheme \<Rightarrow> ('w, 's) ltr329_scheme \<Rightarrow> i16 \<times> ('w, 's) ltr329_scheme" where
  "ltr329_get_intensity_ch0 hal s =
     (let (ok, val, s) = I2C_read16 hal LTR329_ADDR LTR329_DATA_CH0_LOW s
      in if \<not> ok then (0, s\<lparr>ltr329_error := ltr329_error s OR 0x1\<rparr>)
         else (ltr329_swap val, s))"

definition ltr329_get_intensity_ch1 ::
  "('w, 'h) i2c_hal_scheme \<Rightarrow> ('w, 's) ltr329_scheme \<Rightarrow> i16 \<times> ('w, 's) ltr329_scheme" where
  "ltr329_get_intensity_ch1 hal s =
     (let (ok, val, s) = I2C_read16 hal LTR329_ADDR LTR329_DATA_CH1_LOW s
      in if \<not> ok then (0, s\<lparr>ltr329_error := ltr329_error s OR 0x1\<rparr>)
         else (ltr329_swap val, s))"

definition ltr329_isAvailable ::
  "('w, 'h) i2c_hal_scheme \<Rightarrow> ('w, 's) ltr329_scheme \<Rightarrow> bool \<times> ('w, 's) ltr329_scheme" where
  "ltr329_isAvailable hal s =
     (let (ok, val, s) = I2C_read8 hal LTR329_ADDR LTR329_MANUFAC_ID s
      in if ok then (val = 0x05, s\<lparr>ltr329_error := ltr329_error s OR (if val \<noteq> 0x05 then 1 else 0)\<rparr>)
         else (False, s\<lparr>ltr329_error := ltr329_error s OR 0x1\<rparr>))"

definition ltr329_init ::
  "('w, 'h) i2c_hal_scheme \<Rightarrow> ('w, 's) ltr329_scheme \<Rightarrow> ('w, 's) ltr329_scheme" where
  "ltr329_init hal s =
     (let s = snd (I2C_write8 hal LTR329_ADDR LTR329_CONTR_REG (LTR329_GAIN_1X OR LTR329_ACTIVE) s);
          s = snd (I2C_write8 hal LTR329_ADDR LTR329_MEAS_RATE_REG (LTR329_INT_400 OR LTR329_RATE_500) s)
      in on_world (chThdSleepMilliseconds hal 10) s)"

definition ltr329_hasError :: "('w, 's) ltr329_scheme \<Rightarrow> u8 \<times> ('w, 's) ltr329_scheme" where
  "ltr329_hasError s = (ltr329_error s, s\<lparr>ltr329_error := 0x0\<rparr>)"

section \<open>Accelerometer\<close>

record 'w mpu9250 = "'w ltr329" +
  mpu9250_error :: u8

definition MPU9250_ADDR :: u8 where
  "MPU9250_ADDR = 0x68"

definition MPU9250_WHO_AM_I :: u8 where
  "MPU9250_WHO_AM_I = 0x75"

definition MPU9250_ACCEL_XOUT_H :: u8 where
  "MPU9250_ACCEL_XOUT_H = 0x3b"

definition MPU9250_ACCEL_YOUT_H :: u8 where
  "MPU9250_ACCEL_YOUT_H = 0x3d"

definition MPU9250_ACCEL_ZOUT_H :: u8 where
  "MPU9250_ACCEL_ZOUT_H = 0x3f"

text \<open>The scaling of the three axes, through the local variable of type \<open>int32_t\<close>.\<close>

definition mpu9250_scale :: "u16 \<Rightarrow> i16" where
  "mpu9250_scale val =
     (let val2 = word_of_int (sint (scast val * 1000 :: i32) sdiv 16384) :: i32 in ucast val2)"

definition mpu9250_get_x ::
  "('w, 'h) i2c_hal_scheme \<Rightarrow> ('w, 's) mpu9250_scheme \<Rightarrow> i16 \<times> ('w, 's) mpu9250_scheme" where
  "mpu9250_get_x hal s =
     (let (ok, val, s) = I2C_read16 hal MPU9250_ADDR MPU9250_ACCEL_XOUT_H s
      in if \<not> ok then (0, s\<lparr>mpu9250_error := mpu9250_error s OR 0x1\<rparr>)
         else (mpu9250_scale val, s))"

definition mpu9250_get_y ::
  "('w, 'h) i2c_hal_scheme \<Rightarrow> ('w, 's) mpu9250_scheme \<Rightarrow> i16 \<times> ('w, 's) mpu9250_scheme" where
  "mpu9250_get_y hal s =
     (let (ok, val, s) = I2C_read16 hal MPU9250_ADDR MPU9250_ACCEL_YOUT_H s
      in if \<not> ok then (0, s\<lparr>mpu9250_error := mpu9250_error s OR 0x1\<rparr>)
         else (mpu9250_scale val, s))"

definition mpu9250_get_z ::
  "('w, 'h) i2c_hal_scheme \<Rightarrow> ('w, 's) mpu9250_scheme \<Rightarrow> i16 \<times> ('w, 's) mpu9250_scheme" where
  "mpu9250_get_z hal s =
     (let (ok, val, s) = I2C_read16 hal MPU9250_ADDR MPU9250_ACCEL_ZOUT_H s
      in if \<not> ok then (0, s\<lparr>mpu9250_error := mpu9250_error s OR 0x1\<rparr>)
         else (mpu9250_scale val, s))"

definition mpu9250_isAvailable ::
  "('w, 'h) i2c_hal_scheme \<Rightarrow> ('w, 's) mpu9250_scheme \<Rightarrow> bool \<times> ('w, 's) mpu9250_scheme" where
  "mpu9250_isAvailable hal s =
     (let (ok, val, s) = I2C_read8 hal MPU9250_ADDR MPU9250_WHO_AM_I s
      in if ok then (val = 0x71, s\<lparr>mpu9250_error := mpu9250_error s OR (if val \<noteq> 0x71 then 1 else 0)\<rparr>)
         else (False, s\<lparr>mpu9250_error := mpu9250_error s OR 0x1\<rparr>))"

definition mpu9250_init :: "('w, 's) mpu9250_scheme \<Rightarrow> ('w, 's) mpu9250_scheme" where
  "mpu9250_init s = s"

definition mpu9250_hasError :: "('w, 's) mpu9250_scheme \<Rightarrow> u8 \<times> ('w, 's) mpu9250_scheme" where
  "mpu9250_hasError s = (mpu9250_error s, s\<lparr>mpu9250_error := 0x0\<rparr>)"

section \<open>Values of the readings\<close>

lemma tmp100_value:
  fixes val :: u16
  shows "sint (word_of_int (sint (signed_drop_bit 4 (ucast val :: i32) * 25) sdiv 4) :: i16)
    = uint val div 16 * 25 div 4"
proof -
  have v: "sint (ucast val :: i32) = int (unat val)"
    using unat_u16_bound [of val] by (subst sint_small) (simp_all add: unat_ucast_widen del: unat_u16_bound)
  have le: "0 \<le> int (unat val) div 16" "int (unat val) div 16 \<le> 4095"
    using unat_u16_bound [of val] by linarith+
  have "sint (signed_drop_bit 4 (ucast val :: i32) * 25) = int (unat val) div 16 * 25"
    using le by (subst sint_mult_small) (simp_all add: sint_asr v)
  then have "sint (signed_drop_bit 4 (ucast val :: i32) * 25) sdiv 4 = int (unat val) div 16 * 25 div 4"
    using le by (simp add: sdiv_nonneg)
  moreover have "0 \<le> int (unat val) div 16 * 25 div 4" "int (unat val) div 16 * 25 div 4 < 32768"
    using le by linarith+
  ultimately show ?thesis
    by (simp add: sint_of_int)
qed

lemma tmp100_raw:
  fixes val :: u16
  shows "uint val div 16 = (if 0 \<le> sint val div 16 then sint val div 16 else sint val div 16 + 4096)"
proof (cases "unat val < 32768")
  case True
  then have "sint val = uint val"
    by (subst sint_small) simp_all
  moreover have "0 \<le> uint val"
    by simp
  ultimately show ?thesis
    by (simp add: pos_imp_zdiv_nonneg_iff)
next
  case False
  then have "sint val = uint val - 65536"
    by (subst sint_large) simp_all
  moreover have "(uint val - 4096 * 16) div 16 = uint val div 16 - 4096" "uint val < 65536"
    using unsigned_less [of val, where ?'a = int] by simp_all
  ultimately show ?thesis
    by simp
qed

lemma ltr329_swap_LE:
  "ltr329_swap val = ucast (signed_drop_bit 8 (ucast val :: i32) OR push_bit 8 (ucast val))"
  unfolding ltr329_swap_def mask_byte
  by (rule bit_word_eqI) (auto simp: bit_simps not_less dest: bit_imp_le_length)

lemma mpu9250_scale_value:
  "sint (mpu9250_scale val) = sint val * 1000 sdiv 16384" "\<bar>sint (mpu9250_scale val)\<bar> \<le> 2000"
proof -
  define q where "q = sint val * 1000 sdiv 16384"
  have v: "- 32768 \<le> sint val" "sint val < 32768"
    using sint_range_size [of val] by (simp_all add: word_size)
  have "sint (scast val :: i32) = sint val"
    using v by (simp add: signed_scast_eq signed_take_bit_int_eq_self)
  then have m: "sint (scast val * 1000 :: i32) = sint val * 1000"
    using v by (subst sint_mult_small) simp_all
  have "\<bar>q\<bar> = \<bar>sint val * 1000\<bar> div 16384"
    unfolding q_def by (rule abs_sdiv) simp
  also have "\<dots> \<le> 32768000 div 16384"
    using v by (intro zdiv_mono1) simp_all
  finally have q: "\<bar>q\<bar> \<le> 2000"
    by simp
  have "mpu9250_scale val = word_of_int q"
    by (simp add: mpu9250_scale_def m Let_def q_def ucast_of_int)
  then have "sint (mpu9250_scale val) = q"
    using q by (simp add: sint_of_int)
  then show "sint (mpu9250_scale val) = sint val * 1000 sdiv 16384" "\<bar>sint (mpu9250_scale val)\<bar> \<le> 2000"
    using q by (simp_all add: q_def)
qed

section \<open>Properties\<close>

text \<open>C34: a temperature reading is the 12-bit value of the sensor in steps of a sixteenth degree,
  converted to hundredths and rounded down, as long as the temperature is not negative; a negative
  temperature is reported 256 degrees too high, and a failed transfer as 0.\<close>
theorem tmp100_reading:
  "let (ok, val, s1) = I2C_read16 hal (TMP100_ADDR OR (n AND 0x07)) TMP100_TEMP_REG s;
       raw = sint val div 16
   in snd (tmp100_get_temperature hal n s) = s1
    \<and> sint (fst (tmp100_get_temperature hal n s)) =
        (if \<not> ok then 0 else if 0 \<le> raw then raw * 25 div 4 else (raw + 4096) * 25 div 4)"
  using tmp100_raw by (simp add: tmp100_get_temperature_def tmp100_value case_prod_unfold Let_def)

text \<open>The byte swap of the light sensor readings is the little-endian read of the I2C wrapper.\<close>
theorem ltr329_little_endian:
  "let (ok0, v0, s0) = I2C_read16_LE hal LTR329_ADDR LTR329_DATA_CH0_LOW s;
       (ok1, v1, s1) = I2C_read16_LE hal LTR329_ADDR LTR329_DATA_CH1_LOW s
   in ltr329_get_intensity_ch0 hal s = (if ok0 then (v0, s0) else (0, s0\<lparr>ltr329_error := ltr329_error s0 OR 1\<rparr>))
    \<and> ltr329_get_intensity_ch1 hal s = (if ok1 then (v1, s1) else (0, s1\<lparr>ltr329_error := ltr329_error s1 OR 1\<rparr>))"
  by (simp add: ltr329_get_intensity_ch0_def ltr329_get_intensity_ch1_def I2C_read16_LE_def ltr329_swap_LE
      case_prod_unfold Let_def)

text \<open>An acceleration is the signed 16-bit reading scaled from 16384 steps per g to thousandths of g,
  rounded towards zero, and is at most 2 g in either direction.\<close>
theorem mpu9250_acceleration:
  "let (ok, val, s1) = I2C_read16 hal MPU9250_ADDR MPU9250_ACCEL_XOUT_H s; r = fst (mpu9250_get_x hal s)
   in sint r = (if ok then sint val * 1000 sdiv 16384 else 0) \<and> \<bar>sint r\<bar> \<le> 2000"
  using mpu9250_scale_value by (simp add: mpu9250_get_x_def case_prod_unfold Let_def)

end
