(* ===== verification/Padc.thy ===== *)
theory Padc
  imports Sensors
begin

text \<open>
  The analogue inputs, \<open>src/padc.c\<close>. The ADC driver of ChibiOS belongs to the record \<open>adc_hal\<close>; the sample
  buffer is written by the converter and read through \<open>adc_samples\<close>. The bit patterns of the conversion
  group are kept as the channels and sampling times they stand for. The lemmas give both readings as integers
  for every converter that stores the channels in the order of the group.
\<close>

section \<open>The converter\<close>

datatype adc_channel = ADC_CHANNEL_IN9 | ADC_CHANNEL_IN12 | ADC_CHANNEL_IN14 | ADC_CHANNEL_SENSOR

datatype adc_sampling = ADC_SAMPLE_144

record ADCConversionGroup =
  circular :: bool
  num_channels :: nat
  adc_cr2_swstart :: bool
  smpr1 :: "(adc_channel \<times> adc_sampling) list"
  smpr2 :: "(adc_channel \<times> adc_sampling) list"
  sqr1_num_ch :: nat
  sqr3 :: "adc_channel list"

record 'w adc_hal = "'w cam_hal" +
  adcStart :: "'w \<Rightarrow> 'w"
  adcSTM32EnableTSVREFE :: "'w \<Rightarrow> 'w"
  adcStartConversion :: "ADCConversionGroup \<Rightarrow> nat \<Rightarrow> 'w \<Rightarrow> 'w"
  adcStop :: "'w \<Rightarrow> 'w"
  adc_samples :: "'w \<Rightarrow> nat \<Rightarrow> u16"

definition ADC_NUM_CHANNELS :: nat where
  "ADC_NUM_CHANNELS = 4"

definition VCC_REF :: i32 where
  "VCC_REF = 3300"

definition DIVIDER_VIN :: i32 where
  "DIVIDER_VIN = 10"

definition adcgrpcfg :: ADCConversionGroup where
  "adcgrpcfg =
     \<lparr> circular = False, num_channels = ADC_NUM_CHANNELS, adc_cr2_swstart = True,
       smpr1 = [(ADC_CHANNEL_IN14, ADC_SAMPLE_144), (ADC_CHANNEL_IN12, ADC_SAMPLE_144), (ADC_CHANNEL_SENSOR, ADC_SAMPLE_144)],
       smpr2 = [(ADC_CHANNEL_IN9, ADC_SAMPLE_144)], sqr1_num_ch = ADC_NUM_CHANNELS,
       sqr3 = [ADC_CHANNEL_IN12, ADC_CHANNEL_IN14, ADC_CHANNEL_IN9, ADC_CHANNEL_SENSOR] \<rparr>"

section \<open>Operations\<close>

definition initADC :: "('w, 'h) adc_hal_scheme \<Rightarrow> ('w, 's) module_state_scheme \<Rightarrow> ('w, 's) module_state_scheme" where
  "initADC hal s =
     on_world (\<lambda>w. palSetLineMode hal LINE_ADC_VIN PAL_MODE_INPUT_ANALOG (adcSTM32EnableTSVREFE hal (adcStart hal w))) s"

definition deinitADC :: "('w, 'h) adc_hal_scheme \<Rightarrow> ('w, 's) module_state_scheme \<Rightarrow> ('w, 's) module_state_scheme" where
  "deinitADC hal s = on_world (adcStop hal) s"

definition doConversion :: "('w, 'h) adc_hal_scheme \<Rightarrow> ('w, 's) module_state_scheme \<Rightarrow> ('w, 's) module_state_scheme" where
  "doConversion hal s =
     (let s = initADC hal s;
          s = on_world (adcStartConversion hal adcgrpcfg 1) s;
          s = on_world (chThdSleep hal (TIME_MS2I hal 50)) s
      in deinitADC hal s)"

definition stm32_get_vsol :: u16 where
  "stm32_get_vsol = 0"

definition stm32_get_vusb :: u16 where
  "stm32_get_vusb = 0"

definition adc_millivolt :: "u16 \<Rightarrow> u16" where
  "adc_millivolt x = word_of_int (sint (ucast x * VCC_REF * DIVIDER_VIN) sdiv 4096)"

definition stm32_get_vbat ::
  "('w, 'h) adc_hal_scheme \<Rightarrow> ('w, 's) module_state_scheme \<Rightarrow> u16 \<times> ('w, 's) module_state_scheme" where
  "stm32_get_vbat hal s =
     (let s = doConversion hal s in (adc_millivolt (adc_samples hal (world s) 1), s))"

definition adc_centi_degrees :: "u16 \<Rightarrow> u16" where
  "adc_centi_degrees x = ucast (word_of_int (sint (ucast x * 40 * VCC_REF) sdiv 4096) - 30400 + 2500 :: i32)"

definition stm32_get_temp ::
  "('w, 'h) adc_hal_scheme \<Rightarrow> ('w, 's) module_state_scheme \<Rightarrow> u16 \<times> ('w, 's) module_state_scheme" where
  "stm32_get_temp hal s =
     (let s = doConversion hal s in (adc_centi_degrees (adc_samples hal (world s) 3), s))"

section \<open>Readings\<close>

text \<open>A converter of 12 bits that has stored the sampled channels, in the order of the group, when the
  thread wakes up, and whose buffer is not changed by stopping it.\<close>

definition adc_converts :: "('w, 'h) adc_hal_scheme \<Rightarrow> (adc_channel \<Rightarrow> nat) \<Rightarrow> bool" where
  "adc_converts hal level \<longleftrightarrow>
     (\<forall>c. level c < 4096) \<and>
     (\<forall>g t w i. i < num_channels g \<longrightarrow> i < length (sqr3 g) \<longrightarrow>
        adc_samples hal (chThdSleep hal t (adcStartConversion hal g 1 w)) i = of_nat (level (sqr3 g ! i))) \<and>
     (\<forall>w. adc_samples hal (adcStop hal w) = adc_samples hal w)"

lemma doConversion_samples:
  assumes "adc_converts hal level" "i < 4"
  shows "adc_samples hal (world (doConversion hal s)) i = of_nat (level (sqr3 adcgrpcfg ! i))"
  using assms
  by (simp add: adc_converts_def doConversion_def deinitADC_def adcgrpcfg_def ADC_NUM_CHANNELS_def Let_def)

lemma sint_sample:
  assumes "n < 4096" "0 \<le> k" "k \<le> 132000"
  shows "sint (ucast (of_nat n :: u16) * word_of_int k :: i32) = int n * k"
proof -
  have n: "sint (ucast (of_nat n :: u16) :: i32) = int n"
    using assms(1) by (subst sint_small) (simp_all add: unat_ucast_widen unat_of_nat)
  have k: "sint (word_of_int k :: i32) = k"
    using assms(2,3) by (intro sint_of_int) simp_all
  have "int n * k \<le> 4095 * 132000"
    using assms by (intro mult_mono) simp_all
  moreover have "0 \<le> int n * k"
    using assms(2) by simp
  ultimately show ?thesis
    by (subst sint_mult_small) (simp_all add: n k)
qed

lemma adc_millivolt_value:
  assumes "n < 4096"
  shows "unat (adc_millivolt (of_nat n)) = n * 33000 div 4096"
proof -
  have "ucast (of_nat n :: u16) * VCC_REF * DIVIDER_VIN = ucast (of_nat n :: u16) * word_of_int 33000"
    by (simp add: VCC_REF_def DIVIDER_VIN_def)
  then have "sint (ucast (of_nat n :: u16) * VCC_REF * DIVIDER_VIN) sdiv 4096 = int (n * 33000 div 4096)"
    using assms by (simp only: sint_sample) (simp add: sdiv_nonneg zdiv_int)
  moreover have "n * 33000 div 4096 < 65536"
    using assms by linarith
  ultimately show ?thesis
    unfolding adc_millivolt_def by (simp only: of_int_of_nat_eq) (simp add: unat_of_nat)
qed

lemma adc_centi_degrees_value:
  assumes "n < 4096"
  shows "adc_centi_degrees (of_nat n) = word_of_int (int (n * 132000 div 4096) - 27900)"
proof -
  have "ucast (of_nat n :: u16) * 40 * VCC_REF = ucast (of_nat n :: u16) * word_of_int 132000"
    by (simp add: VCC_REF_def)
  then have "sint (ucast (of_nat n :: u16) * 40 * VCC_REF) sdiv 4096 = int (n * 132000 div 4096)"
    using assms by (simp only: sint_sample) (simp add: sdiv_nonneg zdiv_int)
  then have "adc_centi_degrees (of_nat n) = ucast (word_of_int (int (n * 132000 div 4096) - 27900) :: i32)"
    by (simp only: adc_centi_degrees_def) simp
  then show ?thesis
    by (simp only:) (rule ucast_of_int, simp)
qed

lemma stm32_get_vbat_value:
  assumes "adc_converts hal level"
  shows "unat (fst (stm32_get_vbat hal s)) = level ADC_CHANNEL_IN14 * 33000 div 4096"
proof -
  have "level ADC_CHANNEL_IN14 < 4096" "sqr3 adcgrpcfg ! 1 = ADC_CHANNEL_IN14"
    using assms by (simp_all add: adc_converts_def adcgrpcfg_def)
  then show ?thesis
    using doConversion_samples [OF assms, of 1 s] by (simp add: stm32_get_vbat_def Let_def adc_millivolt_value)
qed

lemma stm32_get_temp_value:
  assumes "adc_converts hal level"
  shows "fst (stm32_get_temp hal s) = word_of_int (int (level ADC_CHANNEL_SENSOR * 132000 div 4096) - 27900)"
proof -
  have "level ADC_CHANNEL_SENSOR < 4096" "sqr3 adcgrpcfg ! 3 = ADC_CHANNEL_SENSOR"
    using assms by (simp_all add: adc_converts_def adcgrpcfg_def)
  then show ?thesis
    using doConversion_samples [OF assms, of 3 s] by (simp add: stm32_get_temp_def Let_def adc_centi_degrees_value)
qed

section \<open>Properties\<close>

text \<open>A board with fixed devices on the bus and a converter that stores the level of each channel. Its world is
  the record of the bus events and the sample buffer.\<close>

type_synonym adc_world = "bus_event list \<times> (nat \<Rightarrow> u16)"

definition still_hal :: "(bus_event \<Rightarrow> 'w \<Rightarrow> 'w) \<Rightarrow> i2c_devices \<Rightarrow> 'w cam_hal" where
  "still_hal see dev =
     \<lparr> chprintf = (\<lambda>f xs w. w), TIME_MS2I = (\<lambda>ms. of_nat (10 * ms)), chThdSleep = (\<lambda>t w. w),
       chThdSleepMilliseconds = (\<lambda>t w. w), chVTGetSystemTimeX = (\<lambda>w. (0, w)),
       i2cAcquireBus = see Acquire, i2cReleaseBus = see Release, i2cStart = (\<lambda>c. see (Start c)), i2cStop = see Stop,
       i2cMasterTransmitTimeout = (\<lambda>a tx n t w. case dev a tx of
           None \<Rightarrow> (MSG_TIMEOUT, \<lambda>_. 0, see (Transmit a tx n) w) | Some rx \<Rightarrow> (MSG_OK, rx, see (Transmit a tx n) w)),
       dmaStreamAllocate = (\<lambda>n h w. w), dmaStreamSetPeripheral = (\<lambda>a w. w),
       dmaStreamSetTransactionSize = (\<lambda>n w. w), dmaStreamSetMode = (\<lambda>m w. w), dmaStreamSetFIFO = (\<lambda>f w. w),
       dmaStreamSetMemory0 = (\<lambda>a w. w), dmaStreamSetMemory1 = (\<lambda>a w. w), dmaStreamGetCurrentTarget = (\<lambda>w. 0),
       dmaStreamEnable = (\<lambda>w. w), dmaStreamDisable = (\<lambda>w. w), stream_M0AR = (\<lambda>w. 0), stream_M1AR = (\<lambda>w. 0),
       stream_ifcr_write = (\<lambda>f w. w), stream_mode = (\<lambda>w. {}), stream_enabled = (\<lambda>w. False),
       stream_block_end = (\<lambda>w. w),
       palSetPadMode = (\<lambda>p m w. w), palSetPad = (\<lambda>p w. w), palClearPad = (\<lambda>p w. w),
       palSetLineMode = (\<lambda>l m w. w), palSetLine = (\<lambda>l w. w), palClearLine = (\<lambda>l w. w),
       RCC_AHB2ENR = (\<lambda>w. 0), RCC_AHB2ENR_write = (\<lambda>x w. w),
       DCMI_CR = (\<lambda>w. 0), DCMI_CR_write = (\<lambda>x w. w), DCMI_CR_mask = (\<lambda>b. 0),
       ram_buffer_addr = 0xD0000000, OV5640_ram_buffer = (\<lambda>w. []), ram_buffer_write = (\<lambda>b w. w) \<rparr>"

definition adc_board :: "i2c_devices \<Rightarrow> (adc_channel \<Rightarrow> nat) \<Rightarrow> adc_world adc_hal" where
  "adc_board dev level =
     cam_hal.extend (still_hal (\<lambda>e (b, x). (b @ [e], x)) dev) (adc_hal.fields (\<lambda>w. w) (\<lambda>w. w)
       (\<lambda>g n (b, x). (b, \<lambda>i. if i < num_channels g then of_nat (level (sqr3 g ! i)) else x i)) (\<lambda>w. w) snd)"

lemmas adc_board_simps = adc_board_def still_hal_def cam_hal.defs adc_hal.defs

lemma adc_board_converts: "\<forall>c. level c < 4096 \<Longrightarrow> adc_converts (adc_board dev level) level"
  by (simp add: adc_converts_def adc_board_simps case_prod_unfold)

text \<open>The input voltage is the level of input 14, in millivolts behind the divider of ten, and the
  temperature of the processor that of its sensor, in hundredths of a degree; the voltage fits into 16 bits
  for every level, the temperature is the signed value of its 16 bits up to the level 1882, which is 327
  degrees. The solar and USB voltages are not measured. The comment on the conversion group has the battery
  on input 9 and the USB voltage on input 14.\<close>
theorem padc_readings:
  assumes "adc_converts hal level"
  shows "unat (fst (stm32_get_vbat hal s)) = level ADC_CHANNEL_IN14 * 33000 div 4096
    \<and> (level ADC_CHANNEL_SENSOR \<le> 1882 \<longrightarrow>
        sint (fst (stm32_get_temp hal s)) = int (level ADC_CHANNEL_SENSOR * 132000 div 4096) - 27900)
    \<and> (1882 < level ADC_CHANNEL_SENSOR \<longrightarrow>
        sint (fst (stm32_get_temp hal s)) < int (level ADC_CHANNEL_SENSOR * 132000 div 4096) - 27900)
    \<and> stm32_get_vsol = 0 \<and> stm32_get_vusb = 0"
proof -
  define n where "n = level ADC_CHANNEL_SENSOR"
  have temp: "fst (stm32_get_temp hal s) = word_of_int (int (n * 132000 div 4096) - 27900)"
    unfolding n_def by (rule stm32_get_temp_value [OF assms])
  have "n \<le> 1882 \<Longrightarrow> sint (fst (stm32_get_temp hal s)) = int (n * 132000 div 4096) - 27900"
    unfolding temp by (rule sint_of_int; simp; linarith)
  moreover have "1882 < n \<Longrightarrow> sint (fst (stm32_get_temp hal s)) < int (n * 132000 div 4096) - 27900"
    using sint_range_size [of "fst (stm32_get_temp hal s)"] by (simp add: word_size) linarith
  ultimately show ?thesis
    by (simp add: stm32_get_vbat_value [OF assms] stm32_get_vsol_def stm32_get_vusb_def n_def)
qed

theorem padc_readings_witness:
  "unat (fst (stm32_get_vbat (adc_board (\<lambda>a tx. None) (\<lambda>c. 943)) (\<lparr> world = ([], \<lambda>_. 0) \<rparr> :: adc_world module_state))) = 7597
   \<and> sint (fst (stm32_get_temp (adc_board (\<lambda>a tx. None) (\<lambda>c. 943)) (\<lparr> world = ([], \<lambda>_. 0) \<rparr> :: adc_world module_state))) = 2489"
  using padc_readings [OF adc_board_converts, of "\<lambda>c. 943" "\<lambda>a tx. None" "\<lparr> world = ([], \<lambda>_. 0) \<rparr> :: adc_world module_state"]
  by simp

end
