(* ===== verification/Debug.thy ===== *)
theory Debug
  imports Padc
begin

text \<open>
  The trace messages, \<open>src/debug.c\<close> and the macros of \<open>src/debug.h\<close>. The mutex, the serial driver and the
  formatting of numbers are ChibiOS code and belong to the record \<open>dbg_hal\<close>: \<open>format_text\<close> is the text that a
  format and its arguments give, \<open>chprintf_s\<close> the output of string arguments. \<open>chVTGetSystemTime\<close> reads the
  same counter as \<open>chVTGetSystemTimeX\<close>. The strings of \<open>error_list\<close> are kept up to their terminating zero.

  The lemmas show that the error list is a log of the last 32 errors, whose entries never leave their 64
  bytes.
\<close>

section \<open>State and interface\<close>

datatype serial_port = SD1 | SD3

record SerialConfig =
  speed :: u32
  cr3_iren :: bool

record 'w dbg_hal = "'w adc_hal" +
  chMtxObjectInit :: "'w \<Rightarrow> 'w"
  chMtxLock :: "'w \<Rightarrow> 'w"
  chMtxUnlock :: "'w \<Rightarrow> 'w"
  sdStart :: "serial_port \<Rightarrow> SerialConfig option \<Rightarrow> 'w \<Rightarrow> 'w"
  chprintf_s :: "string \<Rightarrow> string list \<Rightarrow> 'w \<Rightarrow> 'w"
  format_text :: "string \<Rightarrow> int list \<Rightarrow> string"
  va_words :: "'w \<Rightarrow> int list"

record 'w debug = "'w mpu9250" +
  error_list :: "string list"
  error_counter :: u8
  usb_trace_level :: u8

definition SD_console :: serial_port where
  "SD_console = SD1"

definition ERROR_LIST_LENGTH :: nat where
  "ERROR_LIST_LENGTH = 64"

definition ERROR_LIST_SIZE :: nat where
  "ERROR_LIST_SIZE = 32"

definition TRACE_TIME :: bool where
  "TRACE_TIME = False"

definition TRACE_FILE :: bool where
  "TRACE_FILE = False"

definition CH_CFG_ST_FREQUENCY :: u32 where
  "CH_CFG_ST_FREQUENCY = 10000"

section \<open>Operations\<close>

definition debug_init :: "('w, 'h) dbg_hal_scheme \<Rightarrow> ('w, 's) debug_scheme \<Rightarrow> ('w, 's) debug_scheme" where
  "debug_init hal s = on_world (\<lambda>w. sdStart hal SD_console None (chMtxObjectInit hal w)) s"

text \<open>The seconds and milliseconds of two readings of the clock, with the products of 32 bits.\<close>

definition time_stamp :: "('w, 'h) dbg_hal_scheme \<Rightarrow> 'w \<Rightarrow> int list \<times> 'w" where
  "time_stamp hal w =
     (let (t1, w) = chVTGetSystemTimeX hal w;
          (t2, w) = chVTGetSystemTimeX hal w
      in ([uint (t1 div CH_CFG_ST_FREQUENCY), uint (t2 * 1000 div CH_CFG_ST_FREQUENCY mod 1000)], w))"

text \<open>The list of arguments itself is passed to the formatter, which reads \<open>va_words\<close> in its place.\<close>

definition debug_print ::
  "('w, 'h) dbg_hal_scheme \<Rightarrow> string \<Rightarrow> string \<Rightarrow> u32 \<Rightarrow> string \<Rightarrow> int list \<Rightarrow> ('w, 's) debug_scheme \<Rightarrow> ('w, 's) debug_scheme" where
  "debug_print hal ty filename ln fmt args s =
     on_world (\<lambda>w.
       let w = chMtxLock hal w;
           str = take 255 (format_text hal fmt (va_words hal w));
           w = (if TRACE_TIME then let (ts, w) = time_stamp hal w in chprintf hal ''[%8d.%03d]'' ts w else w);
           w = chprintf_s hal ''[%s]'' [ty] w;
           w = (if TRACE_FILE then chprintf_s hal ''[%12s %04d]'' [filename, format_text hal ''%04d'' [uint ln]] w else w);
           w = chprintf_s hal (line '' %s'') [str] w
       in chMtxUnlock hal w) s"

definition TRACE_DEBUG ::
  "('w, 'h) dbg_hal_scheme \<Rightarrow> string \<Rightarrow> u32 \<Rightarrow> string \<Rightarrow> int list \<Rightarrow> ('w, 's) debug_scheme \<Rightarrow> ('w, 's) debug_scheme" where
  "TRACE_DEBUG hal file ln fmt args s =
     (if usb_trace_level s > 4 then debug_print hal ''DEBUG'' file ln fmt args s else s)"

definition TRACE_INFO ::
  "('w, 'h) dbg_hal_scheme \<Rightarrow> string \<Rightarrow> u32 \<Rightarrow> string \<Rightarrow> int list \<Rightarrow> ('w, 's) debug_scheme \<Rightarrow> ('w, 's) debug_scheme" where
  "TRACE_INFO hal file ln fmt args s =
     (if usb_trace_level s > 3 then debug_print hal ''     '' file ln fmt args s else s)"

definition TRACE_MON ::
  "('w, 'h) dbg_hal_scheme \<Rightarrow> string \<Rightarrow> u32 \<Rightarrow> string \<Rightarrow> int list \<Rightarrow> ('w, 's) debug_scheme \<Rightarrow> ('w, 's) debug_scheme" where
  "TRACE_MON hal file ln fmt args s =
     (if usb_trace_level s > 2 then debug_print hal ''     '' file ln fmt args s else s)"

definition TRACE_WARN ::
  "('w, 'h) dbg_hal_scheme \<Rightarrow> string \<Rightarrow> u32 \<Rightarrow> string \<Rightarrow> int list \<Rightarrow> ('w, 's) debug_scheme \<Rightarrow> ('w, 's) debug_scheme" where
  "TRACE_WARN hal file ln fmt args s =
     (if usb_trace_level s > 1 then debug_print hal ''WARN '' file ln fmt args s else s)"

text \<open>An error is stored too: the time stamp first, the message behind it in the rest of the entry. The
  length of the stamp is kept in 8 bits; a position behind the entry is an access outside the array.\<close>

definition TRACE_ERROR ::
  "('w, 'h) dbg_hal_scheme \<Rightarrow> string \<Rightarrow> u32 \<Rightarrow> string \<Rightarrow> int list \<Rightarrow> ('w, 's) debug_scheme \<Rightarrow> fault + ('w, 's) debug_scheme" where
  "TRACE_ERROR hal file ln fmt args s =
     (let s = (if usb_trace_level s > 0 then debug_print hal ''ERROR'' file ln fmt args s else s);
          (ts, w) = time_stamp hal (world s);
          s = s\<lparr>world := w\<rparr>;
          stamp = format_text hal ''[%8d.%03d] '' ts;
          strcnt = of_nat (length stamp) :: u8;
          i = unat (error_counter s)
      in if length (error_list s) \<le> i \<or> ERROR_LIST_LENGTH < unat strcnt then Inl Out_of_bounds
         else
           (let entry = take (unat strcnt) (take (ERROR_LIST_LENGTH - 1) stamp)
                  @ take (ERROR_LIST_LENGTH - 1 - unat strcnt) (format_text hal fmt args)
            in Inr (s\<lparr>error_list := (error_list s)[i := entry],
                      error_counter := of_nat ((i + 1) mod ERROR_LIST_SIZE)\<rparr>)))"

section \<open>The error log\<close>

lemma ring_put:
  assumes "i < length xs" "j = (i + 1) mod length xs"
  shows "drop j (xs[i := x]) @ take j (xs[i := x]) = tl (drop i xs @ take i xs @ [x])"
proof -
  obtain ys y zs where xs: "xs = ys @ y # zs" "length ys = i"
    using assms(1) id_take_nth_drop [of i xs] by fastforce
  show ?thesis
  proof (cases zs)
    case Nil
    then show ?thesis
      using assms(2) xs by (auto simp: list_update_append)
  next
    case (Cons z us)
    then have "j = Suc (length ys)"
      using assms(2) xs by simp
    then show ?thesis
      using xs by (auto simp: list_update_append)
  qed
qed

text \<open>What the formatter is relied on for: a time stamp is at most 15 characters, a bracket, at most eight
  digits of seconds, a point, three digits, a bracket and a space.\<close>

definition stamp_short :: "('w, 'h) dbg_hal_scheme \<Rightarrow> bool" where
  "stamp_short hal \<longleftrightarrow>
     (\<forall>x y. 0 \<le> x \<longrightarrow> x < 100000000 \<longrightarrow> 0 \<le> y \<longrightarrow> y < 1000 \<longrightarrow> length (format_text hal ''[%8d.%03d] '' [x, y]) \<le> 15)"

definition debug_ok :: "('w, 'h) dbg_hal_scheme \<Rightarrow> ('w, 's) debug_scheme \<Rightarrow> bool" where
  "debug_ok hal s \<longleftrightarrow> stamp_short hal \<and> length (error_list s) = ERROR_LIST_SIZE \<and> unat (error_counter s) < ERROR_LIST_SIZE"

text \<open>The entries from the oldest to the newest: the next one to be overwritten is the oldest.\<close>

definition error_log :: "('w, 's) debug_scheme \<Rightarrow> string list" where
  "error_log s = drop (unat (error_counter s)) (error_list s) @ take (unat (error_counter s)) (error_list s)"

definition log_entry :: "string \<Rightarrow> string \<Rightarrow> bool" where
  "log_entry msg x \<longleftrightarrow> (\<exists>stamp. length stamp \<le> 15 \<and> x = stamp @ take (63 - length stamp) msg)"

lemma debug_print_frame [simp]:
  "error_list (debug_print hal ty file ln fmt args s) = error_list s"
  "error_counter (debug_print hal ty file ln fmt args s) = error_counter s"
  by (simp_all add: debug_print_def on_world_def)

lemma time_stamp_range: "\<exists>x y w'. time_stamp hal w = ([x, y], w') \<and> 0 \<le> x \<and> x < 100000000 \<and> 0 \<le> y \<and> y < 1000"
proof -
  have "uint (t div CH_CFG_ST_FREQUENCY) < 100000000" for t :: u32
  proof -
    have "uint t div 10000 < 100000000"
      using unsigned_less [of t, where ?'a = int] by simp
    then show ?thesis
      by (simp add: CH_CFG_ST_FREQUENCY_def uint_div_distrib)
  qed
  moreover have "uint (t mod 1000) < 1000" for t :: u32
    by (simp add: uint_mod_distrib)
  ultimately show ?thesis
    by (simp add: time_stamp_def case_prod_unfold Let_def)
qed

lemma TRACE_ERROR_log:
  assumes "debug_ok hal s"
  shows "\<exists>s' x. TRACE_ERROR hal file ln fmt args s = Inr s' \<and> debug_ok hal s' \<and> log_entry (format_text hal fmt args) x
    \<and> error_log s' = tl (error_log s @ [x])"
proof -
  define i where "i = unat (error_counter s)"
  define s1 where "s1 = (if usb_trace_level s > 0 then debug_print hal ''ERROR'' file ln fmt args s else s)"
  have s1: "error_list s1 = error_list s" "error_counter s1 = error_counter s"
    by (simp_all add: s1_def)
  obtain x y w' where ts: "time_stamp hal (world s1) = ([x, y], w')" "0 \<le> x" "x < 100000000" "0 \<le> y" "y < 1000"
    using time_stamp_range [of hal "world s1"] by blast
  define st where "st = format_text hal ''[%8d.%03d] '' [x, y]"
  have st: "length st \<le> 15"
    using assms ts(2-) by (simp add: debug_ok_def stamp_short_def st_def)
  then have cnt: "unat (of_nat (length st) :: u8) = length st"
    by (simp add: unat_of_nat)
  have i: "i < 32" "length (error_list s) = 32"
    using assms by (simp_all add: debug_ok_def ERROR_LIST_SIZE_def i_def)
  define e where "e = st @ take (63 - length st) (format_text hal fmt args)"
  define s' where "s' = s1\<lparr>world := w', error_list := (error_list s)[i := e], error_counter := of_nat ((i + 1) mod 32)\<rparr>"
  have "TRACE_ERROR hal file ln fmt args s = Inr s'"
    using st i by (simp add: TRACE_ERROR_def s1_def [symmetric] ts(1) st_def [symmetric] cnt s1 i_def [symmetric]
        ERROR_LIST_LENGTH_def ERROR_LIST_SIZE_def e_def s'_def)
  moreover have c: "unat (error_counter s') = (i + 1) mod 32"
    by (simp add: s'_def unat_of_nat)
  moreover have "log_entry (format_text hal fmt args) e"
    using st by (auto simp: log_entry_def e_def)
  moreover have "error_log s' = tl (error_log s @ [e])"
    using ring_put [of i "error_list s" "(i + 1) mod 32" e] i by (simp add: error_log_def c i_def [symmetric]) (simp add: s'_def)
  moreover have "length (error_list s') = 32" "unat (error_counter s') < 32"
    using i unfolding c by (simp_all add: s'_def)
  then have "debug_ok hal s'"
    using assms by (simp add: debug_ok_def ERROR_LIST_SIZE_def)
  ultimately show ?thesis
    by (intro exI conjI)
qed

interpretation errors: bounded_log "\<lambda>(file, ln, fmt, args). TRACE_ERROR hal file ln fmt args" error_log "debug_ok hal"
    "\<lambda>(file, ln, fmt, args). log_entry (format_text hal fmt args)"
  for hal :: "('w, 'h) dbg_hal_scheme"
proof unfold_locales
  fix s :: "('w, 's) debug_scheme" and m
  assume "debug_ok hal s"
  then show "\<exists>s' x. (case m of (file, ln, fmt, args) \<Rightarrow> TRACE_ERROR hal file ln fmt args) s = Inr s' \<and> debug_ok hal s'
      \<and> (case m of (file, ln, fmt, args) \<Rightarrow> log_entry (format_text hal fmt args)) x \<and> error_log s' = tl (error_log s @ [x])"
    using TRACE_ERROR_log by (cases m) simp
qed

section \<open>Properties\<close>

definition dbg_board :: "i2c_devices \<Rightarrow> (adc_channel \<Rightarrow> nat) \<Rightarrow> adc_world dbg_hal" where
  "dbg_board dev level =
     adc_hal.extend (adc_board dev level) (dbg_hal.fields (\<lambda>w. w) (\<lambda>w. w) (\<lambda>w. w) (\<lambda>p c w. w) (\<lambda>f xs w. w)
       (\<lambda>f xs. if f = ''[%8d.%03d] '' then ''[       0.000] '' else f) (\<lambda>w. []))"

lemmas dbg_board_simps = dbg_board_def adc_board_simps dbg_hal.defs

definition debug_start :: "'w \<Rightarrow> 'w debug" where
  "debug_start w =
     \<lparr> world = w, i2c_error = 0, dcmi_dma_buffer = 0, dcmi_dma_image_size = 0, dcmi_dma_buffer_size = 0,
       dcmi_dma_bytes_received = 0, dcmi_dma_done_callback = None, dcmi_dma_done_callback_data = 0,
       dcmi_dma_error_callback = None, dcmi_dma_error_callback_data = 0, blocks_done = 0,
       block_size = 0, num_blocks = 0, stream_control_register = {},
       lightIntensity = 0, cam_error = 0, samplingFinished = False, last_res = RES_NONE,
       OV5640_ram_buffer_length = 0, ltr329_error = 0, mpu9250_error = 0,
       error_list = replicate 32 [], error_counter = 0, usb_trace_level = 4 \<rparr>"

text \<open>C17: the error list is a log of the last 32 errors: any number of errors is recorded without an access
  outside the list or an entry, in the order in which they occur, each as its time stamp and as much of its
  message as the 63 characters of an entry leave, and each makes the oldest entry disappear.\<close>
theorem trace_error_log:
  assumes "debug_ok hal s"
  shows "\<exists>s' xs. run_all (\<lambda>(file, ln, fmt, args). TRACE_ERROR hal file ln fmt args) errs s = Inr s' \<and> debug_ok hal s'
    \<and> list_all2 (\<lambda>(file, ln, fmt, args). log_entry (format_text hal fmt args)) errs xs
    \<and> error_log s' = drop (length errs) (error_log s @ xs)"
  by (rule errors.put_all [OF assms])

theorem trace_error_log_witness:
  "\<exists>s' x. TRACE_ERROR (dbg_board (\<lambda>a tx. None) (\<lambda>c. 0)) ''watchdog.c'' 71 ''no memory'' [] (debug_start ([], \<lambda>_. 0)) = Inr s'
     \<and> log_entry ''no memory'' x \<and> error_log s' = replicate 31 [] @ [x]"
proof -
  have "debug_ok (dbg_board (\<lambda>a tx. None) (\<lambda>c. 0)) (debug_start ([], \<lambda>_. 0))"
    by (simp add: debug_ok_def stamp_short_def debug_start_def dbg_board_simps ERROR_LIST_SIZE_def)
  note run = trace_error_log [OF this, of "[(''watchdog.c'', 71, ''no memory'', [])]"]
  have "error_log (debug_start ([], \<lambda>_. 0) :: adc_world debug) = [] # replicate 31 []"
    by (simp add: error_log_def debug_start_def numeral_eq_Suc)
  moreover have "format_text (dbg_board (\<lambda>a tx. None) (\<lambda>c. 0)) ''no memory'' [] = ''no memory''"
    by (simp add: dbg_board_simps)
  ultimately show ?thesis
    using run by (auto simp: list_all2_Cons1 split: sum.splits)
qed

end
