(* ===== verification/Bme280.thy ===== *)
theory Bme280
  imports Pi2c
begin

text \<open>
  The BME280 pressure, humidity and temperature sensor, \<open>src/bme280.c\<close>. The compensation formulas are
  functions of the calibration data and the raw readings, computed in the C integer types; the bus
  operations around them pass the state of the I2C wrapper. All the function pointers of a handle
  point to the functions of \<open>src/pi2c.c\<close>, so the handle of the model holds the address, the
  temperature value \<open>t_fine\<close> and the calibration data. \<open>BME280_getAltitude\<close>, which calls \<open>pow\<close> of the
  C library and is not used by the firmware, is left out.
\<close>

section \<open>Registers and calibration data\<close>

definition BME280_I1 :: u8 where
  "BME280_I1 = 0x0"

definition BME280_E1 :: u8 where
  "BME280_E1 = 0x1"

definition BME280_E2 :: u8 where
  "BME280_E2 = 0x2"

definition BME280_REGISTER_DIG_T1 :: u8 where "BME280_REGISTER_DIG_T1 = 0x88"

definition BME280_REGISTER_DIG_T2 :: u8 where "BME280_REGISTER_DIG_T2 = 0x8A"

definition BME280_REGISTER_DIG_T3 :: u8 where "BME280_REGISTER_DIG_T3 = 0x8C"

definition BME280_REGISTER_DIG_P1 :: u8 where "BME280_REGISTER_DIG_P1 = 0x8E"

definition BME280_REGISTER_DIG_P2 :: u8 where "BME280_REGISTER_DIG_P2 = 0x90"

definition BME280_REGISTER_DIG_P3 :: u8 where "BME280_REGISTER_DIG_P3 = 0x92"

definition BME280_REGISTER_DIG_P4 :: u8 where "BME280_REGISTER_DIG_P4 = 0x94"

definition BME280_REGISTER_DIG_P5 :: u8 where "BME280_REGISTER_DIG_P5 = 0x96"

definition BME280_REGISTER_DIG_P6 :: u8 where "BME280_REGISTER_DIG_P6 = 0x98"

definition BME280_REGISTER_DIG_P7 :: u8 where "BME280_REGISTER_DIG_P7 = 0x9A"

definition BME280_REGISTER_DIG_P8 :: u8 where "BME280_REGISTER_DIG_P8 = 0x9C"

definition BME280_REGISTER_DIG_P9 :: u8 where "BME280_REGISTER_DIG_P9 = 0x9E"

definition BME280_REGISTER_DIG_H1 :: u8 where "BME280_REGISTER_DIG_H1 = 0xA1"

definition BME280_REGISTER_DIG_H2 :: u8 where "BME280_REGISTER_DIG_H2 = 0xE1"

definition BME280_REGISTER_DIG_H3 :: u8 where "BME280_REGISTER_DIG_H3 = 0xE3"

definition BME280_REGISTER_DIG_H4 :: u8 where "BME280_REGISTER_DIG_H4 = 0xE4"

definition BME280_REGISTER_DIG_H5 :: u8 where "BME280_REGISTER_DIG_H5 = 0xE5"

definition BME280_REGISTER_DIG_H6 :: u8 where "BME280_REGISTER_DIG_H6 = 0xE7"

definition BME280_REGISTER_CHIPID :: u8 where "BME280_REGISTER_CHIPID = 0xD0"

definition BME280_REGISTER_CONTROLHUMID :: u8 where "BME280_REGISTER_CONTROLHUMID = 0xF2"

definition BME280_REGISTER_CONTROL :: u8 where "BME280_REGISTER_CONTROL = 0xF4"

definition BME280_REGISTER_PRESSUREDATA :: u8 where "BME280_REGISTER_PRESSUREDATA = 0xF7"

definition BME280_REGISTER_TEMPDATA :: u8 where "BME280_REGISTER_TEMPDATA = 0xFA"

definition BME280_REGISTER_HUMIDDATA :: u8 where "BME280_REGISTER_HUMIDDATA = 0xFD"

lemmas bme280_registers =
  BME280_REGISTER_DIG_T1_def BME280_REGISTER_DIG_T2_def BME280_REGISTER_DIG_T3_def
  BME280_REGISTER_DIG_P1_def BME280_REGISTER_DIG_P2_def BME280_REGISTER_DIG_P3_def
  BME280_REGISTER_DIG_P4_def BME280_REGISTER_DIG_P5_def BME280_REGISTER_DIG_P6_def
  BME280_REGISTER_DIG_P7_def BME280_REGISTER_DIG_P8_def BME280_REGISTER_DIG_P9_def
  BME280_REGISTER_DIG_H1_def BME280_REGISTER_DIG_H2_def BME280_REGISTER_DIG_H3_def
  BME280_REGISTER_DIG_H4_def BME280_REGISTER_DIG_H5_def BME280_REGISTER_DIG_H6_def
  BME280_REGISTER_CHIPID_def BME280_REGISTER_CONTROLHUMID_def BME280_REGISTER_CONTROL_def
  BME280_REGISTER_PRESSUREDATA_def BME280_REGISTER_TEMPDATA_def BME280_REGISTER_HUMIDDATA_def

record bme280_calib_data_t =
  dig_T1 :: u16
  dig_T2 :: i16
  dig_T3 :: i16
  dig_P1 :: u16
  dig_P2 :: i16
  dig_P3 :: i16
  dig_P4 :: i16
  dig_P5 :: i16
  dig_P6 :: i16
  dig_P7 :: i16
  dig_P8 :: i16
  dig_P9 :: i16
  dig_H1 :: u8
  dig_H2 :: i16
  dig_H3 :: u8
  dig_H4 :: i16
  dig_H5 :: i16
  dig_H6 :: i8

record bme280_t =
  i2c_address :: u8
  t_fine :: i32
  calib :: bme280_calib_data_t

section \<open>Compensation formulas\<close>

text \<open>A raw value of 20 bits from a 16-bit and an 8-bit read; the second read overwrites the low byte of
  the local variable \<open>tmp\<close>.\<close>

definition bme280_adc20 :: "u16 \<Rightarrow> u8 \<Rightarrow> i32" where
  "bme280_adc20 tmp lo =
     (let adc = ucast tmp :: i32;
          tmp = (tmp AND 0xFF00) OR ucast lo;
          adc = push_bit 8 adc;
          adc = adc OR (ucast tmp AND 0xFF)
      in signed_drop_bit 4 adc)"

definition bme280_t_fine :: "bme280_calib_data_t \<Rightarrow> i32 \<Rightarrow> i32" where
  "bme280_t_fine c adc_T =
     (let T1 = ucast (dig_T1 c) :: i32; T2 = scast (dig_T2 c) :: i32; T3 = scast (dig_T3 c) :: i32;
          var1 = signed_drop_bit 11 ((signed_drop_bit 3 adc_T - push_bit 1 T1) * T2);
          var2 = signed_drop_bit 14 (signed_drop_bit 12
                   ((signed_drop_bit 4 adc_T - T1) * (signed_drop_bit 4 adc_T - T1)) * T3)
      in var1 + var2)"

definition bme280_centi_degrees :: "i32 \<Rightarrow> i16" where
  "bme280_centi_degrees t = ucast (signed_drop_bit 8 (t * 5 + 128))"

text \<open>The pressure of one sample, in 1/256 Pa; \<open>None\<close> where the code avoids a division by zero.\<close>

definition bme280_pressure :: "bme280_calib_data_t \<Rightarrow> i32 \<Rightarrow> i32 \<Rightarrow> i64 option" where
  "bme280_pressure c t adc_P =
     (let var1 = (scast t :: i64) - 128000;
          var2 = var1 * var1 * scast (dig_P6 c);
          var2 = var2 + push_bit 17 (var1 * scast (dig_P5 c));
          var2 = var2 + push_bit 35 (scast (dig_P4 c));
          var1 = signed_drop_bit 8 (var1 * var1 * scast (dig_P3 c)) + push_bit 12 (var1 * scast (dig_P2 c));
          var1 = signed_drop_bit 33 ((push_bit 47 1 + var1) * ucast (dig_P1 c))
      in if var1 = 0 then None
         else
           (let p = scast (1048576 - adc_P) :: i64;
                p = word_of_int (sint ((push_bit 31 p - var2) * 3125) sdiv sint var1);
                var1 = signed_drop_bit 25 (scast (dig_P9 c) * signed_drop_bit 13 p * signed_drop_bit 13 p);
                var2 = signed_drop_bit 19 (scast (dig_P8 c) * p)
            in Some (signed_drop_bit 8 (p + var1 + var2) + push_bit 4 (scast (dig_P7 c)))))"

text \<open>The quotient of two positive numbers as a \<open>float\<close>, rounded to the nearest value with ties to even and
  cut to an integer: the quotient is scaled to 24 significant bits.\<close>

definition round_even :: "nat \<Rightarrow> nat \<Rightarrow> nat" where
  "round_even n d =
     (let q = n div d; r = n mod d
      in if 2 * r < d then q else if d < 2 * r then q + 1 else if even q then q else q + 1)"

function f32_scale :: "nat \<Rightarrow> nat \<Rightarrow> nat" where
  "f32_scale a b = (if a = 0 \<or> 2 ^ 23 * b \<le> a then 0 else Suc (f32_scale (2 * a) b))"
  by pat_completeness auto
termination
  by (relation "measure (\<lambda>(a, b). 2 ^ 23 * b - a)") auto

declare f32_scale.simps [simp del]

definition f32_div_trunc :: "nat \<Rightarrow> nat \<Rightarrow> nat" where
  "f32_div_trunc a b = (let e = f32_scale a b in round_even (a * 2 ^ e) b div 2 ^ e)"

text \<open>The humidity: the integer part of the formula, and the limit and the division at its end.\<close>

definition bme280_humidity_raw :: "bme280_calib_data_t \<Rightarrow> i32 \<Rightarrow> i32 \<Rightarrow> i32" where
  "bme280_humidity_raw c t adc_H =
     (let x = t - 76800;
          x = signed_drop_bit 15 (push_bit 14 adc_H - push_bit 20 (scast (dig_H4 c)) - scast (dig_H5 c) * x + 16384)
            * signed_drop_bit 14 ((signed_drop_bit 10
                (signed_drop_bit 10 (x * scast (dig_H6 c)) * (signed_drop_bit 11 (x * ucast (dig_H3 c)) + 32768))
                + 2097152) * scast (dig_H2 c) + 8192)
      in x - signed_drop_bit 4 (signed_drop_bit 7 (signed_drop_bit 15 x * signed_drop_bit 15 x) * ucast (dig_H1 c)))"

definition bme280_limit :: "i32 \<Rightarrow> i32" where
  "bme280_limit x =
     (let x = (if sint x < 0 then 0 else x) in if sint x > 419430400 then 419430400 else x)"

definition bme280_humidity :: "bme280_calib_data_t \<Rightarrow> i32 \<Rightarrow> i32 \<Rightarrow> u8" where
  "bme280_humidity c t adc_H =
     of_nat (f32_div_trunc (unat (signed_drop_bit 12 (bme280_limit (bme280_humidity_raw c t adc_H)))) 1020)"

section \<open>Operations\<close>

definition BME280_isAvailable ::
  "('w, 'h) i2c_hal_scheme \<Rightarrow> u8 \<Rightarrow> ('w, 's) pi2c_scheme \<Rightarrow> bool \<times> ('w, 's) pi2c_scheme" where
  "BME280_isAvailable hal n s =
     (if n = BME280_I1 then let (_, val, s) = I2C_read8 hal 0x77 BME280_REGISTER_CHIPID s in (val = 0x60, s)
      else if n = BME280_E1 then let (_, val, s) = I2C_read8 hal 0x77 BME280_REGISTER_CHIPID s in (val = 0x60, s)
      else if n = BME280_E2 then let (_, val, s) = I2C_read8 hal 0x76 BME280_REGISTER_CHIPID s in (val = 0x60, s)
      else (False, s))"

text \<open>The temperature reading stores the value \<open>t_fine\<close> that the other two readings use.\<close>

definition BME280_getTemperature ::
  "('w, 'h) i2c_hal_scheme \<Rightarrow> bme280_t \<Rightarrow> ('w, 's) pi2c_scheme \<Rightarrow> i16 \<times> bme280_t \<times> ('w, 's) pi2c_scheme" where
  "BME280_getTemperature hal h s =
     (let (_, tmp, s) = I2C_read16 hal (i2c_address h) BME280_REGISTER_TEMPDATA s;
          (_, lo, s) = I2C_read8 hal (i2c_address h) (BME280_REGISTER_TEMPDATA + 2) s;
          h = h\<lparr>t_fine := bme280_t_fine (calib h) (bme280_adc20 tmp lo)\<rparr>
      in (bme280_centi_degrees (t_fine h), h, s))"

text \<open>The loop over the samples: \<open>None\<close> when it is left by the return inside it.\<close>

fun pressure_samples ::
  "('w, 'h) i2c_hal_scheme \<Rightarrow> bme280_t \<Rightarrow> nat \<Rightarrow> u64 \<Rightarrow> ('w, 's) pi2c_scheme \<Rightarrow> u64 option \<times> ('w, 's) pi2c_scheme" where
  "pressure_samples hal h 0 acc s = (Some acc, s)"
| "pressure_samples hal h (Suc n) acc s =
     (let (_, tmp, s) = I2C_read16 hal (i2c_address h) BME280_REGISTER_PRESSUREDATA s;
          (_, lo, s) = I2C_read8 hal (i2c_address h) (BME280_REGISTER_PRESSUREDATA + 2) s
      in case bme280_pressure (calib h) (t_fine h) (bme280_adc20 tmp lo) of
           None \<Rightarrow> (None, s)
         | Some p \<Rightarrow> pressure_samples hal h n (acc + p) s)"

definition BME280_getPressure ::
  "('w, 'h) i2c_hal_scheme \<Rightarrow> bme280_t \<Rightarrow> u16 \<Rightarrow> ('w, 's) pi2c_scheme \<Rightarrow> fault + u32 \<times> ('w, 's) pi2c_scheme" where
  "BME280_getPressure hal h means s =
     (case pressure_samples hal h (unat means) 0 s of
        (None, s) \<Rightarrow> Inr (0, s)
      | (Some acc, s) \<Rightarrow>
          if ucast means * 26 = (0 :: i32) then Inl Div_by_zero
          else Inr (ucast (acc div scast (ucast means * 26 :: i32)), s))"

definition BME280_getHumidity ::
  "('w, 'h) i2c_hal_scheme \<Rightarrow> bme280_t \<Rightarrow> ('w, 's) pi2c_scheme \<Rightarrow> u8 \<times> ('w, 's) pi2c_scheme" where
  "BME280_getHumidity hal h s =
     (let (_, tmp, s) = I2C_read16 hal (i2c_address h) BME280_REGISTER_HUMIDDATA s
      in (bme280_humidity (calib h) (t_fine h) (ucast tmp), s))"

text \<open>The calibration data, in the order of the reads. A failed read leaves whatever the receive buffer
  held; the high byte of \<open>dig_H5\<close> is read from the register of \<open>dig_H6\<close>.\<close>

definition bme280_cal16 ::
  "('w, 'h) i2c_hal_scheme \<Rightarrow> u8 \<Rightarrow> u8 \<Rightarrow> ('w, 's) pi2c_scheme \<Rightarrow> u16 \<times> ('w, 's) pi2c_scheme" where
  "bme280_cal16 hal a reg s = snd (I2C_read16_LE hal a reg s)"

definition bme280_cal8 ::
  "('w, 'h) i2c_hal_scheme \<Rightarrow> u8 \<Rightarrow> u8 \<Rightarrow> ('w, 's) pi2c_scheme \<Rightarrow> u8 \<times> ('w, 's) pi2c_scheme" where
  "bme280_cal8 hal a reg s = snd (I2C_read8 hal a reg s)"

definition bme280_calibration ::
  "('w, 'h) i2c_hal_scheme \<Rightarrow> u8 \<Rightarrow> ('w, 's) pi2c_scheme \<Rightarrow> bme280_calib_data_t \<times> ('w, 's) pi2c_scheme" where
  "bme280_calibration hal a s =
     (let (T1, s) = bme280_cal16 hal a BME280_REGISTER_DIG_T1 s;
          (T2, s) = bme280_cal16 hal a BME280_REGISTER_DIG_T2 s;
          (T3, s) = bme280_cal16 hal a BME280_REGISTER_DIG_T3 s;
          (P1, s) = bme280_cal16 hal a BME280_REGISTER_DIG_P1 s;
          (P2, s) = bme280_cal16 hal a BME280_REGISTER_DIG_P2 s;
          (P3, s) = bme280_cal16 hal a BME280_REGISTER_DIG_P3 s;
          (P4, s) = bme280_cal16 hal a BME280_REGISTER_DIG_P4 s;
          (P5, s) = bme280_cal16 hal a BME280_REGISTER_DIG_P5 s;
          (P6, s) = bme280_cal16 hal a BME280_REGISTER_DIG_P6 s;
          (P7, s) = bme280_cal16 hal a BME280_REGISTER_DIG_P7 s;
          (P8, s) = bme280_cal16 hal a BME280_REGISTER_DIG_P8 s;
          (P9, s) = bme280_cal16 hal a BME280_REGISTER_DIG_P9 s;
          (H1, s) = bme280_cal8 hal a BME280_REGISTER_DIG_H1 s;
          (H2, s) = bme280_cal16 hal a BME280_REGISTER_DIG_H2 s;
          (H3, s) = bme280_cal8 hal a BME280_REGISTER_DIG_H3 s;
          (tmp1, s) = bme280_cal8 hal a BME280_REGISTER_DIG_H4 s;
          (tmp2, s) = bme280_cal8 hal a BME280_REGISTER_DIG_H5 s;
          H4 = ucast (push_bit 4 (scast tmp1 :: i32) OR (ucast tmp2 AND 0x0F));
          (tmp1, s) = bme280_cal8 hal a BME280_REGISTER_DIG_H6 s;
          (tmp2, s) = bme280_cal8 hal a BME280_REGISTER_DIG_H5 s;
          H5 = ucast (push_bit 4 (scast tmp1 :: i32) OR (signed_drop_bit 4 (ucast tmp2 :: i32) AND 0x0F));
          (H6, s) = bme280_cal8 hal a BME280_REGISTER_DIG_H6 s
      in (\<lparr> dig_T1 = T1, dig_T2 = T2, dig_T3 = T3, dig_P1 = P1, dig_P2 = P2, dig_P3 = P3, dig_P4 = P4,
            dig_P5 = P5, dig_P6 = P6, dig_P7 = P7, dig_P8 = P8, dig_P9 = P9, dig_H1 = H1, dig_H2 = H2,
            dig_H3 = H3, dig_H4 = H4, dig_H5 = H5, dig_H6 = H6 \<rparr>, s))"

text \<open>For another sensor number than the three, the function pointers of the handle are not set.\<close>

definition BME280_Init ::
  "('w, 'h) i2c_hal_scheme \<Rightarrow> bme280_t \<Rightarrow> u8 \<Rightarrow> ('w, 's) pi2c_scheme \<Rightarrow> fault + bme280_t \<times> ('w, 's) pi2c_scheme" where
  "BME280_Init hal h n s =
     (if n \<notin> {BME280_I1, BME280_E1, BME280_E2} then Inl Null_call
      else
        (let h = h\<lparr>i2c_address := (if n = BME280_I1 then 0x77 else if n = BME280_E1 then 0x77 else 0x76)\<rparr>;
             (c, s) = bme280_calibration hal (i2c_address h) s;
             h = h\<lparr>calib := c\<rparr>;
             s = snd (I2C_write8 hal (i2c_address h) BME280_REGISTER_CONTROLHUMID 0x03 s);
             s = snd (I2C_write8 hal (i2c_address h) BME280_REGISTER_CONTROL 0x3F s);
             s = on_world (chThdSleep hal (TIME_MS2I hal 50)) s
         in Inr (snd (BME280_getTemperature hal h s))))"

section \<open>Raw readings\<close>

lemma bme280_adc20_value:
  "sint (bme280_adc20 tmp lo) = int (256 * unat tmp + unat lo) div 16"
  "0 \<le> sint (bme280_adc20 tmp lo)" "sint (bme280_adc20 tmp lo) < 1048576"
proof -
  let ?x = "push_bit 8 (ucast tmp :: i32) OR ucast lo"
  have "?x = push_bit 8 (ucast tmp) + ucast lo"
    by (rule disjunctive_add [symmetric]) (auto simp: bit_simps dest: bit_u8D)
  then have u: "unat ?x = 256 * unat tmp + unat lo"
    using unat_u16_bound [of tmp] unat_u8_bound [of lo]
    by (simp add: push_bit_eq_mult unat_word_ariths unat_ucast_widen del: unat_u8_bound unat_u16_bound)
  have lt: "256 * unat tmp + unat lo < 16777216"
    using unat_u16_bound [of tmp] unat_u8_bound [of lo] by linarith
  have ff00: "0xFF00 = (push_bit 8 (mask 8) :: u16)"
    by (simp add: mask_eq_exp_minus_1 push_bit_eq_mult)
  have "bme280_adc20 tmp lo = signed_drop_bit 4 ?x"
    unfolding bme280_adc20_def Let_def mask_byte ff00
    by (rule arg_cong [where f = "signed_drop_bit 4"], rule bit_word_eqI) (auto simp: bit_simps dest: bit_u8D)
  moreover have "sint ?x = int (256 * unat tmp + unat lo)"
    using lt by (subst sint_small) (simp_all only: u, simp)
  ultimately show v: "sint (bme280_adc20 tmp lo) = int (256 * unat tmp + unat lo) div 16"
    by (simp add: sint_asr)
  show "0 \<le> sint (bme280_adc20 tmp lo)" "sint (bme280_adc20 tmp lo) < 1048576"
    unfolding v using lt by linarith+
qed

section \<open>Temperature\<close>

text \<open>The formula over the integers, and the readings for which its products fit into 32 bits.\<close>

definition t_fine_exact :: "bme280_calib_data_t \<Rightarrow> int \<Rightarrow> int" where
  "t_fine_exact c a =
     (let T1 = int (unat (dig_T1 c)); T2 = sint (dig_T2 c); T3 = sint (dig_T3 c)
      in (a div 8 - 2 * T1) * T2 div 2048 + (a div 16 - T1) * (a div 16 - T1) div 4096 * T3 div 16384)"

definition t_fine_fits :: "bme280_calib_data_t \<Rightarrow> int \<Rightarrow> bool" where
  "t_fine_fits c a \<longleftrightarrow>
     (let T1 = int (unat (dig_T1 c)); T2 = sint (dig_T2 c); T3 = sint (dig_T3 c)
      in \<bar>(a div 8 - 2 * T1) * T2\<bar> < 2147483648 \<and> (a div 16 - T1) * (a div 16 - T1) < 2147483648
         \<and> \<bar>(a div 16 - T1) * (a div 16 - T1) div 4096 * T3\<bar> < 2147483648)"

lemma sint_scast_16: "sint (scast x :: i32) = sint x" for x :: i16
proof -
  have "- 32768 \<le> sint x" "sint x < 32768"
    using sint_range_size [of x] by (simp_all add: word_size)
  then show ?thesis
    by (simp add: signed_scast_eq signed_take_bit_int_eq_self)
qed

lemma sint_ucast_16: "sint (ucast x :: i32) = int (unat x)" for x :: u16
  using unat_u16_bound [of x] by (subst sint_small) (simp_all add: unat_ucast_widen del: unat_u16_bound)

lemma bme280_t_fine_value:
  assumes "0 \<le> sint a" "sint a < 1048576" "t_fine_fits c (sint a)"
  shows "sint (bme280_t_fine c a) = t_fine_exact c (sint a)"
    and "\<bar>t_fine_exact c (sint a)\<bar> \<le> 1310720"
proof -
  define T1 T2 T3 :: i32 where "T1 = ucast (dig_T1 c)" and "T2 = scast (dig_T2 c)" and "T3 = scast (dig_T3 c)"
  define x y where "x = sint a div 8 - 2 * sint T1" and "y = sint a div 16 - sint T1"
  have T: "sint T1 = int (unat (dig_T1 c))" "sint T2 = sint (dig_T2 c)" "sint T3 = sint (dig_T3 c)"
    by (simp_all add: T1_def T2_def T3_def sint_scast_16 sint_ucast_16)
  have T1: "0 \<le> sint T1" "sint T1 < 65536"
    using unat_u16_bound [of "dig_T1 c"] unfolding T by linarith+
  have fits: "\<bar>x * sint T2\<bar> < 2147483648" "y * y < 2147483648" "\<bar>y * y div 4096 * sint T3\<bar> < 2147483648"
    using assms(3) by (simp_all add: t_fine_fits_def Let_def x_def y_def T)
  have range: "\<bar>x\<bar> < 131072" "\<bar>y\<bar> < 65536"
    using assms(1,2) T1 unfolding x_def y_def by linarith+
  have "sint (push_bit 1 T1) = 2 * sint T1"
    using T1 unfolding push_bit_eq_mult by (subst sint_mult_small) simp_all
  then have x: "sint (signed_drop_bit 3 a - push_bit 1 T1) = x"
    using range(1) by (subst sint_minus_small) (simp_all add: sint_asr x_def)
  have y: "sint (signed_drop_bit 4 a - T1) = y"
    using range(2) by (subst sint_minus_small) (simp_all add: sint_asr y_def)
  have v1: "sint ((signed_drop_bit 3 a - push_bit 1 T1) * T2) = x * sint T2"
    using fits(1) by (subst sint_mult_small) (simp_all only: x, simp_all)
  have yy: "sint ((signed_drop_bit 4 a - T1) * (signed_drop_bit 4 a - T1)) = y * y"
    using fits(2) by (subst sint_mult_small) (simp_all only: y, simp_all add: order_trans [OF _ zero_le_square])
  have v2: "sint (signed_drop_bit 12 ((signed_drop_bit 4 a - T1) * (signed_drop_bit 4 a - T1)) * T3) = y * y div 4096 * sint T3"
    using fits(3) by (subst sint_mult_small) (simp_all only: yy sint_asr, simp_all)
  have "\<bar>x * sint T2 div 2048\<bar> \<le> 1048576" "\<bar>y * y div 4096 * sint T3 div 16384\<bar> \<le> 131072"
    using fits(1,3) by linarith+
  then have sum: "\<bar>x * sint T2 div 2048 + y * y div 4096 * sint T3 div 16384\<bar> \<le> 1310720"
    by linarith
  have "sint (bme280_t_fine c a) = x * sint T2 div 2048 + y * y div 4096 * sint T3 div 16384"
    using sum unfolding bme280_t_fine_def Let_def T1_def [symmetric] T2_def [symmetric] T3_def [symmetric]
    by (subst sint_plus_small) (simp_all only: sint_asr v1 v2, simp_all)
  moreover have "x * sint T2 div 2048 + y * y div 4096 * sint T3 div 16384 = t_fine_exact c (sint a)"
    by (simp add: t_fine_exact_def Let_def x_def y_def T)
  ultimately show "sint (bme280_t_fine c a) = t_fine_exact c (sint a)" "\<bar>t_fine_exact c (sint a)\<bar> \<le> 1310720"
    using sum by simp_all
qed

lemma bme280_centi_degrees_value:
  assumes "\<bar>sint t\<bar> \<le> 1310720"
  shows "sint (bme280_centi_degrees t) = (sint t * 5 + 128) div 256"
proof -
  have "sint (t * 5) = sint t * 5"
    using assms by (subst sint_mult_small) simp_all
  then have "sint (t * 5 + 128) = sint t * 5 + 128"
    using assms by (subst sint_plus_small) simp_all
  then have w: "sint (signed_drop_bit 8 (t * 5 + 128)) = (sint t * 5 + 128) div 256"
    by (simp add: sint_asr)
  have "bme280_centi_degrees t = word_of_int ((sint t * 5 + 128) div 256)"
    unfolding bme280_centi_degrees_def w [symmetric]
    using ucast_of_int [of "sint (signed_drop_bit 8 (t * 5 + 128))", where ?'a = 32 and ?'b = 16] by simp
  moreover have "- 32768 \<le> (sint t * 5 + 128) div 256" "(sint t * 5 + 128) div 256 < 32768"
    using assms by linarith+
  ultimately show ?thesis
    by (simp add: sint_of_int)
qed

section \<open>Humidity\<close>

lemma f32_scale_bounds:
  "0 < a \<Longrightarrow> a < 2 ^ 24 * b \<Longrightarrow> 2 ^ 23 * b \<le> a * 2 ^ f32_scale a b \<and> a * 2 ^ f32_scale a b < 2 ^ 24 * b"
proof (induction a b rule: f32_scale.induct)
  case (1 a b)
  show ?case
  proof (cases "2 ^ 23 * b \<le> a")
    case True
    with "1.prems" show ?thesis
      by (simp add: f32_scale.simps [of a])
  next
    case False
    then have "2 * a < 2 ^ 24 * b"
      by simp
    with "1.IH" "1.prems" False have "2 ^ 23 * b \<le> 2 * a * 2 ^ f32_scale (2 * a) b \<and> 2 * a * 2 ^ f32_scale (2 * a) b < 2 ^ 24 * b"
      by simp
    moreover have "f32_scale a b = Suc (f32_scale (2 * a) b)"
      using False "1.prems" by (simp add: f32_scale.simps [of a])
    ultimately show ?thesis
      by (simp add: mult.assoc mult.left_commute)
  qed
qed

lemma round_even_bounds:
  assumes "0 < d"
  shows "n div d \<le> round_even n d" "n + d div 2 < m * d \<Longrightarrow> round_even n d < m"
proof -
  show "n div d \<le> round_even n d"
    by (simp add: round_even_def Let_def)
  assume less: "n + d div 2 < m * d"
  have n: "n = n div d * d + n mod d"
    by simp
  show "round_even n d < m"
  proof (cases "round_even n d = n div d")
    case True
    moreover have "n div d < m"
      using less assms by (metis add_lessD1 div_less_iff_less_mult)
    ultimately show ?thesis
      by simp
  next
    case False
    then have r: "round_even n d = n div d + 1" "d \<le> 2 * (n mod d)"
      by (auto simp: round_even_def Let_def split: if_splits)
    have "d \<le> n mod d + d div 2"
      using r(2) by linarith
    moreover have "(n div d + 1) * d = n div d * d + d"
      by simp
    ultimately have "(n div d + 1) * d \<le> n + d div 2"
      using n by linarith
    then have "(n div d + 1) * d < m * d"
      using less by linarith
    then show ?thesis
      unfolding r(1) by (rule mult_less_cancel2 [THEN iffD1, THEN conjunct2])
  qed
qed

lemma f32_div_trunc_eq:
  assumes "0 < b" "a < 2 ^ 23"
  shows "f32_div_trunc a b = a div b"
proof (cases "a = 0")
  case True
  then show ?thesis
    using assms by (simp add: f32_div_trunc_def f32_scale.simps round_even_def)
next
  case False
  define e where "e = f32_scale a b"
  have "a < 2 ^ 24 * b"
    using assms by (cases b) simp_all
  then have e: "2 ^ 23 * b \<le> a * 2 ^ e"
    using f32_scale_bounds [of a b] False by (simp add: e_def)
  have "b \<le> 2 ^ e"
  proof (rule ccontr)
    assume "\<not> b \<le> 2 ^ e"
    then have "a * 2 ^ e < 2 ^ 23 * b"
      using assms(2) False by (intro mult_strict_mono) simp_all
    with e show False
      by simp
  qed
  define m where "m = round_even (a * 2 ^ e) b"
  have "a div b * 2 ^ e \<le> a * 2 ^ e div b"
    using div_times_less_eq_dividend [of a b] assms(1)
    by (simp add: less_eq_div_iff_mult_less_eq mult.assoc mult.left_commute) 
  then have lo: "a div b * 2 ^ e \<le> m"
    unfolding m_def using round_even_bounds(1) [OF assms(1)] by (rule le_trans)
  have "a + 1 \<le> (a div b + 1) * b"
    using assms(1) by (metis Suc_eq_plus1 Suc_leI add.commute dividend_less_div_times mult.commute mult_Suc)
  then have "(a + 1) * 2 ^ e \<le> (a div b + 1) * b * 2 ^ e"
    by (rule mult_le_mono1)
  then have "a * 2 ^ e + b \<le> (a div b + 1) * 2 ^ e * b"
    using \<open>b \<le> 2 ^ e\<close> by (simp add: algebra_simps)
  then have hi: "m < (a div b + 1) * 2 ^ e"
    unfolding m_def using assms(1) by (intro round_even_bounds(2) [OF assms(1)]) linarith
  have "m div 2 ^ e = a div b"
    using lo hi by (intro div_nat_eqI) (simp_all add: mult.commute)
  then show ?thesis
    by (simp add: f32_div_trunc_def Let_def e_def m_def)
qed

lemma bme280_limit_value: "sint (bme280_limit x) = min (max 0 (sint x)) 419430400"
  by (auto simp: bme280_limit_def min_def max_def)

lemma bme280_humidity_value:
  "int (unat (bme280_humidity c t a)) =
     min (max 0 (sint (bme280_humidity_raw c t a))) 419430400 div 4096 div 1020"
proof -
  define y where "y = bme280_limit (bme280_humidity_raw c t a)"
  have y: "sint y = min (max 0 (sint (bme280_humidity_raw c t a))) 419430400"
    by (simp add: y_def bme280_limit_value)
  then have "0 \<le> sint y" "sint y \<le> 419430400"
    by simp_all
  then have q: "0 \<le> sint y div 4096" "sint y div 4096 \<le> 102400"
    by linarith+
  then have n: "unat (signed_drop_bit 12 y) = nat (sint y div 4096)"
    by (subst unat_sint) (simp_all add: sint_asr)
  have "nat (sint y div 4096) div 1020 \<le> 102400 div 1020"
    using q by (intro div_le_mono) linarith
  then have le: "nat (sint y div 4096) div 1020 < 256"
    by simp
  have "nat (sint y div 4096) < 2 ^ 23"
    using q by simp
  then have "bme280_humidity c t a = of_nat (nat (sint y div 4096) div 1020)"
    by (simp only: bme280_humidity_def y_def [symmetric] n) (simp add: f32_div_trunc_eq)
  then have "unat (bme280_humidity c t a) = nat (sint y div 4096) div 1020"
    using le by (simp add: unat_of_nat)
  then show ?thesis
    using q unfolding y [symmetric] by (simp only: zdiv_int) simp
qed

end
