(* ===== verification/Bme280_Device.thy ===== *)
theory Bme280_Device
  imports Bme280
begin

text \<open>
  The driver of \<open>src/bme280.c\<close> with a sensor at the other end of the bus: what the calibration data, the
  temperature, the pressure and the humidity are in terms of the registers of the sensor.
\<close>

section \<open>Readings\<close>

lemma getTemperature_reads:
  assumes "i2c_answers hal dev" "dev (i2c_address h) [0xFA] = Some x" "dev (i2c_address h) [0xFC] = Some y"
  shows "fst (snd (BME280_getTemperature hal h s)) =
      h\<lparr>t_fine := bme280_t_fine (calib h) (bme280_adc20 (reg_of_bytes (x 0, x 1)) (y 0))\<rparr>"
    and "fst (BME280_getTemperature hal h s) =
      bme280_centi_degrees (bme280_t_fine (calib h) (bme280_adc20 (reg_of_bytes (x 0, x 1)) (y 0)))"
  using assms(2,3)
  by (simp_all add: BME280_getTemperature_def bme280_registers case_prod_unfold Let_def device_reads [OF assms(1)])

text \<open>The bus state after one sample, which the loop passes on.\<close>

lemma pressure_samples_device:
  assumes dev: "i2c_answers hal dev" "dev (i2c_address h) [0xF7] = Some x" "dev (i2c_address h) [0xF9] = Some y"
    and p: "bme280_pressure (calib h) (t_fine h) (bme280_adc20 (reg_of_bytes (x 0, x 1)) (y 0)) = Some p"
  shows "fst (pressure_samples hal h n acc s) = Some (acc + of_nat n * p)"
proof (induction n arbitrary: acc s)
  case (Suc n)
  then show ?case
    using dev(2,3) p
    by (simp add: bme280_registers case_prod_unfold Let_def device_reads [OF dev(1)] algebra_simps)
qed simp

lemma pressure_quotient:
  fixes p :: i64
  assumes "0 < n" "n < 65536" "0 \<le> sint p" "sint p < 26 * 2 ^ 32"
  shows "unat (ucast ((of_nat n * p) div scast (of_nat n * 26 :: i32)) :: u32) = nat (sint p) div 26"
proof -
  define k where "k = nat (sint p)"
  have p: "unat p = k" "k < 26 * 2 ^ 32"
    using assms(3,4) by (simp_all add: unat_sint k_def)
  have "n * k < 65536 * (26 * 2 ^ 32)"
    using assms(2) p(2) by (intro mult_strict_mono) simp_all
  then have num: "unat (of_nat n * p) = n * k"
    using assms(2) p by (subst unat_mult_small) (simp_all add: unat_of_nat)
  have "unat (of_nat n * 26 :: i32) = n * 26"
    using assms(2) by (subst unat_mult_small) (simp_all add: unat_of_nat)
  then have "sint (of_nat n * 26 :: i32) = int (n * 26)"
    using assms(2) by (subst sint_small) simp_all
  then have den: "scast (of_nat n * 26 :: i32) = (of_nat (n * 26) :: u64)"
    by (simp add: scast_eq del: of_nat_mult)
  have "unat (of_nat (n * 26) :: u64) = n * 26"
    using assms(2) by (simp add: unat_of_nat del: of_nat_mult)
  then have "unat ((of_nat n * p) div scast (of_nat n * 26 :: i32)) = n * k div (n * 26)"
    by (simp only: den unat_div_distrib num)
  also have "\<dots> = k div 26"
    using assms(1) by simp
  finally have q: "unat ((of_nat n * p) div scast (of_nat n * 26 :: i32)) = k div 26" .
  have "k div 26 < 2 ^ 32"
    using p(2) by (simp add: div_less_iff_less_mult)
  then show ?thesis
    by (simp add: unsigned_ucast_eq q k_def [symmetric] take_bit_nat_eq_self)
qed

section \<open>Calibration data\<close>

lemma sint_narrow:
  fixes w :: i32
  assumes "- 32768 \<le> sint w" "sint w < 32768"
  shows "sint (ucast w :: i16) = sint w"
proof -
  have "ucast w = (word_of_int (sint w) :: i16)"
    using ucast_of_int [of "sint w", where ?'a = 32 and ?'b = 16] by simp
  then show ?thesis
    using assms by (simp only:) (rule sint_of_int, simp_all)
qed

lemma signed_join:
  fixes hi :: u8 and z :: i32
  shows "sint (ucast (push_bit 4 (scast hi) OR take_bit 4 z) :: i16) = 16 * sint hi + int (unat z mod 16)"
proof -
  have hi: "- 128 \<le> sint hi" "sint hi < 128"
    using sint_range_size [of hi] by (simp_all add: word_size)
  have "sint (scast hi :: i32) = sint hi"
    using hi by (simp add: signed_scast_eq signed_take_bit_int_eq_self)
  then have h: "sint (push_bit 4 (scast hi :: i32)) = 16 * sint hi"
    using hi unfolding push_bit_eq_mult by (subst sint_mult_small) simp_all
  have "unat (take_bit 4 z) = unat z mod 16"
    by (simp add: unsigned_take_bit_eq) (simp add: take_bit_eq_mod)
  then have x: "sint (take_bit 4 z) = int (unat z mod 16)"
    by (subst sint_small) (simp_all only:, simp)
  have x_range: "0 \<le> int (unat z mod 16)" "int (unat z mod 16) < 16"
    by simp_all
  have "push_bit 4 (scast hi) OR take_bit 4 z = push_bit 4 (scast hi) + take_bit 4 z"
    by (rule disjunctive_add [symmetric]) (auto simp: bit_simps)
  then have "sint (push_bit 4 (scast hi) OR take_bit 4 z) = 16 * sint hi + int (unat z mod 16)"
    using hi x_range by (simp only:) (subst sint_plus_small; simp only: h x; simp)
  then show ?thesis
    using hi x_range by (subst sint_narrow) linarith+
qed

lemma signed_nibble:
  fixes hi lo :: u8
  shows "sint (ucast (push_bit 4 (scast hi :: i32) OR (ucast lo AND 0x0F)) :: i16) = 16 * sint hi + int (unat lo mod 16)"
    and "sint (ucast (push_bit 4 (scast hi :: i32) OR (signed_drop_bit 4 (ucast lo :: i32) AND 0x0F)) :: i16)
      = 16 * sint hi + int (unat lo div 16)"
proof -
  have m: "z AND 0x0F = take_bit 4 z" for z :: i32
    by (simp add: take_bit_eq_mask mask_eq_exp_minus_1)
  have "sint (signed_drop_bit 4 (ucast lo :: i32)) = int (unat lo) div 16"
    using unat_u8_bound [of lo]
    by (simp add: sint_asr, subst sint_small) (simp_all add: unat_ucast_widen del: unat_u8_bound)
  then have "unat (signed_drop_bit 4 (ucast lo :: i32)) = unat lo div 16"
    by (subst unat_sint) (simp_all add: nat_div_distrib pos_imp_zdiv_nonneg_iff)
  moreover have "unat lo div 16 < 16"
    using unat_u8_bound [of lo] by (simp add: div_less_iff_less_mult del: unat_u8_bound)
  ultimately show
    "sint (ucast (push_bit 4 (scast hi :: i32) OR (ucast lo AND 0x0F)) :: i16) = 16 * sint hi + int (unat lo mod 16)"
    "sint (ucast (push_bit 4 (scast hi :: i32) OR (signed_drop_bit 4 (ucast lo :: i32) AND 0x0F)) :: i16)
      = 16 * sint hi + int (unat lo div 16)"
    by (simp_all only: m signed_join unat_ucast_widen) (simp_all add: unat_ucast_widen)
qed

text \<open>The calibration data of a sensor whose registers are all readable.\<close>

definition reg_LE :: "i2c_devices \<Rightarrow> u8 \<Rightarrow> u8 \<Rightarrow> u16" where
  "reg_LE dev a r = reg_of_bytes (the (dev a [r]) 1, the (dev a [r]) 0)"

definition reg_8 :: "i2c_devices \<Rightarrow> u8 \<Rightarrow> u8 \<Rightarrow> u8" where
  "reg_8 dev a r = the (dev a [r]) 0"

lemma calibration_device:
  fixes s :: "('w, 's) pi2c_scheme" and hal :: "('w, 'h) i2c_hal_scheme"
  assumes "i2c_answers hal dev" "\<And>r. dev a [r] \<noteq> None"
  defines "c \<equiv> fst (bme280_calibration hal a s)"
  shows "dig_T1 c = reg_LE dev a 0x88" "dig_T2 c = reg_LE dev a 0x8A" "dig_T3 c = reg_LE dev a 0x8C"
    and "map (\<lambda>f. f c) [dig_P1, dig_P2, dig_P3, dig_P4, dig_P5, dig_P6, dig_P7, dig_P8, dig_P9]
      = map (reg_LE dev a) [0x8E, 0x90, 0x92, 0x94, 0x96, 0x98, 0x9A, 0x9C, 0x9E]"
    and "dig_H1 c = reg_8 dev a 0xA1" "dig_H2 c = reg_LE dev a 0xE1" "dig_H3 c = reg_8 dev a 0xE3"
    and "sint (dig_H4 c) = 16 * sint (reg_8 dev a 0xE4) + int (unat (reg_8 dev a 0xE5) mod 16)"
    and "sint (dig_H5 c) = 16 * sint (reg_8 dev a 0xE7) + int (unat (reg_8 dev a 0xE5) div 16)"
    and "dig_H6 c = reg_8 dev a 0xE7"
proof -
  have rd: "fst (bme280_cal16 hal a r s) = reg_LE dev a r" "fst (bme280_cal8 hal a r s) = reg_8 dev a r" for r s
    using assms(2) by (simp_all add: bme280_cal16_def bme280_cal8_def reg_LE_def reg_8_def device_reads [OF assms(1)])
  show "dig_T1 c = reg_LE dev a 0x88" "dig_T2 c = reg_LE dev a 0x8A" "dig_T3 c = reg_LE dev a 0x8C"
    "map (\<lambda>f. f c) [dig_P1, dig_P2, dig_P3, dig_P4, dig_P5, dig_P6, dig_P7, dig_P8, dig_P9]
      = map (reg_LE dev a) [0x8E, 0x90, 0x92, 0x94, 0x96, 0x98, 0x9A, 0x9C, 0x9E]"
    "dig_H1 c = reg_8 dev a 0xA1" "dig_H2 c = reg_LE dev a 0xE1" "dig_H3 c = reg_8 dev a 0xE3"
    "sint (dig_H4 c) = 16 * sint (reg_8 dev a 0xE4) + int (unat (reg_8 dev a 0xE5) mod 16)"
    "sint (dig_H5 c) = 16 * sint (reg_8 dev a 0xE7) + int (unat (reg_8 dev a 0xE5) div 16)"
    "dig_H6 c = reg_8 dev a 0xE7"
    unfolding c_def bme280_calibration_def Let_def case_prod_unfold fst_conv
    by (simp_all add: rd bme280_registers signed_nibble)
qed

section \<open>Properties\<close>

text \<open>A bus with fixed devices and nothing else, and the calibration data and raw values of the example in
  the data sheet of the sensor.\<close>

definition dev_hal :: "i2c_devices \<Rightarrow> unit i2c_hal" where
  "dev_hal dev =
     \<lparr> chprintf = (\<lambda>f xs w. w), TIME_MS2I = (\<lambda>ms. of_nat (10 * ms)), chThdSleep = (\<lambda>t w. w),
       chThdSleepMilliseconds = (\<lambda>t w. w), chVTGetSystemTimeX = (\<lambda>w. (0, w)),
       i2cAcquireBus = (\<lambda>w. w), i2cReleaseBus = (\<lambda>w. w), i2cStart = (\<lambda>c w. w), i2cStop = (\<lambda>w. w),
       i2cMasterTransmitTimeout = (\<lambda>a tx n t w.
         case dev a tx of None \<Rightarrow> (MSG_TIMEOUT, \<lambda>_. 0, w) | Some rx \<Rightarrow> (MSG_OK, rx, w)) \<rparr>"

lemma dev_hal_answers: "i2c_answers (dev_hal dev) dev"
  by (simp add: i2c_answers_def dev_hal_def split: option.split)

definition example_calib :: bme280_calib_data_t where
  "example_calib =
     \<lparr> dig_T1 = 27504, dig_T2 = 26435, dig_T3 = - 1000, dig_P1 = 36477, dig_P2 = - 10685, dig_P3 = 3024,
       dig_P4 = 2855, dig_P5 = 140, dig_P6 = - 7, dig_P7 = 15500, dig_P8 = - 14600, dig_P9 = 6000,
       dig_H1 = 75, dig_H2 = 362, dig_H3 = 0, dig_H4 = 311, dig_H5 = 50, dig_H6 = 30 \<rparr>"

definition example_handle :: bme280_t where
  "example_handle = \<lparr> i2c_address = 0x77, t_fine = 128422, calib = example_calib \<rparr>"

definition example_state :: "unit pi2c" where
  "example_state = \<lparr> world = (), i2c_error = 0 \<rparr>"

definition example_dev :: i2c_devices where
  "example_dev a tx = Some (\<lambda>i.
     if tx = [0xFA] then [0x7E, 0xED] ! i else if tx = [0xF7] then [0x65, 0x5A] ! i
     else if tx = [0xF9] then 0xC0 else 0)"

text \<open>C33: the calibration data that \<open>BME280_Init\<close> stores is that of the sensor: the 16-bit values are read
  with the low byte first, and \<open>dig_H4\<close> and \<open>dig_H5\<close> are signed values of 12 bits joined from a byte and
  half of register 0xE5; the high byte of \<open>dig_H5\<close> is that of register 0xE7, which is also \<open>dig_H6\<close>. Another
  sensor number than the three calls through a pointer that is not set.\<close>
theorem bme280_init_calibration:
  fixes s :: "('w, 's) pi2c_scheme" and n :: u8
  defines "a \<equiv> if n = BME280_E2 then 0x76 else 0x77"
  assumes "i2c_answers hal dev" "\<forall>r. dev a [r] \<noteq> None"
  shows "if n \<in> {BME280_I1, BME280_E1, BME280_E2}
    then \<exists>h' s'. BME280_Init hal h n s = Inr (h', s') \<and> i2c_address h' = a
      \<and> [dig_T1 (calib h'), dig_T2 (calib h'), dig_T3 (calib h')] = map (reg_LE dev a) [0x88, 0x8A, 0x8C]
      \<and> map (\<lambda>f. f (calib h')) [dig_P1, dig_P2, dig_P3, dig_P4, dig_P5, dig_P6, dig_P7, dig_P8, dig_P9]
          = map (reg_LE dev a) [0x8E, 0x90, 0x92, 0x94, 0x96, 0x98, 0x9A, 0x9C, 0x9E]
      \<and> dig_H1 (calib h') = reg_8 dev a 0xA1 \<and> dig_H2 (calib h') = reg_LE dev a 0xE1 \<and> dig_H3 (calib h') = reg_8 dev a 0xE3
      \<and> sint (dig_H4 (calib h')) = 16 * sint (reg_8 dev a 0xE4) + int (unat (reg_8 dev a 0xE5) mod 16)
      \<and> sint (dig_H5 (calib h')) = 16 * sint (reg_8 dev a 0xE7) + int (unat (reg_8 dev a 0xE5) div 16)
      \<and> dig_H6 (calib h') = reg_8 dev a 0xE7
    else BME280_Init hal h n s = Inl Null_call"
proof (cases "n \<in> {BME280_I1, BME280_E1, BME280_E2}")
  case True
  have addr: "(if n = BME280_I1 then 0x77 else if n = BME280_E1 then 0x77 else 0x76) = a"
    using True by (auto simp: a_def BME280_I1_def BME280_E1_def BME280_E2_def)
  have keep: "calib (fst (snd (BME280_getTemperature hal k t))) = calib k"
    "i2c_address (fst (snd (BME280_getTemperature hal k t))) = i2c_address k" for k and t :: "('w, 's) pi2c_scheme"
    by (simp_all add: BME280_getTemperature_def case_prod_unfold Let_def)
  obtain h' s' where res: "BME280_Init hal h n s = Inr (h', s')" "calib h' = fst (bme280_calibration hal a s)"
    "i2c_address h' = a"
    using True unfolding BME280_Init_def addr by (simp add: case_prod_unfold Let_def keep prod_eq_iff)
  show ?thesis
    using True res(1,3) calibration_device [OF assms(2), of a s] assms(3) unfolding res(2) [symmetric] by auto
next
  case False
  then show ?thesis
    by (simp add: BME280_Init_def)
qed

theorem bme280_init_calibration_witness:
  "\<exists>h' s'. BME280_Init (dev_hal (\<lambda>a tx. Some (\<lambda>i. tx ! 0 + of_nat i))) example_handle BME280_E2 example_state
     = Inr (h', s') \<and> i2c_address h' = 0x76 \<and> dig_T1 (calib h') = 0x8988
     \<and> sint (dig_H4 (calib h')) = - 443 \<and> sint (dig_H5 (calib h')) = - 386 \<and> sint (dig_H6 (calib h')) = - 25"
  using bme280_init_calibration [of "dev_hal (\<lambda>a tx. Some (\<lambda>i. tx ! 0 + of_nat i))" "\<lambda>a tx. Some (\<lambda>i. tx ! 0 + of_nat i)"
      BME280_E2 example_handle example_state, OF dev_hal_answers]
  by (auto simp: reg_LE_def reg_8_def reg_of_bytes_def)

text \<open>C15: the temperature is the data sheet formula over the integers, in hundredths of a degree: the two reads
  give the 20-bit value of the sensor, and for every calibration data and reading for which the products of
  the formula fit into 32 bits nothing is lost, neither in \<open>t_fine\<close> nor in the 16-bit result.\<close>
theorem bme280_temperature_exact:
  assumes "i2c_answers hal dev" "dev (i2c_address h) [0xFA] = Some x" "dev (i2c_address h) [0xFC] = Some y"
    and "a = (65536 * int (unat (x 0)) + 256 * int (unat (x 1)) + int (unat (y 0))) div 16"
    and "t_fine_fits (calib h) a"
  shows "\<exists>T h' s'. BME280_getTemperature hal h s = (T, h', s')
    \<and> h' = h\<lparr>t_fine := word_of_int (t_fine_exact (calib h) a)\<rparr> \<and> \<bar>t_fine_exact (calib h) a\<bar> \<le> 1310720
    \<and> sint T = (t_fine_exact (calib h) a * 5 + 128) div 256"
proof -
  define w where "w = bme280_adc20 (reg_of_bytes (x 0, x 1)) (y 0)"
  have "int (unat (reg_of_bytes (x 0, x 1))) = 256 * int (unat (x 0)) + int (unat (x 1))"
    by (simp add: reg_of_bytes_value)
  then have a: "sint w = a"
    unfolding w_def bme280_adc20_value(1) assms(4) by simp
  have w: "0 \<le> sint w" "sint w < 1048576"
    unfolding w_def by (rule bme280_adc20_value)+
  note t = bme280_t_fine_value [OF w, unfolded a, OF assms(5)]
  have "bme280_t_fine (calib h) w = word_of_int (t_fine_exact (calib h) a)"
    unfolding t(1) [symmetric] by simp
  moreover have "sint (bme280_centi_degrees (bme280_t_fine (calib h) w)) = (t_fine_exact (calib h) a * 5 + 128) div 256"
    using bme280_centi_degrees_value [of "bme280_t_fine (calib h) w"] t by simp
  ultimately show ?thesis
    using getTemperature_reads [OF assms(1-3), of s] t(2) unfolding w_def [symmetric]
    by (cases "BME280_getTemperature hal h s") simp
qed

theorem bme280_temperature_exact_witness:
  "\<exists>T h' s'. BME280_getTemperature (dev_hal example_dev) example_handle example_state = (T, h', s')
     \<and> t_fine h' = 128422 \<and> sint T = 2508"
  using bme280_temperature_exact [of "dev_hal example_dev" example_dev example_handle
      "\<lambda>i. [0x7E, 0xED] ! i" "\<lambda>_. 0" 519888 example_state, OF dev_hal_answers]
  by (auto simp: example_dev_def example_handle_def example_calib_def t_fine_fits_def t_fine_exact_def)



text \<open>C32: the humidity is a percentage: for every answer of the bus, calibration data and \<open>t_fine\<close>, the value
  of the formula is limited to 0 and 100 * 2^22, and the result is at most 100 (the division by \<open>1020\<close>, in
  \<open>float\<close>, is the integer division: rounding never reaches the next integer). The comment of the function says
  tenths of a percent.\<close>
theorem bme280_humidity_percent:
  "\<exists>adc s'. BME280_getHumidity hal h s = (bme280_humidity (calib h) (t_fine h) adc, s') \<and> 0 \<le> sint adc \<and> sint adc < 65536
    \<and> int (unat (bme280_humidity (calib h) (t_fine h) adc))
        = min (max 0 (sint (bme280_humidity_raw (calib h) (t_fine h) adc))) 419430400 div 4096 div 1020
    \<and> unat (bme280_humidity (calib h) (t_fine h) adc) \<le> 100"
proof -
  obtain st tmp s' where "I2C_read16 hal (i2c_address h) BME280_REGISTER_HUMIDDATA s = (st, tmp, s')"
    by (cases "I2C_read16 hal (i2c_address h) BME280_REGISTER_HUMIDDATA s")
  then have "BME280_getHumidity hal h s = (bme280_humidity (calib h) (t_fine h) (ucast tmp), s')"
    by (simp add: BME280_getHumidity_def)
  moreover have "0 \<le> sint (ucast tmp :: i32)" "sint (ucast tmp :: i32) < 65536"
    using unat_u16_bound [of tmp] unfolding sint_ucast_16 by linarith+
  moreover have "unat (bme280_humidity (calib h) (t_fine h) (ucast tmp)) \<le> 100"
    using bme280_humidity_value [of "calib h" "t_fine h" "ucast tmp"] by linarith
  ultimately show ?thesis
    using bme280_humidity_value by blast
qed

end
