(* ===== verification/Collector.thy ===== *)
theory Collector
  imports Debug Bme280_Device Ptime
begin

text \<open>
  The collection of the telemetry data, \<open>src/collector.c\<close> and \<open>src/collector.h\<close>. \<open>getSensors\<close> reads every
  sensor of the board into a data point, one block of the function per sensor; \<open>setSystemStatus\<close> fills in the
  error word. The local BME280 handle of \<open>getSensors\<close> is an argument, since the code does not initialise it. The
  real-time clock and the conversion of the system time are further fields of the interface. The collector
  thread and the acquisition of a position are commented out in the source but for their frame.
\<close>

section \<open>Data points\<close>

datatype gpsState_t = GPS_LOCKED1 | GPS_LOCKED2 | GPS_LOSS | GPS_LOWBATT1 | GPS_LOWBATT2 | GPS_LOG | GPS_OFF
  | GPS_ERROR | GPS_FIXED | GPS_TIME

definition GPS_STATE_NAMES :: "string list" where
  "GPS_STATE_NAMES =
     [''LOCKED1'', ''LOCKED2'', ''LOSS'', ''LOWBATT1'', ''LOWBATT2'', ''LOG'', ''OFF'', ''ERROR'', ''FIXED'', ''TIME'']"

definition GPS_STATE_MAX :: u8 where
  "GPS_STATE_MAX = 9"

definition BME_ALL_STATUS_MASK :: u32 where
  "BME_ALL_STATUS_MASK = 0x3F"

definition BME_ALL_STATUS_SHIFT :: nat where
  "BME_ALL_STATUS_SHIFT = 8"

record dataPoint_t =
  adc_vsol :: u16
  adc_vbat :: u16
  pac_vsol :: u16
  pac_vbat :: u16
  pac_pbat :: i16
  pac_psol :: i16
  light_intensity :: u16
  ltr329_intensity_ch0 :: u16
  ltr329_intensity_ch1 :: u16
  gps_state :: gpsState_t
  gps_sats :: u8
  gps_ttff :: u8
  gps_pdop :: u8
  gps_alt :: u16
  gps_lat :: i32
  gps_lon :: i32
  sen_i1_press :: u32
  sen_e1_press :: u32
  sen_e2_press :: u32
  sen_i1_temp :: i16
  sen_e1_temp :: i16
  sen_e2_temp :: i16
  sen_i1_hum :: u8
  sen_e1_hum :: u8
  sen_e2_hum :: u8
  mpu9250_x_accel :: i16
  mpu9250_y_accel :: i16
  mpu9250_z_accel :: i16
  dummy2 :: u8
  stm32_temp :: i16
  si446x_temp :: i16
  tmp100_0_temp :: i16
  tmp100_1_temp :: i16
  tmp100_2_temp :: i16
  tmp100_3_temp :: i16
  tmp100_4_temp :: i16
  tmp100_5_temp :: i16
  tmp100_6_temp :: i16
  tmp100_7_temp :: i16
  dp_reset :: u16
  dp_id :: u32
  gps_time :: u32
  sys_time :: u32
  sys_error :: u32
  gpio :: u8

definition hasGPSacquiredLock :: "dataPoint_t \<Rightarrow> bool" where
  "hasGPSacquiredLock dp \<longleftrightarrow> gps_state dp = GPS_LOCKED1 \<or> gps_state dp = GPS_LOCKED2"

definition isPositionValid :: "dataPoint_t \<Rightarrow> bool" where
  "isPositionValid dp \<longleftrightarrow>
     gps_state dp = GPS_LOCKED1 \<or> gps_state dp = GPS_LOCKED2 \<or> gps_state dp = GPS_FIXED \<or> gps_state dp = GPS_LOG"

definition isPositionFromSV :: "dataPoint_t \<Rightarrow> bool" where
  "isPositionFromSV dp = hasGPSacquiredLock dp"

definition isGPSbatteryOperable :: "dataPoint_t \<Rightarrow> bool" where
  "isGPSbatteryOperable dp \<longleftrightarrow>
     gps_state dp = GPS_LOCKED1 \<or> gps_state dp = GPS_LOCKED2 \<or> gps_state dp = GPS_LOSS"

section \<open>State and interface\<close>

record 'w coll_hal = "'w dbg_hal" +
  RTC_BASE_YEAR :: int
  rtcGetTime :: "'w \<Rightarrow> RTCDateTime"
  TIME_I2S :: "u32 \<Rightarrow> u32"

record 'w collector = "'w debug" +
  bme280_error :: u8
  lastDataPoint :: "dataPoint_t option"

definition coll_print ::
  "('w, 'h) os_hal_scheme \<Rightarrow> string \<Rightarrow> ('w, 's) module_state_scheme \<Rightarrow> ('w, 's) module_state_scheme" where
  "coll_print hal msg s = on_world (chprintf hal (line msg) []) s"

section \<open>Position\<close>

definition get_gps_state_name :: "u8 \<Rightarrow> string" where
  "get_gps_state_name index =
     (if index > GPS_STATE_MAX then ''INVALID'' else GPS_STATE_NAMES ! unat index)"

definition getLastDataPoint :: "('w, 's) collector_scheme \<Rightarrow> dataPoint_t option" where
  "getLastDataPoint s = lastDataPoint s"

definition getPositionFallback ::
  "('w, 'h) coll_hal_scheme \<Rightarrow> dataPoint_t \<Rightarrow> dataPoint_t \<Rightarrow> gpsState_t \<Rightarrow> ('w, 's) collector_scheme \<Rightarrow> fault + dataPoint_t" where
  "getPositionFallback hal tp ltp state s =
     (let tp = tp\<lparr>gps_state := state, gps_time := 0, gps_lat := 0, gps_lon := 0, gps_alt := 0\<rparr>;
          tp = (if isPositionFromSV ltp
                then tp\<lparr>gps_lat := gps_lat ltp, gps_lon := gps_lon ltp, gps_alt := gps_alt ltp, gps_time := gps_time ltp\<rparr>
                else tp);
          time = getTime (RTC_BASE_YEAR hal) (rtcGetTime hal) (world s)
      in if uint (year time) \<noteq> RTC_BASE_YEAR hal
         then case date2UnixTimestamp time of None \<Rightarrow> Inl Out_of_bounds | Some t \<Rightarrow> Inr (tp\<lparr>gps_time := t\<rparr>)
         else Inr tp)"

definition aquirePosition ::
  "('w, 'h) coll_hal_scheme \<Rightarrow> dataPoint_t \<Rightarrow> dataPoint_t \<Rightarrow> u32 \<Rightarrow> ('w, 's) collector_scheme \<Rightarrow> bool \<times> ('w, 's) collector_scheme" where
  "aquirePosition hal tp ltp timeout s =
     (False, TRACE_WARN hal ''collector.c'' 131 ''COLL > GPS not enabled, but asking for position'' [] s)"

section \<open>Sensors\<close>

text \<open>The block of one BME280, with its message and its bit of the error variable.\<close>

definition bme280_sample ::
  "('w, 'h) coll_hal_scheme \<Rightarrow> u8 \<Rightarrow> string \<Rightarrow> u8 \<Rightarrow> bme280_t \<Rightarrow> ('w, 's) collector_scheme
     \<Rightarrow> fault + (u32 \<times> u8 \<times> i16) \<times> bme280_t \<times> ('w, 's) collector_scheme" where
  "bme280_sample hal n msg err h s =
     (let (ok, s) = BME280_isAvailable hal n s
      in if ok then
           (case BME280_Init hal h n s of
              Inl f \<Rightarrow> Inl f
            | Inr (h, s) \<Rightarrow>
                (case BME280_getPressure hal h 32 s of
                   Inl f \<Rightarrow> Inl f
                 | Inr (press, s) \<Rightarrow>
                     (let (hum, s) = BME280_getHumidity hal h s;
                          (temp, h, s) = BME280_getTemperature hal h s
                      in Inr ((press, hum, temp), h, s))))
         else
           (let s = coll_print hal msg s
            in Inr ((0, 0, 0), h, s\<lparr>bme280_error := bme280_error s OR err\<rparr>)))"

definition ltr329_sample ::
  "('w, 'h) coll_hal_scheme \<Rightarrow> ('w, 's) collector_scheme \<Rightarrow> (i16 \<times> i16) \<times> ('w, 's) collector_scheme" where
  "ltr329_sample hal s =
     (let (ok, s) = ltr329_isAvailable hal s
      in if ok then
           (let s = ltr329_init hal s;
                (ch0, s) = ltr329_get_intensity_ch0 hal s;
                (ch1, s) = ltr329_get_intensity_ch1 hal s
            in ((ch0, ch1), s))
         else ((0, 0), coll_print hal ''COLL > LTR329 not operational'' s))"

text \<open>The block of one temperature sensor: \<open>n\<close> is the number that is looked for and initialised, \<open>k\<close> the one
  that is read.\<close>

definition tmp100_sample ::
  "('w, 'h) coll_hal_scheme \<Rightarrow> u8 \<Rightarrow> u8 \<Rightarrow> string \<Rightarrow> ('w, 's) collector_scheme \<Rightarrow> i16 \<times> ('w, 's) collector_scheme" where
  "tmp100_sample hal n k msg s =
     (let (ok, s) = tmp100_isAvailable hal n s
      in if ok then tmp100_get_temperature hal k (tmp100_init hal n s)
         else (0, coll_print hal msg s))"

definition mpu9250_sample ::
  "('w, 'h) coll_hal_scheme \<Rightarrow> ('w, 's) collector_scheme \<Rightarrow> (i16 \<times> i16 \<times> i16) \<times> ('w, 's) collector_scheme" where
  "mpu9250_sample hal s =
     (let (ok, s) = mpu9250_isAvailable hal s
      in if ok then
           (let s = mpu9250_init s;
                (x, s) = mpu9250_get_x hal s;
                (y, s) = mpu9250_get_y hal s;
                (z, s) = mpu9250_get_z hal s
            in ((x, y, z), s))
         else ((0, 0, 0), coll_print hal ''COLL > MPU9250 not operational'' s))"

text \<open>The function in two parts: the readings behind the two BME280 sensors cannot fail.\<close>

definition getSensors_tmp100 ::
  "('w, 'h) coll_hal_scheme \<Rightarrow> dataPoint_t \<Rightarrow> ('w, 's) collector_scheme \<Rightarrow> dataPoint_t \<times> ('w, 's) collector_scheme" where
  "getSensors_tmp100 hal tp s =
     (let (t0, s) = tmp100_sample hal 0 0 ''COLL > TMP100 0 not operational'' s;
          (t1, s) = tmp100_sample hal 1 1 ''COLL > TMP100 1 not operational'' s;
          (t2, s) = tmp100_sample hal 2 0 ''COLL > TMP100 2 not operational'' s;
          (t3, s) = tmp100_sample hal 3 3 ''COLL > TMP100 3 not operational'' s;
          (t4, s) = tmp100_sample hal 4 4 ''COLL > TMP100 4 not operational'' s;
          (t5, s) = tmp100_sample hal 5 5 ''COLL > TMP100 5 not operational'' s;
          (t6, s) = tmp100_sample hal 6 6 ''COLL > TMP100 6 not operational'' s;
          (t7, s) = tmp100_sample hal 7 7 ''COLL > TMP100 7 not operational'' s
      in (tp\<lparr>tmp100_0_temp := t0, tmp100_1_temp := t1, tmp100_2_temp := t2, tmp100_3_temp := t3,
             tmp100_4_temp := t4, tmp100_5_temp := t5, tmp100_6_temp := t6, tmp100_7_temp := t7\<rparr>, s))"

definition getSensors_rest ::
  "('w, 'h) coll_hal_scheme \<Rightarrow> dataPoint_t \<Rightarrow> ('w, 's) collector_scheme \<Rightarrow> dataPoint_t \<times> ('w, 's) collector_scheme" where
  "getSensors_rest hal tp s =
     (let tp = tp\<lparr>light_intensity := ucast (OV5640_getLastLightIntensity s AND 0xFFFF)\<rparr>;
          ((ch0, ch1), s) = ltr329_sample hal s;
          tp = tp\<lparr>ltr329_intensity_ch0 := ch0, ltr329_intensity_ch1 := ch1\<rparr>;
          (temp, s) = stm32_get_temp hal s;
          (vbat, s) = stm32_get_vbat hal s;
          tp = tp\<lparr>stm32_temp := temp, adc_vbat := vbat, gpio := 0\<rparr>;
          (tp, s) = getSensors_tmp100 hal tp s;
          ((x, y, z), s) = mpu9250_sample hal s
      in (tp\<lparr>mpu9250_x_accel := x, mpu9250_y_accel := y, mpu9250_z_accel := z\<rparr>, s))"

definition getSensors ::
  "('w, 'h) coll_hal_scheme \<Rightarrow> bme280_t \<Rightarrow> dataPoint_t \<Rightarrow> ('w, 's) collector_scheme
     \<Rightarrow> fault + dataPoint_t \<times> ('w, 's) collector_scheme" where
  "getSensors hal handle tp s =
     (case bme280_sample hal BME280_I1 ''COLL > Internal BME280 I1 not operational'' 0x1 handle (s\<lparr>bme280_error := 0\<rparr>) of
        Inl f \<Rightarrow> Inl f
      | Inr ((press, hum, temp), handle, s) \<Rightarrow>
          (let tp = tp\<lparr>sen_i1_press := press, sen_i1_hum := hum, sen_i1_temp := temp\<rparr>
           in case bme280_sample hal BME280_E2 ''COLL > External BME280 E2 not operational'' 0x10 handle s of
                Inl f \<Rightarrow> Inl f
              | Inr ((press, hum, temp), handle, s) \<Rightarrow>
                  Inr (getSensors_rest hal (tp\<lparr>sen_e2_press := press, sen_e2_hum := hum, sen_e2_temp := temp\<rparr>) s)))"

section \<open>System status\<close>

definition setSystemStatus ::
  "('w, 'h) coll_hal_scheme \<Rightarrow> dataPoint_t \<Rightarrow> ('w, 's) collector_scheme \<Rightarrow> dataPoint_t \<times> ('w, 's) collector_scheme" where
  "setSystemStatus hal tp s =
     (let tp = tp\<lparr>sys_error := 0\<rparr>;
          tp = tp\<lparr>sys_error := sys_error tp OR push_bit 0 (ucast (I2C_hasError s) AND 0x1)\<rparr>;
          tp = tp\<lparr>sys_error := sys_error tp OR push_bit 2 (if gps_state tp = GPS_ERROR then 1 else 0)\<rparr>;
          tp = tp\<lparr>sys_error := sys_error tp OR push_bit 5 (ucast (OV5640_hasError s) AND 0x7)\<rparr>;
          tp = tp\<lparr>sys_error := sys_error tp OR push_bit BME_ALL_STATUS_SHIFT (ucast (bme280_error s) AND BME_ALL_STATUS_MASK)\<rparr>;
          (t, w) = chVTGetSystemTimeX hal (world s)
      in (tp\<lparr>sys_time := TIME_I2S hal t\<rparr>, s\<lparr>world := w\<rparr>))"

text \<open>The thread and its start have no statements left.\<close>

definition collectorThread :: "('w, 's) collector_scheme \<Rightarrow> ('w, 's) collector_scheme" where
  "collectorThread s = s"

definition init_data_collector :: "('w, 's) collector_scheme \<Rightarrow> ('w, 's) collector_scheme" where
  "init_data_collector s = s"

end
