(* ===== verification/Watchdog.thy ===== *)
theory Watchdog
  imports Collector
begin

text \<open>
  The watchdog, \<open>src/watchdog.c\<close>: its start and its thread. The thread never ends; \<open>wdg_rounds\<close> is the state
  after a number of rounds of its loop. The watchdog driver and the creation of threads are ChibiOS code and
  further fields of the interface. The lemmas give the sequence of calls of any number of rounds.
\<close>

section \<open>Interface\<close>

datatype wdg_prescaler = STM32_IWDG_PR_256

record WDGConfig =
  wdg_pr :: wdg_prescaler
  wdg_rlr :: nat

record 'w wdg_hal = "'w coll_hal" +
  wdgStart :: "WDGConfig \<Rightarrow> 'w \<Rightarrow> 'w"
  wdgReset :: "'w \<Rightarrow> 'w"
  chThdCreateFromHeap :: "nat \<Rightarrow> string \<Rightarrow> 'w \<Rightarrow> nat option \<times> 'w"

section \<open>Operations\<close>

definition wdgcfg :: WDGConfig where
  "wdgcfg = \<lparr> wdg_pr = STM32_IWDG_PR_256, wdg_rlr = 10000 \<rparr>"

definition flash_led :: "('w, 'h) wdg_hal_scheme \<Rightarrow> ('w, 's) debug_scheme \<Rightarrow> ('w, 's) debug_scheme" where
  "flash_led hal s =
     (let s = on_world (palSetLine hal LINE_LED_GREEN) s;
          s = on_world (chThdSleep hal (TIME_MS2I hal 50)) s
      in on_world (palClearLine hal LINE_LED_GREEN) s)"

text \<open>One round of the loop. \<open>healthy\<close> is a constant of the code, \<open>4*healthy\<close> an \<open>int\<close>.\<close>

definition wdg_round ::
  "('w, 'h) wdg_hal_scheme \<Rightarrow> u8 \<times> ('w, 's) debug_scheme \<Rightarrow> u8 \<times> ('w, 's) debug_scheme" where
  "wdg_round hal x =
     (case x of (counter, s) \<Rightarrow>
        let s = on_world (chThdSleep hal (TIME_MS2I hal 500)) s;
            healthy = True;
            s = (if healthy then on_world (wdgReset hal) s else s);
            due = uint counter smod (4 * (if healthy then 1 else 0)) = 0;
            counter = counter + 1
        in (counter, if due then flash_led hal s else s))"

definition wdgThread_start :: "('w, 'h) wdg_hal_scheme \<Rightarrow> ('w, 's) debug_scheme \<Rightarrow> u8 \<times> ('w, 's) debug_scheme" where
  "wdgThread_start hal s = (0, on_world (palSetLineMode hal LINE_LED_GREEN PAL_MODE_OUTPUT_PUSHPULL) s)"

definition wdgThread :: "('w, 'h) wdg_hal_scheme \<Rightarrow> nat \<Rightarrow> ('w, 's) debug_scheme \<Rightarrow> u8 \<times> ('w, 's) debug_scheme" where
  "wdgThread hal n s = (wdg_round hal ^^ n) (wdgThread_start hal s)"

definition init_watchdog ::
  "('w, 'h) wdg_hal_scheme \<Rightarrow> ('w, 's) debug_scheme \<Rightarrow> fault + ('w, 's) debug_scheme" where
  "init_watchdog hal s =
     (let s = TRACE_INFO hal ''watchdog.c'' 58 ''WDG  > Initialize Watchdog'' [] s;
          s = on_world (wdgStart hal wdgcfg) s;
          s = on_world (wdgReset hal) s;
          s = flash_led hal s;
          s = TRACE_INFO hal ''watchdog.c'' 67 ''WDG  > Startup Watchdog thread'' [] s;
          (th, w) = chThdCreateFromHeap hal 256 ''WDG'' (world s);
          s = s\<lparr>world := w\<rparr>
      in if th = None
         then TRACE_ERROR hal ''watchdog.c'' 71 ''TRAC > Could not startup thread (not enough memory available)'' [] s
         else Inr s)"

section \<open>The calls of the thread\<close>

datatype wdg_event = Sleep u32 | Kick | Led_on | Led_off

definition wdg_seen :: "('w, 'h) wdg_hal_scheme \<Rightarrow> ('w \<Rightarrow> wdg_event list) \<Rightarrow> bool" where
  "wdg_seen hal obs \<longleftrightarrow>
     (\<forall>t w. obs (chThdSleep hal t w) = obs w @ [Sleep t]) \<and> (\<forall>w. obs (wdgReset hal w) = obs w @ [Kick]) \<and>
     (\<forall>w. obs (palSetLine hal LINE_LED_GREEN w) = obs w @ [Led_on]) \<and>
     (\<forall>w. obs (palClearLine hal LINE_LED_GREEN w) = obs w @ [Led_off]) \<and>
     (\<forall>m w. obs (palSetLineMode hal LINE_LED_GREEN m w) = obs w)"

definition wdg_round_events :: "('w, 'h) wdg_hal_scheme \<Rightarrow> nat \<Rightarrow> wdg_event list" where
  "wdg_round_events hal i =
     [Sleep (TIME_MS2I hal 500), Kick] @ (if i mod 4 = 0 then [Led_on, Sleep (TIME_MS2I hal 50), Led_off] else [])"

lemma wdg_round_effect:
  assumes "wdg_seen hal obs"
  shows "fst (wdg_round hal (c, s)) = c + 1"
    and "obs (world (snd (wdg_round hal (c, s)))) = obs (world s) @ wdg_round_events hal (unat c)"
proof -
  have "uint c smod 4 = int (unat c mod 4)"
    by (simp add: smod_nonneg of_nat_mod)
  then have "uint c smod 4 = 0 \<longleftrightarrow> unat c mod 4 = 0"
    by linarith
  then show "fst (wdg_round hal (c, s)) = c + 1"
    "obs (world (snd (wdg_round hal (c, s)))) = obs (world s) @ wdg_round_events hal (unat c)"
    using assms by (simp_all add: wdg_round_def wdg_round_events_def flash_led_def wdg_seen_def Let_def)
qed

lemma wdgThread_rounds:
  assumes "wdg_seen hal obs"
  shows "fst (wdgThread hal n s) = of_nat n \<and>
    obs (world (snd (wdgThread hal n s))) = obs (world s) @ concat (map (wdg_round_events hal) [0..<n])"
proof (induction n)
  case 0
  then show ?case
    using assms by (simp add: wdgThread_def wdgThread_start_def wdg_seen_def)
next
  case (Suc n)
  obtain c t where ct: "wdgThread hal n s = (c, t)"
    by force
  have "wdgThread hal (Suc n) s = wdg_round hal (c, t)"
    using ct by (simp add: wdgThread_def)
  moreover have "wdg_round_events hal (n mod 256) = wdg_round_events hal n"
    by (simp add: wdg_round_events_def mod_mod_cancel)
  ultimately show ?case
    using Suc ct wdg_round_effect [OF assms, of c t] by (simp add: unat_of_nat add.commute)
qed

section \<open>Properties\<close>

text \<open>The watchdog thread resets the hardware watchdog in every round, and the rounds are 500 ms apart,
  plus the 50 ms of the light in every fourth round; the counter of 8 bits wraps around without disturbing
  the rhythm of four.\<close>
theorem watchdog_served:
  assumes "wdg_seen hal obs"
  shows "obs (world (snd (wdgThread hal n s))) = obs (world s)
    @ concat (map (\<lambda>i. [Sleep (TIME_MS2I hal 500), Kick] @ (if i mod 4 = 0 then [Led_on, Sleep (TIME_MS2I hal 50), Led_off] else []))
        [0..<n])"
  using wdgThread_rounds [OF assms, of n s] by (simp add: wdg_round_events_def [abs_def])

definition wdg_board :: "wdg_event list wdg_hal" where
  "wdg_board =
     coll_hal.extend (dbg_hal.extend (adc_hal.extend (cam_hal.extend
         ((still_hal (\<lambda>e w. w) (\<lambda>a tx. None))
           \<lparr>chThdSleep := \<lambda>t w. w @ [Sleep t], palSetLine := \<lambda>l w. w @ [Led_on], palClearLine := \<lambda>l w. w @ [Led_off]\<rparr>)
         (adc_hal.fields (\<lambda>w. w) (\<lambda>w. w) (\<lambda>g n w. w) (\<lambda>w. w) (\<lambda>w i. 0)))
       (dbg_hal.fields (\<lambda>w. w) (\<lambda>w. w) (\<lambda>w. w) (\<lambda>p c w. w) (\<lambda>f xs w. w) (\<lambda>f xs. f) (\<lambda>w. [])))
       (coll_hal.fields 1980 (\<lambda>w. \<lparr> rtc_year = 0, rtc_month = 1, rtc_day = 1, rtc_millisecond = 0 \<rparr>) (\<lambda>t. t div 10000)))
     (wdg_hal.fields (\<lambda>c w. w) (\<lambda>w. w @ [Kick]) (\<lambda>n nm w. (Some 0, w)))"

theorem watchdog_served_witness:
  "world (snd (wdgThread wdg_board 2 (debug_start []))) = [Sleep 5000, Kick, Led_on, Sleep 500, Led_off, Sleep 5000, Kick]"
proof -
  have "wdg_seen wdg_board (\<lambda>w. w)"
    by (simp add: wdg_seen_def wdg_board_def wdg_hal.defs coll_hal.defs dbg_hal.defs adc_hal.defs cam_hal.defs still_hal_def)
  from watchdog_served [OF this, of 2 "debug_start []"] show ?thesis
    by (simp add: wdg_board_def wdg_hal.defs coll_hal.defs dbg_hal.defs adc_hal.defs cam_hal.defs still_hal_def
        debug_start_def upt_rec)
qed

end
