(* ===== verification/Membench.thy ===== *)
theory Membench
  imports Watchdog
begin

text \<open>
  The DMA copy of \<open>src/memcpy_dma.c\<close> and the memory benchmark of \<open>src/membench.c\<close>. Memory is a function from
  32-bit addresses to bytes, read and written through the interface; a DMA copy is the pair of starting it
  and waiting for its end. The cycle counts of the benchmark are whatever the time measurement returns. The
  lemmas say which bytes a copy transfers and what the benchmark leaves in memory.
\<close>

section \<open>Memory\<close>

type_synonym memory = "u32 \<Rightarrow> u8"

definition mem_copy :: "u32 \<Rightarrow> u32 \<Rightarrow> nat \<Rightarrow> memory \<Rightarrow> memory" where
  "mem_copy d s n m = (\<lambda>a. if unat (a - d) < n then m (s + (a - d)) else m a)"

definition mem_fill :: "u32 \<Rightarrow> u8 \<Rightarrow> nat \<Rightarrow> memory \<Rightarrow> memory" where
  "mem_fill d v n m = (\<lambda>a. if unat (a - d) < n then v else m a)"

record 'w mem_hal = "'w wdg_hal" +
  mem :: "'w \<Rightarrow> memory"
  mem_set :: "memory \<Rightarrow> 'w \<Rightarrow> 'w"
  memcpyStreamAllocate :: "'w \<Rightarrow> bool \<times> 'w"
  memcpyStreamRelease :: "'w \<Rightarrow> 'w"
  dmaStartMemCopy :: "u32 \<Rightarrow> u32 \<Rightarrow> u32 \<Rightarrow> 'w \<Rightarrow> 'w"
  dmaWaitCompletion :: "'w \<Rightarrow> 'w"
  chTMStartMeasurementX :: "'w \<Rightarrow> 'w"
  chTMStopMeasurementX :: "'w \<Rightarrow> u32 \<times> 'w"
  STM32_SYSCLK :: u32

definition memcpy :: "('w, 'h) mem_hal_scheme \<Rightarrow> u32 \<Rightarrow> u32 \<Rightarrow> u32 \<Rightarrow> 'w \<Rightarrow> 'w" where
  "memcpy hal d s n w = mem_set hal (mem_copy d s (unat n) (mem hal w)) w"

definition memset :: "('w, 'h) mem_hal_scheme \<Rightarrow> u32 \<Rightarrow> u8 \<Rightarrow> u32 \<Rightarrow> 'w \<Rightarrow> 'w" where
  "memset hal d v n w = mem_set hal (mem_fill d v (unat n) (mem hal w)) w"

section \<open>Copying by DMA\<close>

definition memcpy_dma_start :: "('w, 'h) mem_hal_scheme \<Rightarrow> 'w \<Rightarrow> fault + 'w" where
  "memcpy_dma_start hal w =
     (let (b, w) = memcpyStreamAllocate hal w in if b then Inl Halted else Inr w)"

definition memcpy_dma_stop :: "('w, 'h) mem_hal_scheme \<Rightarrow> 'w \<Rightarrow> 'w" where
  "memcpy_dma_stop hal w = memcpyStreamRelease hal w"

text \<open>The loop over the blocks; it returns the words that are left.\<close>

function memcpy_blocks :: "('w, 'h) mem_hal_scheme \<Rightarrow> u32 \<Rightarrow> u32 \<Rightarrow> u32 \<Rightarrow> 'w \<Rightarrow> u32 \<times> 'w" where
  "memcpy_blocks hal dest src words w =
     (if words > 0xFFFF
      then memcpy_blocks hal dest src (words - 0xFFFF) (dmaWaitCompletion hal (dmaStartMemCopy hal src dest 0xFFFF w))
      else (words, w))"
  by pat_completeness auto
termination
proof (relation "measure (\<lambda>(hal, dest, src, words, w). unat words)")
  show "wf (measure (\<lambda>(hal :: ('w, 'h) mem_hal_scheme, dest :: u32, src :: u32, words :: u32, w :: 'w). unat words))"
    by simp
next
  fix hal :: "('w, 'h) mem_hal_scheme" and dest src words :: u32 and w :: 'w
  assume "words > 0xFFFF"
  then have "unat (words - 0xFFFF) < unat words"
    by (subst unat_sub) (simp_all add: word_less_nat_alt word_le_nat_alt)
  then show "((hal, dest, src, words - 0xFFFF, dmaWaitCompletion hal (dmaStartMemCopy hal src dest 0xFFFF w)),
      (hal, dest, src, words, w)) \<in> measure (\<lambda>(hal, dest, src, words, w). unat words)"
    by simp
qed

declare memcpy_blocks.simps [simp del]

definition memcpy_dma :: "('w, 'h) mem_hal_scheme \<Rightarrow> u32 \<Rightarrow> u32 \<Rightarrow> u32 \<Rightarrow> 'w \<Rightarrow> 'w" where
  "memcpy_dma hal dest src sz w =
     (let words = sz div 4;
          remainder = sz mod 4;
          (words, w) = memcpy_blocks hal dest src words w;
          w = dmaWaitCompletion hal (dmaStartMemCopy hal src dest words w)
      in if remainder > 0 then memcpy hal (dest + sz - remainder) (src + sz - remainder) remainder w else w)"

section \<open>Benchmark\<close>

record membench_t =
  mb_start :: u32
  mb_size :: u32

record membench_result_t =
  r_memset :: u32
  r_memcpy :: u32
  r_memcpy_dma :: u32
  r_memcmp :: u32

text \<open>The product has 64 bits; a measurement of no cycles divides by zero.\<close>

definition speed_bps :: "('w, 'h) mem_hal_scheme \<Rightarrow> u32 \<Rightarrow> u32 \<Rightarrow> fault + u32" where
  "speed_bps hal cycles len =
     (if cycles = 0 then Inl Div_by_zero
      else Inr (ucast ((ucast len :: u64) * ucast (STM32_SYSCLK hal) div ucast cycles)))"

definition measured :: "('w, 'h) mem_hal_scheme \<Rightarrow> ('w \<Rightarrow> 'w) \<Rightarrow> u32 \<Rightarrow> 'w \<Rightarrow> fault + u32 \<times> 'w" where
  "measured hal f len w =
     (let (cycles, w) = chTMStopMeasurementX hal (f (chTMStartMeasurementX hal w))
      in case speed_bps hal cycles len of Inl e \<Rightarrow> Inl e | Inr r \<Rightarrow> Inr (r, w))"

text \<open>The comparison only reads memory; its result is stored in a variable that nothing reads.\<close>

definition membench_run ::
  "('w, 'h) mem_hal_scheme \<Rightarrow> membench_t \<Rightarrow> membench_t \<Rightarrow> 'w \<Rightarrow> fault + membench_result_t \<times> 'w" where
  "membench_run hal dest src w =
     (let len = (if mb_size src < mb_size dest then mb_size src else mb_size dest)
      in case measured hal (memset hal (mb_start dest) 0x55 (mb_size dest)) (mb_size dest) w of
           Inl e \<Rightarrow> Inl e
         | Inr (a, w) \<Rightarrow> (case measured hal (memcpy hal (mb_start dest) (mb_start src) len) len w of
           Inl e \<Rightarrow> Inl e
         | Inr (b, w) \<Rightarrow> (case measured hal (\<lambda>w. w) len w of
           Inl e \<Rightarrow> Inl e
         | Inr (c, w) \<Rightarrow> (case memcpy_dma_start hal w of
           Inl e \<Rightarrow> Inl e
         | Inr w \<Rightarrow> (case measured hal (memcpy_dma hal (mb_start dest) (mb_start src) len) len w of
           Inl e \<Rightarrow> Inl e
         | Inr (d, w) \<Rightarrow>
             Inr (\<lparr> r_memset = a, r_memcpy = b, r_memcpy_dma = d, r_memcmp = c \<rparr>, memcpy_dma_stop hal w))))))"

section \<open>What is copied\<close>

text \<open>A DMA stream that copies the words it is told to, and time measurements that do not touch memory.\<close>

definition mem_laws :: "('w, 'h) mem_hal_scheme \<Rightarrow> bool" where
  "mem_laws hal \<longleftrightarrow>
     (\<forall>m w. mem hal (mem_set hal m w) = m) \<and>
     (\<forall>s d n w. mem hal (dmaWaitCompletion hal (dmaStartMemCopy hal s d n w)) = mem_copy d s (4 * unat n) (mem hal w)) \<and>
     (\<forall>w. mem hal (snd (memcpyStreamAllocate hal w)) = mem hal w) \<and>
     (\<forall>w. mem hal (memcpyStreamRelease hal w) = mem hal w) \<and>
     (\<forall>w. mem hal (chTMStartMeasurementX hal w) = mem hal w) \<and>
     (\<forall>w. mem hal (snd (chTMStopMeasurementX hal w)) = mem hal w)"

text \<open>Two areas of memory without a common address.\<close>

definition apart :: "u32 \<Rightarrow> nat \<Rightarrow> u32 \<Rightarrow> nat \<Rightarrow> bool" where
  "apart d n s m \<longleftrightarrow> (\<forall>x y. unat x < n \<longrightarrow> unat y < m \<longrightarrow> d + x \<noteq> s + y)"

lemma apart_outside:
  assumes "apart d n s m" "unat x < m" "k \<le> n"
  shows "\<not> unat (s + x - d) < k"
proof
  assume "unat (s + x - d) < k"
  then have "d + (s + x - d) \<noteq> s + x"
    using assms unfolding apart_def by (meson less_le_trans)
  then show False
    by simp
qed

lemma mem_copy_source:
  assumes "apart d n s m" "k \<le> n" "unat x < m"
  shows "mem_copy d s k f (s + x) = f (s + x)"
  using apart_outside [OF assms(1,3,2)] by (simp add: mem_copy_def)

lemma mem_fill_source:
  assumes "apart d n s m" "k \<le> n" "unat x < m"
  shows "mem_fill d v k f (s + x) = f (s + x)"
  using apart_outside [OF assms(1,3,2)] by (simp add: mem_fill_def)

text \<open>Copying a second part of the same areas adds to the first.\<close>

lemma mem_copy_twice:
  assumes "apart d n s m" "k \<le> n" "k' \<le> m"
  shows "mem_copy d s k' (mem_copy d s k f) = mem_copy d s (max k k') f"
proof
  fix a
  have "unat (a - d) < k' \<Longrightarrow> mem_copy d s k f (s + (a - d)) = f (s + (a - d))"
    using assms(3) by (intro mem_copy_source [OF assms(1,2)]) simp
  then show "mem_copy d s k' (mem_copy d s k f) a = mem_copy d s (max k k') f a"
    unfolding mem_copy_def [of d s k'] by (simp add: mem_copy_def less_max_iff_disj)
qed

lemma offset_less:
  fixes x k :: u32
  assumes "unat k + n \<le> 4294967296"
  shows "unat (x - k) < n \<longleftrightarrow> unat k \<le> unat x \<and> unat x < unat k + n"
proof (cases "unat k \<le> unat x")
  case True
  then show ?thesis
    by (subst unat_sub) (auto simp: word_le_nat_alt)
next
  case False
  then have "unat (x - k) = unat x + 4294967296 - unat k"
    by (simp add: unat_sub_if' word_le_nat_alt)
  then show ?thesis
    using False assms by simp
qed

text \<open>A beginning of \<open>j\<close> bytes and an end of \<open>r\<close> bytes of two areas.\<close>

lemma mem_copy_tail:
  assumes "apart d n s n" "unat k + r = n" "n \<le> 4294967296" "j \<le> n"
  shows "mem_copy (d + k) (s + k) r (mem_copy d s j f) a =
    (if unat (a - d) < n \<and> (unat (a - d) < j \<or> unat k \<le> unat (a - d)) then f (s + (a - d)) else f a)"
proof -
  have off: "unat (a - d - k) < r \<longleftrightarrow> unat k \<le> unat (a - d) \<and> unat (a - d) < n"
    using offset_less [of k r "a - d"] assms(2,3) by simp
  show ?thesis
  proof (cases "unat (a - d - k) < r")
    case True
    then show ?thesis
      using off mem_copy_source [OF assms(1,4), of "a - d" f]
      by (simp add: mem_copy_def [of "d + k"] diff_diff_eq [symmetric])
  next
    case False
    then show ?thesis
      using off assms(4) by (auto simp: mem_copy_def [of "d + k"] diff_diff_eq [symmetric] mem_copy_def)
  qed
qed

lemma mem_lawsD:
  assumes "mem_laws hal"
  shows "mem hal (mem_set hal f w) = f"
    and "mem hal (dmaWaitCompletion hal (dmaStartMemCopy hal s d n w)) = mem_copy d s (4 * unat n) (mem hal w)"
    and "mem hal (snd (memcpyStreamAllocate hal w)) = mem hal w"
    and "mem hal (memcpyStreamRelease hal w) = mem hal w"
    and "mem hal (chTMStartMeasurementX hal w) = mem hal w"
    and "mem hal (snd (chTMStopMeasurementX hal w)) = mem hal w"
  using assms by (simp_all add: mem_laws_def)

lemma memcpy_blocks_mem:
  assumes "mem_laws hal" "apart dest n src n" "4 * unat words \<le> n"
  shows "mem hal (snd (memcpy_blocks hal dest src words w))
      = (if 65535 < unat words then mem_copy dest src 262140 (mem hal w) else mem hal w)
    \<and> unat (fst (memcpy_blocks hal dest src words w)) \<le> min (unat words) 65535
    \<and> (unat words \<le> 65535 \<longrightarrow> fst (memcpy_blocks hal dest src words w) = words)"
  using assms(3)
proof (induction "unat words" arbitrary: words w rule: less_induct)
  case less
  show ?case
  proof (cases "65535 < unat words")
    case True
    define words' where "words' = words - 0xFFFF"
    define w' where "w' = dmaWaitCompletion hal (dmaStartMemCopy hal src dest 0xFFFF w)"
    have u: "unat words' = unat words - 65535"
      unfolding words'_def using True by (subst unat_sub) (simp_all add: word_le_nat_alt)
    have step: "memcpy_blocks hal dest src words w = memcpy_blocks hal dest src words' w'"
      using True by (simp add: memcpy_blocks.simps [of hal dest src words] word_less_nat_alt words'_def w'_def)
    have m: "mem hal w' = mem_copy dest src 262140 (mem hal w)"
      by (simp add: mem_lawsD [OF assms(1)] w'_def)
    have "mem_copy dest src 262140 (mem_copy dest src 262140 (mem hal w)) = mem_copy dest src 262140 (mem hal w)"
      using mem_copy_twice [OF assms(2), of 262140 262140] True less.prems by simp
    then show ?thesis
      using less.hyps [of words' w'] True u less.prems by (simp add: step m)
  next
    case False
    then show ?thesis
      by (simp add: memcpy_blocks.simps [of hal dest src words] word_less_nat_alt)
  qed
qed

text \<open>All transfers of \<open>memcpy_dma\<close> together copy the beginning of the area.\<close>

lemma memcpy_words_mem:
  assumes "mem_laws hal" "apart dest n src n" "4 * unat words \<le> n"
  shows "mem hal (case memcpy_blocks hal dest src words w of (r, w) \<Rightarrow> dmaWaitCompletion hal (dmaStartMemCopy hal src dest r w))
    = mem_copy dest src (4 * min (unat words) 65535) (mem hal w)"
proof -
  obtain r w1 where b: "memcpy_blocks hal dest src words w = (r, w1)"
    by force
  note blocks = memcpy_blocks_mem [OF assms, of w, unfolded b]
  show ?thesis
  proof (cases "65535 < unat words")
    case True
    then have "max 262140 (4 * unat r) = 262140"
      using blocks by simp
    then show ?thesis
      using True b blocks mem_copy_twice [OF assms(2), of 262140 "4 * unat r"] assms(3)
      by (simp add: mem_lawsD [OF assms(1)])
  next
    case False
    then show ?thesis
      using b blocks by (simp add: mem_lawsD [OF assms(1)])
  qed
qed

text \<open>The bytes that \<open>memcpy_dma\<close> copies, as one description of the memory afterwards.\<close>

lemma memcpy_dma_mem:
  assumes "mem_laws hal" "apart dest (unat sz) src (unat sz)"
  shows "mem hal (memcpy_dma hal dest src sz w) a =
    (let i = unat (a - dest) in
     if i < unat sz \<and> (i < 262140 \<or> unat sz - unat sz mod 4 \<le> i) then mem hal w (src + (a - dest)) else mem hal w a)"
proof -
  define k words where "k = sz - sz mod 4" and "words = sz div 4"
  have rem: "unat (sz mod 4) = unat sz mod 4"
    by (simp add: unat_mod_distrib)
  have k: "unat k = unat sz - unat sz mod 4" "unat k + unat sz mod 4 = unat sz"
    unfolding k_def by (subst unat_sub; simp add: rem word_le_nat_alt)+
  have words: "unat words = unat sz div 4" "unat k = 4 * unat words"
    by (simp_all add: words_def k(1) unat_div_distrib minus_mod_eq_mult_div)
  define w2 where "w2 = (case memcpy_blocks hal dest src words w of (r, w) \<Rightarrow> dmaWaitCompletion hal (dmaStartMemCopy hal src dest r w))"
  have w2: "mem hal w2 = mem_copy dest src (4 * min (unat words) 65535) (mem hal w)"
    unfolding w2_def using words(2) k(2) by (intro memcpy_words_mem [OF assms]) linarith
  have "memcpy_dma hal dest src sz w = (if sz mod 4 > 0 then memcpy hal (dest + k) (src + k) (sz mod 4) w2 else w2)"
    by (simp add: memcpy_dma_def Let_def case_prod_unfold words_def w2_def k_def add_diff_eq)
  then have "mem hal (memcpy_dma hal dest src sz w) = mem_copy (dest + k) (src + k) (unat (sz mod 4)) (mem hal w2)"
    by (cases "sz mod 4 > 0") (simp_all add: memcpy_def mem_lawsD [OF assms(1)] mem_copy_def word_gt_0)
  moreover have "mem_copy (dest + k) (src + k) (unat (sz mod 4)) (mem hal w2) a =
      (if unat (a - dest) < unat sz \<and> (unat (a - dest) < 4 * min (unat words) 65535 \<or> unat k \<le> unat (a - dest))
       then mem hal w (src + (a - dest)) else mem hal w a)"
    unfolding w2 using rem k(2) words(2) less_imp_le [OF unat_u32_bound [of sz]]
    by (intro mem_copy_tail [OF assms(2)]) linarith+
  ultimately show ?thesis
    using words(2) by (simp add: k(1) [symmetric] Let_def) (auto simp: min_def)
qed

lemma measured_mem:
  assumes "mem_laws hal" "measured hal f len w = Inr (r, w')"
  shows "mem hal w' = mem hal (f (chTMStartMeasurementX hal w))"
  using assms(2) mem_lawsD(6) [OF assms(1), of "f (chTMStartMeasurementX hal w)"]
  by (auto simp: measured_def case_prod_unfold Let_def split: sum.splits)

text \<open>What the benchmark leaves in memory: a copy of the source, filled up with the pattern; the DMA copy
  writes nothing new.\<close>

lemma membench_run_mem:
  fixes dest src
  defines "len \<equiv> min (unat (mb_size src)) (unat (mb_size dest))"
  assumes "mem_laws hal" "apart (mb_start dest) (unat (mb_size dest)) (mb_start src) len"
    and "membench_run hal dest src w = Inr (r, w')"
  shows "mem hal w' a = (let i = a - mb_start dest in
    if unat i < len then mem hal w (mb_start src + i) else if unat i < unat (mb_size dest) then 0x55 else mem hal w a)"
proof -
  define n where "n = (if mb_size src < mb_size dest then mb_size src else mb_size dest)"
  have n: "unat n = len"
    by (auto simp: n_def len_def word_less_nat_alt)
  obtain a1 w1 a2 w2 a3 w3 w4 a4 w5 where
    w1: "measured hal (memset hal (mb_start dest) 0x55 (mb_size dest)) (mb_size dest) w = Inr (a1, w1)" and
    w2: "measured hal (memcpy hal (mb_start dest) (mb_start src) n) n w1 = Inr (a2, w2)" and
    w3: "measured hal (\<lambda>w. w) n w2 = Inr (a3, w3)" and w4: "memcpy_dma_start hal w3 = Inr w4" and
    w5: "measured hal (memcpy_dma hal (mb_start dest) (mb_start src) n) n w4 = Inr (a4, w5)" and
    w': "w' = memcpy_dma_stop hal w5"
    using assms(4) by (auto simp: membench_run_def n_def [symmetric] Let_def split: sum.splits)
  note laws = mem_lawsD [OF assms(2)] and meas = measured_mem [OF assms(2)]
  have m1: "mem hal w1 = mem_fill (mb_start dest) 0x55 (unat (mb_size dest)) (mem hal w)"
    using meas [OF w1] by (simp add: memset_def laws)
  have m2: "mem hal w2 = mem_copy (mb_start dest) (mb_start src) len (mem hal w1)"
    using meas [OF w2] by (simp add: memcpy_def laws n)
  have m4: "mem hal w4 = mem hal w2"
    using meas [OF w3] w4 laws(3) [of w3] by (auto simp: memcpy_dma_start_def laws case_prod_unfold Let_def split: if_splits)
  have ap: "apart (mb_start dest) len (mb_start src) len"
    using assms(3) by (auto simp: apart_def len_def)
  have "mem hal w' a = mem hal (memcpy_dma hal (mb_start dest) (mb_start src) n (chTMStartMeasurementX hal w4)) a"
    using meas [OF w5] by (simp add: w' memcpy_dma_stop_def laws)
  also have "\<dots> = mem hal w2 a"
    using memcpy_dma_mem [OF assms(2), of "mb_start dest" n "mb_start src" "chTMStartMeasurementX hal w4" a] ap
      mem_copy_source [OF ap, of len "a - mb_start dest" "mem hal w1"]
    by (simp add: n laws m4 Let_def) (auto simp: m2 mem_copy_def split: if_splits)
  finally have m': "mem hal w' a = mem hal w2 a" .
  have src: "unat (a - mb_start dest) < len \<Longrightarrow> mem hal w1 (mb_start src + (a - mb_start dest)) = mem hal w (mb_start src + (a - mb_start dest))"
    unfolding m1 by (intro mem_fill_source [OF assms(3)]) simp_all
  then show ?thesis
    unfolding m' m2 by (simp add: mem_copy_def Let_def) (simp add: m1 mem_fill_def)
qed

section \<open>Properties\<close>

text \<open>C18: a DMA copy of up to 65535 words is a \<open>memcpy\<close>. A longer one is not: every block is copied from and to
  the beginning of the areas, so that only the first 262140 bytes and the at most three bytes behind the last
  word arrive. Nothing outside the destination changes.\<close>
theorem memcpy_dma_copies:
  assumes "mem_laws hal" "apart dest (unat sz) src (unat sz)"
  shows "(unat sz < 262144 \<longrightarrow> mem hal (memcpy_dma hal dest src sz w) = mem hal (memcpy hal dest src sz w))
    \<and> (262144 \<le> unat sz \<longrightarrow> unat i < unat sz \<longrightarrow> mem hal (memcpy_dma hal dest src sz w) (dest + i) =
        (if unat i < 262140 \<or> unat sz - unat sz mod 4 \<le> unat i then mem hal w (src + i) else mem hal w (dest + i)))
    \<and> (unat sz \<le> unat i \<longrightarrow> mem hal (memcpy_dma hal dest src sz w) (dest + i) = mem hal w (dest + i))"
proof -
  have "mem hal (memcpy_dma hal dest src sz w) a = mem hal (memcpy hal dest src sz w) a" if "unat sz < 262144" for a
  proof -
    have "j < 262140 \<or> unat sz - unat sz mod 4 \<le> j" for j
      using that by presburger
    then show ?thesis
      by (simp add: memcpy_dma_mem [OF assms] memcpy_def mem_lawsD [OF assms(1)] mem_copy_def Let_def)
  qed
  then have "unat sz < 262144 \<longrightarrow> mem hal (memcpy_dma hal dest src sz w) = mem hal (memcpy hal dest src sz w)"
    by auto
  then show ?thesis
    by (simp add: memcpy_dma_mem [OF assms] Let_def)
qed

text \<open>A board whose world is its memory.\<close>

definition mem_board :: "memory mem_hal" where
  "mem_board =
     wdg_hal.extend (coll_hal.extend (dbg_hal.extend (adc_hal.extend (cam_hal.extend (still_hal (\<lambda>e w. w) (\<lambda>a tx. None))
         (adc_hal.fields (\<lambda>w. w) (\<lambda>w. w) (\<lambda>g n w. w) (\<lambda>w. w) (\<lambda>w i. 0)))
       (dbg_hal.fields (\<lambda>w. w) (\<lambda>w. w) (\<lambda>w. w) (\<lambda>p c w. w) (\<lambda>f xs w. w) (\<lambda>f xs. f) (\<lambda>w. [])))
       (coll_hal.fields 1980 (\<lambda>w. \<lparr> rtc_year = 0, rtc_month = 1, rtc_day = 1, rtc_millisecond = 0 \<rparr>) (\<lambda>t. t div 10000)))
     (wdg_hal.fields (\<lambda>c w. w) (\<lambda>w. w) (\<lambda>n nm w. (Some 0, w))))
     (mem_hal.fields (\<lambda>w. w) (\<lambda>m w. m) (\<lambda>w. (False, w)) (\<lambda>w. w) (\<lambda>s d n w. mem_copy d s (4 * unat n) w) (\<lambda>w. w)
       (\<lambda>w. w) (\<lambda>w. (168, w)) 168000000)"

lemmas mem_board_simps = mem_board_def mem_hal.defs wdg_hal.defs coll_hal.defs dbg_hal.defs adc_hal.defs cam_hal.defs still_hal_def

lemma mem_board_laws: "mem_laws mem_board"
  by (simp add: mem_laws_def mem_board_simps)

lemma apart_example: "apart 0x20000000 n 0xD0000000 m" if "n \<le> 0x10000000" "m \<le> 0x10000000"
proof -
  have "0x20000000 + x \<noteq> 0xD0000000 + y" if "unat x < 0x10000000" "unat y < 0x10000000" for x y :: u32
  proof
    assume "0x20000000 + x = 0xD0000000 + y"
    then have "x = 0xB0000000 + y"
      by (simp add: algebra_simps)
    then have "unat x = 0xB0000000 + unat y"
      using that(2) by (simp add: unat_plus_small)
    then show False
      using that by simp
  qed
  then show ?thesis
    using that by (auto simp: apart_def)
qed

theorem memcpy_dma_copies_witness:
  "mem mem_board (memcpy_dma mem_board 0x20000000 0xD0000000 7 (\<lambda>a. ucast a)) = mem mem_board (memcpy mem_board 0x20000000 0xD0000000 7 (\<lambda>a. ucast a))
   \<and> mem mem_board (memcpy_dma mem_board 0x20000000 0xD0000000 0x80000 (\<lambda>a. if a < 0x80000000 then 1 else 2)) (0x20000000 + 0x7FFFF) = 1"
  using memcpy_dma_copies [OF mem_board_laws, of "0x20000000" 7 "0xD0000000" "\<lambda>a. ucast a"]
    memcpy_dma_copies [OF mem_board_laws, of "0x20000000" "0x80000" "0xD0000000" "\<lambda>a. if a < 0x80000000 then 1 else 2" "0x7FFFF"]
    apart_example
  by (simp add: mem_board_simps)

end
