(* ===== verification/Fat_Types.thy ===== *)
theory Fat_Types
  imports Wafer_Prelude
begin

text \<open>
  The result codes of FatFs, \<open>src/ext/fatfs/src/ff.h\<close>, for the library itself and for the program that calls it.
\<close>

datatype FRESULT = FR_OK | FR_DISK_ERR | FR_INT_ERR | FR_NOT_READY | FR_NO_FILE | FR_NO_PATH | FR_INVALID_NAME
  | FR_DENIED | FR_EXIST | FR_INVALID_OBJECT | FR_WRITE_PROTECTED | FR_INVALID_DRIVE | FR_NOT_ENABLED
  | FR_NO_FILESYSTEM | FR_MKFS_ABORTED | FR_TIMEOUT | FR_LOCKED | FR_NOT_ENOUGH_CORE | FR_TOO_MANY_OPEN_FILES
  | FR_INVALID_PARAMETER

fun fresult_code :: "FRESULT \<Rightarrow> int" where
  "fresult_code FR_OK = 0"
| "fresult_code FR_DISK_ERR = 1"
| "fresult_code FR_INT_ERR = 2"
| "fresult_code FR_NOT_READY = 3"
| "fresult_code FR_NO_FILE = 4"
| "fresult_code FR_NO_PATH = 5"
| "fresult_code FR_INVALID_NAME = 6"
| "fresult_code FR_DENIED = 7"
| "fresult_code FR_EXIST = 8"
| "fresult_code FR_INVALID_OBJECT = 9"
| "fresult_code FR_WRITE_PROTECTED = 10"
| "fresult_code FR_INVALID_DRIVE = 11"
| "fresult_code FR_NOT_ENABLED = 12"
| "fresult_code FR_NO_FILESYSTEM = 13"
| "fresult_code FR_MKFS_ABORTED = 14"
| "fresult_code FR_TIMEOUT = 15"
| "fresult_code FR_LOCKED = 16"
| "fresult_code FR_NOT_ENOUGH_CORE = 17"
| "fresult_code FR_TOO_MANY_OPEN_FILES = 18"
| "fresult_code FR_INVALID_PARAMETER = 19"

end
