(* ===== verification/Storage.thy ===== *)
theory Storage
  imports Membench Fat_Types
begin

text \<open>
  The two functions of \<open>src/main.c\<close> that store an image on the card. The file system is a field of the interface
  for every call the program makes: a call to open a file returns its result code, the file object, whatever
  it is, and the new world. Texts that contain numbers are formatted by \<open>format_text\<close> of the trace module;
  quotients that the code prints in floating point are passed to \<open>chprintf_q\<close> as numerator and denominator.
\<close>

section \<open>Interface and state\<close>

datatype fa_mode = FA_WRITE | FA_CREATE_NEW | FA_CREATE_ALWAYS

type_synonym FIL = nat

record 'w fs_hal = "'w mem_hal" +
  f_open :: "string \<Rightarrow> fa_mode set \<Rightarrow> 'w \<Rightarrow> FRESULT \<times> FIL \<times> 'w"
  f_write :: "FIL \<Rightarrow> u8 list \<Rightarrow> 'w \<Rightarrow> FRESULT \<times> u32 \<times> 'w"
  f_close :: "FIL \<Rightarrow> 'w \<Rightarrow> FRESULT \<times> 'w"
  f_mount :: "string \<Rightarrow> bool \<Rightarrow> 'w \<Rightarrow> FRESULT \<times> 'w"
  chprintf_q :: "string \<Rightarrow> (int \<times> int) list \<Rightarrow> 'w \<Rightarrow> 'w"

record 'w storage = "'w collector" +
  image_index :: i32
  fbuff :: string

section \<open>RGB images\<close>

definition ascii :: "nat \<Rightarrow> u8" where
  "ascii n = of_nat (n mod 10) + 48"

definition text_bytes :: "string \<Rightarrow> u8 list" where
  "text_bytes s = map of_char s"

text \<open>The header, with the width and height of the mode in its digits.\<close>

definition ppm_header :: "ov5640_mode \<Rightarrow> u8 list" where
  "ppm_header mode =
     (text_bytes (''P3'' @ [CHR 0x0A] @ ''0640 0480'' @ [CHR 0x0A] @ ''255'' @ [CHR 0x0A]))
       [3 := ascii (OV5640_MAXX mode div 1000), 4 := ascii (OV5640_MAXX mode div 100),
        5 := ascii (OV5640_MAXX mode div 10), 6 := ascii (OV5640_MAXX mode),
        8 := ascii (OV5640_MAXY mode div 1000), 9 := ascii (OV5640_MAXY mode div 100),
        10 := ascii (OV5640_MAXY mode div 10), 11 := ascii (OV5640_MAXY mode)]"

text \<open>One pixel: the two bytes of the buffer, the colour and the text of its line. The shift of the second
  byte is to the right.\<close>

definition rgb_color :: "u8 \<Rightarrow> u8 \<Rightarrow> u16" where
  "rgb_color lo hi = ucast (signed_drop_bit 8 (ucast hi :: i32) + ucast lo)"

definition rgb_text :: "u16 \<Rightarrow> u8 list" where
  "rgb_text color =
     (let b = unat (push_bit 3 ((ucast color :: u32) AND 0x001F));
          g = unat (drop_bit 3 ((ucast color :: u32) AND 0x07E0));
          r = unat (drop_bit 8 ((ucast color :: u32) AND 0xF800))
      in [ascii (r div 100), ascii (r div 10), ascii r, 0x20, ascii (g div 100), ascii (g div 10), ascii g, 0x20,
          ascii (b div 100), ascii (b div 10), ascii b, 0x20, 0x0A])"

text \<open>The pixels of a row, from column \<open>x\<close> on; a failed write leaves the row. The line of a pixel is put together in
  \<open>fbuff\<close>.\<close>

fun write_row ::
  "('w, 'h) fs_hal_scheme \<Rightarrow> ov5640_mode \<Rightarrow> FIL \<Rightarrow> nat \<Rightarrow> nat list \<Rightarrow> ('w, 's) storage_scheme \<Rightarrow> fault + ('w, 's) storage_scheme" where
  "write_row hal mode fil y [] s = Inr s"
| "write_row hal mode fil y (x # xs) s =
     (let i = 2 * (y * OV5640_MAXX mode + x); buf = OV5640_ram_buffer hal (world s)
      in case (array_at buf (int i), array_at buf (int i + 1)) of
           (Some lo, Some hi) \<Rightarrow>
             (let text = rgb_text (rgb_color lo hi);
                  s = s\<lparr>fbuff := map (\<lambda>b. char_of (unat b)) text @ drop 13 (fbuff s)\<rparr>;
                  (fr, bw, w) = f_write hal fil text (world s);
                  s = s\<lparr>world := w\<rparr>
              in if fr \<noteq> FR_OK \<or> unat bw < 13 then Inr (on_world (chprintf hal (line ''write error!'') []) s)
                 else write_row hal mode fil y xs s)
         | _ \<Rightarrow> Inl Out_of_bounds)"

fun write_rows ::
  "('w, 'h) fs_hal_scheme \<Rightarrow> ov5640_mode \<Rightarrow> FIL \<Rightarrow> nat list \<Rightarrow> ('w, 's) storage_scheme \<Rightarrow> fault + ('w, 's) storage_scheme" where
  "write_rows hal mode fil [] s = Inr s"
| "write_rows hal mode fil (y # ys) s =
     (case write_row hal mode fil y [0..<OV5640_MAXX mode] s of
        Inl e \<Rightarrow> Inl e
      | Inr s \<Rightarrow> write_rows hal mode fil ys (on_world (chprintf hal ''.'' []) s))"

definition write_rgb ::
  "('w, 'h) fs_hal_scheme \<Rightarrow> ov5640_mode \<Rightarrow> ('w, 's) storage_scheme \<Rightarrow> fault + ('w, 's) storage_scheme" where
  "write_rgb hal mode s =
     (let s = on_world (palSetPad hal GPIOD_LED_BLUE) s;
          s = on_world (chprintf hal ''Open file...'' []) s;
          (fr, fil, w) = f_open hal ''image1.ppm'' {FA_WRITE, FA_CREATE_ALWAYS} (world s);
          s = s\<lparr>world := chprintf hal (line ''done, return code = %d'') [fresult_code fr] w\<rparr>;
          s = on_world (chprintf hal ''Write header...'' []) s;
          (fr, bw, w) = f_write hal fil (ppm_header mode) (world s);
          s = s\<lparr>world := w\<rparr>
      in if fr \<noteq> FR_OK \<or> unat bw < length (ppm_header mode) then Inr (on_world (chprintf hal (line ''write error!'') []) s)
         else
           (let s = on_world (chprintf hal (line ''done, %d bytes written'') [uint bw]) s
            in case write_rows hal mode fil [0..<OV5640_MAXY mode] s of
                 Inl e \<Rightarrow> Inl e
               | Inr s \<Rightarrow>
                   (let s = on_world (chprintf hal ''Close file...'' []) s;
                        (fr, w) = f_close hal fil (world s);
                        s = s\<lparr>world := chprintf hal (line ''done, return code = %d'') [fresult_code fr] w\<rparr>
                    in Inr (on_world (palClearPad hal GPIOD_LED_BLUE) s))))"

section \<open>JPEG images\<close>

text \<open>The preview: the first six and the last five bytes of a longer image, every byte of a short one and the
  byte behind it.\<close>

fun print_bytes :: "('w, 'h) fs_hal_scheme \<Rightarrow> (string \<times> u32) list \<Rightarrow> ('w, 's) storage_scheme \<Rightarrow> fault + ('w, 's) storage_scheme" where
  "print_bytes hal [] s = Inr s"
| "print_bytes hal ((f, i) # xs) s =
     (case array_at (OV5640_ram_buffer hal (world s)) (uint i) of
        None \<Rightarrow> Inl Out_of_bounds
      | Some b \<Rightarrow> print_bytes hal xs (on_world (chprintf hal f [uint b]) s))"

definition preview_bytes :: "u32 \<Rightarrow> (string \<times> u32) list" where
  "preview_bytes len =
     (if len > 10
      then map (Pair ''%02X, '') [0, 1, 2, 3, 4] @ [(''%02X ... '', 5)]
        @ map (Pair ''%02X, '') [len - 5, len - 4, len - 3, len - 2] @ [(line ''%02X'', len - 1)]
      else map (\<lambda>i. (''%02X, '', of_nat i)) [0..<unat len] @ [(line ''%02X'', len)])"

definition jpeg_name :: "('w, 'h) fs_hal_scheme \<Rightarrow> i32 \<Rightarrow> string" where
  "jpeg_name hal i = take 19 (format_text hal ''image%06d.jpg'' [sint i])"

text \<open>The search for an unused index.\<close>

function jpeg_search :: "('w, 'h) fs_hal_scheme \<Rightarrow> i32 \<Rightarrow> FRESULT \<times> FIL \<times> 'w \<Rightarrow> i32 \<times> FRESULT \<times> FIL \<times> 'w" where
  "jpeg_search hal i (fr, fil, w) =
     (if fr = FR_EXIST \<and> sint i < 1000000
      then jpeg_search hal (i + 1) (f_open hal (jpeg_name hal (i + 1)) {FA_WRITE, FA_CREATE_NEW} w)
      else (i, fr, fil, w))"
  by pat_completeness auto
termination
proof (relation "measure (\<lambda>(hal, i, r). nat (1000000 - sint i))")
  show "wf (measure (\<lambda>(hal :: ('w, 'h) fs_hal_scheme, i :: i32, r :: FRESULT \<times> FIL \<times> 'w). nat (1000000 - sint i)))"
    by simp
next
  fix hal :: "('w, 'h) fs_hal_scheme" and i :: i32 and fr :: FRESULT and fil :: FIL and w :: 'w
  assume "fr = FR_EXIST \<and> sint i < 1000000"
  then have "sint (i + 1) = sint i + 1"
    using sint_range_size [of i] by (subst sint_plus_small) (simp_all add: word_size)
  with \<open>fr = FR_EXIST \<and> sint i < 1000000\<close>
  show "((hal, i + 1, f_open hal (jpeg_name hal (i + 1)) {FA_WRITE, FA_CREATE_NEW} w), (hal, i, fr, fil, w))
      \<in> measure (\<lambda>(hal, i, r). nat (1000000 - sint i))"
    by simp
qed

declare jpeg_search.simps [simp del]

definition jpeg_open ::
  "('w, 'h) fs_hal_scheme \<Rightarrow> ('w, 's) storage_scheme \<Rightarrow> FRESULT \<times> FIL \<times> ('w, 's) storage_scheme" where
  "jpeg_open hal s =
     (let filename = jpeg_name hal (image_index s);
          s = on_world (chprintf_s hal ''SDC  > Open %s ...'' [filename]) s;
          (fr, fil, w) = f_open hal filename {FA_WRITE, FA_CREATE_NEW} (world s);
          s = s\<lparr>world := w\<rparr>;
          (fr, fil, s) =
            (if fr = FR_EXIST then
               (let s = on_world (chprintf hal (line ''SDC  > file exists, search for first unused index...'') []) s;
                    (i, fr, fil, w) = jpeg_search hal (image_index s) (fr, fil, world s);
                    s = s\<lparr>world := w, image_index := i\<rparr>
                in (fr, fil, on_world (chprintf_s hal ''CAM  > Open %s ...'' [jpeg_name hal i]) s))
             else (fr, fil, s));
          s = on_world (chprintf hal (line '' done, return code = %d'') [fresult_code fr]) s
      in (fr, fil, s))"

text \<open>Writing and closing; after an error the file stays open.\<close>

definition jpeg_write :: "('w, 'h) fs_hal_scheme \<Rightarrow> FIL \<Rightarrow> ('w, 's) storage_scheme \<Rightarrow> fault + ('w, 's) storage_scheme" where
  "jpeg_write hal fil s =
     (let s = on_world (chprintf hal ''SDC  > Write data...'' []) s;
          s = on_world (chTMStartMeasurementX hal) s;
          br = OV5640_ram_buffer_length s
      in if length (OV5640_ram_buffer hal (world s)) < unat br then Inl Out_of_bounds
         else
           (let (fr, bw, w) = f_write hal fil (take (unat br) (OV5640_ram_buffer hal (world s))) (world s);
                (cycles, w) = chTMStopMeasurementX hal w;
                s = s\<lparr>world := w\<rparr>
            in if fr \<noteq> FR_OK \<or> bw < br then Inr (on_world (chprintf hal (line ''write error!'') []) s)
               else
                 (let us = uint (cycles div (STM32_SYSCLK hal div 1000000));
                      s = on_world (chprintf_q hal ''done, %.3f MB written, '' [(uint bw, 1000000)]) s;
                      s = on_world (chprintf hal ''took, %d us, '' [us]) s;
                      s = on_world (chprintf_q hal (line ''%.2f MB/s'') [(uint bw, us)]) s;
                      s = s\<lparr>image_index := image_index s + 1\<rparr>;
                      s = on_world (chprintf hal ''SDC  > Close file...'' []) s;
                      (fr, w) = f_close hal fil (world s);
                      s = s\<lparr>world := chprintf hal (line ''done, return code = %d'') [fresult_code fr] w\<rparr>
                  in Inr (on_world (palClearPad hal GPIOD_LED_BLUE) s))))"

definition write_jpeg :: "('w, 'h) fs_hal_scheme \<Rightarrow> ('w, 's) storage_scheme \<Rightarrow> fault + ('w, 's) storage_scheme" where
  "write_jpeg hal s =
     (let s = on_world (palSetPad hal GPIOD_LED_BLUE) s;
          s = on_world (chprintf hal ''SDC  > File preview: '' []) s
      in case print_bytes hal (preview_bytes (OV5640_ram_buffer_length s)) s of
           Inl e \<Rightarrow> Inl e
         | Inr s \<Rightarrow> (let (fr, fil, s) = jpeg_open hal s in jpeg_write hal fil s))"

end
