(* ===== verification/Image_Files.thy ===== *)
theory Image_Files
  imports Storage
begin

text \<open>
  What the functions of \<open>Storage\<close> do to the files of the card, for every file system that keeps to the
  documented behaviour of the FatFs calls: an image never replaces a file, and on a working card it is stored
  under the first unused name.
\<close>

section \<open>The file system\<close>

text \<open>What is visible of the world: the files of the card, the names of the open file objects and the image
  buffer.\<close>

type_synonym fs_view = "(string \<rightharpoonup> u8 list) \<times> (FIL \<rightharpoonup> string) \<times> u8 list"

text \<open>Console output, lights and time measurements are not visible.\<close>

definition io_unseen :: "('w, 'h) fs_hal_scheme \<Rightarrow> ('w \<Rightarrow> 'o) \<Rightarrow> bool" where
  "io_unseen hal obs \<longleftrightarrow>
     (\<forall>f xs w. obs (chprintf hal f xs w) = obs w) \<and> (\<forall>f xs w. obs (chprintf_s hal f xs w) = obs w) \<and>
     (\<forall>f xs w. obs (chprintf_q hal f xs w) = obs w) \<and> (\<forall>p w. obs (palSetPad hal p w) = obs w) \<and>
     (\<forall>p w. obs (palClearPad hal p w) = obs w) \<and> (\<forall>w. obs (chTMStartMeasurementX hal w) = obs w) \<and>
     (\<forall>w. obs (snd (chTMStopMeasurementX hal w)) = obs w)"

lemma io_unseenD:
  assumes "io_unseen hal obs"
  shows "obs (chprintf hal f xs w) = obs w" "obs (chprintf_s hal f ys w) = obs w" "obs (chprintf_q hal f zs w) = obs w"
    "obs (palSetPad hal p w) = obs w" "obs (palClearPad hal p w) = obs w" "obs (chTMStartMeasurementX hal w) = obs w"
    "obs (snd (chTMStopMeasurementX hal w)) = obs w"
  using assms by (simp_all add: io_unseen_def)

text \<open>The calls on files: creating a new file succeeds only if there is none of the name, an attempt that fails
  leaves the files alone and a file object that cannot be written; writing appends a part of the data to the
  file of the object, all that is reported; no call touches the image buffer.\<close>

definition open_result :: "fs_view \<Rightarrow> string \<Rightarrow> FRESULT \<Rightarrow> FIL \<Rightarrow> fs_view \<Rightarrow> bool" where
  "open_result v name fr h v' \<longleftrightarrow>
     snd (snd v') = snd (snd v) \<and>
     (if fr = FR_OK then fst v name = None \<and> fst v' = (fst v)(name \<mapsto> []) \<and> fst (snd v') h = Some name
      else fst v' = fst v \<and> fst (snd v') h = None) \<and>
     (fr = FR_EXIST \<longrightarrow> fst v name \<noteq> None)"

definition write_result :: "fs_view \<Rightarrow> FIL \<Rightarrow> u8 list \<Rightarrow> FRESULT \<Rightarrow> u32 \<Rightarrow> fs_view \<Rightarrow> bool" where
  "write_result v h data fr bw v' \<longleftrightarrow>
     snd v' = snd v \<and>
     (case fst (snd v) h of
        None \<Rightarrow> fr \<noteq> FR_OK \<and> fst v' = fst v
      | Some name \<Rightarrow> \<exists>n c. n \<le> length data \<and> fst v name = Some c \<and> fst v' = (fst v)(name \<mapsto> c @ take n data)
          \<and> (fr = FR_OK \<longrightarrow> unat bw = n))"

definition fs_laws :: "('w, 'h) fs_hal_scheme \<Rightarrow> ('w \<Rightarrow> fs_view) \<Rightarrow> bool" where
  "fs_laws hal vw \<longleftrightarrow>
     io_unseen hal vw \<and> (\<forall>w. snd (snd (vw w)) = OV5640_ram_buffer hal w) \<and>
     (\<forall>name w. case f_open hal name {FA_WRITE, FA_CREATE_NEW} w of (fr, h, w') \<Rightarrow> open_result (vw w) name fr h (vw w')) \<and>
     (\<forall>h data w. (\<forall>name. fst (snd (vw w)) h = Some name \<longrightarrow> fst (vw w) name \<noteq> None) \<longrightarrow>
        (case f_write hal h data w of (fr, bw, w') \<Rightarrow> write_result (vw w) h data fr bw (vw w'))) \<and>
     (\<forall>h w. fst (vw (snd (f_close hal h w))) = fst (vw w))"

text \<open>A card that works and has room: unused names can be created, and data is written completely.\<close>

definition fs_works :: "('w, 'h) fs_hal_scheme \<Rightarrow> ('w \<Rightarrow> fs_view) \<Rightarrow> bool" where
  "fs_works hal vw \<longleftrightarrow>
     (\<forall>name w. fst (f_open hal name {FA_WRITE, FA_CREATE_NEW} w) = (if fst (vw w) name = None then FR_OK else FR_EXIST)) \<and>
     (\<forall>h data w. fst (snd (vw w)) h \<noteq> None \<longrightarrow> length data < 2 ^ 32 \<longrightarrow>
        fst (f_write hal h data w) = FR_OK \<and> unat (fst (snd (f_write hal h data w))) = length data)"

lemma fs_lawsD:
  assumes "fs_laws hal vw"
  shows "io_unseen hal vw" "OV5640_ram_buffer hal w = snd (snd (vw w))"
    and "f_open hal name {FA_WRITE, FA_CREATE_NEW} w = (fr, h, w') \<Longrightarrow> open_result (vw w) name fr h (vw w')"
    and "f_write hal h data w = (fr, bw, w') \<Longrightarrow> (\<And>n. fst (snd (vw w)) h = Some n \<Longrightarrow> fst (vw w) n \<noteq> None) \<Longrightarrow>
      write_result (vw w) h data fr bw (vw w')"
    and "fst (vw (snd (f_close hal h w))) = fst (vw w)"
proof -
  show "io_unseen hal vw" "OV5640_ram_buffer hal w = snd (snd (vw w))" "fst (vw (snd (f_close hal h w))) = fst (vw w)"
    using assms by (simp_all add: fs_laws_def)
  have "case f_open hal name {FA_WRITE, FA_CREATE_NEW} w of (fr, h, w') \<Rightarrow> open_result (vw w) name fr h (vw w')"
    using assms by (simp add: fs_laws_def)
  then show "f_open hal name {FA_WRITE, FA_CREATE_NEW} w = (fr, h, w') \<Longrightarrow> open_result (vw w) name fr h (vw w')"
    by simp
  have "(\<forall>n. fst (snd (vw w)) h = Some n \<longrightarrow> fst (vw w) n \<noteq> None) \<longrightarrow>
      (case f_write hal h data w of (fr, bw, w') \<Rightarrow> write_result (vw w) h data fr bw (vw w'))"
    using assms by (simp add: fs_laws_def)
  then show "f_write hal h data w = (fr, bw, w') \<Longrightarrow> (\<And>n. fst (snd (vw w)) h = Some n \<Longrightarrow> fst (vw w) n \<noteq> None) \<Longrightarrow>
      write_result (vw w) h data fr bw (vw w')"
    by simp
qed

section \<open>Storing a JPEG image\<close>

text \<open>The state between opening and writing: either a new, empty file is open, or nothing has happened.\<close>

definition jpeg_opened :: "fs_view \<Rightarrow> FRESULT \<Rightarrow> FIL \<Rightarrow> fs_view \<Rightarrow> bool" where
  "jpeg_opened v fr h v' \<longleftrightarrow>
     snd (snd v') = snd (snd v) \<and>
     (if fr = FR_OK then \<exists>name. fst v name = None \<and> fst v' = (fst v)(name \<mapsto> []) \<and> fst (snd v') h = Some name
      else fst v' = fst v \<and> fst (snd v') h = None)"

lemma open_result_opened: "open_result v name fr h v' \<Longrightarrow> jpeg_opened v fr h v'"
  by (auto simp: open_result_def jpeg_opened_def)

lemma jpeg_opened_retry:
  assumes "jpeg_opened v FR_EXIST h v'" "open_result v' name fr h' v''"
  shows "jpeg_opened v fr h' v''"
  using assms by (auto simp: open_result_def jpeg_opened_def split: if_splits)

lemma jpeg_search_opened:
  assumes "fs_laws hal vw" "jpeg_opened v fr h (vw w)"
  shows "case jpeg_search hal i (fr, h, w) of (i', fr', h', w') \<Rightarrow> jpeg_opened v fr' h' (vw w')"
  using assms
proof (induction hal i "(fr, h, w)" arbitrary: fr h w rule: jpeg_search.induct)
  case (1 hal i fr h w)
  show ?case
  proof (cases "fr = FR_EXIST \<and> sint i < 1000000")
    case True
    obtain fr1 h1 w1 where open1: "f_open hal (jpeg_name hal (i + 1)) {FA_WRITE, FA_CREATE_NEW} w = (fr1, h1, w1)"
      by (cases "f_open hal (jpeg_name hal (i + 1)) {FA_WRITE, FA_CREATE_NEW} w")
    have "jpeg_opened v fr1 h1 (vw w1)"
      using jpeg_opened_retry [of v h "vw w"] fs_lawsD(3) [OF "1.prems"(1) open1] "1.prems"(2) True by blast
    then show ?thesis
      using "1.hyps" [OF True open1] "1.prems"(1) True open1 by (simp add: jpeg_search.simps [of hal i FR_EXIST])
  next
    case False
    then show ?thesis
      using "1.prems" by (auto simp: jpeg_search.simps [of hal i fr])
  qed
qed

lemma jpeg_open_opened:
  assumes "fs_laws hal vw" "jpeg_open hal s = (fr, h, s')"
  shows "jpeg_opened (vw (world s)) fr h (vw (world s'))" "OV5640_ram_buffer_length s' = OV5640_ram_buffer_length s"
proof -
  note unseen = io_unseenD [OF fs_lawsD(1) [OF assms(1)]]
  define w1 where "w1 = chprintf_s hal ''SDC  > Open %s ...'' [jpeg_name hal (image_index s)] (world s)"
  have w1: "vw w1 = vw (world s)"
    by (simp add: w1_def unseen)
  obtain fr2 h2 w2 where open2: "f_open hal (jpeg_name hal (image_index s)) {FA_WRITE, FA_CREATE_NEW} w1 = (fr2, h2, w2)"
    by (cases "f_open hal (jpeg_name hal (image_index s)) {FA_WRITE, FA_CREATE_NEW} w1")
  have opened2: "jpeg_opened (vw (world s)) fr2 h2 (vw w2)"
    using open_result_opened [OF fs_lawsD(3) [OF assms(1) open2]] by (simp add: w1)
  define w3 where "w3 = chprintf hal (line ''SDC  > file exists, search for first unused index...'') [] w2"
  obtain i4 fr4 h4 w4 where search: "jpeg_search hal (image_index s) (fr2, h2, w3) = (i4, fr4, h4, w4)"
    by (cases "jpeg_search hal (image_index s) (fr2, h2, w3)")
  have opened4: "jpeg_opened (vw (world s)) fr4 h4 (vw w4)"
    using jpeg_search_opened [OF assms(1), of "vw (world s)" fr2 h2 w3 "image_index s"] opened2 search by (simp add: w3_def unseen)
  have "jpeg_open hal s =
      (let (fr, fil, s) = (if fr2 = FR_EXIST then (fr4, h4, on_world (chprintf_s hal ''CAM  > Open %s ...'' [jpeg_name hal i4]) (s\<lparr>world := w4, image_index := i4\<rparr>))
         else (fr2, h2, s\<lparr>world := w2\<rparr>))
       in (fr, fil, on_world (chprintf hal (line '' done, return code = %d'') [fresult_code fr]) s))"
    using open2 search by (auto simp: jpeg_open_def on_world_def w1_def w3_def Let_def split: prod.split)
  then show "jpeg_opened (vw (world s)) fr h (vw (world s'))" "OV5640_ram_buffer_length s' = OV5640_ram_buffer_length s"
    using assms(2) opened2 opened4 by (auto simp: on_world_def unseen split: if_splits)
qed

text \<open>The file that is written is the new one, if there is one.\<close>

lemma jpeg_write_result:
  assumes "fs_laws hal vw" "jpeg_opened v fr h (vw w)" "f_write hal h data w = (fr', bw, w')"
  shows "\<exists>m. fst (vw w') = fst v ++ m \<and> dom m \<inter> dom (fst v) = {}"
proof -
  have pre: "fst (vw w) n \<noteq> None" if "fst (snd (vw w)) h = Some n" for n
    using assms(2) that by (auto simp: jpeg_opened_def split: if_splits)
  have res: "write_result (vw w) h data fr' bw (vw w')"
    by (rule fs_lawsD(4) [OF assms(1,3) pre])
  show ?thesis
  proof (cases "fr = FR_OK")
    case True
    then obtain name where name: "fst v name = None" "fst (vw w) = (fst v)(name \<mapsto> [])" "fst (snd (vw w)) h = Some name"
      using assms(2) by (auto simp: jpeg_opened_def)
    then obtain c where "fst (vw w') = (fst v)(name \<mapsto> c)"
      using res by (auto simp: write_result_def)
    then have "fst (vw w') = fst v ++ [name \<mapsto> c]"
      by simp
    then show ?thesis
      using name(1) by (intro exI [of _ "[name \<mapsto> c]"]) auto
  next
    case False
    then have "fst (vw w') = fst v ++ Map.empty"
      using assms(2) res by (auto simp: jpeg_opened_def write_result_def)
    then show ?thesis
      by (intro exI [of _ Map.empty]) simp
  qed
qed

lemma print_bytes_frame:
  assumes "fs_laws hal vw" "print_bytes hal xs s = Inr s'"
  shows "vw (world s') = vw (world s)" "OV5640_ram_buffer_length s' = OV5640_ram_buffer_length s" "image_index s' = image_index s"
  using assms(2) io_unseenD [OF fs_lawsD(1) [OF assms(1)]]
  by (induction xs arbitrary: s) (auto simp: on_world_def split: option.splits)

section \<open>The first unused name\<close>

lemma sint_add_one: "sint i < 1000000 \<Longrightarrow> sint (i + 1) = sint i + 1" for i :: i32
  using sint_range_size [of i] by (subst sint_plus_small) (simp_all add: word_size)

text \<open>With \<open>j\<close> the first unused index behind \<open>i\<close>, the search opens the file of that index.\<close>

lemma jpeg_search_first:
  assumes laws: "fs_laws hal vw" "fs_works hal vw"
    and "sint i < j" "j \<le> 1000000" "fst (vw w) (jpeg_name hal (word_of_int j)) = None"
    and "\<And>k. sint i < k \<Longrightarrow> k < j \<Longrightarrow> fst (vw w) (jpeg_name hal (word_of_int k)) \<noteq> None"
  shows "\<exists>h' w'. jpeg_search hal i (FR_EXIST, h, w) = (word_of_int j, FR_OK, h', w') \<and> snd (snd (vw w')) = snd (snd (vw w))
    \<and> fst (vw w') = (fst (vw w))(jpeg_name hal (word_of_int j) \<mapsto> []) \<and> fst (snd (vw w')) h' = Some (jpeg_name hal (word_of_int j))"
  using assms(3-)
proof (induction "nat (j - sint i)" arbitrary: i h w)
  case 0
  then show ?case
    by simp
next
  case (Suc n)
  have next1: "sint (i + 1) = sint i + 1"
    using Suc.prems by (intro sint_add_one) simp
  obtain fr1 h1 w1 where open1: "f_open hal (jpeg_name hal (i + 1)) {FA_WRITE, FA_CREATE_NEW} w = (fr1, h1, w1)"
    by (cases "f_open hal (jpeg_name hal (i + 1)) {FA_WRITE, FA_CREATE_NEW} w")
  have step: "jpeg_search hal i (FR_EXIST, h, w) = jpeg_search hal (i + 1) (fr1, h1, w1)"
    using Suc.prems open1 by (simp add: jpeg_search.simps [of hal i])
  have fr1: "fr1 = (if fst (vw w) (jpeg_name hal (i + 1)) = None then FR_OK else FR_EXIST)"
  proof -
    have "fst (f_open hal (jpeg_name hal (i + 1)) {FA_WRITE, FA_CREATE_NEW} w)
        = (if fst (vw w) (jpeg_name hal (i + 1)) = None then FR_OK else FR_EXIST)"
      using laws(2) unfolding fs_works_def by blast
    then show ?thesis
      by (simp add: open1)
  qed
  note res = fs_lawsD(3) [OF laws(1) open1]
  show ?case
  proof (cases "sint i + 1 = j")
    case True
    then have "fr1 = FR_OK"
      using fr1 Suc.prems by (simp add: True [symmetric])
    then show ?thesis
      using res by (auto simp: True [symmetric] step jpeg_search.simps [of hal "i + 1" FR_OK] open_result_def)
  next
    case False
    then have ex: "fr1 = FR_EXIST"
      using fr1 Suc.prems(1) Suc.prems(4) [of "sint i + 1"] by simp
    have same: "fst (vw w1) = fst (vw w)" "snd (snd (vw w1)) = snd (snd (vw w))"
      using res ex by (auto simp: open_result_def)
    have "\<exists>h' w'. jpeg_search hal (i + 1) (FR_EXIST, h1, w1) = (word_of_int j, FR_OK, h', w') \<and> snd (snd (vw w')) = snd (snd (vw w1))
      \<and> fst (vw w') = (fst (vw w1))(jpeg_name hal (word_of_int j) \<mapsto> []) \<and> fst (snd (vw w')) h' = Some (jpeg_name hal (word_of_int j))"
      by (rule Suc.hyps(1)) (use Suc.hyps(2) Suc.prems False next1 in \<open>auto simp: same\<close>)
    then show ?thesis
      by (simp add: step ex same)
  qed
qed

lemma jpeg_open_first:
  fixes s :: "('w, 's) storage_scheme"
  assumes laws: "fs_laws hal vw" "fs_works hal vw"
    and j: "sint (image_index s) \<le> j" "j \<le> 1000000" "fst (vw (world s)) (jpeg_name hal (word_of_int j)) = None"
    and used: "\<And>k. sint (image_index s) \<le> k \<Longrightarrow> k < j \<Longrightarrow> fst (vw (world s)) (jpeg_name hal (word_of_int k)) \<noteq> None"
  shows "\<exists>h s'. jpeg_open hal s = (FR_OK, h, s') \<and> snd (snd (vw (world s'))) = snd (snd (vw (world s)))
    \<and> fst (vw (world s')) = (fst (vw (world s)))(jpeg_name hal (word_of_int j) \<mapsto> [])
    \<and> fst (snd (vw (world s'))) h = Some (jpeg_name hal (word_of_int j))
    \<and> image_index s' = word_of_int j \<and> OV5640_ram_buffer_length s' = OV5640_ram_buffer_length s"
proof -
  note unseen = io_unseenD [OF fs_lawsD(1) [OF laws(1)]]
  define w1 where "w1 = chprintf_s hal ''SDC  > Open %s ...'' [jpeg_name hal (image_index s)] (world s)"
  have w1: "vw w1 = vw (world s)"
    by (simp add: w1_def unseen)
  obtain fr2 h2 w2 where open2: "f_open hal (jpeg_name hal (image_index s)) {FA_WRITE, FA_CREATE_NEW} w1 = (fr2, h2, w2)"
    by (cases "f_open hal (jpeg_name hal (image_index s)) {FA_WRITE, FA_CREATE_NEW} w1")
  have res: "open_result (vw (world s)) (jpeg_name hal (image_index s)) fr2 h2 (vw w2)"
    using fs_lawsD(3) [OF laws(1) open2] by (simp add: w1)
  have "fst (f_open hal (jpeg_name hal (image_index s)) {FA_WRITE, FA_CREATE_NEW} w1)
      = (if fst (vw w1) (jpeg_name hal (image_index s)) = None then FR_OK else FR_EXIST)"
    using laws(2) unfolding fs_works_def by blast
  then have fr2: "fr2 = (if fst (vw (world s)) (jpeg_name hal (image_index s)) = None then FR_OK else FR_EXIST)"
    by (simp add: open2 w1)
  show ?thesis
  proof (cases "sint (image_index s) = j")
    case True
    then have "word_of_int j = image_index s"
      by auto
    then show ?thesis
      using fr2 j(3) res open2
      by (simp add: jpeg_open_def on_world_def w1_def Let_def unseen open_result_def)
  next
    case False
    then have ex: "fr2 = FR_EXIST"
      using fr2 used [of "sint (image_index s)"] j(1) by simp
    define w3 where "w3 = chprintf hal (line ''SDC  > file exists, search for first unused index...'') [] w2"
    have w3: "fst (vw w3) = fst (vw (world s))" "snd (snd (vw w3)) = snd (snd (vw (world s)))"
      using res ex by (auto simp: w3_def unseen open_result_def)
    obtain h4 w4 where search: "jpeg_search hal (image_index s) (FR_EXIST, h2, w3) = (word_of_int j, FR_OK, h4, w4)"
      and w4: "snd (snd (vw w4)) = snd (snd (vw w3))" "fst (vw w4) = (fst (vw w3))(jpeg_name hal (word_of_int j) \<mapsto> [])"
        "fst (snd (vw w4)) h4 = Some (jpeg_name hal (word_of_int j))"
      using jpeg_search_first [OF laws, of "image_index s" j w3 h2] j used False w3 by auto
    show ?thesis
      using open2 search w3 w4
      by (simp add: jpeg_open_def on_world_def ex w1_def [symmetric] w3_def [symmetric] Let_def unseen)
  qed
qed

lemma uint_less_int: "uint b < int n \<longleftrightarrow> unat b < n" for b :: "'a::len word"
  using of_nat_less_iff [of "unat b" n, where ?'a = int] by simp

lemma print_bytes_Inr:
  assumes "fs_laws hal vw" "\<forall>(f, i) \<in> set xs. unat i < length (OV5640_ram_buffer hal (world s))"
  shows "\<exists>s'. print_bytes hal xs s = Inr s'"
  using assms(2)
proof (induction xs arbitrary: s)
  case (Cons x xs)
  have "OV5640_ram_buffer hal (chprintf hal f ys w) = OV5640_ram_buffer hal w" for f ys w
    by (simp add: fs_lawsD(2) [OF assms(1)] io_unseenD [OF fs_lawsD(1) [OF assms(1)]])
  then show ?case
    using Cons by (cases x) (simp add: array_at_def on_world_def uint_less_int)
qed simp

lemma preview_in_bounds:
  assumes "unat len \<le> n" "10 < n" "(f, i) \<in> set (preview_bytes len)"
  shows "unat i < n"
proof (cases "len > 10")
  case True
  then have "unat len > 10"
    by (simp add: word_less_nat_alt)
  moreover have "unat (len - k) < n" if "0 < unat k" "unat k \<le> 5" for k
    using that calculation assms(1) by (subst unat_sub) (auto simp: word_le_nat_alt)
  from this [of 5] this [of 4] this [of 3] this [of 2] this [of 1] have "unat (len - 5) < n" "unat (len - 4) < n"
    "unat (len - 3) < n" "unat (len - 2) < n" "unat (len - 1) < n"
    by simp_all
  ultimately show ?thesis
    using assms True by (auto simp: preview_bytes_def)
next
  case False
  then have "unat len \<le> 10"
    by (simp add: word_less_nat_alt)
  then show ?thesis
    using assms False by (auto simp: preview_bytes_def unat_of_nat)
qed

text \<open>Writing to an open file of a working card.\<close>

lemma f_write_works:
  assumes "fs_laws hal vw" "fs_works hal vw"
    and "fst (vw w) name = Some c" "fst (snd (vw w)) h = Some name" "length data < 2 ^ 32"
  shows "\<exists>bw w'. f_write hal h data w = (FR_OK, bw, w') \<and> unat bw = length data
    \<and> vw w' = ((fst (vw w))(name \<mapsto> c @ data), snd (vw w))"
proof -
  obtain fr bw w' where w': "f_write hal h data w = (fr, bw, w')"
    by (cases "f_write hal h data w")
  have "fst (snd (vw w)) h \<noteq> None \<longrightarrow> length data < 2 ^ 32 \<longrightarrow>
      fst (f_write hal h data w) = FR_OK \<and> unat (fst (snd (f_write hal h data w))) = length data"
    using assms(2) unfolding fs_works_def by blast
  then have ok: "fr = FR_OK" "unat bw = length data"
    using assms(4,5) by (simp_all add: w')
  have "write_result (vw w) h data fr bw (vw w')"
    using assms(3,4) by (intro fs_lawsD(4) [OF assms(1) w']) simp
  then have "vw w' = ((fst (vw w))(name \<mapsto> c @ data), snd (vw w))"
    using assms(3,4) ok by (auto simp: write_result_def prod_eq_iff)
  then show ?thesis
    using w' ok by simp
qed

lemma jpeg_write_works:
  assumes laws: "fs_laws hal vw" "fs_works hal vw"
    and "fst (vw (world s)) name = Some []" "fst (snd (vw (world s))) h = Some name"
    and "unat (OV5640_ram_buffer_length s) \<le> length (snd (snd (vw (world s))))"
  shows "\<exists>s'. jpeg_write hal h s = Inr s' \<and> image_index s' = image_index s + 1
    \<and> fst (vw (world s')) = (fst (vw (world s)))(name \<mapsto> take (unat (OV5640_ram_buffer_length s)) (snd (snd (vw (world s)))))"
proof -
  note unseen = io_unseenD [OF fs_lawsD(1) [OF laws(1)]] and close = fs_lawsD(5) [OF laws(1)] and buf = fs_lawsD(2) [OF laws(1)]
  define w1 where "w1 = chTMStartMeasurementX hal (chprintf hal ''SDC  > Write data...'' [] (world s))"
  have w1: "vw w1 = vw (world s)"
    by (simp add: w1_def unseen)
  define data where "data = take (unat (OV5640_ram_buffer_length s)) (snd (snd (vw (world s))))"
  have len: "length data = unat (OV5640_ram_buffer_length s)"
    using assms(5) by (simp add: data_def)
  obtain bw w2 where w2: "f_write hal h data w1 = (FR_OK, bw, w2)" "unat bw = length data"
    "vw w2 = ((fst (vw (world s)))(name \<mapsto> data), snd (vw (world s)))"
    using f_write_works [OF laws, of w1 name "[]" h data] assms(3,4) len by (auto simp: w1)
  have "\<not> bw < OV5640_ram_buffer_length s"
    using w2(2) len by (simp add: word_less_nat_alt)
  then show ?thesis
    using w2 assms(5)
    by (simp add: jpeg_write_def on_world_def w1_def [symmetric] Let_def case_prod_unfold unseen close buf w1 data_def [symmetric])
qed

lemma write_jpeg_first_unused:
  assumes laws: "fs_laws hal vw" "fs_works hal vw"
    and "unat (OV5640_ram_buffer_length s) \<le> length (OV5640_ram_buffer hal (world s))" "10 < length (OV5640_ram_buffer hal (world s))"
    and "sint (image_index s) \<le> j" "j \<le> 1000000" "fst (vw (world s)) (jpeg_name hal (word_of_int j)) = None"
    and "\<forall>k. sint (image_index s) \<le> k \<and> k < j \<longrightarrow> fst (vw (world s)) (jpeg_name hal (word_of_int k)) \<noteq> None"
  shows "\<exists>s'. write_jpeg hal s = Inr s' \<and> image_index s' = word_of_int (j + 1)
    \<and> fst (vw (world s')) = (fst (vw (world s)))(jpeg_name hal (word_of_int j) \<mapsto>
        take (unat (OV5640_ram_buffer_length s)) (OV5640_ram_buffer hal (world s)))"
proof -
  note unseen = io_unseenD [OF fs_lawsD(1) [OF laws(1)]] and buf = fs_lawsD(2) [OF laws(1)]
  define s1 where "s1 = on_world (chprintf hal ''SDC  > File preview: '' []) (on_world (palSetPad hal GPIOD_LED_BLUE) s)"
  have s1: "vw (world s1) = vw (world s)" "OV5640_ram_buffer_length s1 = OV5640_ram_buffer_length s" "image_index s1 = image_index s"
    by (simp_all add: s1_def unseen on_world_def)
  have "\<forall>(f, i) \<in> set (preview_bytes (OV5640_ram_buffer_length s1)). unat i < length (OV5640_ram_buffer hal (world s1))"
    using preview_in_bounds [of "OV5640_ram_buffer_length s1"] assms(3,4) by (auto simp: buf s1)
  then obtain s2 where s2: "print_bytes hal (preview_bytes (OV5640_ram_buffer_length s1)) s1 = Inr s2"
    using print_bytes_Inr [OF laws(1)] by blast
  note frame2 = print_bytes_frame [OF laws(1) s2]
  obtain h s3 where s3: "jpeg_open hal s2 = (FR_OK, h, s3)" "snd (snd (vw (world s3))) = snd (snd (vw (world s)))"
    "fst (vw (world s3)) = (fst (vw (world s)))(jpeg_name hal (word_of_int j) \<mapsto> [])"
    "fst (snd (vw (world s3))) h = Some (jpeg_name hal (word_of_int j))"
    "image_index s3 = word_of_int j" "OV5640_ram_buffer_length s3 = OV5640_ram_buffer_length s"
    using jpeg_open_first [OF laws, of s2 j] assms(5-) frame2 s1 by auto
  obtain s' where "jpeg_write hal h s3 = Inr s'" "image_index s' = image_index s3 + 1"
    "fst (vw (world s')) = (fst (vw (world s3)))(jpeg_name hal (word_of_int j) \<mapsto>
      take (unat (OV5640_ram_buffer_length s3)) (snd (snd (vw (world s3)))))"
    using jpeg_write_works [OF laws, of s3 "jpeg_name hal (word_of_int j)" h] s3 assms(3) by (auto simp: buf)
  then show ?thesis
    using s2 s3 by (simp add: write_jpeg_def s1_def [symmetric] Let_def buf)
qed

section \<open>Storing an RGB image\<close>

text \<open>Creating a file whether or not there is one of the name.\<close>

definition fs_creates :: "('w, 'h) fs_hal_scheme \<Rightarrow> ('w \<Rightarrow> fs_view) \<Rightarrow> bool" where
  "fs_creates hal vw \<longleftrightarrow>
     (\<forall>name w. \<exists>h w'. f_open hal name {FA_WRITE, FA_CREATE_ALWAYS} w = (FR_OK, h, w') \<and> fst (vw w') = (fst (vw w))(name \<mapsto> [])
        \<and> fst (snd (vw w')) h = Some name \<and> snd (snd (vw w')) = snd (snd (vw w)))"

definition pixel_text :: "u8 list \<Rightarrow> nat \<Rightarrow> u8 list" where
  "pixel_text buf k = rgb_text (rgb_color (buf ! (2 * k)) (buf ! (2 * k + 1)))"

lemma length_pixel_text [simp]: "length (pixel_text buf k) = 13"
  by (simp add: pixel_text_def rgb_text_def Let_def)

text \<open>The state of the card while the file \<open>name\<close> has the contents \<open>c\<close>.\<close>

lemma write_row_works:
  assumes laws: "fs_laws hal vw" "fs_works hal vw"
    and "vw (world s) = (fs(name \<mapsto> c), op, buf)" "op h = Some name"
    and "\<forall>x \<in> set xs. 2 * (y * OV5640_MAXX mode + x) + 1 < length buf"
  shows "\<exists>s'. write_row hal mode h y xs s = Inr s'
    \<and> vw (world s') = (fs(name \<mapsto> c @ concat (map (\<lambda>x. pixel_text buf (y * OV5640_MAXX mode + x)) xs)), op, buf)"
  using assms(3,5)
proof (induction xs arbitrary: s c)
  case Nil
  then show ?case
    by simp
next
  case (Cons x xs)
  define k where "k = y * OV5640_MAXX mode + x"
  have k: "2 * k + 1 < length buf"
    using Cons.prems by (simp add: k_def)
  have b: "OV5640_ram_buffer hal (world s) = buf"
    using fs_lawsD(2) [OF laws(1)] Cons.prems by simp
  have i: "array_at buf (2 * int k) = Some (buf ! (2 * k))" "array_at buf (2 * int k + 1) = Some (buf ! (2 * k + 1))"
    using k by (simp_all add: array_at_def nat_add_distrib nat_mult_distrib)
  have c: "(fs(name \<mapsto> c)) name = Some c"
    by simp
  obtain bw w' where w': "f_write hal h (pixel_text buf k) (world s) = (FR_OK, bw, w')" "unat bw = 13"
    "vw w' = (fs(name \<mapsto> c @ pixel_text buf k), op, buf)"
    using f_write_works [OF laws, of "world s" name c h "pixel_text buf k"] assms(4)
    unfolding Cons.prems(1) fst_conv snd_conv fun_upd_upd by (auto simp: c simp del: fun_upd_apply)
  define t where "t = s\<lparr>fbuff := map (\<lambda>b. char_of (unat b)) (pixel_text buf k) @ drop 13 (fbuff s), world := w'\<rparr>"
  obtain s' where s': "write_row hal mode h y xs t = Inr s'"
    "vw (world s') = (fs(name \<mapsto> (c @ pixel_text buf k) @ concat (map (\<lambda>x. pixel_text buf (y * OV5640_MAXX mode + x)) xs)), op, buf)"
    using Cons.IH [of t "c @ pixel_text buf k"] Cons.prems(2) w'(3) by (auto simp: t_def simp del: fun_upd_apply)
  have "write_row hal mode h y (x # xs) s = Inr s'"
    using s'(1) w'(1,2) by (simp add: k_def [symmetric] b i) (simp add: t_def pixel_text_def Let_def)
  then show ?case
    using s'(2) by (simp add: k_def del: fun_upd_apply write_row.simps)
qed

lemma write_rows_works:
  assumes laws: "fs_laws hal vw" "fs_works hal vw"
    and "vw (world s) = (fs(name \<mapsto> c), op, buf)" "op h = Some name"
    and "\<forall>y \<in> set ys. \<forall>x < OV5640_MAXX mode. 2 * (y * OV5640_MAXX mode + x) + 1 < length buf"
  shows "\<exists>s'. write_rows hal mode h ys s = Inr s'
    \<and> vw (world s') = (fs(name \<mapsto> c @ concat (map (\<lambda>y. concat (map (\<lambda>x. pixel_text buf (y * OV5640_MAXX mode + x)) [0..<OV5640_MAXX mode])) ys)), op, buf)"
  using assms(3,5)
proof (induction ys arbitrary: s c)
  case Nil
  then show ?case
    by simp
next
  case (Cons y ys)
  define row where "row = concat (map (\<lambda>x. pixel_text buf (y * OV5640_MAXX mode + x)) [0..<OV5640_MAXX mode])"
  obtain s1 where s1: "write_row hal mode h y [0..<OV5640_MAXX mode] s = Inr s1" "vw (world s1) = (fs(name \<mapsto> c @ row), op, buf)"
    using write_row_works [OF laws Cons.prems(1) assms(4), of "[0..<OV5640_MAXX mode]" y mode] Cons.prems(2)
    by (auto simp: row_def simp del: fun_upd_apply)
  have "vw (world (on_world (chprintf hal ''.'' []) s1)) = (fs(name \<mapsto> c @ row), op, buf)"
    using s1(2) by (simp add: io_unseenD [OF fs_lawsD(1) [OF laws(1)]] del: fun_upd_apply)
  from Cons.IH [OF this] Cons.prems(2) s1(1) show ?case
    by (simp add: row_def del: fun_upd_apply)
qed

lemma concat_rows:
  "concat (map (\<lambda>y. concat (map (\<lambda>x. f (y * n + x)) [0..<n])) [0..<m]) = concat (map f [0..<m * n])"
proof (induction m)
  case (Suc m)
  have "map (\<lambda>x. f (m * n + x)) [0..<n] = map f [m * n..<m * n + n]"
    by (rule nth_equalityI) simp_all
  moreover have "[0..<Suc m * n] = [0..<m * n] @ [m * n..<m * n + n]"
    using upt_add_eq_append [of 0 "m * n" n] by (simp add: add.commute)
  ultimately show ?case
    using Suc by simp
qed simp

text \<open>The colour that is written has the low byte of the pixel only.\<close>

lemma rgb_color_low: "rgb_color lo hi = ucast lo"
proof -
  have "signed_drop_bit 8 (ucast hi :: i32) = 0"
    by (rule bit_word_eqI) (auto simp: bit_simps min_def dest: bit_u8D)
  then show ?thesis
    unfolding rgb_color_def by (intro bit_word_eqI) (auto simp: bit_simps)
qed

lemma rgb_text_red: "take 4 (rgb_text (ucast (lo :: u8))) = [48, 48, 48, 32]"
proof -
  have "drop_bit 8 (ucast (ucast lo :: u16) :: u32) = 0"
    by (rule bit_word_eqI) (auto simp: bit_simps dest: bit_u8D)
  then have "drop_bit 8 ((ucast (ucast lo :: u16) :: u32) AND 0xF800) = 0"
    by (simp only: drop_bit_and and_zero_eq) simp
  then show ?thesis
    by (simp add: rgb_text_def Let_def ascii_def)
qed

lemma length_ppm_header: "length (ppm_header mode) = 17"
  by (simp add: ppm_header_def text_bytes_def)

text \<open>The steps of \<open>write_rgb\<close> when no call fails.\<close>

lemma write_rgb_steps:
  assumes "fs_laws hal vw"
    and w1_def: "w1 = chprintf hal ''Open file...'' [] (palSetPad hal GPIOD_LED_BLUE (world s))"
    and w2: "f_open hal ''image1.ppm'' {FA_WRITE, FA_CREATE_ALWAYS} w1 = (FR_OK, h, w2)"
    and w3_def: "w3 = chprintf hal ''Write header...'' [] (chprintf hal (line ''done, return code = %d'') [fresult_code FR_OK] w2)"
    and w4: "f_write hal h (ppm_header mode) w3 = (FR_OK, bw, w4)" "unat bw = 17"
    and s6: "write_rows hal mode h [0..<OV5640_MAXY mode] (s\<lparr>world := chprintf hal (line ''done, %d bytes written'') [uint bw] w4\<rparr>) = Inr s6"
  shows "\<exists>s'. write_rgb hal mode s = Inr s' \<and> fst (vw (world s')) = fst (vw (world s6))"
  using w2 w4 s6
  by (simp add: write_rgb_def on_world_def w1_def w3_def length_ppm_header Let_def case_prod_unfold
      io_unseenD [OF fs_lawsD(1) [OF assms(1)]] fs_lawsD(5) [OF assms(1)])

lemma pixel_index:
  assumes "length buf = 2 * OV5640_NUM_PIXELS mode" "y < OV5640_MAXY mode" "x < OV5640_MAXX mode"
  shows "2 * (y * OV5640_MAXX mode + x) + 1 < length buf"
proof -
  have "y * OV5640_MAXX mode + x < OV5640_MAXY mode * OV5640_MAXX mode"
    using assms(2,3) mult_le_mono1 [of "Suc y" "OV5640_MAXY mode" "OV5640_MAXX mode"] by simp
  then show ?thesis
    using assms(1) by (simp add: OV5640_NUM_PIXELS_def mult.commute)
qed

section \<open>Properties\<close>

text \<open>A card whose files are the world, with room for every file of up to 4 GB.\<close>

definition fs_over ::
  "'w cam_hal \<Rightarrow> (string \<Rightarrow> int list \<Rightarrow> string) \<Rightarrow> (string \<Rightarrow> fa_mode set \<Rightarrow> 'w \<Rightarrow> FRESULT \<times> FIL \<times> 'w)
     \<Rightarrow> (FIL \<Rightarrow> u8 list \<Rightarrow> 'w \<Rightarrow> FRESULT \<times> u32 \<times> 'w) \<Rightarrow> 'w fs_hal" where
  "fs_over cam fmt opens writes =
     mem_hal.extend (wdg_hal.extend (coll_hal.extend (dbg_hal.extend (adc_hal.extend (cam_hal.extend cam
         (adc_hal.fields (\<lambda>w. w) (\<lambda>w. w) (\<lambda>g n w. w) (\<lambda>w. w) (\<lambda>w i. 0)))
       (dbg_hal.fields (\<lambda>w. w) (\<lambda>w. w) (\<lambda>w. w) (\<lambda>p c w. w) (\<lambda>f xs w. w) fmt (\<lambda>w. [])))
       (coll_hal.fields 1980 (\<lambda>w. \<lparr> rtc_year = 0, rtc_month = 1, rtc_day = 1, rtc_millisecond = 0 \<rparr>) (\<lambda>t. t div 10000)))
     (wdg_hal.fields (\<lambda>c w. w) (\<lambda>w. w) (\<lambda>n nm w. (Some 0, w))))
     (mem_hal.fields (\<lambda>w a. 0) (\<lambda>m w. w) (\<lambda>w. (False, w)) (\<lambda>w. w) (\<lambda>s d n w. w) (\<lambda>w. w) (\<lambda>w. w) (\<lambda>w. (168, w)) 168000000))
     (fs_hal.fields opens writes (\<lambda>h w. (FR_OK, w)) (\<lambda>d f w. (FR_OK, w)) (\<lambda>f xs w. w))"

lemmas fs_over_simps = fs_over_def fs_hal.defs mem_hal.defs wdg_hal.defs coll_hal.defs dbg_hal.defs adc_hal.defs cam_hal.defs

text \<open>Image names, and files in memory.\<close>

definition name_text :: "string \<Rightarrow> int list \<Rightarrow> string" where
  "name_text f xs = ''image'' @ map (\<lambda>d. char_of (48 + nat (hd xs) div d mod 10)) [100000, 10000, 1000, 100, 10, 1] @ ''.jpg''"

definition files_open :: "string \<Rightarrow> fa_mode set \<Rightarrow> fs_view \<Rightarrow> FRESULT \<times> FIL \<times> fs_view" where
  "files_open name m = (\<lambda>(fs, op, buf).
     if FA_CREATE_ALWAYS \<in> m \<or> fs name = None then (FR_OK, 0, fs(name \<mapsto> []), op(0 \<mapsto> name), buf)
     else (FR_EXIST, 0, fs, op(0 := None), buf))"

definition files_write :: "FIL \<Rightarrow> u8 list \<Rightarrow> fs_view \<Rightarrow> FRESULT \<times> u32 \<times> fs_view" where
  "files_write h data = (\<lambda>(fs, op, buf).
     case op h of None \<Rightarrow> (FR_INVALID_OBJECT, 0, fs, op, buf)
     | Some name \<Rightarrow> let d = take 4294967295 data in (FR_OK, of_nat (length d), fs(name \<mapsto> the (fs name) @ d), op, buf))"

definition fs_board :: "fs_view fs_hal" where
  "fs_board = fs_over ((still_hal (\<lambda>e w. w) (\<lambda>a tx. None))\<lparr>OV5640_ram_buffer := \<lambda>w. snd (snd w)\<rparr>) name_text files_open files_write"

lemmas fs_board_simps = fs_board_def fs_over_simps still_hal_def name_text_def files_open_def files_write_def

lemma files_results:
  "case files_open name {FA_WRITE, FA_CREATE_NEW} v of (fr, h, v') \<Rightarrow> open_result v name fr h v' \<and>
     fr = (if fst v name = None then FR_OK else FR_EXIST)"
  "(\<And>name. fst (snd v) h = Some name \<Longrightarrow> fst v name \<noteq> None) \<Longrightarrow>
     (case files_write h data v of (fr, bw, v') \<Rightarrow> write_result v h data fr bw v' \<and>
       (fst (snd v) h \<noteq> None \<longrightarrow> length data < 2 ^ 32 \<longrightarrow> fr = FR_OK \<and> unat bw = length data))"
proof -
  obtain fs op buf where v: "v = (fs, op, buf)"
    by (cases v)
  show "case files_open name {FA_WRITE, FA_CREATE_NEW} v of (fr, h, v') \<Rightarrow> open_result v name fr h v' \<and>
     fr = (if fst v name = None then FR_OK else FR_EXIST)"
    by (simp add: v files_open_def open_result_def)
  assume stored: "\<And>name. fst (snd v) h = Some name \<Longrightarrow> fst v name \<noteq> None"
  have "write_result v h data FR_OK (of_nat (length (take 4294967295 data)))
      (fs(name \<mapsto> the (fs name) @ take 4294967295 data), op, buf)" if "op h = Some name" for name
    using that stored [of name] by (auto simp: v write_result_def unat_of_nat min_def intro: exI [of _ "min (length data) 4294967295"])
  then show "case files_write h data v of (fr, bw, v') \<Rightarrow> write_result v h data fr bw v' \<and>
       (fst (snd v) h \<noteq> None \<longrightarrow> length data < 2 ^ 32 \<longrightarrow> fr = FR_OK \<and> unat bw = length data)"
    by (auto simp: v files_write_def Let_def unat_of_nat min_def split: option.split) (simp add: write_result_def)
qed

lemma fs_board_laws: "fs_laws fs_board (\<lambda>w. w)" "fs_works fs_board (\<lambda>w. w)"
proof -
  have ops: "f_open fs_board = files_open" "f_write fs_board = files_write" "f_close fs_board = (\<lambda>h w. (FR_OK, w))"
    "OV5640_ram_buffer fs_board = (\<lambda>w. snd (snd w))"
    by (simp_all add: fs_board_def fs_over_simps)
  have "io_unseen fs_board (\<lambda>w. w)"
    by (simp add: io_unseen_def fs_board_def fs_over_simps still_hal_def)
  then show "fs_laws fs_board (\<lambda>w. w)"
    using files_results unfolding fs_laws_def ops by (fastforce split: prod.splits)
  show "fs_works fs_board (\<lambda>w. w)"
    by (auto simp: fs_works_def ops files_open_def files_write_def unat_of_nat Let_def min_def split: prod.split)
qed

definition storage_start :: "'w \<Rightarrow> 'w storage" where
  "storage_start w =
     collector.extend (debug.extend (debug_start w) (collector.fields 0 None)) (storage.fields 0 (replicate 1024 CHR 0x00))"

text \<open>C13: storing an image never changes a file that is already on the card, whatever the card reports: an image
  goes to a new file, or nowhere.\<close>
theorem write_jpeg_keeps_files:
  assumes "fs_laws hal vw" "write_jpeg hal s = Inr s'" "fst (vw (world s)) name = Some c"
  shows "fst (vw (world s')) name = Some c"
proof -
  note unseen = io_unseenD [OF fs_lawsD(1) [OF assms(1)]] and close = fs_lawsD(5) [OF assms(1)]
  define s1 where "s1 = on_world (chprintf hal ''SDC  > File preview: '' []) (on_world (palSetPad hal GPIOD_LED_BLUE) s)"
  have s1: "vw (world s1) = vw (world s)"
    by (simp add: s1_def unseen)
  obtain s2 where s2: "print_bytes hal (preview_bytes (OV5640_ram_buffer_length s1)) s1 = Inr s2"
    using assms(2) by (auto simp: write_jpeg_def s1_def [symmetric] Let_def split: sum.splits)
  obtain fr h s3 where s3: "jpeg_open hal s2 = (fr, h, s3)"
    by (cases "jpeg_open hal s2")
  have s': "jpeg_write hal h s3 = Inr s'"
    using assms(2) s2 s3 by (simp add: write_jpeg_def s1_def [symmetric] Let_def)
  have opened: "jpeg_opened (vw (world s)) fr h (vw (world s3))"
    using jpeg_open_opened(1) [OF assms(1) s3] print_bytes_frame(1) [OF assms(1) s2] by (simp add: s1)
  define w4 where "w4 = chTMStartMeasurementX hal (chprintf hal ''SDC  > Write data...'' [] (world s3))"
  define data where "data = take (unat (OV5640_ram_buffer_length s3)) (OV5640_ram_buffer hal w4)"
  have opened4: "jpeg_opened (vw (world s)) fr h (vw w4)"
    using opened by (simp add: w4_def unseen)
  obtain fr5 bw w5 where w5: "f_write hal h data w4 = (fr5, bw, w5)"
    by (cases "f_write hal h data w4")
  have "fst (vw (world s')) = fst (vw w5)"
    using s' w5 by (auto simp: jpeg_write_def on_world_def w4_def [symmetric] data_def [symmetric] Let_def case_prod_unfold
        unseen close split: if_splits)
  moreover obtain m where "fst (vw w5) = fst (vw (world s)) ++ m" "dom m \<inter> dom (fst (vw (world s))) = {}"
    using jpeg_write_result [OF assms(1) opened4 w5] by blast
  ultimately show ?thesis
    using assms(3) by (auto simp: map_add_def dom_def split: option.splits)
qed

text \<open>A card with one image on it, and an image of eleven bytes in the buffer.\<close>

definition example_card :: "fs_view storage" where
  "example_card =
     (storage_start ([''image000000.jpg'' \<mapsto> [1]], Map.empty, map of_nat [0..<12])) \<lparr> OV5640_ram_buffer_length := 11 \<rparr>"

lemmas example_card_simps = example_card_def storage_start_def debug_start_def debug.defs collector.defs storage.defs

lemma example_card_facts:
  "world example_card = ([''image000000.jpg'' \<mapsto> [1]], Map.empty, map of_nat [0..<12])"
  "OV5640_ram_buffer_length example_card = 11" "image_index example_card = 0"
  "OV5640_ram_buffer fs_board w = snd (snd w)"
  "jpeg_name fs_board 0 = ''image000000.jpg''" "jpeg_name fs_board 1 = ''image000001.jpg''"
  by (simp_all add: example_card_simps fs_board_simps jpeg_name_def char_of_def bit_0)

lemma example_card_unused:
  "\<forall>k. 0 \<le> k \<and> k < 1 \<longrightarrow> fst (world example_card) (jpeg_name fs_board (word_of_int k)) \<noteq> None"
proof (intro allI impI)
  fix k :: int
  assume "0 \<le> k \<and> k < 1"
  then have "k = 0"
    by simp
  then show "fst (world example_card) (jpeg_name fs_board (word_of_int k)) \<noteq> None"
    by (simp add: example_card_facts)
qed

theorem write_jpeg_keeps_files_witness:
  "\<exists>s'. write_jpeg fs_board example_card = Inr s' \<and> fst (world s') ''image000000.jpg'' = Some [1]"
proof -
  obtain s' where "write_jpeg fs_board example_card = Inr s'"
    using write_jpeg_first_unused [OF fs_board_laws, of example_card 1] example_card_unused by (auto simp: example_card_facts)
  then show ?thesis
    using write_jpeg_keeps_files [OF fs_board_laws(1), of example_card s' "''image000000.jpg''" "[1]"]
    by (simp add: example_card_facts)
qed

text \<open>C14: on a working card an image is stored completely, in the file of the first unused index from
  \<open>image_index\<close> on, and nothing else on the card changes; the next image starts behind it. The names are
  searched up to index 1000000.\<close>
theorem write_jpeg_stores:
  assumes laws: "fs_laws hal vw" "fs_works hal vw"
    and "unat (OV5640_ram_buffer_length s) \<le> length (OV5640_ram_buffer hal (world s))" "10 < length (OV5640_ram_buffer hal (world s))"
    and "sint (image_index s) \<le> j" "j \<le> 1000000" "fst (vw (world s)) (jpeg_name hal (word_of_int j)) = None"
    and "\<forall>k. sint (image_index s) \<le> k \<and> k < j \<longrightarrow> fst (vw (world s)) (jpeg_name hal (word_of_int k)) \<noteq> None"
  shows "\<exists>s'. write_jpeg hal s = Inr s' \<and> image_index s' = word_of_int (j + 1)
    \<and> fst (vw (world s')) = (fst (vw (world s)))(jpeg_name hal (word_of_int j) \<mapsto>
        take (unat (OV5640_ram_buffer_length s)) (OV5640_ram_buffer hal (world s)))"
  by (rule write_jpeg_first_unused [OF assms])

theorem write_jpeg_stores_witness:
  "\<exists>s'. write_jpeg fs_board example_card = Inr s' \<and> image_index s' = 2
     \<and> fst (world s') ''image000001.jpg'' = Some [0, 1, 2, 3, 4, 5, 6, 7, 8, 9, 10]"
  using write_jpeg_stores [OF fs_board_laws, of example_card 1] example_card_unused
  by (auto simp: example_card_facts upt_rec)

text \<open>C37: on a working card the RGB image is a PPM text of the size of the mode, one line of 13 characters per pixel,
  in place of an earlier one. But only the low byte of every pixel is used (the shift of the other byte drops
  it), so that the red of every pixel is zero.\<close>
theorem write_rgb_file:
  assumes laws: "fs_laws hal vw" "fs_works hal vw" "fs_creates hal vw"
    and "OV5640_ram_buffer hal (world s) = buf" "length buf = 2 * OV5640_NUM_PIXELS mode"
  shows "(\<exists>s'. write_rgb hal mode s = Inr s' \<and> fst (vw (world s')) = (fst (vw (world s)))(''image1.ppm'' \<mapsto>
        ppm_header mode @ concat (map (\<lambda>k. rgb_text (ucast (buf ! (2 * k)))) [0..<OV5640_NUM_PIXELS mode])))
    \<and> (\<forall>lo :: u8. take 4 (rgb_text (ucast lo)) = text_bytes ''000 '')"
proof -
  note unseen = io_unseenD [OF fs_lawsD(1) [OF laws(1)]] and close = fs_lawsD(5) [OF laws(1)] and b = fs_lawsD(2) [OF laws(1)]
  define w1 where "w1 = chprintf hal ''Open file...'' [] (palSetPad hal GPIOD_LED_BLUE (world s))"
  have v1: "vw w1 = vw (world s)"
    by (simp add: w1_def unseen)
  have "\<exists>h w'. f_open hal ''image1.ppm'' {FA_WRITE, FA_CREATE_ALWAYS} w1 = (FR_OK, h, w') \<and> fst (vw w') = (fst (vw w1))(''image1.ppm'' \<mapsto> [])
      \<and> fst (snd (vw w')) h = Some ''image1.ppm'' \<and> snd (snd (vw w')) = snd (snd (vw w1))"
    using laws(3) unfolding fs_creates_def by blast
  then obtain h w2 where w2: "f_open hal ''image1.ppm'' {FA_WRITE, FA_CREATE_ALWAYS} w1 = (FR_OK, h, w2)"
    "fst (vw w2) = (fst (vw (world s)))(''image1.ppm'' \<mapsto> [])" "fst (snd (vw w2)) h = Some ''image1.ppm''"
    "snd (snd (vw w2)) = snd (snd (vw (world s)))"
    unfolding v1 by blast
  define w3 where "w3 = chprintf hal ''Write header...'' [] (chprintf hal (line ''done, return code = %d'') [fresult_code FR_OK] w2)"
  have v3: "vw w3 = ((fst (vw (world s)))(''image1.ppm'' \<mapsto> []), fst (snd (vw w2)), buf)"
    using w2(2,4) assms(4) by (simp add: w3_def unseen b prod_eq_iff)
  obtain bw w4 where w4: "f_write hal h (ppm_header mode) w3 = (FR_OK, bw, w4)" "unat bw = 17"
    "vw w4 = ((fst (vw (world s)))(''image1.ppm'' \<mapsto> ppm_header mode), fst (snd (vw w2)), buf)"
    using f_write_works [OF laws(1,2), of w3 "''image1.ppm''" "[]" h "ppm_header mode"] w2(3)
    unfolding v3 fst_conv snd_conv fun_upd_upd by (auto simp: length_ppm_header)
  define s5 where "s5 = s\<lparr>world := chprintf hal (line ''done, %d bytes written'') [uint bw] w4\<rparr>"
  have v5: "vw (world s5) = ((fst (vw (world s)))(''image1.ppm'' \<mapsto> ppm_header mode), fst (snd (vw w2)), buf)"
    using w4(3) by (simp add: s5_def unseen del: fun_upd_apply)
  obtain s6 where s6: "write_rows hal mode h [0..<OV5640_MAXY mode] s5 = Inr s6" "fst (vw (world s6)) =
      (fst (vw (world s)))(''image1.ppm'' \<mapsto> ppm_header mode @ concat (map (pixel_text buf) [0..<OV5640_NUM_PIXELS mode]))"
    using write_rows_works [OF laws(1,2) v5 w2(3), of "[0..<OV5640_MAXY mode]" mode] pixel_index [OF assms(5)]
    unfolding concat_rows OV5640_NUM_PIXELS_def by (auto simp: mult.commute simp del: fun_upd_apply)
  have "pixel_text buf = (\<lambda>k. rgb_text (ucast (buf ! (2 * k))))"
    by (simp add: pixel_text_def rgb_color_low fun_eq_iff)
  then show ?thesis
    using write_rgb_steps [OF laws(1) w1_def w2(1) w3_def w4(1,2) s6(1) [unfolded s5_def]] s6(2)
    by (simp add: rgb_text_red text_bytes_def)
qed

lemma fs_board_creates: "fs_creates fs_board (\<lambda>w. w)"
  by (simp add: fs_creates_def fs_board_simps)

theorem write_rgb_file_witness:
  "\<exists>s' c. write_rgb fs_board Mode_320x240 (storage_start (Map.empty, Map.empty, replicate 153600 0xFF)) = Inr s'
     \<and> fst (world s') = [''image1.ppm'' \<mapsto> ppm_header Mode_320x240 @ c]"
  using write_rgb_file [OF fs_board_laws fs_board_creates,
      of "storage_start (Map.empty, Map.empty, replicate 153600 0xFF)" "replicate 153600 0xFF" Mode_320x240]
  by (auto simp: fs_board_simps example_card_simps OV5640_NUM_PIXELS_def)

end
