(* ===== verification/Card_Monitor.thy ===== *)
theory Card_Monitor
  imports Image_Files
begin

text \<open>
  The card monitor of \<open>src/main.c\<close>: the timer callback that polls the card-detect pin, the events it broadcasts
  and the handlers that the main thread runs for them. ChibiOS calls are fields of the record \<open>app_hal\<close>. The
  interplay of the callback, which runs in an interrupt, with the main thread is the relation \<open>card_run\<close>: between
  two steps of the main thread any number of polls may happen.
\<close>

section \<open>Interface and state\<close>

datatype event_source = Inserted_event | Removed_event | Shell_terminated

type_synonym thread = nat

record 'w app_hal = "'w fs_hal" +
  blkIsInserted :: "'w \<Rightarrow> bool"
  chSysLockFromISR :: "'w \<Rightarrow> 'w"
  chSysUnlockFromISR :: "'w \<Rightarrow> 'w"
  chSysLock :: "'w \<Rightarrow> 'w"
  chSysUnlock :: "'w \<Rightarrow> 'w"
  chVTSetI :: "u32 \<Rightarrow> 'w \<Rightarrow> 'w"
  chEvtObjectInit :: "event_source \<Rightarrow> 'w \<Rightarrow> 'w"
  chEvtBroadcastI :: "event_source \<Rightarrow> 'w \<Rightarrow> 'w"
  chEvtWaitOneTimeout :: "u32 \<Rightarrow> 'w \<Rightarrow> nat option \<times> 'w"
  sdcConnect :: "'w \<Rightarrow> bool \<times> 'w"
  sdcDisconnect :: "'w \<Rightarrow> 'w"
  chThdTerminatedX :: "thread \<Rightarrow> 'w \<Rightarrow> bool"
  chThdRelease :: "thread \<Rightarrow> 'w \<Rightarrow> 'w"
  spawn_shell :: "'w \<Rightarrow> thread option \<times> 'w"

record 'w app = "'w storage" +
  cnt :: u32
  fs_ready :: bool
  shelltp :: "thread option"

definition POLLING_INTERVAL :: u32 where
  "POLLING_INTERVAL = 10"

definition POLLING_DELAY :: nat where
  "POLLING_DELAY = 10"

section \<open>The timer\<close>

definition tmrfunc :: "('w, 'h) app_hal_scheme \<Rightarrow> ('w, 's) app_scheme \<Rightarrow> ('w, 's) app_scheme" where
  "tmrfunc hal s =
     (let s = on_world (chSysLockFromISR hal) s;
          s =
            (if cnt s > 0 then
               (if blkIsInserted hal (world s) then
                  (let s = s\<lparr>cnt := cnt s - 1\<rparr>
                   in if cnt s = 0 then on_world (chEvtBroadcastI hal Inserted_event) s else s)
                else s\<lparr>cnt := POLLING_INTERVAL\<rparr>)
             else
               (if \<not> blkIsInserted hal (world s)
                then on_world (chEvtBroadcastI hal Removed_event) (s\<lparr>cnt := POLLING_INTERVAL\<rparr>)
                else s));
          s = on_world (chVTSetI hal (TIME_MS2I hal POLLING_DELAY)) s
      in on_world (chSysUnlockFromISR hal) s)"

definition tmr_init :: "('w, 'h) app_hal_scheme \<Rightarrow> ('w, 's) app_scheme \<Rightarrow> ('w, 's) app_scheme" where
  "tmr_init hal s =
     (let s = on_world (chEvtObjectInit hal Inserted_event) s;
          s = on_world (chEvtObjectInit hal Removed_event) s;
          s = on_world (chSysLock hal) s;
          s = s\<lparr>cnt := POLLING_INTERVAL\<rparr>;
          s = on_world (chVTSetI hal (TIME_MS2I hal POLLING_DELAY)) s
      in on_world (chSysUnlock hal) s)"

section \<open>The handlers of the main thread\<close>

definition InsertHandler :: "('w, 'h) app_hal_scheme \<Rightarrow> ('w, 's) app_scheme \<Rightarrow> ('w, 's) app_scheme" where
  "InsertHandler hal s =
     (let (failed, w) = sdcConnect hal (world s);
          s = s\<lparr>world := w\<rparr>
      in if failed then s
         else
           (let (err, w) = f_mount hal ''/'' True (world s);
                s = s\<lparr>world := w\<rparr>
            in if err \<noteq> FR_OK then on_world (sdcDisconnect hal) s
               else s\<lparr>fs_ready := True\<rparr>))"

definition RemoveHandler :: "('w, 'h) app_hal_scheme \<Rightarrow> ('w, 's) app_scheme \<Rightarrow> ('w, 's) app_scheme" where
  "RemoveHandler hal s = (on_world (sdcDisconnect hal) s)\<lparr>fs_ready := False\<rparr>"

text \<open>The test of the shell thread reads through the pointer, which may be null.\<close>

definition ShellHandler :: "('w, 'h) app_hal_scheme \<Rightarrow> ('w, 's) app_scheme \<Rightarrow> fault + ('w, 's) app_scheme" where
  "ShellHandler hal s =
     (case shelltp s of
        None \<Rightarrow> Inl Null_call
      | Some t \<Rightarrow>
          Inr (if chThdTerminatedX hal t (world s) then (on_world (chThdRelease hal t) s)\<lparr>shelltp := None\<rparr> else s))"

text \<open>The table of the handlers, by event identifier.\<close>

definition evhndl :: "('w, 'h) app_hal_scheme \<Rightarrow> nat \<Rightarrow> ('w, 's) app_scheme \<Rightarrow> fault + ('w, 's) app_scheme" where
  "evhndl hal i s =
     (if i = 0 then Inr (InsertHandler hal s)
      else if i = 1 then Inr (RemoveHandler hal s)
      else if i = 2 then ShellHandler hal s
      else Inl Out_of_bounds)"

section \<open>The loop of the main thread\<close>

definition main_shell :: "('w, 'h) app_hal_scheme \<Rightarrow> ('w, 's) app_scheme \<Rightarrow> ('w, 's) app_scheme" where
  "main_shell hal s =
     (case shelltp s of
        None \<Rightarrow> (let (t, w) = spawn_shell hal (world s) in s\<lparr>world := w, shelltp := t\<rparr>)
      | Some t \<Rightarrow>
          (if chThdTerminatedX hal t (world s) then (on_world (chThdRelease hal t) s)\<lparr>shelltp := None\<rparr> else s))"

definition main_wait :: "('w, 'h) app_hal_scheme \<Rightarrow> ('w, 's) app_scheme \<Rightarrow> nat option \<times> ('w, 's) app_scheme" where
  "main_wait hal s = (let (e, w) = chEvtWaitOneTimeout hal (TIME_MS2I hal 500) (world s) in (e, s\<lparr>world := w\<rparr>))"

definition main_dispatch :: "('w, 'h) app_hal_scheme \<Rightarrow> nat option \<Rightarrow> ('w, 's) app_scheme \<Rightarrow> fault + ('w, 's) app_scheme" where
  "main_dispatch hal e s = (case e of None \<Rightarrow> Inr s | Some i \<Rightarrow> evhndl hal i s)"

text \<open>One round of the loop, with what happens in interrupts and other threads during its wait and before
  its dispatch.\<close>

definition main_round ::
  "('w, 'h) app_hal_scheme \<Rightarrow> (('w, 's) app_scheme \<Rightarrow> ('w, 's) app_scheme) \<Rightarrow> ('w, 's) app_scheme \<Rightarrow> fault + ('w, 's) app_scheme" where
  "main_round hal others s =
     (let s = main_shell hal s;
          (e, s) = main_wait hal (others s)
      in main_dispatch hal e (others s))"

section \<open>Runs\<close>

text \<open>The event flags of the main thread. A broadcast sets the flag that the source was registered with, and a
  wait takes the lowest flag that is set, or none at its time-out. No other call changes them.\<close>

definition card_unseen :: "('w, 'h) app_hal_scheme \<Rightarrow> ('w \<Rightarrow> 'o) \<Rightarrow> bool" where
  "card_unseen hal obs \<longleftrightarrow>
     (\<forall>w. obs (chSysLockFromISR hal w) = obs w) \<and> (\<forall>w. obs (chSysUnlockFromISR hal w) = obs w) \<and>
     (\<forall>w. obs (chSysLock hal w) = obs w) \<and> (\<forall>w. obs (chSysUnlock hal w) = obs w) \<and>
     (\<forall>t w. obs (chVTSetI hal t w) = obs w)"

definition event_flags :: "('w, 'h) app_hal_scheme \<Rightarrow> ('w \<Rightarrow> nat set) \<Rightarrow> bool" where
  "event_flags hal flags \<longleftrightarrow>
     card_unseen hal flags \<and>
     (\<forall>w. flags (chEvtBroadcastI hal Inserted_event w) = insert 0 (flags w)) \<and>
     (\<forall>w. flags (chEvtBroadcastI hal Removed_event w) = insert 1 (flags w)) \<and>
     (\<forall>t w. case chEvtWaitOneTimeout hal t w of
        (None, w') \<Rightarrow> flags w' = flags w
      | (Some i, w') \<Rightarrow> i \<in> flags w \<and> (\<forall>j\<in>flags w. i \<le> j) \<and> flags w' = flags w - {i}) \<and>
     (\<forall>w. flags (snd (sdcConnect hal w)) = flags w) \<and> (\<forall>w. flags (sdcDisconnect hal w) = flags w) \<and>
     (\<forall>d m w. flags (snd (f_mount hal d m w)) = flags w) \<and>
     (\<forall>t w. flags (chThdRelease hal t w) = flags w) \<and> (\<forall>w. flags (snd (spawn_shell hal w)) = flags w)"

lemma event_flagsD:
  assumes "event_flags hal flags"
  shows "flags (chSysLockFromISR hal w) = flags w" "flags (chSysUnlockFromISR hal w) = flags w"
    "flags (chSysLock hal w) = flags w" "flags (chSysUnlock hal w) = flags w" "flags (chVTSetI hal t w) = flags w"
    "flags (chEvtBroadcastI hal Inserted_event w) = insert 0 (flags w)"
    "flags (chEvtBroadcastI hal Removed_event w) = insert 1 (flags w)"
    "flags (snd (sdcConnect hal w)) = flags w" "flags (sdcDisconnect hal w) = flags w"
    "flags (snd (f_mount hal d m w)) = flags w" "flags (chThdRelease hal th w) = flags w"
    "flags (snd (spawn_shell hal w)) = flags w"
    and "chEvtWaitOneTimeout hal t w = (None, w') \<Longrightarrow> flags w' = flags w"
    and "chEvtWaitOneTimeout hal t w = (Some i, w') \<Longrightarrow> i \<in> flags w \<and> (\<forall>j\<in>flags w. i \<le> j) \<and> flags w' = flags w - {i}"
proof -
  have "case chEvtWaitOneTimeout hal t w of (None, w') \<Rightarrow> flags w' = flags w
      | (Some i, w') \<Rightarrow> i \<in> flags w \<and> (\<forall>j\<in>flags w. i \<le> j) \<and> flags w' = flags w - {i}"
    using assms by (simp add: event_flags_def)
  then show "chEvtWaitOneTimeout hal t w = (None, w') \<Longrightarrow> flags w' = flags w"
    "chEvtWaitOneTimeout hal t w = (Some i, w') \<Longrightarrow> i \<in> flags w \<and> (\<forall>j\<in>flags w. i \<le> j) \<and> flags w' = flags w - {i}"
    by simp_all
qed (use assms in \<open>simp_all add: event_flags_def card_unseen_def\<close>)

text \<open>A system state has the polls so far, the event that the main thread is about to dispatch and the state of
  the program. Any other code may run at any time as long as it leaves the counter, the flag and the card
  events alone.\<close>

definition card_start :: "('w \<Rightarrow> nat set) \<Rightarrow> bool list \<times> nat option \<times> ('w, 's) app_scheme \<Rightarrow> bool" where
  "card_start flags = (\<lambda>(bs, e, s).
     bs = [] \<and> e = None \<and> cnt s = POLLING_INTERVAL \<and> \<not> fs_ready s \<and> flags (world s) \<inter> {0, 1} = {})"

inductive card_step ::
  "('w, 'h) app_hal_scheme \<Rightarrow> ('w \<Rightarrow> nat set) \<Rightarrow> bool list \<times> nat option \<times> ('w, 's) app_scheme
     \<Rightarrow> bool list \<times> nat option \<times> ('w, 's) app_scheme \<Rightarrow> bool"
  for hal :: "('w, 'h) app_hal_scheme" and flags :: "'w \<Rightarrow> nat set" where
  poll: "b = blkIsInserted hal (chSysLockFromISR hal (world s)) \<Longrightarrow> card_step hal flags (bs, e, s) (bs @ [b], e, tmrfunc hal s)"
| shell: "card_step hal flags (bs, None, s) (bs, None, main_shell hal s)"
| wait: "main_wait hal s = (e, s') \<Longrightarrow> card_step hal flags (bs, None, s) (bs, e, s')"
| dispatch: "main_dispatch hal e s = Inr s' \<Longrightarrow> card_step hal flags (bs, e, s) (bs, None, s')"
| other: "cnt s' = cnt s \<Longrightarrow> fs_ready s' = fs_ready s \<Longrightarrow> flags (world s') \<inter> {0, 1} = flags (world s) \<inter> {0, 1}
    \<Longrightarrow> card_step hal flags (bs, e, s) (bs, e, s')"

text \<open>The specification of the debouncing: for how many polls in a row the card has been seen.\<close>

definition seen_for :: "bool list \<Rightarrow> nat" where
  "seen_for bs = length (takeWhile id (rev bs))"

lemma seen_for_simps [simp]:
  "seen_for [] = 0" "seen_for (bs @ [b]) = (if b then Suc (seen_for bs) else 0)"
  by (simp_all add: seen_for_def)

text \<open>The invariant: the counter is what is missing to ten polls; and as long as the file system is in use, or is
  about to be, the monitor has the card, or the removal is on its way.\<close>

definition card_inv :: "('w \<Rightarrow> nat set) \<Rightarrow> bool list \<times> nat option \<times> ('w, 's) app_scheme \<Rightarrow> bool" where
  "card_inv flags = (\<lambda>(bs, e, s).
     unat (cnt s) = 10 - min 10 (seen_for bs) \<and>
     (cnt s = 0 \<or> 1 \<in> flags (world s) \<or> 0 \<notin> flags (world s) \<and> e \<noteq> Some 0 \<and> (fs_ready s \<longrightarrow> e = Some 1)))"

lemma tmrfunc_fields [simp]:
  "cnt (tmrfunc hal s) =
     (if blkIsInserted hal (chSysLockFromISR hal (world s)) then (if cnt s > 0 then cnt s - 1 else 0) else POLLING_INTERVAL)"
  "fs_ready (tmrfunc hal s) = fs_ready s"
  by (auto simp: tmrfunc_def Let_def on_world_def word_gt_0)

lemma tmrfunc_flags:
  assumes "event_flags hal flags"
  shows "flags (world (tmrfunc hal s)) =
    (if blkIsInserted hal (chSysLockFromISR hal (world s)) then (if cnt s = 1 then insert 0 (flags (world s)) else flags (world s))
     else if cnt s = 0 then insert 1 (flags (world s)) else flags (world s))"
  by (auto simp: tmrfunc_def Let_def event_flagsD [OF assms] on_world_def word_gt_0)

lemma count_down:
  fixes c :: u32
  assumes "unat c = 10 - min 10 k"
  shows "unat (if b then (if c > 0 then c - 1 else 0) else POLLING_INTERVAL) = 10 - min 10 (if b then Suc k else 0)"
  using assms by (auto simp: POLLING_INTERVAL_def word_gt_0 unat_minus_one unat_eq_0 [symmetric])

lemma card_inv_poll:
  assumes "event_flags hal flags" "card_inv flags (bs, e, s)"
  shows "card_inv flags (bs @ [blkIsInserted hal (chSysLockFromISR hal (world s))], e, tmrfunc hal s)"
  using assms(2) count_down [of "cnt s" "seen_for bs"] unfolding card_inv_def
  by (auto simp: tmrfunc_flags [OF assms(1)] POLLING_INTERVAL_def word_gt_0 split: if_splits)

lemma card_inv_other:
  assumes "card_inv flags (bs, e, s)" "cnt s' = cnt s" "fs_ready s' = fs_ready s"
    and "flags (world s') \<inter> {0, 1} = flags (world s) \<inter> {0, 1}"
  shows "card_inv flags (bs, e, s')"
proof -
  have "0 \<in> flags (world s') \<longleftrightarrow> 0 \<in> flags (world s)" "1 \<in> flags (world s') \<longleftrightarrow> 1 \<in> flags (world s)"
    using assms(4) by blast+
  then show ?thesis
    using assms(1-3) by (simp add: card_inv_def)
qed

lemma main_shell_frame:
  "cnt (main_shell hal s) = cnt s" "fs_ready (main_shell hal s) = fs_ready s"
  "event_flags hal flags \<Longrightarrow> flags (world (main_shell hal s)) = flags (world s)"
  by (simp_all add: main_shell_def case_prod_unfold Let_def on_world_def event_flagsD split: option.split)

lemma card_inv_wait:
  assumes "event_flags hal flags" "card_inv flags (bs, None, s)" "main_wait hal s = (e, s')"
  shows "card_inv flags (bs, e, s')"
proof -
  obtain w where w: "chEvtWaitOneTimeout hal (TIME_MS2I hal 500) (world s) = (e, w)" "s' = s\<lparr>world := w\<rparr>"
    using assms(3) by (auto simp: main_wait_def split: prod.splits)
  show ?thesis
  proof (cases e)
    case None
    then show ?thesis
      using assms(2) w event_flagsD(13) [OF assms(1)] by (simp add: card_inv_def)
  next
    case (Some i)
    then have i: "i \<in> flags (world s)" "\<forall>j\<in>flags (world s). i \<le> j" "flags w = flags (world s) - {i}"
      using w(1) event_flagsD(14) [OF assms(1)] by blast+
    then have "0 \<in> flags (world s) \<Longrightarrow> i = 0"
      by blast
    then show ?thesis
      using assms(2) i(1,3) Some by (auto simp: card_inv_def w(2))
  qed
qed

lemma handlers_frame:
  "cnt (InsertHandler hal s) = cnt s" "cnt (RemoveHandler hal s) = cnt s" "\<not> fs_ready (RemoveHandler hal s)"
  "event_flags hal flags \<Longrightarrow> flags (world (InsertHandler hal s)) = flags (world s)"
  "event_flags hal flags \<Longrightarrow> flags (world (RemoveHandler hal s)) = flags (world s)"
  by (simp_all add: InsertHandler_def RemoveHandler_def case_prod_unfold Let_def on_world_def event_flagsD)

lemma ShellHandler_frame:
  assumes "ShellHandler hal s = Inr s'"
  shows "cnt s' = cnt s" "fs_ready s' = fs_ready s" "event_flags hal flags \<Longrightarrow> flags (world s') = flags (world s)"
  using assms by (auto simp: ShellHandler_def on_world_def event_flagsD split: option.splits if_splits)

lemma card_inv_dispatch:
  assumes "event_flags hal flags" "card_inv flags (bs, e, s)" "main_dispatch hal e s = Inr s'"
  shows "card_inv flags (bs, None, s')"
proof -
  consider "e = None" "s' = s" | "e = Some 0" "s' = InsertHandler hal s" | "e = Some 1" "s' = RemoveHandler hal s"
    | "e = Some 2" "ShellHandler hal s = Inr s'"
    using assms(3) by (auto simp: main_dispatch_def evhndl_def split: option.splits if_splits)
  then show ?thesis
    using assms(2)
    by cases (auto simp: card_inv_def handlers_frame assms(1) dest: ShellHandler_frame(1,2) ShellHandler_frame(3) [OF _ assms(1)])
qed

lemma card_inv_step:
  assumes "card_step hal flags st st'" "event_flags hal flags" "card_inv flags st"
  shows "card_inv flags st'"
  using assms
proof cases
  case (poll b s bs e)
  then show ?thesis
    using card_inv_poll [OF assms(2)] assms(3) by simp
next
  case (shell bs s)
  then show ?thesis
    using card_inv_other [of flags bs None s "main_shell hal s"] assms(2,3) by (simp add: main_shell_frame)
next
  case (wait s e s' bs)
  then show ?thesis
    using card_inv_wait [OF assms(2)] assms(3) by simp
next
  case (dispatch e s s' bs)
  then show ?thesis
    using card_inv_dispatch [OF assms(2)] assms(3) by simp
next
  case (other s' s bs e)
  then show ?thesis
    using card_inv_other [of flags bs e s s'] assms(3) by simp
qed

interpretation monitor: transition_invariant "card_start flags" "card_step hal flags"
  "\<lambda>st. event_flags hal flags \<longrightarrow> card_inv flags st" for hal :: "('w, 'h) app_hal_scheme" and flags :: "'w \<Rightarrow> nat set"
proof unfold_locales
  fix st :: "bool list \<times> nat option \<times> ('w, 's) app_scheme"
  assume "card_start flags st"
  then show "event_flags hal flags \<longrightarrow> card_inv flags st"
    by (auto simp: card_start_def card_inv_def POLLING_INTERVAL_def)
next
  fix st st' :: "bool list \<times> nat option \<times> ('w, 's) app_scheme"
  assume "event_flags hal flags \<longrightarrow> card_inv flags st" "card_step hal flags st st'"
  then show "event_flags hal flags \<longrightarrow> card_inv flags st'"
    using card_inv_step by blast
qed

section \<open>Properties\<close>

text \<open>C4: in every run of the card monitor and the main thread, however the polls fall between the steps of the main
  thread, the counter is zero exactly when the last ten polls have seen the card; and when the file system is
  marked as ready, no removal is waiting and no handler is about to run, the last ten polls have seen the card.\<close>
theorem fs_ready_means_card:
  assumes "event_flags hal flags" "card_start flags st0" "(card_step hal flags)\<^sup>*\<^sup>* st0 (bs, e, s)"
  shows "(cnt s = 0 \<longleftrightarrow> 10 \<le> seen_for bs) \<and> (fs_ready s \<and> e = None \<and> 1 \<notin> flags (world s) \<longrightarrow> 10 \<le> seen_for bs)"
proof -
  have "card_inv flags (bs, e, s)"
    using monitor.reachable_inv [OF assms(2,3)] assms(1) by blast
  then have "unat (cnt s) = 10 - min 10 (seen_for bs)" "cnt s = 0 \<or> 1 \<in> flags (world s) \<or> (fs_ready s \<longrightarrow> e = Some 1)"
    by (auto simp: card_inv_def)
  then show ?thesis
    by (auto simp: unat_eq_0 [symmetric])
qed

text \<open>A board with a card slot, the two flags of the card events and a record of the broadcasts.\<close>

record slot =
  card_in :: bool
  flag_ins :: bool
  flag_rem :: bool
  sent :: "event_source list"

definition slot_flags :: "slot \<Rightarrow> nat set" where
  "slot_flags w = (if flag_ins w then {0} else {}) \<union> (if flag_rem w then {1} else {})"

definition still_fs :: "'w fs_hal" where
  "still_fs = fs_over (still_hal (\<lambda>e w. w) (\<lambda>a tx. None)) (\<lambda>f xs. f) (\<lambda>name m w. (FR_OK, 0, w))
     (\<lambda>h data w. (FR_OK, of_nat (length data), w))"

definition slot_board :: "slot app_hal" where
  "slot_board =
     fs_hal.extend still_fs
       (app_hal.fields card_in (\<lambda>w. w) (\<lambda>w. w) (\<lambda>w. w) (\<lambda>w. w) (\<lambda>t w. w) (\<lambda>e w. w)
         (\<lambda>e w. (case e of Inserted_event \<Rightarrow> w\<lparr>flag_ins := True\<rparr> | Removed_event \<Rightarrow> w\<lparr>flag_rem := True\<rparr> | _ \<Rightarrow> w)\<lparr>sent := sent w @ [e]\<rparr>)
         (\<lambda>t w. if flag_ins w then (Some 0, w\<lparr>flag_ins := False\<rparr>) else if flag_rem w then (Some 1, w\<lparr>flag_rem := False\<rparr>) else (None, w))
         (\<lambda>w. (False, w)) (\<lambda>w. w) (\<lambda>t w. False) (\<lambda>t w. w) (\<lambda>w. (Some 0, w)))"

lemmas slot_board_simps = slot_board_def app_hal.defs still_fs_def fs_over_simps still_hal_def

lemma slot_board_flags: "event_flags slot_board slot_flags"
  by (auto simp: event_flags_def card_unseen_def slot_board_simps slot_flags_def split: prod.split option.split)

definition app_start :: "'w \<Rightarrow> 'w app" where
  "app_start w = storage.extend (storage_start w) (app.fields 0 False None)"

lemmas app_start_simps = app_start_def storage_start_def debug_start_def debug.defs collector.defs storage.defs app.defs

lemma slot_poll:
  assumes "card_in (world s)" "Suc 0 < unat (cnt s)"
  shows "card_step slot_board slot_flags (bs, e, s) (bs @ [True], e, s\<lparr>cnt := cnt s - 1\<rparr>)"
proof -
  have "cnt s \<noteq> 1" "0 < cnt s"
    using assms(2) by (auto simp: word_gt_0)
  then have "tmrfunc slot_board s = s\<lparr>cnt := cnt s - 1\<rparr>"
    using assms(1) by (simp add: tmrfunc_def on_world_def slot_board_simps)
  then show ?thesis
    using card_step.poll [of True slot_board s slot_flags bs e] assms(1) by (simp add: slot_board_simps)
qed

lemma slot_polls:
  "card_in (world s) \<Longrightarrow> n < unat (cnt s) \<Longrightarrow>
    (card_step slot_board slot_flags)\<^sup>*\<^sup>* (bs, e, s) (bs @ replicate n True, e, s\<lparr>cnt := cnt s - of_nat n\<rparr>)"
proof (induction n arbitrary: bs s)
  case 0
  then show ?case
    by simp
next
  case (Suc n)
  have "unat (cnt s - 1) = unat (cnt s) - 1"
    using Suc.prems(2) unat_minus_one [of "cnt s"] by fastforce
  then show ?case
    using Suc.IH [of "s\<lparr>cnt := cnt s - 1\<rparr>" "bs @ [True]"] slot_poll [OF Suc.prems(1), of bs e] Suc.prems
    by (simp add: converse_rtranclp_into_rtranclp algebra_simps)
qed

theorem fs_ready_means_card_witness:
  "\<exists>bs s. (card_step slot_board slot_flags)\<^sup>*\<^sup>*
      ([], None, tmr_init slot_board (app_start \<lparr> card_in = True, flag_ins = False, flag_rem = False, sent = [] \<rparr>)) (bs, None, s)
     \<and> fs_ready s \<and> 1 \<notin> slot_flags (world s) \<and> 10 \<le> seen_for bs"
proof -
  define s0 where "s0 = tmr_init slot_board (app_start \<lparr> card_in = True, flag_ins = False, flag_rem = False, sent = [] \<rparr>)"
  have s0: "world s0 = \<lparr> card_in = True, flag_ins = False, flag_rem = False, sent = [] \<rparr>" "cnt s0 = 10" "\<not> fs_ready s0"
    by (simp_all add: s0_def tmr_init_def on_world_def slot_board_simps app_start_simps POLLING_INTERVAL_def Let_def)
  have start: "card_start slot_flags ([], None, s0)"
    using s0 by (simp add: card_start_def POLLING_INTERVAL_def slot_flags_def)
  define s1 where "s1 = s0\<lparr>cnt := 1\<rparr>"
  have "(card_step slot_board slot_flags)\<^sup>*\<^sup>* ([], None, s0) (replicate 9 True, None, s1)"
    using slot_polls [of s0 9 "[]" None] by (simp add: s0 s1_def)
  moreover have "card_step slot_board slot_flags (replicate 9 True, None, s1) (replicate 9 True @ [True], None, tmrfunc slot_board s1)"
    by (rule card_step.poll) (simp add: s1_def s0 slot_board_simps)
  moreover obtain e s2 where s2: "main_wait slot_board (tmrfunc slot_board s1) = (e, s2)"
    by (cases "main_wait slot_board (tmrfunc slot_board s1)")
  have e: "e = Some 0" "slot_flags (world s2) = {}"
    using s2 by (auto simp: main_wait_def tmrfunc_def on_world_def s1_def s0 slot_board_simps slot_flags_def Let_def split: prod.splits)
  have "card_step slot_board slot_flags (replicate 9 True @ [True], None, tmrfunc slot_board s1) (replicate 9 True @ [True], e, s2)"
    by (rule card_step.wait [OF s2])
  moreover have "card_step slot_board slot_flags (replicate 9 True @ [True], e, s2) (replicate 9 True @ [True], None, InsertHandler slot_board s2)"
    by (rule card_step.dispatch) (simp add: main_dispatch_def evhndl_def e)
  ultimately have run: "(card_step slot_board slot_flags)\<^sup>*\<^sup>* ([], None, s0) (replicate 9 True @ [True], None, InsertHandler slot_board s2)"
    by (meson rtranclp.rtrancl_into_rtrancl)
  moreover have "fs_ready (InsertHandler slot_board s2)" "slot_flags (world (InsertHandler slot_board s2)) = {}"
    using e(2) by (simp_all add: InsertHandler_def slot_board_simps)
  ultimately show ?thesis
    using fs_ready_means_card [OF slot_board_flags start run] unfolding s0_def [symmetric] by blast
qed

section \<open>The broadcasts\<close>

text \<open>The broadcasts in order, as a specification: an insertion at the tenth poll in a row that sees the card, a
  removal at the first poll that does not after that.\<close>

definition card_events :: "bool list \<Rightarrow> event_source list" where
  "card_events bs = concat (map (\<lambda>k.
     if seen_for (take (Suc k) bs) = 10 then [Inserted_event]
     else if \<not> bs ! k \<and> 10 \<le> seen_for (take k bs) then [Removed_event] else []) [0..<length bs])"

lemma card_events_simps [simp]:
  "card_events [] = []"
  "card_events (bs @ [b]) = card_events bs @
     (if b \<and> seen_for bs = 9 then [Inserted_event] else if \<not> b \<and> 10 \<le> seen_for bs then [Removed_event] else [])"
proof -
  have "concat (map (\<lambda>k. if seen_for (take (Suc k) (bs @ [b])) = 10 then [Inserted_event]
        else if \<not> (bs @ [b]) ! k \<and> 10 \<le> seen_for (take k (bs @ [b])) then [Removed_event] else []) [0..<length bs])
    = card_events bs"
    unfolding card_events_def by (intro arg_cong [of _ _ concat] map_cong) (auto simp: nth_append)
  moreover have "take (length bs) (bs @ xs) = bs" for xs
    by simp
  ultimately show "card_events (bs @ [b]) = card_events bs @
     (if b \<and> seen_for bs = 9 then [Inserted_event] else if \<not> b \<and> 10 \<le> seen_for bs then [Removed_event] else [])"
    unfolding card_events_def [of "bs @ [b]"] by (simp del: take_append)
qed (simp add: card_events_def)

definition alternating :: "event_source list \<Rightarrow> bool" where
  "alternating es \<longleftrightarrow> es = map (\<lambda>i. if even i then Inserted_event else Removed_event) [0..<length es]"

lemma alternating_snoc:
  "alternating (es @ [e]) \<longleftrightarrow> alternating es \<and> e = (if even (length es) then Inserted_event else Removed_event)"
  by (simp add: alternating_def)

lemma card_events_alternating:
  "alternating (card_events bs) \<and> (odd (length (card_events bs)) \<longleftrightarrow> 10 \<le> seen_for bs)"
proof (induction bs rule: rev_induct)
  case Nil
  then show ?case
    by (simp add: alternating_def)
next
  case (snoc b bs)
  then show ?case
    by (auto simp: alternating_snoc)
qed

text \<open>A sequence of polls, with what happens to the world before each.\<close>

definition monitor_polls ::
  "('w, 'h) app_hal_scheme \<Rightarrow> ('w \<Rightarrow> 'w) list \<Rightarrow> ('w, 's) app_scheme \<Rightarrow> bool list \<times> ('w, 's) app_scheme" where
  "monitor_polls hal fs s =
     foldl (\<lambda>(bs, s) f. let s = on_world f s in (bs @ [blkIsInserted hal (chSysLockFromISR hal (world s))], tmrfunc hal s)) ([], s) fs"

definition event_log :: "('w, 'h) app_hal_scheme \<Rightarrow> ('w \<Rightarrow> event_source list) \<Rightarrow> bool" where
  "event_log hal ev \<longleftrightarrow>
     card_unseen hal ev \<and> (\<forall>e w. ev (chEvtBroadcastI hal e w) = ev w @ [e]) \<and> (\<forall>e w. ev (chEvtObjectInit hal e w) = ev w)"

lemma event_logD:
  assumes "event_log hal ev"
  shows "ev (chSysLockFromISR hal w) = ev w" "ev (chSysUnlockFromISR hal w) = ev w"
    "ev (chSysLock hal w) = ev w" "ev (chSysUnlock hal w) = ev w" "ev (chVTSetI hal t w) = ev w"
    "ev (chEvtBroadcastI hal e w) = ev w @ [e]" "ev (chEvtObjectInit hal e w) = ev w"
  using assms by (simp_all add: event_log_def card_unseen_def)

lemma tmrfunc_log:
  assumes "event_log hal ev"
  shows "ev (world (tmrfunc hal s)) = ev (world s) @
    (if blkIsInserted hal (chSysLockFromISR hal (world s)) then (if cnt s = 1 then [Inserted_event] else [])
     else if cnt s = 0 then [Removed_event] else [])"
  by (auto simp: tmrfunc_def Let_def event_logD [OF assms] on_world_def word_gt_0)

lemma monitor_polls_log:
  assumes "event_log hal ev" "\<forall>f\<in>set fs. \<forall>w. ev (f w) = ev w" "cnt s = 10" "monitor_polls hal fs s = (bs, s')"
  shows "ev (world s') = ev (world s) @ card_events bs \<and> unat (cnt s') = 10 - min 10 (seen_for bs)"
  using assms(2,4)
proof (induction fs arbitrary: bs s' rule: rev_induct)
  case Nil
  then show ?case
    using assms(3) by (simp add: monitor_polls_def)
next
  case (snoc f fs)
  obtain bs1 s1 where s1: "monitor_polls hal fs s = (bs1, s1)"
    by (cases "monitor_polls hal fs s")
  define b where "b = blkIsInserted hal (chSysLockFromISR hal (f (world s1)))"
  have s': "bs = bs1 @ [b]" "s' = tmrfunc hal (on_world f s1)"
    using snoc.prems(2) s1 by (simp_all add: monitor_polls_def b_def Let_def)
  have IH: "ev (world s1) = ev (world s) @ card_events bs1" "unat (cnt s1) = 10 - min 10 (seen_for bs1)"
    using snoc.IH [OF _ s1] snoc.prems(1) by simp_all
  have "cnt s1 = 1 \<longleftrightarrow> seen_for bs1 = 9" "cnt s1 = 0 \<longleftrightarrow> 10 \<le> seen_for bs1"
    using IH(2) by (auto simp: word_unat_eq_iff)
  moreover have "unat (cnt s') = 10 - min 10 (seen_for bs)"
    using count_down [OF IH(2), of b] unfolding s' seen_for_simps by (simp add: on_world_def b_def cong: if_cong)
  ultimately show ?case
    using IH(1) snoc.prems(1) by (simp add: s' tmrfunc_log [OF assms(1)] b_def [symmetric] on_world_def)
qed

text \<open>C5: the card monitor is a debounced edge detector: whatever the pin does between the polls, it broadcasts an
  insertion at the tenth poll in a row that sees the card, a removal at the first poll after that which does
  not, and nothing else; so that the two events alternate, beginning with an insertion.\<close>
theorem monitor_broadcasts:
  assumes "event_log hal ev" "\<forall>f\<in>set fs. \<forall>w. ev (f w) = ev w" "monitor_polls hal fs (tmr_init hal s) = (bs, s')"
  shows "ev (world s') = ev (world s) @ card_events bs \<and> alternating (card_events bs)"
proof -
  have "cnt (tmr_init hal s) = 10" "ev (world (tmr_init hal s)) = ev (world s)"
    by (simp_all add: tmr_init_def on_world_def POLLING_INTERVAL_def event_logD [OF assms(1)] Let_def)
  then show ?thesis
    using monitor_polls_log [OF assms(1,2) _ assms(3)] card_events_alternating by auto
qed

lemma slot_board_log: "event_log slot_board sent"
  by (simp add: event_log_def card_unseen_def slot_board_simps)

lemma slot_pins: "fst (monitor_polls slot_board (map (\<lambda>b. card_in_update (\<lambda>_. b)) bs) s) = bs"
  by (induction bs rule: rev_induct) (simp_all add: monitor_polls_def case_prod_unfold Let_def slot_board_simps)

theorem monitor_broadcasts_witness:
  "\<exists>s'. monitor_polls slot_board (map (\<lambda>b. card_in_update (\<lambda>_. b)) (replicate 10 True @ [False, True]))
        (tmr_init slot_board (app_start \<lparr> card_in = False, flag_ins = False, flag_rem = False, sent = [] \<rparr>))
       = (replicate 10 True @ [False, True], s') \<and> sent (world s') = [Inserted_event, Removed_event]"
proof -
  obtain bs s' where run: "monitor_polls slot_board (map (\<lambda>b. card_in_update (\<lambda>_. b)) (replicate 10 True @ [False, True]))
        (tmr_init slot_board (app_start \<lparr> card_in = False, flag_ins = False, flag_rem = False, sent = [] \<rparr>)) = (bs, s')"
    by fastforce
  have bs: "bs = replicate 10 True @ [False, True]"
    using arg_cong [OF run, of fst] unfolding slot_pins by simp
  have "card_events (replicate 10 True @ [False, True]) = [Inserted_event, Removed_event]"
    by code_simp
  then show ?thesis
    using monitor_broadcasts [OF slot_board_log _ run] run unfolding bs by (auto simp: app_start_simps)
qed

section \<open>A round of the main loop\<close>

text \<open>C39: a round of the main loop runs into an error exactly when it is told of the end of a shell and has no shell
  thread at that moment. That happens when a shell ends before the round looks at it: the round releases the
  thread first, and then the handler of the event reads through the null pointer.\<close>
theorem main_round_outcome:
  assumes "\<forall>t w i w'. chEvtWaitOneTimeout hal t w = (Some i, w') \<longrightarrow> i < 3"
  shows "(main_round hal others s = Inl f \<longleftrightarrow> f = Null_call \<and>
      (\<exists>s1. main_wait hal (others (main_shell hal s)) = (Some 2, s1) \<and> shelltp (others s1) = None))
    \<and> (\<forall>t w. shelltp s = Some t \<and> chThdTerminatedX hal t (world s)
         \<and> chEvtWaitOneTimeout hal (TIME_MS2I hal 500) (chThdRelease hal t (world s)) = (Some 2, w)
       \<longrightarrow> main_round hal (\<lambda>s. s) s = Inl Null_call)"
proof
  obtain e s1 where wait: "main_wait hal (others (main_shell hal s)) = (e, s1)"
    by (cases "main_wait hal (others (main_shell hal s))")
  then have "i < 3" if "e = Some i" for i
    using assms that by (auto simp: main_wait_def split: prod.splits)
  then have "e = None \<or> e = Some 0 \<or> e = Some 1 \<or> e = Some 2"
    by (cases e) (auto simp: less_Suc_eq numeral_3_eq_3 numeral_2_eq_2)
  then show "main_round hal others s = Inl f \<longleftrightarrow> f = Null_call \<and>
      (\<exists>s1. main_wait hal (others (main_shell hal s)) = (Some 2, s1) \<and> shelltp (others s1) = None)"
    by (auto simp: main_round_def wait main_dispatch_def evhndl_def ShellHandler_def split: option.splits)
  show "\<forall>t w. shelltp s = Some t \<and> chThdTerminatedX hal t (world s)
         \<and> chEvtWaitOneTimeout hal (TIME_MS2I hal 500) (chThdRelease hal t (world s)) = (Some 2, w)
       \<longrightarrow> main_round hal (\<lambda>s. s) s = Inl Null_call"
    by (auto simp: main_round_def main_shell_def main_wait_def main_dispatch_def evhndl_def ShellHandler_def on_world_def)
qed

text \<open>A board on which the shell has ended and its event is waiting.\<close>

definition ended_board :: "slot app_hal" where
  "ended_board = slot_board\<lparr>chThdTerminatedX := \<lambda>t w. True, chEvtWaitOneTimeout := \<lambda>t w. (Some 2, w)\<rparr>"

theorem main_round_outcome_witness:
  "main_round ended_board (\<lambda>s. s)
     ((app_start \<lparr> card_in = False, flag_ins = False, flag_rem = False, sent = [] \<rparr>)\<lparr>shelltp := Some 0\<rparr>) = Inl Null_call"
  using main_round_outcome [of ended_board "\<lambda>s. s"
      "(app_start \<lparr> card_in = False, flag_ins = False, flag_rem = False, sent = [] \<rparr>)\<lparr>shelltp := Some 0\<rparr>" Null_call]
  by (simp add: ended_board_def slot_board_simps app_start_simps)

end
