(* ===== verification/Camera.thy ===== *)
theory Camera
  imports Ov5640 No_Camera_Jpeg
begin

text \<open>
  What the camera driver of \<open>Ov5640\<close> does to the sensor, to the image buffer and to the DMA stream. The
  sensor is seen through the bus: \<open>sensor_regs\<close> is the register file that the observed writes leave.
  The lemmas follow the register programs onto the bus, carry the transfer invariant of
  \<open>Dcmi_Transfer\<close> through the wait for an image, and bound the waits under the laws of the system
  clock.
\<close>

section \<open>External calls that an observer does not see\<close>

definition cam_unseen :: "('w, 'h) cam_hal_scheme \<Rightarrow> ('w \<Rightarrow> 'o) \<Rightarrow> bool" where
  "cam_unseen hal obs \<longleftrightarrow>
     os_unseen hal obs \<and>
     (\<forall>p m w. obs (palSetPadMode hal p m w) = obs w) \<and>
     (\<forall>p w. obs (palSetPad hal p w) = obs w) \<and>
     (\<forall>p w. obs (palClearPad hal p w) = obs w) \<and>
     (\<forall>l m w. obs (palSetLineMode hal l m w) = obs w) \<and>
     (\<forall>l w. obs (palSetLine hal l w) = obs w) \<and>
     (\<forall>l w. obs (palClearLine hal l w) = obs w) \<and>
     (\<forall>x w. obs (RCC_AHB2ENR_write hal x w) = obs w) \<and>
     (\<forall>x w. obs (DCMI_CR_write hal x w) = obs w) \<and>
     (\<forall>b w. obs (ram_buffer_write hal b w) = obs w)"

lemma cam_unseenD:
  assumes "cam_unseen hal obs"
  shows "obs (chprintf hal f xs w) = obs w"
    and "obs (chThdSleep hal t w) = obs w"
    and "obs (chThdSleepMilliseconds hal n w) = obs w"
    and "obs (snd (chVTGetSystemTimeX hal w)) = obs w"
    and "obs (palSetPadMode hal p m w) = obs w"
    and "obs (palSetPad hal p w) = obs w"
    and "obs (palClearPad hal p w) = obs w"
    and "obs (palSetLineMode hal l m w) = obs w"
    and "obs (palSetLine hal l w) = obs w"
    and "obs (palClearLine hal l w) = obs w"
    and "obs (RCC_AHB2ENR_write hal x w) = obs w"
    and "obs (DCMI_CR_write hal x w) = obs w"
    and "obs (ram_buffer_write hal b w) = obs w"
  using assms by (simp_all add: cam_unseen_def os_unseen_def)

section \<open>Register programs on the bus\<close>

definition send_reg ::
  "('w, 'h) cam_hal_scheme \<Rightarrow> regval_list \<Rightarrow> ('w, 's) ov5640_scheme \<Rightarrow> ('w, 's) ov5640_scheme" where
  "send_reg hal rv s = snd (I2C_write8_16bitreg hal OV5640_I2C_ADR (rv_reg rv) (rv_val rv) s)"

text \<open>The sending loop returns exactly for the tables with an end mark, and sends the entries before
  it.\<close>

lemma write_regs_program:
  "write_regs hal tbl s =
     (if regval_end \<in> set tbl then Inr (fold (send_reg hal) (regval_prog tbl) s) else Inl Out_of_bounds)"
proof (induction tbl arbitrary: s)
  case (Cons rv tbl)
  have "rv_reg rv \<noteq> 0xffff \<or> rv_val rv \<noteq> 0xff \<longleftrightarrow> rv \<noteq> regval_end"
    by (cases rv) (auto simp: regval_end_def)
  with Cons show ?case
    by (auto simp: send_reg_def [symmetric] regval_prog_def)
qed simp

context reg_table
begin

lemma write_regs_sends: "write_regs hal tbl s = Inr (fold (send_reg hal) (regval_prog tbl) s)"
  using split_at_end by (metis write_regs_program in_set_conv_decomp)

end

text \<open>What one write puts on the bus, and the register file of the sensor at the other end.\<close>

definition reg_access :: "regval_list \<Rightarrow> bus_event list" where
  "reg_access rv = bus_access OV5640_I2C_ADR
     [fst (reg_bytes (rv_reg rv)), snd (reg_bytes (rv_reg rv)), rv_val rv] 0"

fun sensor_write :: "bus_event \<Rightarrow> (u16 \<Rightarrow> u8 option) \<Rightarrow> (u16 \<Rightarrow> u8 option)" where
  "sensor_write (Transmit a [hi, lo, v] n) m =
     (if a = OV5640_I2C_ADR then m(reg_of_bytes (hi, lo) \<mapsto> v) else m)"
| "sensor_write _ m = m"

definition sensor_regs :: "bus_event list \<Rightarrow> u16 \<Rightarrow> u8 option" where
  "sensor_regs evs = fold sensor_write evs Map.empty"

lemma send_reg_trace:
  "i2c_traced hal tr \<Longrightarrow> tr (world (send_reg hal rv s)) = tr (world s) @ reg_access rv"
  by (simp add: send_reg_def reg_access_def reg_bytes_def bus_trace)

lemma send_regs_trace:
  "i2c_traced hal tr \<Longrightarrow>
     tr (world (fold (send_reg hal) rvs s)) = tr (world s) @ concat (map reg_access rvs)"
  by (induction rvs arbitrary: s) (simp_all add: send_reg_trace)

lemma sensor_regs_access:
  "sensor_regs (evs @ reg_access rv) = (sensor_regs evs)(rv_reg rv \<mapsto> rv_val rv)"
  using reg.dec_enc [of "rv_reg rv"] by (simp add: sensor_regs_def reg_access_def bus_access_def)

lemma sensor_regs_program:
  "sensor_regs (evs @ concat (map reg_access rvs)) r = reg_scan r (sensor_regs evs r) rvs"
proof (induction rvs arbitrary: evs)
  case (Cons rv rvs)
  have "sensor_regs (evs @ concat (map reg_access (rv # rvs))) r
      = sensor_regs ((evs @ reg_access rv) @ concat (map reg_access rvs)) r"
    by simp
  also have "\<dots> = reg_scan r (sensor_regs (evs @ reg_access rv) r) rvs"
    by (rule Cons.IH)
  also have "\<dots> = reg_scan r (sensor_regs evs r) (rv # rvs)"
    by (cases "rv_reg rv = r") (simp_all add: sensor_regs_access)
  finally show ?case .
qed simp

text \<open>The image size in a register file.\<close>

definition sensor_size :: "(u16 \<Rightarrow> u8 option) \<Rightarrow> (nat \<times> nat) option" where
  "sensor_size m =
     (case (m 0x3808, m 0x3809, m 0x380a, m 0x380b) of
        (Some a, Some b, Some c, Some d) \<Rightarrow> Some (256 * unat a + unat b, 256 * unat c + unat d)
      | _ \<Rightarrow> None)"

lemma sensor_size_program:
  assumes "output_size tbl = Some wh"
  shows "sensor_size (sensor_regs (evs @ concat (map reg_access (regval_prog tbl)))) = Some wh"
proof -
  let ?v = "reg_value (regval_prog tbl)"
  obtain a b c d where v: "?v 0x3808 = Some a" "?v 0x3809 = Some b" "?v 0x380a = Some c" "?v 0x380b = Some d"
    and wh: "wh = (256 * unat a + unat b, 256 * unat c + unat d)"
    using assms unfolding output_size_def reg_pair_def
    by (cases "?v 0x3808"; cases "?v 0x3809"; cases "?v 0x380a"; cases "?v 0x380b") simp_all
  have "sensor_regs (evs @ concat (map reg_access (regval_prog tbl))) r = Some x"
    if "reg_value (regval_prog tbl) r = Some x" for r x
    using that reg_scan_None [of r "sensor_regs evs r" "regval_prog tbl"]
    by (simp add: sensor_regs_program reg_value_def)
  with v wh show ?thesis
    by (simp add: sensor_size_def)
qed

lemma world_cam_print [simp]: "world (cam_print hal msg s) = chprintf hal (line msg) [] (world s)"
  by (simp add: cam_print_def)

section \<open>Starting the camera\<close>

text \<open>An observer of the world that the DMA stream driver does not change.\<close>

definition dma_unseen :: "('w, 'h) dma_hal_scheme \<Rightarrow> ('w \<Rightarrow> 'o) \<Rightarrow> bool" where
  "dma_unseen hal obs \<longleftrightarrow>
     (\<forall>f xs w. obs (chprintf hal f xs w) = obs w) \<and>
     (\<forall>n h w. obs (dmaStreamAllocate hal n h w) = obs w) \<and>
     (\<forall>a w. obs (dmaStreamSetPeripheral hal a w) = obs w) \<and>
     (\<forall>n w. obs (dmaStreamSetTransactionSize hal n w) = obs w) \<and>
     (\<forall>q w. obs (dmaStreamSetMode hal q w) = obs w) \<and>
     (\<forall>q w. obs (dmaStreamSetFIFO hal q w) = obs w) \<and>
     (\<forall>a w. obs (dmaStreamSetMemory0 hal a w) = obs w) \<and>
     (\<forall>a w. obs (dmaStreamSetMemory1 hal a w) = obs w) \<and>
     (\<forall>w. obs (dmaStreamEnable hal w) = obs w) \<and>
     (\<forall>w. obs (dmaStreamDisable hal w) = obs w)"

lemma dma_unseenD:
  assumes "dma_unseen hal obs"
  shows "obs (chprintf hal f xs w) = obs w"
    and "obs (dmaStreamAllocate hal n h w) = obs w"
    and "obs (dmaStreamSetPeripheral hal a w) = obs w"
    and "obs (dmaStreamSetTransactionSize hal a w) = obs w"
    and "obs (dmaStreamSetMode hal m w) = obs w"
    and "obs (dmaStreamSetFIFO hal q w) = obs w"
    and "obs (dmaStreamSetMemory0 hal a w) = obs w"
    and "obs (dmaStreamSetMemory1 hal a w) = obs w"
    and "obs (dmaStreamEnable hal w) = obs w"
    and "obs (dmaStreamDisable hal w) = obs w"
  using assms by (simp_all add: dma_unseen_def)

lemma obs_dma_setup:
  assumes "dma_unseen hal obs"
  shows "obs (world (dma_stream_setup hal h s)) = obs (world s)"
    and "obs (world (snd (dcmi_dma_init hal s))) = obs (world s)"
    and "obs (world (snd (dcmi_dma_init_open_ended hal s))) = obs (world s)"
    and "obs (world (snd (dcmi_dma_arm hal s))) = obs (world s)"
proof -
  note obs = dma_unseenD [OF assms]
  show strm: "obs (world (dma_stream_setup hal h s)) = obs (world s)" for h s
    by (simp add: dma_stream_setup_def obs Let_def)
  show "obs (world (snd (dcmi_dma_init hal s))) = obs (world s)"
    by (simp add: dcmi_dma_init_def strm obs Let_def split: option.split)
  show "obs (world (snd (dcmi_dma_init_open_ended hal s))) = obs (world s)"
    by (simp add: dcmi_dma_init_open_ended_def strm obs Let_def)
  show "obs (world (snd (dcmi_dma_arm hal s))) = obs (world s)"
    by (simp add: dcmi_dma_arm_def obs Let_def)
qed

lemma obs_InitDMA:
  assumes "dma_unseen hal obs"
  shows "obs (world (OV5640_InitDMA_RGB hal m s)) = obs (world s)"
    and "obs (world (OV5640_InitDMA hal m s)) = obs (world s)"
  by (simp_all add: OV5640_InitDMA_RGB_def OV5640_InitDMA_def obs_dma_setup [OF assms] Let_def)

lemma obs_pins:
  assumes "cam_unseen hal obs"
  shows "obs (world (OV5640_powerup hal s)) = obs (world s)"
    and "obs (world (OV5640_InitDCMI hal s)) = obs (world s)"
    and "obs (world (OV5640_InitDCMI_RGB hal s)) = obs (world s)"
    and "obs (world (OV5640_DeinitDCMI hal s)) = obs (world s)"
  by (simp_all add: OV5640_powerup_def OV5640_InitGPIO_def OV5640_InitDCMI_def OV5640_InitDCMI_RGB_def
      OV5640_DeinitDCMI_def cam_unseenD [OF assms] Let_def)

text \<open>The software reset and the register table that a configuration sends.\<close>

definition reset_prog :: "regval_list list" where
  "reset_prog = [RV 0x3103 0x11, RV 0x3008 0x82]"

lemma send_reset:
  "snd (I2C_write8_16bitreg hal OV5640_I2C_ADR 0x3008 0x82
     (snd (I2C_write8_16bitreg hal OV5640_I2C_ADR 0x3103 0x11 s))) = fold (send_reg hal) reset_prog s"
  by (simp add: reset_prog_def send_reg_def)

lemma transmit_config:
  assumes "i2c_traced hal tr" "cam_unseen hal tr"
  shows "\<exists>s'. OV5640_TransmitConfig hal s = Inr s' \<and> tr (world s') =
      tr (world s) @ concat (map reg_access (reset_prog @ regval_prog OV5640YUV_Sensor_Dvp_Init))"
    and "\<exists>s'. OV5640_TransmitConfig_RGB hal m s = Inr s' \<and> tr (world s') =
      tr (world s) @ concat (map reg_access (reset_prog @ regval_prog (OV5640YUV_Sensor_Dvp_Init_RGB m)))"
  by (simp_all add: OV5640_TransmitConfig_def OV5640_TransmitConfig_RGB_def Let_def send_reset
      jpeg_init.write_regs_sends rgb_init.write_regs_sends
      send_regs_trace [OF assms(1)] cam_unseenD [OF assms(2)])

lemma init_program:
  assumes "i2c_traced hal tr" "cam_unseen hal tr" "dma_unseen hal tr"
  shows "\<exists>s'. OV5640_init hal s = Inr s' \<and> tr (world s') =
      tr (world s) @ concat (map reg_access (reset_prog @ regval_prog OV5640YUV_Sensor_Dvp_Init))"
    and "\<exists>s'. OV5640_init_RGB hal m s = Inr s' \<and> tr (world s') =
      tr (world s) @ concat (map reg_access (reset_prog @ regval_prog (OV5640YUV_Sensor_Dvp_Init_RGB m)))"
proof -
  let ?s = "cam_print hal ''CAM  > Transmit config to camera''
    (OV5640_powerup hal (cam_print hal ''CAM  > Init pins'' s))"
  note obs = obs_pins [OF assms(2)] cam_unseenD [OF assms(2)] obs_InitDMA [OF assms(3)]
  have s: "tr (world ?s) = tr (world s)"
    by (simp add: obs)
  show "\<exists>s'. OV5640_init hal s = Inr s' \<and> tr (world s') =
      tr (world s) @ concat (map reg_access (reset_prog @ regval_prog OV5640YUV_Sensor_Dvp_Init))"
    using transmit_config(1) [OF assms(1,2), of ?s] unfolding s
    by (auto simp: OV5640_init_def Let_def obs)
  show "\<exists>s'. OV5640_init_RGB hal m s = Inr s' \<and> tr (world s') =
      tr (world s) @ concat (map reg_access (reset_prog @ regval_prog (OV5640YUV_Sensor_Dvp_Init_RGB m)))"
    using transmit_config(2) [OF assms(1,2), of m ?s] unfolding s
    by (auto simp: OV5640_init_RGB_def Let_def obs)
qed

text \<open>A sensor that answers register reads: \<open>None\<close> where it does not answer.\<close>

definition sensor_answers :: "('w, 'h) i2c_hal_scheme \<Rightarrow> (u16 \<Rightarrow> u8 option) \<Rightarrow> bool" where
  "sensor_answers hal chip \<longleftrightarrow>
     (\<forall>hi lo t w. case chip (reg_of_bytes (hi, lo)) of
        None \<Rightarrow> fst (i2cMasterTransmitTimeout hal OV5640_I2C_ADR [hi, lo] 1 t w) \<noteq> MSG_OK
      | Some v \<Rightarrow> fst (i2cMasterTransmitTimeout hal OV5640_I2C_ADR [hi, lo] 1 t w) = MSG_OK
          \<and> fst (snd (i2cMasterTransmitTimeout hal OV5640_I2C_ADR [hi, lo] 1 t w)) 0 = v)"

lemma sensor_read:
  assumes "sensor_answers hal chip"
  shows "fst (I2C_read8_16bitreg hal OV5640_I2C_ADR r s) \<longleftrightarrow> chip r \<noteq> None"
    and "chip r \<noteq> None \<Longrightarrow> fst (snd (I2C_read8_16bitreg hal OV5640_I2C_ADR r s)) = the (chip r)"
proof -
  let ?hi = "ucast (drop_bit 8 r) :: u8" and ?lo = "ucast (r AND 0xFF) :: u8"
  let ?x = "i2cMasterTransmitTimeout hal OV5640_I2C_ADR [?hi, ?lo] 1 (TIME_MS2I hal 100)
    (i2cStart hal i2cfg (i2cAcquireBus hal (world s)))"
  have r: "reg_of_bytes (?hi, ?lo) = r"
    using reg.dec_enc [of r] by (simp add: reg_bytes_def)
  have x: "case chip r of None \<Rightarrow> fst ?x \<noteq> MSG_OK | Some v \<Rightarrow> fst ?x = MSG_OK \<and> fst (snd ?x) 0 = v"
    using assms [unfolded sensor_answers_def, rule_format, of ?hi ?lo] unfolding r .
  have res: "fst (I2C_read8_16bitreg hal OV5640_I2C_ADR r s) \<longleftrightarrow> fst ?x = MSG_OK"
    "fst (snd (I2C_read8_16bitreg hal OV5640_I2C_ADR r s)) = fst (snd ?x) 0"
    by (simp_all add: I2C_read8_16bitreg_def I2C_transmit_def case_prod_unfold Let_def)
  show "fst (I2C_read8_16bitreg hal OV5640_I2C_ADR r s) \<longleftrightarrow> chip r \<noteq> None"
    using x unfolding res by (auto split: option.splits)
  show "chip r \<noteq> None \<Longrightarrow> fst (snd (I2C_read8_16bitreg hal OV5640_I2C_ADR r s)) = the (chip r)"
    using x unfolding res by auto
qed

lemma deinit_fields [simp]:
  "cam_error (OV5640_deinit hal s) = cam_error s" "last_res (OV5640_deinit hal s) = RES_NONE"
  by (simp_all add: OV5640_deinit_def OV5640_DeinitDMA_def OV5640_DeinitDCMI_def cam_print_def on_world_def Let_def)

lemma read_keeps_cam_error [simp]:
  "cam_error (snd (snd (I2C_read8_16bitreg hal a r s))) = cam_error s"
  by (simp add: I2C_read8_16bitreg_def I2C_transmit_def case_prod_unfold Let_def)

lemma powerup_keeps_cam_error [simp]: "cam_error (OV5640_powerup hal s) = cam_error s"
  by (simp add: OV5640_powerup_def OV5640_InitGPIO_def on_world_def)

section \<open>The configured transfers\<close>

text \<open>The variables of the DMA module behind the pins and the camera interface.\<close>

lemma ov5640_callbacks:
  "code_frames hal ov5640_code"
  by (auto simp: code_frames_def ov5640_code_def dma_avail_def dma_error_def dma_view_def
      split: ov5640_callback.splits)

lemma InitDMA_callbacks:
  "dcmi_dma_done_callback (OV5640_InitDMA hal m s) = Some DMA_AVAIL"
  "dcmi_dma_error_callback (OV5640_InitDMA hal m s) = Some DMA_ERROR"
  "dcmi_dma_done_callback (OV5640_InitDMA_RGB hal m s) = Some DMA_AVAIL"
  "dcmi_dma_error_callback (OV5640_InitDMA_RGB hal m s) = Some DMA_ERROR"
  by (simp_all add: OV5640_InitDMA_def OV5640_InitDMA_RGB_def dcmi_dma_arm_def dcmi_dma_init_def
      dcmi_dma_init_open_ended_def dma_stream_setup_def on_world_def Let_def split: option.split prod.split)

section \<open>A concrete camera board\<close>

text \<open>A board for concrete runs: the stream registers, the observed bus, a clock of ten ticks per
  millisecond, the control register of the camera interface and the image buffer. The sensor answers
  reads with \<open>chip\<close>.\<close>

record board = stream_regs +
  b_bus :: "bus_event list"
  b_time :: nat
  b_cr :: u32
  b_buf :: "u8 list"

definition board_mask :: "dcmi_cr_bit \<Rightarrow> u32" where
  "board_mask b = (case b of DCMI_CR_CAPTURE \<Rightarrow> 0x1 | DCMI_CR_CM \<Rightarrow> 0x2 | DCMI_CR_JPEG \<Rightarrow> 0x8
     | DCMI_CR_ESS \<Rightarrow> 0x10 | DCMI_CR_PCKPOL \<Rightarrow> 0x20 | DCMI_CR_HSPOL \<Rightarrow> 0x40 | DCMI_CR_VSPOL \<Rightarrow> 0x80
     | DCMI_CR_FCRC_0 \<Rightarrow> 0x100 | DCMI_CR_FCRC_1 \<Rightarrow> 0x200 | DCMI_CR_EDM_0 \<Rightarrow> 0x400
     | DCMI_CR_EDM_1 \<Rightarrow> 0x800 | DCMI_CR_ENABLE \<Rightarrow> 0x4000)"

definition board_transmit ::
  "(u16 \<Rightarrow> u8 option) \<Rightarrow> u8 \<Rightarrow> u8 list \<Rightarrow> nat \<Rightarrow> u32 \<Rightarrow> 'x board_scheme \<Rightarrow> msg_t \<times> (nat \<Rightarrow> u8) \<times> 'x board_scheme" where
  "board_transmit chip a tx n t w =
     (let w = w\<lparr>b_bus := b_bus w @ [Transmit a tx n]\<rparr>
      in case (tx, n) of
           ([hi, lo], Suc 0) \<Rightarrow>
             (case chip (reg_of_bytes (hi, lo)) of None \<Rightarrow> (MSG_TIMEOUT, \<lambda>_. 0, w) | Some v \<Rightarrow> (MSG_OK, \<lambda>_. v, w))
         | _ \<Rightarrow> (MSG_OK, \<lambda>_. 0, w))"

definition board_hal :: "ov5640_mode \<Rightarrow> (u16 \<Rightarrow> u8 option) \<Rightarrow> 'x board_scheme cam_hal" where
  "board_hal mode chip =
     \<lparr> chprintf = (\<lambda>f xs w. w), TIME_MS2I = (\<lambda>ms. of_nat (10 * ms)),
       chThdSleep = (\<lambda>t w. w), chThdSleepMilliseconds = (\<lambda>n w. w\<lparr>b_time := b_time w + 10 * n\<rparr>),
       chVTGetSystemTimeX = (\<lambda>w. (of_nat (b_time w), w)),
       i2cAcquireBus = (\<lambda>w. w\<lparr>b_bus := b_bus w @ [Acquire]\<rparr>),
       i2cReleaseBus = (\<lambda>w. w\<lparr>b_bus := b_bus w @ [Release]\<rparr>),
       i2cStart = (\<lambda>c w. w\<lparr>b_bus := b_bus w @ [Start c]\<rparr>), i2cStop = (\<lambda>w. w\<lparr>b_bus := b_bus w @ [Stop]\<rparr>),
       i2cMasterTransmitTimeout = board_transmit chip,
       dmaStreamAllocate = (\<lambda>n h w. w), dmaStreamSetPeripheral = (\<lambda>a w. w),
       dmaStreamSetTransactionSize = (\<lambda>n w. w),
       dmaStreamSetMode = (\<lambda>m w. w\<lparr>r_mode := m, r_target := (if CT \<in> m then 1 else 0), r_enabled := False\<rparr>),
       dmaStreamSetFIFO = (\<lambda>f w. w),
       dmaStreamSetMemory0 = (\<lambda>a w. w\<lparr>r_M0 := a\<rparr>), dmaStreamSetMemory1 = (\<lambda>a w. w\<lparr>r_M1 := a\<rparr>),
       dmaStreamGetCurrentTarget = r_target,
       dmaStreamEnable = (\<lambda>w. w\<lparr>r_enabled := True\<rparr>), dmaStreamDisable = (\<lambda>w. w\<lparr>r_enabled := False\<rparr>),
       stream_M0AR = r_M0, stream_M1AR = r_M1, stream_ifcr_write = (\<lambda>f w. w),
       stream_mode = r_mode, stream_enabled = r_enabled,
       stream_block_end = (\<lambda>w. w\<lparr>r_target := 1 - r_target w\<rparr>),
       palSetPadMode = (\<lambda>p m w. w), palSetPad = (\<lambda>p w. w), palClearPad = (\<lambda>p w. w),
       palSetLineMode = (\<lambda>l m w. w), palSetLine = (\<lambda>l w. w), palClearLine = (\<lambda>l w. w),
       RCC_AHB2ENR = (\<lambda>w. 0), RCC_AHB2ENR_write = (\<lambda>x w. w),
       DCMI_CR = b_cr, DCMI_CR_write = (\<lambda>x w. w\<lparr>b_cr := x\<rparr>), DCMI_CR_mask = board_mask,
       ram_buffer_addr = 0xD0000000,
       OV5640_ram_buffer = (\<lambda>w. take (OV5640_NUM_PIXELS mode * 2) (b_buf w @ replicate (OV5640_NUM_PIXELS mode * 2) 0)),
       ram_buffer_write = (\<lambda>b w. w\<lparr>b_buf := b\<rparr>) \<rparr>"

definition board_start :: "(board, unit) ov5640_scheme" where
  "board_start =
     \<lparr> world = \<lparr> r_M0 = 0, r_M1 = 0, r_target = 0, r_enabled = False, r_mode = {}, b_bus = [],
         b_time = 0, b_cr = 0, b_buf = [] \<rparr>,
       i2c_error = 0, dcmi_dma_buffer = 0, dcmi_dma_image_size = 0, dcmi_dma_buffer_size = 0,
       dcmi_dma_bytes_received = 0, dcmi_dma_done_callback = None, dcmi_dma_done_callback_data = 0,
       dcmi_dma_error_callback = None, dcmi_dma_error_callback_data = 0, blocks_done = 0,
       block_size = 0, num_blocks = 0, stream_control_register = {},
       lightIntensity = 0, cam_error = 0, samplingFinished = False, last_res = RES_NONE,
       OV5640_ram_buffer_length = 0 \<rparr>"

lemma board_bus:
  "i2c_traced (board_hal m chip) b_bus" "cam_unseen (board_hal m chip) b_bus"
  "dma_unseen (board_hal m chip) b_bus" "sensor_answers (board_hal m chip) chip"
  by (auto simp: board_hal_def board_transmit_def i2c_traced_def os_unseen_def cam_unseen_def
      dma_unseen_def sensor_answers_def Let_def split: option.splits list.splits nat.splits)

lemma board_buffer_addr [simp]: "ram_buffer_addr (board_hal m chip) = 0xD0000000"
  by (simp add: board_hal_def)

lemma board_stream:
  "dma_laws (board_hal m chip)" "cam_unseen (board_hal m chip) (stream_obs (board_hal m chip))"
  by (simp_all add: board_hal_def dma_laws_def os_unseen_def stream_obs_def cam_unseen_def)

section \<open>Properties\<close>



text \<open>C27: both initialisations of the camera return, whatever the bus reports, and put on the bus the
  software reset followed by the table of the configuration, so that the sensor is left with the
  full size of 2592 by 1944 for JPEG and with the dimensions of the image buffer for RGB.\<close>
theorem init_programs_sensor:
  assumes "i2c_traced hal tr" "cam_unseen hal tr" "dma_unseen hal tr"
  shows "(\<exists>s'. OV5640_init hal s = Inr s'
      \<and> tr (world s') = tr (world s) @ concat (map reg_access (reset_prog @ regval_prog OV5640YUV_Sensor_Dvp_Init))
      \<and> sensor_size (sensor_regs (tr (world s'))) = Some (2592, 1944))
    \<and> (\<exists>s'. OV5640_init_RGB hal m s = Inr s'
      \<and> tr (world s') = tr (world s)
          @ concat (map reg_access (reset_prog @ regval_prog (OV5640YUV_Sensor_Dvp_Init_RGB m)))
      \<and> sensor_size (sensor_regs (tr (world s'))) = Some (OV5640_MAXX m, OV5640_MAXY m))"
proof -
  have "sensor_size (sensor_regs (evs @ concat (map reg_access (reset_prog @ regval_prog tbl)))) = Some wh"
    if "output_size tbl = Some wh" for evs tbl wh
    using sensor_size_program [OF that, of "evs @ concat (map reg_access reset_prog)"] by simp
  then show ?thesis
    using init_program [OF assms] jpeg_init_size rgb_init_size by metis
qed

theorem init_programs_sensor_witness:
  "\<exists>s'. OV5640_init_RGB (board_hal Mode_2048x1536 (\<lambda>_. None)) Mode_2048x1536 board_start = Inr s'
    \<and> sensor_size (sensor_regs (b_bus (world s'))) = Some (2048, 1536)"
  using init_programs_sensor [OF board_bus(1-3), of Mode_2048x1536 "\<lambda>_. None" board_start Mode_2048x1536]
  by auto

text \<open>\<open>OV5640_isAvailable\<close> answers yes exactly when both bytes of the chip identification can be
  read and are 0x56 and 0x40; a byte that cannot be read sets the error flag of the driver, and
  nothing else changes it. The camera is switched off in either case.\<close>
theorem isAvailable_chip:
  fixes s :: "('w, 's) ov5640_scheme"
  assumes "sensor_answers hal chip"
  defines "r \<equiv> OV5640_isAvailable hal s"
  shows "(fst r \<longleftrightarrow> chip 0x300A = Some 0x56 \<and> chip 0x300B = Some 0x40)
    \<and> OV5640_hasError (snd r) = (if chip 0x300A = None \<or> chip 0x300B = None then 1 else OV5640_hasError s)
    \<and> last_res (snd r) = RES_NONE"
proof -
  note read = sensor_read [OF assms(1)]
  show ?thesis
    unfolding r_def OV5640_isAvailable_def OV5640_hasError_def Let_def case_prod_unfold
    by (cases "chip 0x300A"; cases "chip 0x300B") (simp_all add: read)
qed

theorem isAvailable_chip_witness:
  "fst (OV5640_isAvailable (board_hal Mode_2048x1536 (\<lambda>r. Some (if r = 0x300A then 0x56 else 0x40))) board_start)
    \<and> \<not> fst (OV5640_isAvailable (board_hal Mode_2048x1536 (\<lambda>_. None)) board_start)"
  using isAvailable_chip [OF board_bus(4), of Mode_2048x1536 "\<lambda>r. Some (if r = 0x300A then 0x56 else 0x40)" board_start]
    isAvailable_chip [OF board_bus(4), of Mode_2048x1536 "\<lambda>_. None" board_start]
  by simp

text \<open>A table without an end mark cannot be sent, and \<open>OV5640_JPEG_QSXGA\<close> is one: the loop would run
  off its end.\<close>
theorem jpeg_qsxga_runs_off:
  "(write_regs hal tbl s = Inl Out_of_bounds \<longleftrightarrow> regval_end \<notin> set tbl)
   \<and> write_regs hal OV5640_JPEG_QSXGA s = Inl Out_of_bounds"
  by (simp_all add: write_regs_program jpeg_qsxga_unterminated)

text \<open>With the callbacks of the camera, a transfer error of the stream halts the system under
  either handler; so does an open-ended transfer that uses up its buffer, while the end of an RGB
  transfer reports the image and stops the stream.\<close>
theorem camera_isr_outcomes:
  assumes "dcmi_dma_done_callback s = Some DMA_AVAIL" "dcmi_dma_error_callback s = Some DMA_ERROR"
  shows "(flags - {HTIF} \<noteq> {} \<and> flags - {HTIF} \<noteq> {TCIF} \<longrightarrow>
      dcmi_dma_shuffle_isr hal ov5640_code flags s = Inl Halted
      \<and> dcmi_dma_shuffle_isr_open_ended hal ov5640_code flags s = Inl Halted)
    \<and> (flags - {HTIF} = {TCIF} \<and> blocks_done s + 1 = num_blocks s \<longrightarrow>
      dcmi_dma_shuffle_isr_open_ended hal ov5640_code flags s = Inl Halted
      \<and> dcmi_dma_shuffle_isr hal ov5640_code flags s
        = Inr (on_world (dmaStreamDisable hal) ((count_block hal s)\<lparr>samplingFinished := True\<rparr>)))"
  using assms
  by (auto simp: dcmi_dma_shuffle_isr_def dcmi_dma_shuffle_isr_open_ended_def call_isr_def
      ov5640_code_def dma_error_def dma_avail_def Let_def)

theorem camera_isr_outcomes_witness:
  "dcmi_dma_shuffle_isr_open_ended (board_hal Mode_2048x1536 (\<lambda>_. None)) ov5640_code {FEIF}
     (OV5640_InitDMA (board_hal Mode_2048x1536 (\<lambda>_. None)) Mode_2048x1536 board_start) = Inl Halted"
  using camera_isr_outcomes [OF InitDMA_callbacks(1,2), of "{FEIF}" "board_hal Mode_2048x1536 (\<lambda>_. None)"
      "board_hal Mode_2048x1536 (\<lambda>_. None)" Mode_2048x1536 board_start] by simp

text \<open>C29: the stream that \<open>OV5640_InitDMA\<close> sets up for the JPEG capture fills blocks of 262136 bytes. In the two
  large modes the blocks and one more fit into the image buffer; in the mode of 640 by 480 there is one
  block and no double buffering; in the mode of 320 by 240 one block is larger than the buffer of
  153600 bytes and the number of blocks wraps around to the largest.\<close>
theorem jpeg_dma_configuration:
  fixes hal :: "('w, 'h) cam_hal_scheme" and s :: "('w, 's) ov5640_scheme" and m :: ov5640_mode
  assumes "ram_buffer_addr hal \<noteq> 0"
  defines "r \<equiv> OV5640_InitDMA hal m s"
  shows "block_size r = 262136 \<and> dcmi_dma_buffer r = ram_buffer_addr hal \<and> unat (num_blocks r) =
    (case m of Mode_320x240 \<Rightarrow> 2 ^ 32 - 1 | Mode_640x480 \<Rightarrow> 1 | Mode_1280x960 \<Rightarrow> 8 | Mode_1280x960_2x2 \<Rightarrow> 8
       | Mode_2048x1536 \<Rightarrow> 23)
    \<and> (DBM \<in> stream_control_register r \<longleftrightarrow> m \<notin> {Mode_320x240, Mode_640x480})
    \<and> ((unat (num_blocks r) + 1) * 262136 \<le> OV5640_NUM_PIXELS m * 2 \<longleftrightarrow> m \<noteq> Mode_320x240)"
proof -
  let ?s = "s\<lparr>dcmi_dma_buffer := ram_buffer_addr hal, dcmi_dma_buffer_size := of_nat (OV5640_NUM_PIXELS m * 2),
    dcmi_dma_done_callback := Some DMA_AVAIL, dcmi_dma_error_callback := Some DMA_ERROR\<rparr>"
  have "dcmi_dma_buffer ?s \<noteq> 0" "dcmi_dma_buffer_size ?s \<noteq> 0"
    using assms by (cases m; simp add: OV5640_NUM_PIXELS_def)+
  note cfg = init_open_ended_configuration [OF this, of hal]
  have arm: "stream_control_register (snd (dcmi_dma_arm hal s)) = stream_control_register s"
    for s :: "('w, 's) ov5640_scheme"
    by (simp add: dcmi_dma_arm_def Let_def)
  show ?thesis
    unfolding r_def OV5640_InitDMA_def Let_def dcmi_dma_arm_fields arm cfg
    by (cases m) (simp_all add: OV5640_NUM_PIXELS_def dma_mode_single_def
        unsigned_minus_1_eq_mask mask_eq_exp_minus_1)
qed

theorem jpeg_dma_configuration_witness:
  "unat (num_blocks (OV5640_InitDMA (board_hal Mode_320x240 (\<lambda>_. None)) Mode_320x240 board_start)) = 2 ^ 32 - 1"
  using jpeg_dma_configuration [of "board_hal Mode_320x240 (\<lambda>_. None)" Mode_320x240 board_start]
  by simp

end
