(* ===== verification/Camera_Capture.thy ===== *)
theory Camera_Capture
  imports Camera
begin

text \<open>
  Taking a picture: the waits of \<open>OV5640_Snapshot2RAM\<close> and \<open>OV5640_Snapshot2RAM_RGB\<close> in
  \<open>src/ov5640.c\<close> as polling loops that return under the laws of the system clock, the state of the DMA
  transfer while the driver waits, and what is in the image buffer afterwards.
\<close>

section \<open>The waits return\<close>

text \<open>The rounds of the two loops.\<close>

definition dcmi_round ::
  "('w, 'h) cam_hal_scheme \<Rightarrow> (('w, 's) ov5640_scheme \<Rightarrow> fault + ('w, 's) ov5640_scheme) \<Rightarrow> u32
     \<Rightarrow> bool \<times> ('w, 's) ov5640_scheme
     \<Rightarrow> bool \<times> ('w, 's) ov5640_scheme + (fault + bool \<times> ('w, 's) ov5640_scheme)" where
  "dcmi_round hal irq timeout x =
     (case x of (finished, s) \<Rightarrow>
        let t = s\<lparr>world := snd (chVTGetSystemTimeX hal (world s))\<rparr>
        in if finished then Inr (Inr (finished, s))
           else if fst (chVTGetSystemTimeX hal (world s)) < timeout
           then (case irq (on_world (chThdSleepMilliseconds hal 1) t) of
                   Inl f \<Rightarrow> Inr (Inl f)
                 | Inr u \<Rightarrow> Inl (dcmi_idle hal (world u), u))
           else Inr (Inr (finished, t)))"

definition sampling_round ::
  "('w, 'h) cam_hal_scheme \<Rightarrow> (('w, 's) ov5640_scheme \<Rightarrow> fault + ('w, 's) ov5640_scheme) \<Rightarrow> u32
     \<Rightarrow> ('w, 's) ov5640_scheme \<Rightarrow> ('w, 's) ov5640_scheme + (fault + ('w, 's) ov5640_scheme)" where
  "sampling_round hal irq timeout s =
     (let t = s\<lparr>world := snd (chVTGetSystemTimeX hal (world s))\<rparr>
      in if samplingFinished s then Inr (Inr s)
         else if fst (chVTGetSystemTimeX hal (world s)) < timeout
         then (case irq (on_world (chThdSleepMilliseconds hal 1) t) of
                 Inl f \<Rightarrow> Inr (Inl f)
               | Inr u \<Rightarrow> Inl u)
         else Inr (Inr t))"

interpretation dcmi_wait: polling_loop "\<lambda>x. wait_dcmi hal irq timeout (fst x) (snd x)" "dcmi_round hal irq timeout"
  for hal :: "('w, 'h) cam_hal_scheme"
    and irq :: "('w, 's) ov5640_scheme \<Rightarrow> fault + ('w, 's) ov5640_scheme" and timeout
proof
  fix x :: "bool \<times> ('w, 's) ov5640_scheme"
  obtain finished s where "x = (finished, s)"
    by (cases x)
  then show "wait_dcmi hal irq timeout (fst x) (snd x) =
      (case dcmi_round hal irq timeout x of Inl y \<Rightarrow> wait_dcmi hal irq timeout (fst y) (snd y) | Inr r \<Rightarrow> Some r)"
    by (subst wait_dcmi.simps) (simp add: dcmi_round_def case_prod_unfold Let_def split: sum.split)
qed

interpretation sampling_wait: polling_loop "wait_sampling hal irq timeout" "sampling_round hal irq timeout"
  for hal irq timeout
  by unfold_locales
    (subst wait_sampling.simps, simp add: sampling_round_def case_prod_unfold Let_def split: sum.split)

text \<open>The system clock: a counter of which the firmware reads the low 32 bits. A read takes at most
  \<open>d\<close> ticks, and a sleep of a millisecond, with the interrupts served meanwhile, takes at least one and at
  most \<open>d\<close>.\<close>

definition clock_laws ::
  "('w, 'h) cam_hal_scheme \<Rightarrow> (('w, 's) ov5640_scheme \<Rightarrow> fault + ('w, 's) ov5640_scheme) \<Rightarrow> ('w \<Rightarrow> nat) \<Rightarrow> nat \<Rightarrow> bool" where
  "clock_laws hal irq tick d \<longleftrightarrow>
     (\<forall>w. fst (chVTGetSystemTimeX hal w) = of_nat (tick w)) \<and>
     (\<forall>w. tick w \<le> tick (snd (chVTGetSystemTimeX hal w)) \<and> tick (snd (chVTGetSystemTimeX hal w)) \<le> tick w + d) \<and>
     (\<forall>s u. irq (on_world (chThdSleepMilliseconds hal 1) s) = Inr u \<longrightarrow>
        tick (world s) < tick (world u) \<and> tick (world u) \<le> tick (world s) + d)"

text \<open>How far the clock is from the time limit.\<close>

definition ticks_left :: "('w \<Rightarrow> nat) \<Rightarrow> u32 \<Rightarrow> ('w, 's) ov5640_scheme \<Rightarrow> nat" where
  "ticks_left tick timeout s = unat timeout - tick (world s) mod 2 ^ 32"

lemma mod_step:
  fixes a b n k :: nat
  assumes "a \<le> b" "b \<le> a + k" "a mod n + k < n"
  shows "b mod n = a mod n + (b - a)"
proof -
  have "(a mod n + (b - a)) mod n = b mod n"
    unfolding mod_add_left_eq using assms(1) by simp
  moreover have "a mod n + (b - a) < n"
    using assms by linarith
  ultimately show ?thesis
    by simp
qed

lemma round_ticks:
  assumes clock: "clock_laws hal irq tick d"
    and "irq (on_world (chThdSleepMilliseconds hal 1) (s\<lparr>world := snd (chVTGetSystemTimeX hal (world s))\<rparr>)) = Inr u"
  shows "tick (world s) < tick (world u)" "tick (world u) \<le> tick (world s) + 2 * d"
proof -
  define t where "t = s\<lparr>world := snd (chVTGetSystemTimeX hal (world s))\<rparr>"
  have "tick (world t) < tick (world u) \<and> tick (world u) \<le> tick (world t) + d"
    using clock assms(2) [folded t_def] unfolding clock_laws_def by blast
  moreover have "tick (world s) \<le> tick (world t)" "tick (world t) \<le> tick (world s) + d"
    using clock by (simp_all add: clock_laws_def t_def)
  ultimately show "tick (world s) < tick (world u)" "tick (world u) \<le> tick (world s) + 2 * d"
    by linarith+
qed

lemma clock_read:
  assumes "clock_laws hal irq tick d"
  shows "fst (chVTGetSystemTimeX hal w) < timeout \<longleftrightarrow> tick w mod 2 ^ 32 < unat timeout"
    and "fst (chVTGetSystemTimeX hal w) = of_nat (tick w)"
    and "tick w \<le> tick (snd (chVTGetSystemTimeX hal w))" "tick (snd (chVTGetSystemTimeX hal w)) \<le> tick w + d"
  using assms by (simp_all add: clock_laws_def word_less_nat_alt unat_of_nat)

lemma round_advances:
  assumes clock: "clock_laws hal irq tick d" and "unat timeout + 2 * d \<le> 2 ^ 32"
    and "fst (chVTGetSystemTimeX hal (world s)) < timeout"
    and "irq (on_world (chThdSleepMilliseconds hal 1) (s\<lparr>world := snd (chVTGetSystemTimeX hal (world s))\<rparr>)) = Inr u"
  shows "ticks_left tick timeout u < ticks_left tick timeout s"
proof -
  have less: "tick (world s) mod 2 ^ 32 < unat timeout"
    using assms(3) by (simp add: clock_read(1) [OF clock])
  then have "tick (world u) mod 2 ^ 32 = tick (world s) mod 2 ^ 32 + (tick (world u) - tick (world s))"
    using round_ticks [OF clock assms(4)] assms(2) by (intro mod_step [where k = "2 * d"]) linarith+
  with less round_ticks(1) [OF clock assms(4)] show ?thesis
    unfolding ticks_left_def by linarith
qed

section \<open>The transfer while the driver waits\<close>

text \<open>What the interrupts do while the driver sleeps: any number of completed blocks, each with its
  handler. Interrupts have priority over the thread, so none is pending when the thread goes on.\<close>

definition dma_served ::
  "('w, 'h) cam_hal_scheme \<Rightarrow> (('w, 's) ov5640_scheme \<Rightarrow> fault + ('w, 's) ov5640_scheme) \<Rightarrow> bool" where
  "dma_served hal irq \<longleftrightarrow>
     (\<forall>s u wr. irq s = Inr u \<longrightarrow>
        (\<exists>wr'. (dma_step hal (dcmi_dma_shuffle_isr_open_ended hal ov5640_code))\<^sup>*\<^sup>* (s, False, wr) (u, False, wr')))"

definition jpeg_running :: "('w, 'h) cam_hal_scheme \<Rightarrow> ov5640_mode \<Rightarrow> ('w, 's) ov5640_scheme \<Rightarrow> bool" where
  "jpeg_running hal m s \<longleftrightarrow>
     (let v = dma_view hal s
      in (\<exists>wr. capture_inv \<lparr> view = v, pending = False, written = wr \<rparr>)
         \<and> v_num v = of_nat (OV5640_NUM_PIXELS m * 2) div 262136 - 1 \<and> v_bs v = 262136
         \<and> v_buffer v = ram_buffer_addr hal)"

lemma dma_view_world:
  "stream_obs hal w = stream_obs hal (world s) \<Longrightarrow> dma_view hal (s\<lparr>world := w\<rparr>) = dma_view hal s"
  by (simp add: stream_obs_eq dma_view_def)

lemma dma_view_unseen:
  assumes "cam_unseen hal (stream_obs hal)"
  shows "dma_view hal (s\<lparr>world := snd (chVTGetSystemTimeX hal (world s))\<rparr>) = dma_view hal s"
    and "dma_view hal (on_world (chThdSleepMilliseconds hal n) s) = dma_view hal s"
    and "dma_view hal (cam_print hal msg s) = dma_view hal s"
    and "dma_view hal (OV5640_InitDCMI hal s) = dma_view hal s"
  by (simp_all add: on_world_def cam_print_def OV5640_InitDCMI_def Let_def dma_view_world cam_unseenD [OF assms])

lemma jpeg_running_view: "dma_view hal t = dma_view hal s \<Longrightarrow> jpeg_running hal m t \<longleftrightarrow> jpeg_running hal m s"
  by (simp only: jpeg_running_def)

lemmas jpeg_running_unseen = dma_view_unseen [THEN jpeg_running_view]

lemma jpeg_running_irq:
  assumes "dma_laws hal" "dma_served hal irq" "jpeg_running hal m s" "irq s = Inr u"
  shows "jpeg_running hal m u"
proof -
  obtain wr where inv: "capture_inv \<lparr> view = dma_view hal s, pending = False, written = wr \<rparr>"
    using assms(3) by (auto simp: jpeg_running_def Let_def)
  obtain wr' where "(dma_step hal (dcmi_dma_shuffle_isr_open_ended hal ov5640_code))\<^sup>*\<^sup>* (s, False, wr) (u, False, wr')"
    using assms(2,4) unfolding dma_served_def by blast
  from open_ended.steps_refine [OF assms(1) ov5640_callbacks this]
  have run: "capture_step\<^sup>*\<^sup>* \<lparr> view = dma_view hal s, pending = False, written = wr \<rparr>
      \<lparr> view = dma_view hal u, pending = False, written = wr' \<rparr>"
    by (simp add: dma_capture_def)
  have "same_config (dma_view hal s) (dma_view hal u)"
    using capture_steps_config [OF run] by simp
  then show ?thesis
    using assms(3) capture.steps_inv [OF run inv] by (auto simp: jpeg_running_def same_config_def Let_def)
qed

lemma buffer_bytes: "OV5640_NUM_PIXELS m * 2 < 2 ^ 32"
  by (cases m) (simp_all add: OV5640_NUM_PIXELS_def)

lemma InitDMA_running:
  assumes "dma_laws hal" "ram_buffer_addr hal \<noteq> 0" "3 * 262136 \<le> OV5640_NUM_PIXELS m * 2"
  shows "jpeg_running hal m (OV5640_InitDMA hal m s)"
proof -
  define t where "t = s\<lparr>dcmi_dma_buffer := ram_buffer_addr hal,
    dcmi_dma_buffer_size := of_nat (OV5640_NUM_PIXELS m * 2),
    dcmi_dma_done_callback := Some DMA_AVAIL, dcmi_dma_error_callback := Some DMA_ERROR\<rparr>"
  define u where "u = snd (dcmi_dma_init_open_ended hal t)"
  have size: "unat (dcmi_dma_buffer_size t) = OV5640_NUM_PIXELS m * 2"
    using buffer_bytes [of m] by (simp add: t_def unat_of_nat del: of_nat_mult)
  then have t: "dcmi_dma_buffer t \<noteq> 0" "3 * 262136 \<le> unat (dcmi_dma_buffer_size t)" "dcmi_dma_buffer_size t \<noteq> 0"
    using assms(2,3) by (auto simp: t_def)
  note cfg = open_ended_blocks [OF t(1,2), of hal, folded u_def]
  have "capture_inv \<lparr> view = dma_view hal (snd (dcmi_dma_arm hal u)), pending = False, written = [] \<rparr>"
    using open_ended.armed_run(1) [OF assms(1) ov5640_callbacks cfg(1) rtranclp.rtrancl_refl] .
  moreover have "num_blocks u = of_nat (OV5640_NUM_PIXELS m * 2) div 262136 - 1"
    using init_open_ended_configuration(2) [OF t(1,3), of hal] by (simp add: u_def t_def)
  moreover have "OV5640_InitDMA hal m s = snd (dcmi_dma_arm hal u)"
    by (simp add: OV5640_InitDMA_def u_def t_def Let_def)
  ultimately show ?thesis
    using cfg(2,3) unfolding jpeg_running_def Let_def by (auto simp: t_def)
qed

lemma snapshot_start_running:
  assumes "dma_laws hal" "cam_unseen hal (stream_obs hal)" "ram_buffer_addr hal \<noteq> 0"
    and "3 * 262136 \<le> OV5640_NUM_PIXELS m * 2"
  shows "jpeg_running hal m (snapshot_start hal m s)"
  using InitDMA_running [OF assms(1,3,4)]
  by (simp add: snapshot_start_def Let_def jpeg_running_unseen [OF assms(2)])

section \<open>The captured image\<close>

lemma trim_length_spec:
  assumes "n \<le> length buf"
  shows "\<exists>k \<le> n. trim_length buf n = Inr k \<and> (k = 0 \<or> buf ! (k - 1) \<noteq> 0) \<and> (\<forall>i. k \<le> i \<and> i < n \<longrightarrow> buf ! i = 0)"
  using assms
proof (induction n)
  case (Suc n)
  then obtain k where k: "k \<le> n" "trim_length buf n = Inr k" "k = 0 \<or> buf ! (k - 1) \<noteq> 0"
    "\<forall>i. k \<le> i \<and> i < n \<longrightarrow> buf ! i = 0"
    by auto
  show ?case
  proof (cases "buf ! n = 0")
    case True
    with k Suc.prems show ?thesis
      by (intro exI [of _ k]) (auto simp: less_Suc_eq)
  next
    case False
    with Suc.prems show ?thesis
      by auto
  qed
qed auto

text \<open>The image buffer is an array of fixed size, which the console does not touch.\<close>

definition buffer_laws :: "('w, 'h) cam_hal_scheme \<Rightarrow> ov5640_mode \<Rightarrow> bool" where
  "buffer_laws hal m \<longleftrightarrow>
     (\<forall>w. length (OV5640_ram_buffer hal w) = OV5640_NUM_PIXELS m * 2) \<and>
     (\<forall>b w. length b = OV5640_NUM_PIXELS m * 2 \<longrightarrow> OV5640_ram_buffer hal (ram_buffer_write hal b w) = b) \<and>
     (\<forall>f xs w. OV5640_ram_buffer hal (chprintf hal f xs w) = OV5640_ram_buffer hal w)"

text \<open>What a capture leaves: the stream is stopped, and the image length is within the buffer. A failed
  capture leaves the stored picture; a successful one ends with the last byte that is not zero among
  the bytes the transfer has received.\<close>

definition image_stored :: "('w, 'h) cam_hal_scheme \<Rightarrow> u32 \<Rightarrow> ('w, 's) ov5640_scheme \<Rightarrow> bool" where
  "image_stored hal ok s \<longleftrightarrow>
     (let n = unat (OV5640_ram_buffer_length s); buf = OV5640_ram_buffer hal (world s);
          received = unat (dcmi_dma_bytes_received s)
      in \<not> stream_enabled hal (world s) \<and> n \<le> length buf \<and> received \<le> length buf \<and>
         (if ok = 0 then take n buf = noCameraFound
          else ok = 1 \<and> n \<le> received \<and> (n = 0 \<or> buf ! (n - 1) \<noteq> 0) \<and> (\<forall>i. n \<le> i \<and> i < received \<longrightarrow> buf ! i = 0)))"

lemma stop_received:
  assumes "dma_laws hal" "ram_buffer_addr hal \<noteq> 0" and size: "3 * 262136 \<le> OV5640_NUM_PIXELS m * 2"
    and fit: "unat (ram_buffer_addr hal) + OV5640_NUM_PIXELS m * 2 \<le> 2 ^ 32"
    and run: "jpeg_running hal m s"
  shows "unat (dcmi_dma_bytes_received (dcmi_dma_open_ended_stop hal s)) \<le> OV5640_NUM_PIXELS m * 2"
proof -
  define t where "t = s\<lparr>dcmi_dma_buffer := ram_buffer_addr hal,
    dcmi_dma_buffer_size := of_nat (OV5640_NUM_PIXELS m * 2)\<rparr>"
  have bytes: "unat (dcmi_dma_buffer_size t) = OV5640_NUM_PIXELS m * 2"
    using buffer_bytes [of m] by (simp add: t_def unat_of_nat del: of_nat_mult)
  then have t: "dcmi_dma_buffer t \<noteq> 0" "3 * 262136 \<le> unat (dcmi_dma_buffer_size t)"
    "unat (dcmi_dma_buffer t) + unat (dcmi_dma_buffer_size t) \<le> 2 ^ 32" "dcmi_dma_buffer_size t \<noteq> 0"
    using assms(2) size fit by (auto simp: t_def)
  obtain wr where inv: "capture_inv \<lparr> view = dma_view hal s, pending = False, written = wr \<rparr>"
    using run by (auto simp: jpeg_running_def Let_def)
  have "num_blocks s = num_blocks (snd (dcmi_dma_init_open_ended hal t))"
    using run unfolding init_open_ended_configuration(2) [OF t(1,4)]
    by (simp add: jpeg_running_def Let_def t_def)
  moreover have "block_size s = 262136" "dcmi_dma_buffer s = dcmi_dma_buffer t"
    using run by (simp_all add: jpeg_running_def Let_def t_def)
  ultimately show ?thesis
    using open_ended_stop_range(2) [OF assms(1) t(1-3) inv] bytes by simp
qed

lemma stop_fields:
  "dma_laws hal \<Longrightarrow> \<not> stream_enabled hal (world (dcmi_dma_open_ended_stop hal s))"
  by (simp add: dcmi_dma_open_ended_stop_def Let_def dma_stream)

lemma snapshot_end_stores:
  assumes laws: "dma_laws hal" "cam_unseen hal (stream_obs hal)" "buffer_laws hal m"
    and bytes: "unat (dcmi_dma_bytes_received (dcmi_dma_open_ended_stop hal s)) \<le> OV5640_NUM_PIXELS m * 2"
    and size: "3 * 262136 \<le> OV5640_NUM_PIXELS m * 2"
  shows "\<exists>ok s'. snapshot_end hal finished s = Inr (ok, s') \<and> image_stored hal ok s' \<and> (ok = 0 \<longleftrightarrow> \<not> finished)"
proof -
  define t where "t = dcmi_dma_open_ended_stop hal s"
  have unseen: "stream_enabled hal (chprintf hal f xs w) = stream_enabled hal w"
    "stream_enabled hal (palSetPad hal p w) = stream_enabled hal w"
    "stream_enabled hal (ram_buffer_write hal b w) = stream_enabled hal w" for f xs w p b
    using cam_unseenD [OF laws(2)] by (simp_all add: stream_obs_eq)
  have buf: "length (OV5640_ram_buffer hal w) = OV5640_NUM_PIXELS m * 2"
    "length b = OV5640_NUM_PIXELS m * 2 \<Longrightarrow> OV5640_ram_buffer hal (ram_buffer_write hal b w) = b"
    "OV5640_ram_buffer hal (chprintf hal f xs w) = OV5640_ram_buffer hal w" for w b f xs
    using laws(3) by (simp_all add: buffer_laws_def)
  have t: "\<not> stream_enabled hal (world t)" "unat (dcmi_dma_bytes_received t) \<le> OV5640_NUM_PIXELS m * 2"
    using stop_fields [OF laws(1)] bytes by (simp_all add: t_def)
  show ?thesis
  proof (cases finished)
    case True
    obtain k where k: "k \<le> unat (dcmi_dma_bytes_received t)"
      "trim_length (OV5640_ram_buffer hal (world t)) (unat (dcmi_dma_bytes_received t)) = Inr k"
      "k = 0 \<or> OV5640_ram_buffer hal (world t) ! (k - 1) \<noteq> 0"
      "\<forall>i. k \<le> i \<and> i < unat (dcmi_dma_bytes_received t) \<longrightarrow> OV5640_ram_buffer hal (world t) ! i = 0"
      using trim_length_spec [of "unat (dcmi_dma_bytes_received t)" "OV5640_ram_buffer hal (world t)"] t(2) buf(1) by auto
    have "unat (of_nat k :: u32) = k"
      using k(1) unat_u32_bound [of "dcmi_dma_bytes_received t"] by (simp add: unat_of_nat del: unat_u32_bound)
    with k t show ?thesis
      unfolding snapshot_end_def t_def [symmetric] Let_def
      by (simp add: True on_world_def image_stored_def Let_def unseen buf)
  next
    case False
    with t size show ?thesis
      unfolding snapshot_end_def t_def [symmetric] Let_def
      by (simp add: on_world_def image_stored_def Let_def unseen buf cam_print_def image_length)
  qed
qed

lemma wait_dcmi_running:
  assumes laws: "dma_laws hal" "cam_unseen hal (stream_obs hal)" "dma_served hal irq"
    and clock: "clock_laws hal irq tick d" "unat timeout + 2 * d \<le> 2 ^ 32"
    and run: "jpeg_running hal m s"
  shows "\<exists>r. wait_dcmi hal irq timeout finished s = Some r
    \<and> (case r of Inl f \<Rightarrow> \<exists>t. irq t = Inl f | Inr (b, t) \<Rightarrow> jpeg_running hal m t)"
proof -
  note unseen = jpeg_running_unseen [OF laws(2)]
  have keep: "jpeg_running hal m u" if "jpeg_running hal m t"
    "irq (on_world (chThdSleepMilliseconds hal 1) (t\<lparr>world := snd (chVTGetSystemTimeX hal (world t))\<rparr>)) = Inr u" for t u
    using jpeg_running_irq [OF laws(1,3) _ that(2)] that(1) by (simp add: unseen)
  have "\<exists>r. wait_dcmi hal irq timeout (fst (finished, s)) (snd (finished, s)) = Some r
    \<and> (case r of Inl f \<Rightarrow> \<exists>t. irq t = Inl f | Inr (b, t) \<Rightarrow> jpeg_running hal m t)"
  proof (rule dcmi_wait.returns [where P = "\<lambda>x. jpeg_running hal m (snd x)" and m = "\<lambda>x. ticks_left tick timeout (snd x)"])
    show "jpeg_running hal m (snd (finished, s))"
      using run by simp
  next
    fix x y assume "jpeg_running hal m (snd x)" "dcmi_round hal irq timeout x = Inl y"
    then show "jpeg_running hal m (snd y) \<and> ticks_left tick timeout (snd y) < ticks_left tick timeout (snd x)"
      by (auto simp: dcmi_round_def Let_def simp del: One_nat_def split: prod.splits if_splits sum.splits
          intro: keep round_advances [OF clock])
  next
    fix x r assume "jpeg_running hal m (snd x)" "dcmi_round hal irq timeout x = Inr r"
    then show "case r of Inl f \<Rightarrow> \<exists>t. irq t = Inl f | Inr (b, t) \<Rightarrow> jpeg_running hal m t"
      by (auto simp: dcmi_round_def Let_def unseen split: prod.splits if_splits sum.splits)
  qed
  then show ?thesis
    by simp
qed

lemma snapshot_result:
  assumes laws: "dma_laws hal" "cam_unseen hal (stream_obs hal)" "buffer_laws hal m"
    and irq: "dma_served hal irq" "clock_laws hal irq tick d"
    and addr: "ram_buffer_addr hal \<noteq> 0" "unat (ram_buffer_addr hal) + OV5640_NUM_PIXELS m * 2 \<le> 2 ^ 32"
    and mode: "m \<notin> {Mode_320x240, Mode_640x480}"
    and clock: "unat (fst (chVTGetSystemTimeX hal (world (snapshot_start hal m s))) + TIME_MS2I hal 5000)
      + 2 * d \<le> 2 ^ 32"
  shows "\<exists>r. OV5640_Snapshot2RAM hal irq m s = Some r
    \<and> (case r of Inl f \<Rightarrow> \<exists>t. irq t = Inl f | Inr (ok, s') \<Rightarrow> image_stored hal ok s')"
proof -
  have size: "3 * 262136 \<le> OV5640_NUM_PIXELS m * 2"
    using mode by (cases m) (simp_all add: OV5640_NUM_PIXELS_def)
  define s0 where "s0 = snapshot_start hal m s"
  define s1 where "s1 = s0\<lparr>world := snd (chVTGetSystemTimeX hal (world s0))\<rparr>"
  define timeout where "timeout = fst (chVTGetSystemTimeX hal (world s0)) + TIME_MS2I hal 5000"
  have "jpeg_running hal m s1"
    using snapshot_start_running [OF laws(1,2) addr(1) size]
    by (simp add: s0_def s1_def jpeg_running_unseen [OF laws(2)])
  from wait_dcmi_running [OF laws(1,2) irq clock [folded s0_def, folded timeout_def] this]
  obtain r where "wait_dcmi hal irq timeout (dcmi_idle hal (world s1)) s1 = Some r"
    and r: "case r of Inl f \<Rightarrow> \<exists>t. irq t = Inl f | Inr (finished, t) \<Rightarrow> jpeg_running hal m t"
    by blast
  then have snap: "OV5640_Snapshot2RAM hal irq m s =
      (case r of Inl f \<Rightarrow> Some (Inl f) | Inr (finished, t) \<Rightarrow> Some (snapshot_end hal finished t))"
    unfolding OV5640_Snapshot2RAM_def s1_def timeout_def s0_def by (simp add: case_prod_unfold Let_def split: sum.split)
  show ?thesis
  proof (cases r)
    case (Inl f)
    with snap r show ?thesis
      by simp
  next
    case (Inr x)
    then obtain finished t where x: "r = Inr (finished, t)"
      by (cases x) simp
    with r have "jpeg_running hal m t"
      by simp
    from snapshot_end_stores [OF laws stop_received [OF laws(1) addr(1) size addr(2) this] size, of finished]
    show ?thesis
      using snap x by auto
  qed
qed

section \<open>Properties\<close>

text \<open>C26: both waits return, whether or not an image arrives, as long as one round of the wait does
  not take the clock past its wrap-around; a wait ends with an error only when an interrupt handler
  does.\<close>
theorem waits_return:
  assumes "clock_laws hal irq tick d" "unat timeout + 2 * d \<le> 2 ^ 32"
  shows "(\<exists>r. wait_dcmi hal irq timeout finished s = Some r \<and> (\<forall>f. r = Inl f \<longrightarrow> (\<exists>t. irq t = Inl f)))
    \<and> (\<exists>r. wait_sampling hal irq timeout s = Some r \<and> (\<forall>f. r = Inl f \<longrightarrow> (\<exists>t. irq t = Inl f)))"
proof
  note advance = round_advances [OF assms]
  have "\<exists>r. wait_dcmi hal irq timeout (fst (finished, s)) (snd (finished, s)) = Some r
      \<and> (\<forall>f. r = Inl f \<longrightarrow> (\<exists>t. irq t = Inl f))"
    by (rule dcmi_wait.returns [where P = "\<lambda>_. True" and m = "\<lambda>x. ticks_left tick timeout (snd x)"])
      (auto simp: dcmi_round_def Let_def advance split: prod.splits if_splits sum.splits)
  then show "\<exists>r. wait_dcmi hal irq timeout finished s = Some r \<and> (\<forall>f. r = Inl f \<longrightarrow> (\<exists>t. irq t = Inl f))"
    by simp
  show "\<exists>r. wait_sampling hal irq timeout s = Some r \<and> (\<forall>f. r = Inl f \<longrightarrow> (\<exists>t. irq t = Inl f))"
    by (rule sampling_wait.returns [where P = "\<lambda>_. True" and m = "ticks_left tick timeout"])
      (auto simp: sampling_round_def Let_def advance split: if_splits sum.splits)
qed

lemma board_capture:
  "clock_laws (board_hal m chip) Inr b_time 10" "dma_served (board_hal m chip) Inr"
  "buffer_laws (board_hal m chip) m"
  by (auto simp: clock_laws_def dma_served_def buffer_laws_def board_hal_def on_world_def
      intro!: exI rtranclp.rtrancl_refl)

theorem waits_return_witness:
  "\<exists>r. wait_dcmi (board_hal Mode_2048x1536 (\<lambda>_. None)) Inr 50000 False board_start = Some r"
  using waits_return [OF board_capture(1), of 50000 Mode_2048x1536 "\<lambda>_. None" False board_start] by auto


lemma board_time_kept:
  "b_time (chprintf (board_hal m chip) f xs w) = b_time w" "b_time (palSetPad (board_hal m chip) p w) = b_time w"
  "b_time (RCC_AHB2ENR_write (board_hal m chip) x w) = b_time w"
  "b_time (DCMI_CR_write (board_hal m chip) x w) = b_time w"
  "b_time (ram_buffer_write (board_hal m chip) b w) = b_time w"
  by (simp_all add: board_hal_def)

lemma board_start_time:
  "b_time (world (snapshot_start (board_hal m chip) m s)) = b_time (world s)"
  "b_time (world (snapshot_start_RGB (board_hal m chip) s)) = b_time (world s)"
proof -
  have unseen: "dma_unseen (board_hal m chip) b_time"
    by (simp add: dma_unseen_def board_hal_def)
  show "b_time (world (snapshot_start (board_hal m chip) m s)) = b_time (world s)"
    by (simp add: snapshot_start_def OV5640_InitDCMI_def Let_def board_time_kept obs_InitDMA [OF unseen])
  show "b_time (world (snapshot_start_RGB (board_hal m chip) s)) = b_time (world s)"
    by (simp add: snapshot_start_RGB_def OV5640_InitDCMI_RGB_def Let_def board_time_kept)
qed

lemma board_clock:
  "fst (chVTGetSystemTimeX (board_hal m chip) w) = of_nat (b_time w)" "TIME_MS2I (board_hal m chip) n = of_nat (10 * n)"
  "b_time (world board_start) = 0"
  by (simp_all add: board_hal_def board_start_def)


lemma wait_sampling_result:
  assumes clock: "clock_laws hal irq tick d" and lim: "unat timeout + 3 * d < 2 ^ 32"
    and start: "tick (world s) mod 2 ^ 32 \<le> unat timeout + 2 * d"
  shows "\<exists>r. wait_sampling hal irq timeout s = Some r
    \<and> (case r of Inl f \<Rightarrow> \<exists>t. irq t = Inl f
       | Inr t \<Rightarrow> samplingFinished t \<or> unat timeout \<le> tick (world t) mod 2 ^ 32)"
proof (rule sampling_wait.returns [where m = "ticks_left tick timeout"
      and P = "\<lambda>s. tick (world s) mod 2 ^ 32 \<le> unat timeout + 2 * d"])
  show "tick (world s) mod 2 ^ 32 \<le> unat timeout + 2 * d"
    by (rule start)
next
  fix s u assume "tick (world s) mod 2 ^ 32 \<le> unat timeout + 2 * d" "sampling_round hal irq timeout s = Inl u"
  then have less: "fst (chVTGetSystemTimeX hal (world s)) < timeout"
    and run: "irq (on_world (chThdSleepMilliseconds hal 1) (s\<lparr>world := snd (chVTGetSystemTimeX hal (world s))\<rparr>)) = Inr u"
    by (auto simp: sampling_round_def Let_def simp del: One_nat_def split: if_splits sum.splits)
  have "ticks_left tick timeout u < ticks_left tick timeout s"
    using lim by (intro round_advances [OF clock _ less run]) linarith
  moreover have "tick (world u) mod 2 ^ 32 = tick (world s) mod 2 ^ 32 + (tick (world u) - tick (world s))"
    using less lim round_ticks [OF clock run] unfolding clock_read(1) [OF clock]
    by (intro mod_step [where k = "2 * d"]) linarith+
  ultimately show "tick (world u) mod 2 ^ 32 \<le> unat timeout + 2 * d \<and> ticks_left tick timeout u < ticks_left tick timeout s"
    using less round_ticks [OF clock run] unfolding clock_read(1) [OF clock] by simp
next
  fix s r assume inv: "tick (world s) mod 2 ^ 32 \<le> unat timeout + 2 * d" "sampling_round hal irq timeout s = Inr r"
  let ?w = "snd (chVTGetSystemTimeX hal (world s))"
  have "tick ?w mod 2 ^ 32 = tick (world s) mod 2 ^ 32 + (tick ?w - tick (world s))"
    using inv(1) lim clock_read(3,4) [OF clock, of "world s"] by (intro mod_step [where k = d]) linarith+
  then have "unat timeout \<le> tick ?w mod 2 ^ 32" if "unat timeout \<le> tick (world s) mod 2 ^ 32"
    using that by linarith
  with inv(2) show "case r of Inl f \<Rightarrow> \<exists>t. irq t = Inl f
      | Inr t \<Rightarrow> samplingFinished t \<or> unat timeout \<le> tick (world t) mod 2 ^ 32"
    by (auto simp: sampling_round_def Let_def clock_read(1) [OF clock] split: if_splits sum.splits)
qed

text \<open>An RGB capture returns, and reports success only for an image that has arrived, as long as
  neither its time limit nor the waiting crosses the wrap-around of the 32-bit clock.\<close>
theorem rgb_snapshot_result:
  fixes hal :: "('w, 'h) cam_hal_scheme" and s :: "('w, 's) ov5640_scheme" and d :: nat
  assumes clock: "clock_laws hal irq tick d"
  defines "t0 \<equiv> tick (world (snapshot_start_RGB hal s)) mod 2 ^ 32"
  assumes lim: "t0 + unat (TIME_MS2I hal 1000) + 3 * d < 2 ^ 32"
  shows "\<exists>r. OV5640_Snapshot2RAM_RGB hal irq s = Some r
    \<and> (case r of Inl f \<Rightarrow> \<exists>t. irq t = Inl f | Inr (ok, s') \<Rightarrow> ok = 0 \<or> ok = 1 \<and> samplingFinished s')"
proof -
  define s0 where "s0 = snapshot_start_RGB hal s"
  define s1 where "s1 = s0\<lparr>world := snd (chVTGetSystemTimeX hal (world s0))\<rparr>"
  define timeout where "timeout = fst (chVTGetSystemTimeX hal (world s0)) + TIME_MS2I hal 1000"
  note read = clock_read [OF clock]
  have limit: "unat timeout = t0 + unat (TIME_MS2I hal 1000)"
    using lim by (simp add: timeout_def read(2) t0_def s0_def unat_plus_small unat_of_nat)
  have "tick (world s1) mod 2 ^ 32 = t0 + (tick (world s1) - tick (world s0))"
    using lim read(3,4) [of "world s0"] unfolding t0_def s0_def [symmetric]
    by (intro mod_step [where k = d]) (simp_all add: s1_def)
  then have "tick (world s1) mod 2 ^ 32 \<le> unat timeout + 2 * d"
    using read(4) [of "world s0"] by (simp add: limit s1_def)
  from wait_sampling_result [OF clock _ this] obtain r where r: "wait_sampling hal irq timeout s1 = Some r"
    "case r of Inl f \<Rightarrow> \<exists>t. irq t = Inl f | Inr t \<Rightarrow> samplingFinished t \<or> unat timeout \<le> tick (world t) mod 2 ^ 32"
    using lim limit by auto
  have "\<not> fst (chVTGetSystemTimeX hal (world t)) < timeout" if "r = Inr t" "\<not> samplingFinished t" for t
    using r(2) that by (simp add: read(1))
  with r show ?thesis
    unfolding OV5640_Snapshot2RAM_RGB_def s0_def [symmetric] Let_def case_prod_unfold
      s1_def [symmetric] timeout_def [symmetric]
    by (cases r) (auto simp: not_less on_world_def cam_print_def)
qed

theorem rgb_snapshot_result_witness:
  "\<exists>r. OV5640_Snapshot2RAM_RGB (board_hal Mode_2048x1536 (\<lambda>_. None)) Inr board_start = Some r"
  using rgb_snapshot_result [OF board_capture(1), of Mode_2048x1536 "\<lambda>_. None" board_start]
  by (auto simp: board_clock board_start_time)

text \<open>When the time limit of an RGB capture wraps around, that is in the second before the 32-bit
  clock does, the capture fails at once, without waiting for the image.\<close>
theorem rgb_snapshot_wrap:
  fixes hal :: "('w, 'h) cam_hal_scheme" and s :: "('w, 's) ov5640_scheme" and d :: nat
  assumes clock: "clock_laws hal irq tick d"
  defines "t0 \<equiv> tick (world (snapshot_start_RGB hal s)) mod 2 ^ 32"
  assumes "t0 + 2 * d < 2 ^ 32" "2 ^ 32 \<le> t0 + unat (TIME_MS2I hal 1000)"
  shows "\<exists>s'. OV5640_Snapshot2RAM_RGB hal irq s = Some (Inr (0, s'))"
proof -
  define s0 where "s0 = snapshot_start_RGB hal s"
  define s1 where "s1 = s0\<lparr>world := snd (chVTGetSystemTimeX hal (world s0))\<rparr>"
  define s2 where "s2 = s1\<lparr>world := snd (chVTGetSystemTimeX hal (world s1))\<rparr>"
  define timeout where "timeout = fst (chVTGetSystemTimeX hal (world s0)) + TIME_MS2I hal 1000"
  note read = clock_read [OF clock]
  have "unat timeout = (t0 + unat (TIME_MS2I hal 1000)) mod 2 ^ 32"
    by (simp add: timeout_def read(2) t0_def s0_def unat_word_ariths unat_of_nat)
  also have "\<dots> = (t0 + unat (TIME_MS2I hal 1000) - 2 ^ 32) mod 2 ^ 32"
    using assms(4) by (rule le_mod_geq)
  also have "\<dots> \<le> t0 + unat (TIME_MS2I hal 1000) - 2 ^ 32"
    by (rule mod_less_eq_dividend)
  finally have limit: "unat timeout \<le> t0"
    using unat_u32_bound [of "TIME_MS2I hal 1000"] by (simp del: unat_u32_bound)
  have "tick (world s1) mod 2 ^ 32 = t0 + (tick (world s1) - tick (world s0))"
    "tick (world s2) mod 2 ^ 32 = t0 + (tick (world s2) - tick (world s0))"
    using assms(3) read(3,4) [of "world s0"] read(3,4) [of "world s1"] unfolding t0_def s0_def [symmetric]
    by (intro mod_step [where k = "2 * d"]; simp add: s1_def s2_def)+
  then have late: "\<not> fst (chVTGetSystemTimeX hal (world s1)) < timeout" "\<not> fst (chVTGetSystemTimeX hal (world s2)) < timeout"
    using limit by (simp_all add: read(1))
  have "\<not> samplingFinished s1"
    by (simp add: s1_def s0_def snapshot_start_RGB_def Let_def)
  then have "wait_sampling hal irq timeout s1 = Some (Inr s2)"
    using late by (subst wait_sampling.simps) (simp add: case_prod_unfold Let_def s2_def)
  then show ?thesis
    unfolding OV5640_Snapshot2RAM_RGB_def s0_def [symmetric] Let_def case_prod_unfold
      s1_def [symmetric] timeout_def [symmetric]
    using late by (simp add: not_less)
qed

theorem rgb_snapshot_wrap_witness:
  "\<exists>s'. OV5640_Snapshot2RAM_RGB (board_hal Mode_2048x1536 (\<lambda>_. None)) Inr
     (on_world (\<lambda>w. w\<lparr>b_time := 2 ^ 32 - 5000\<rparr>) board_start) = Some (Inr (0, s'))"
  by (rule rgb_snapshot_wrap [OF board_capture(1)]) (simp_all add: board_clock board_start_time)

end
