(* ===== verification/Shell_Commands.thy ===== *)
theory Shell_Commands
  imports Card_Monitor Camera_Capture
begin

text \<open>
  The commands of the shell and the start of the program, \<open>src/main.c\<close>. A command takes the number of its
  arguments; its result is \<open>None\<close> when it does not return. What the main thread does meanwhile to the state of
  a command that runs for ever is the argument \<open>others\<close>, and \<open>irq\<close> is the camera interrupt. The stream of the
  shell is the console. The recursion over the directories of the card has a bound on its depth and length,
  the argument \<open>fuel\<close> of \<open>scan_files\<close>.
\<close>

section \<open>Interface and state\<close>

record FILINFO =
  fname :: string
  fattrib_AM_DIR :: bool

type_synonym DIR = nat

record SDRAMConfig =
  sdcr :: u32
  sdtr :: u32
  sdcmr :: u32
  sdrtr :: u32

datatype blinker = Thread1 | Thread2 | Thread3

record 'w cmd_hal = "'w app_hal" +
  f_getfree :: "string \<Rightarrow> 'w \<Rightarrow> FRESULT \<times> u32 \<times> u16 \<times> 'w"
  f_opendir :: "string \<Rightarrow> 'w \<Rightarrow> FRESULT \<times> DIR \<times> 'w"
  f_readdir :: "DIR \<Rightarrow> 'w \<Rightarrow> FRESULT \<times> FILINFO \<times> DIR \<times> 'w"
  chThdCreateStatic :: "blinker \<Rightarrow> 'w \<Rightarrow> 'w"
  NVIC_SystemReset :: "'w \<Rightarrow> 'w"
  halInit :: "'w \<Rightarrow> 'w"
  chSysInit :: "'w \<Rightarrow> 'w"
  fsmcSdramInit :: "'w \<Rightarrow> 'w"
  fsmcSdramStart :: "SDRAMConfig \<Rightarrow> 'w \<Rightarrow> 'w"
  sdcStart :: "'w \<Rightarrow> 'w"
  chEvtRegister :: "event_source \<Rightarrow> nat \<Rightarrow> 'w \<Rightarrow> 'w"
  shellInit :: "'w \<Rightarrow> 'w"
  int_buf :: u32
  FSMC_Bank6_MAP_BASE :: u32

record 'w shell = "'w app" +
  sensor_data :: dataPoint_t
  membench_result_ext2int :: membench_result_t
  membench_result_int2ext :: membench_result_t

section \<open>External memory\<close>

definition SDRAM_BANK_ADDR :: u32 where
  "SDRAM_BANK_ADDR = 0xD0000000"

definition IS42S16400J_SIZE :: u32 where
  "IS42S16400J_SIZE = 8 * 1024 * 1024"

definition SDRAM_SIZE :: u32 where
  "SDRAM_SIZE = 8 * 1024 * 1024"

definition sdram_cfg :: SDRAMConfig where
  "sdram_cfg =
     \<lparr> sdcr = 0x00000000 OR 0x00000004 OR 0x00000010 OR 0x00000040 OR 0x00000180 OR 0x00000000 OR 0x00000800
         OR 0x00000000 OR 0x00002000,
       sdtr = (2 - 1) OR push_bit 4 7 OR push_bit 8 4 OR push_bit 12 7 OR push_bit 16 2 OR push_bit 20 2 OR push_bit 24 2,
       sdcmr = push_bit 5 (4 - 1) OR push_bit 9 (0x0001 OR 0x0000 OR 0x0030 OR 0x0000 OR 0x0200),
       sdrtr = push_bit 1 683 \<rparr>"

text \<open>The loop that writes a zero to every byte from \<open>p\<close> to \<open>end\<close>.\<close>

fun erase_bytes :: "('w, 'h) mem_hal_scheme \<Rightarrow> nat \<Rightarrow> u32 \<Rightarrow> 'w \<Rightarrow> 'w" where
  "erase_bytes hal 0 p w = w"
| "erase_bytes hal (Suc n) p w = erase_bytes hal n (p + 1) (mem_set hal ((mem hal w)(p := 0)) w)"

definition sdram_bulk_erase :: "('w, 'h) mem_hal_scheme \<Rightarrow> ('w, 's) module_state_scheme \<Rightarrow> ('w, 's) module_state_scheme" where
  "sdram_bulk_erase hal = on_world (erase_bytes hal (unat IS42S16400J_SIZE) SDRAM_BANK_ADDR)"

definition membench_ext :: "('w, 'h) cmd_hal_scheme \<Rightarrow> membench_t" where
  "membench_ext hal = \<lparr> mb_start = FSMC_Bank6_MAP_BASE hal, mb_size = SDRAM_SIZE \<rparr>"

definition membench_int :: "('w, 'h) cmd_hal_scheme \<Rightarrow> membench_t" where
  "membench_int hal = \<lparr> mb_start = int_buf hal, mb_size = 64 * 1024 \<rparr>"

definition print_speeds ::
  "('w, 'h) cmd_hal_scheme \<Rightarrow> string \<Rightarrow> membench_result_t \<Rightarrow> ('w, 's) module_state_scheme \<Rightarrow> ('w, 's) module_state_scheme" where
  "print_speeds hal label r =
     on_world (chprintf hal (line label)
       [uint (r_memset r div 1000000), uint (r_memcpy r div 1000000), uint (r_memcpy_dma r div 1000000),
        uint (r_memcmp r div 1000000)])"

definition membench :: "('w, 'h) cmd_hal_scheme \<Rightarrow> ('w, 's) shell_scheme \<Rightarrow> fault + ('w, 's) shell_scheme" where
  "membench hal s =
     (let s = on_world (chprintf hal ''Starting External RAM Benchmark....'' []) s
      in case membench_run hal (membench_ext hal) (membench_int hal) (world s) of
           Inl e \<Rightarrow> Inl e
         | Inr (r, w) \<Rightarrow>
             (let s = s\<lparr>membench_result_int2ext := r, world := chprintf hal ''.'' [] w\<rparr>
              in case membench_run hal (membench_int hal) (membench_ext hal) (world s) of
                   Inl e \<Rightarrow> Inl e
                 | Inr (r, w) \<Rightarrow>
                     (let s = s\<lparr>membench_result_ext2int := r, world := chprintf hal ''.'' [] w\<rparr>;
                          s = on_world (chprintf hal (line ''OK'' @ line ''RAM Performance (MB/s) memset, memcpy, memcpy_dma, memcmp'') []) s;
                          s = print_speeds hal ''int2ext:                 %5D %7D %10D %7D '' (membench_result_int2ext s) s
                      in Inr (print_speeds hal ''ext2int:                 %5D %7D %10D %7D '' (membench_result_ext2int s) s))))"

section \<open>The files of the card\<close>

text \<open>The path is a text in a buffer; writing past its end is an error.\<close>

definition c_text :: "string \<Rightarrow> string" where
  "c_text buf = takeWhile (\<lambda>c. c \<noteq> CHR 0x00) buf"

definition path_put :: "string \<Rightarrow> nat \<Rightarrow> string \<Rightarrow> string option" where
  "path_put buf i t =
     (if i + length t < length buf then Some (take i buf @ t @ CHR 0x00 # drop (Suc (i + length t)) buf) else None)"

fun scan_files :: "nat \<Rightarrow> ('w, 'h) cmd_hal_scheme \<Rightarrow> ('w, 's) shell_scheme \<Rightarrow> (fault + FRESULT \<times> ('w, 's) shell_scheme) option"
  and scan_dir :: "nat \<Rightarrow> ('w, 'h) cmd_hal_scheme \<Rightarrow> nat \<Rightarrow> DIR \<Rightarrow> ('w, 's) shell_scheme
     \<Rightarrow> (fault + FRESULT \<times> ('w, 's) shell_scheme) option" where
  "scan_files 0 hal s = None"
| "scan_files (Suc fuel) hal s =
     (let path = c_text (fbuff s);
          (res, dir, w) = f_opendir hal path (world s);
          s = s\<lparr>world := w\<rparr>
      in if res = FR_OK then scan_dir fuel hal (length path) dir s else Some (Inr (res, s)))"
| "scan_dir 0 hal i dir s = None"
| "scan_dir (Suc fuel) hal i dir s =
     (let (res, fno, dir, w) = f_readdir hal dir (world s);
          s = s\<lparr>world := w\<rparr>
      in if res = FR_OK \<and> fname fno \<noteq> []
         then
           (if fattrib_AM_DIR fno
            then
              (case path_put (fbuff s) i (CHR ''/'' # fname fno) of
                 None \<Rightarrow> Some (Inl Out_of_bounds)
               | Some path \<Rightarrow>
                   (case scan_files fuel hal (s\<lparr>fbuff := path\<rparr>) of
                      None \<Rightarrow> None
                    | Some (Inl e) \<Rightarrow> Some (Inl e)
                    | Some (Inr (res, s)) \<Rightarrow>
                        (let s = s\<lparr>fbuff := (fbuff s)[i := CHR 0x00]\<rparr>
                         in if res \<noteq> FR_OK then Some (Inr (res, s)) else scan_dir fuel hal i dir s)))
            else scan_dir fuel hal i dir (on_world (chprintf_s hal (line ''%s/%s'') [c_text (fbuff s), fname fno]) s))
         else Some (Inr (res, s)))"

section \<open>The commands\<close>

definition usage ::
  "('w, 'h) os_hal_scheme \<Rightarrow> string \<Rightarrow> nat \<Rightarrow> (('w, 's) module_state_scheme \<Rightarrow> (fault + ('w, 's) module_state_scheme) option)
     \<Rightarrow> ('w, 's) module_state_scheme \<Rightarrow> (fault + ('w, 's) module_state_scheme) option" where
  "usage hal text argc run s = (if argc > 0 then Some (Inr (on_world (chprintf hal (line text) []) s)) else run s)"

definition mount_again :: "('w, 'h) cmd_hal_scheme \<Rightarrow> string \<Rightarrow> ('w, 's) shell_scheme \<Rightarrow> ('w, 's) shell_scheme" where
  "mount_again hal msg s =
     (let s = on_world (chprintf hal msg []) s;
          (fr, w) = f_mount hal ''0:'' False (world s)
      in s\<lparr>world := chprintf hal (line ''done, return code = %d'') [fresult_code fr] w\<rparr>)"

definition cmd_image_rgb ::
  "('w, 'h) cmd_hal_scheme \<Rightarrow> (('w, 's) shell_scheme \<Rightarrow> fault + ('w, 's) shell_scheme) \<Rightarrow> ov5640_mode \<Rightarrow> nat
     \<Rightarrow> ('w, 's) shell_scheme \<Rightarrow> (fault + ('w, 's) shell_scheme) option" where
  "cmd_image_rgb hal irq m argc = usage hal ''Usage: image'' argc (\<lambda>s.
     case OV5640_init_RGB hal m (on_world (chprintf hal (line ''Camera Init...'') []) s) of
       Inl e \<Rightarrow> Some (Inl e)
     | Inr s \<Rightarrow>
         (case OV5640_Snapshot2RAM_RGB hal irq (on_world (chprintf hal (line ''Starting RGB Capture...'') []) s) of
            None \<Rightarrow> None
          | Some (Inl e) \<Rightarrow> Some (Inl e)
          | Some (Inr (_, s)) \<Rightarrow>
              (let s = on_world (chprintf hal (line ''capture done'') []) s
               in if \<not> fs_ready s then Some (Inr (on_world (chprintf hal (line ''File System not mounted'') []) s))
                  else Some (write_rgb hal m (mount_again hal ''Mounting file system...'' s)))))"

definition cmd_cam_init ::
  "('w, 'h) cmd_hal_scheme \<Rightarrow> nat \<Rightarrow> ('w, 's) shell_scheme \<Rightarrow> (fault + ('w, 's) shell_scheme) option" where
  "cmd_cam_init hal argc = usage hal ''Usage: image'' argc (\<lambda>s. Some (OV5640_init hal s))"

text \<open>One round of the loop of \<open>cmd_image\<close>, and whether the loop goes on.\<close>

definition image_round ::
  "('w, 'h) cmd_hal_scheme \<Rightarrow> (('w, 's) shell_scheme \<Rightarrow> fault + ('w, 's) shell_scheme) \<Rightarrow> ov5640_mode
     \<Rightarrow> ('w, 's) shell_scheme \<Rightarrow> (fault + bool \<times> ('w, 's) shell_scheme) option" where
  "image_round hal irq m s =
     (case OV5640_Snapshot2RAM hal irq m (on_world (palSetPad hal GPIOD_LED_RED) s) of
        None \<Rightarrow> None
      | Some (Inl e) \<Rightarrow> Some (Inl e)
      | Some (Inr (_, s)) \<Rightarrow>
          (let s = on_world (palClearPad hal GPIOD_LED_RED) s
           in if \<not> fs_ready s then Some (Inr (False, on_world (chprintf hal (line ''File System not mounted'') []) s))
              else
                (case write_jpeg hal (mount_again hal ''SDC  > Mounting file system...'' s) of
                   Inl e \<Rightarrow> Some (Inl e)
                 | Inr s \<Rightarrow>
                     (let s = on_world (palSetPad hal GPIOD_LED_GREEN) s;
                          s = on_world (chThdSleepMilliseconds hal 1000) s
                      in Some (Inr (True, on_world (palClearPad hal GPIOD_LED_GREEN) s))))))"

partial_function (option) image_loop ::
  "('w, 'h) cmd_hal_scheme \<Rightarrow> (('w, 's) shell_scheme \<Rightarrow> fault + ('w, 's) shell_scheme) \<Rightarrow> ov5640_mode
     \<Rightarrow> (('w, 's) shell_scheme \<Rightarrow> ('w, 's) shell_scheme) \<Rightarrow> ('w, 's) shell_scheme \<Rightarrow> (fault + ('w, 's) shell_scheme) option" where
  "image_loop hal irq m others s =
     (case image_round hal irq m s of
        None \<Rightarrow> None
      | Some (Inl e) \<Rightarrow> Some (Inl e)
      | Some (Inr (again, s)) \<Rightarrow> if again then image_loop hal irq m others (others s) else Some (Inr s))"

definition cmd_image ::
  "('w, 'h) cmd_hal_scheme \<Rightarrow> (('w, 's) shell_scheme \<Rightarrow> fault + ('w, 's) shell_scheme) \<Rightarrow> ov5640_mode
     \<Rightarrow> (('w, 's) shell_scheme \<Rightarrow> ('w, 's) shell_scheme) \<Rightarrow> nat \<Rightarrow> ('w, 's) shell_scheme \<Rightarrow> (fault + ('w, 's) shell_scheme) option" where
  "cmd_image hal irq m others argc = usage hal ''Usage: image'' argc (image_loop hal irq m others)"

definition cmd_reset :: "('w, 'h) cmd_hal_scheme \<Rightarrow> nat \<Rightarrow> ('w, 's) shell_scheme \<Rightarrow> (fault + ('w, 's) shell_scheme) option" where
  "cmd_reset hal argc = usage hal ''Usage: reset'' argc (\<lambda>s.
     let s = on_world (chprintf hal (line ''Will reset in 200ms'') []) s;
         s = on_world (chThdSleepMilliseconds hal 200) s
     in Some (Inr (on_world (NVIC_SystemReset hal) s)))"

definition cmd_tree :: "nat \<Rightarrow> ('w, 'h) cmd_hal_scheme \<Rightarrow> nat \<Rightarrow> ('w, 's) shell_scheme \<Rightarrow> (fault + ('w, 's) shell_scheme) option" where
  "cmd_tree fuel hal argc = usage hal ''Usage: tree'' argc (\<lambda>s.
     if \<not> fs_ready s then Some (Inr (on_world (chprintf hal (line ''File System not mounted'') []) s))
     else
       (let (err, fre_clust, csize, w) = f_getfree hal ''/'' (world s);
            s = s\<lparr>world := w\<rparr>
        in if err \<noteq> FR_OK then Some (Inr (on_world (chprintf hal (line ''FS: f_getfree() failed'') []) s))
           else
             (let s = on_world (chprintf hal (line ''FS: %lu free clusters with %lu sectors (%lu bytes) per cluster'')
                        [uint fre_clust, uint csize, uint ((ucast csize :: u32) * 512)]) s;
                  s = s\<lparr>fbuff := (fbuff s)[0 := CHR 0x00]\<rparr>
              in map_option (map_sum (\<lambda>e. e) snd) (scan_files fuel hal s))))"

definition cmd_mem_external :: "('w, 'h) cmd_hal_scheme \<Rightarrow> nat \<Rightarrow> ('w, 's) shell_scheme \<Rightarrow> (fault + ('w, 's) shell_scheme) option" where
  "cmd_mem_external hal argc = usage hal ''Usage: membench'' argc (\<lambda>s. Some (membench hal s))"

definition cmd_blink :: "('w, 'h) cmd_hal_scheme \<Rightarrow> nat \<Rightarrow> ('w, 's) shell_scheme \<Rightarrow> (fault + ('w, 's) shell_scheme) option" where
  "cmd_blink hal argc = usage hal ''Usage: blink'' argc (\<lambda>s.
     Some (Inr (on_world (\<lambda>w. chThdCreateStatic hal Thread3 (chThdCreateStatic hal Thread2 (chThdCreateStatic hal Thread1 w))) s)))"

text \<open>The lines that \<open>cmd_sensors\<close> prints: every value with the unit it is divided by.\<close>

definition sensor_lines :: "dataPoint_t \<Rightarrow> (string \<times> (int \<times> int) list) list" where
  "sensor_lines d =
     [(''Vin = %04.1fV, '', [(uint (adc_vbat d), 1000)]), (line [], []),
      (''STM32int Temp = %06.2fC, '', [(sint (stm32_temp d), 100)]), (line [], []),
      (''TMP100 0 Temp = %06.2fC, '', [(sint (tmp100_0_temp d), 100)]), (line [], []),
      (''TMP100 1 Temp = %06.2fC, '', [(sint (tmp100_1_temp d), 100)]), (line [], []),
      (''TMP100 2 Temp = %06.2fC, '', [(sint (tmp100_2_temp d), 100)]), (line [], []),
      (''TMP100 3 Temp = %06.2fC, '', [(sint (tmp100_3_temp d), 100)]), (line [], []),
      (''TMP100 4 Temp = %06.2fC, '', [(sint (tmp100_4_temp d), 100)]), (line [], []),
      (''TMP100 5 Temp = %06.2fC, '', [(sint (tmp100_5_temp d), 100)]), (line [], []),
      (''TMP100 6 Temp = %06.2fC, '', [(sint (tmp100_6_temp d), 100)]), (line [], []),
      (''TMP100 7 Temp = %06.2fC, '', [(sint (tmp100_7_temp d), 100)]), (line [], []),
      (''BME280 0x76: press = %01.6fbar, '', [(uint (sen_e2_press d), 1000000)]),
      (''temp = %06.2fC '', [(sint (sen_e2_temp d), 100)]), (''hum = %03.0f%% '', [(uint (sen_e2_hum d), 1)]), (line [], []),
      (''BME280 0x77: press = %01.6fbar, '', [(uint (sen_i1_press d), 1000000)]),
      (''temp = %06.2fC '', [(sint (sen_i1_temp d), 100)]), (''hum = %03.0f%% '', [(uint (sen_i1_hum d), 1)]), (line [], []),
      (''LTR329 light intensity '', []), (''CH0 = %d lux, '', [(uint (ltr329_intensity_ch0 d), 1)]),
      (''CH1 = %d lux'', [(uint (ltr329_intensity_ch1 d), 1)]), (line [], []),
      (''OV5640 light intensity = %d '', [(uint (light_intensity d), 1)]), (line [], []),
      (''MPU-9250 x_accel = %04.3f '', [(sint (mpu9250_x_accel d), 1000)]),
      (''y_accel = %04.3f '', [(sint (mpu9250_y_accel d), 1000)]),
      (''z_accel = %04.3f '', [(sint (mpu9250_z_accel d), 1000)]), (line [], [])]"

definition cmd_sensors ::
  "('w, 'h) cmd_hal_scheme \<Rightarrow> bme280_t \<Rightarrow> nat \<Rightarrow> ('w, 's) shell_scheme \<Rightarrow> (fault + ('w, 's) shell_scheme) option" where
  "cmd_sensors hal handle argc = usage hal ''Usage: sensors'' argc (\<lambda>s.
     let s = on_world (chprintf hal (line ''Reading from sensors...'') []) s
     in case getSensors hal handle (sensor_data s) s of
          Inl e \<Rightarrow> Some (Inl e)
        | Inr (d, s) \<Rightarrow>
            Some (Inr (on_world (fold (\<lambda>(f, xs). chprintf_q hal f xs) (sensor_lines d)) (s\<lparr>sensor_data := d\<rparr>))))"

text \<open>The table of the commands.\<close>

definition commands ::
  "('w, 'h) cmd_hal_scheme \<Rightarrow> (('w, 's) shell_scheme \<Rightarrow> fault + ('w, 's) shell_scheme) \<Rightarrow> ov5640_mode
     \<Rightarrow> (('w, 's) shell_scheme \<Rightarrow> ('w, 's) shell_scheme) \<Rightarrow> bme280_t \<Rightarrow> nat
     \<Rightarrow> (string \<times> (nat \<Rightarrow> ('w, 's) shell_scheme \<Rightarrow> (fault + ('w, 's) shell_scheme) option)) list" where
  "commands hal irq m others handle fuel =
     [(''tree'', cmd_tree fuel hal), (''cam_init'', cmd_cam_init hal), (''image'', cmd_image hal irq m others),
      (''i'', cmd_image hal irq m others), (''image_rgb'', cmd_image_rgb hal irq m), (''membench'', cmd_mem_external hal),
      (''blink'', cmd_blink hal), (''sensors'', cmd_sensors hal handle), (''reset'', cmd_reset hal)]"

section \<open>The start of the program\<close>

definition serial_cfg1 :: SerialConfig where
  "serial_cfg1 = \<lparr> speed = 38400, cr3_iren = False \<rparr>"

definition serial_cfg2 :: SerialConfig where
  "serial_cfg2 = \<lparr> speed = 9600, cr3_iren = False \<rparr>"

definition serial_cfg3 :: SerialConfig where
  "serial_cfg3 = \<lparr> speed = 115200, cr3_iren = False \<rparr>"

definition serial_cfg7 :: SerialConfig where
  "serial_cfg7 = \<lparr> speed = 115200, cr3_iren = True \<rparr>"

definition main_init :: "('w, 'h) cmd_hal_scheme \<Rightarrow> ('w, 's) shell_scheme \<Rightarrow> ('w, 's) shell_scheme" where
  "main_init hal s =
     (let s = on_world (\<lambda>w. chSysInit hal (halInit hal w)) s;
          s = on_world (sdStart hal SD1 (Some serial_cfg1)) s;
          s = on_world (chprintf hal (line ''Hello Earth'') []) s;
          s = on_world (sdStart hal SD3 (Some serial_cfg2)) s;
          s = on_world (sdStart hal SD3 (Some serial_cfg3)) s;
          s = on_world (sdStart hal SD3 (Some serial_cfg7)) s;
          s = on_world (\<lambda>w. fsmcSdramStart hal sdram_cfg (fsmcSdramInit hal w)) s;
          s = sdram_bulk_erase hal s;
          s = tmr_init hal (on_world (sdcStart hal) s);
          s = on_world (chEvtRegister hal Inserted_event 0) s;
          s = on_world (chEvtRegister hal Removed_event 1) s;
          s = on_world (chEvtRegister hal Shell_terminated 2) s
      in on_world (shellInit hal) s)"

text \<open>The three blinking threads, one round each.\<close>

definition blink_round :: "('w, 'h) cmd_hal_scheme \<Rightarrow> blinker \<Rightarrow> ('w, 's) app_scheme \<Rightarrow> ('w, 's) app_scheme" where
  "blink_round hal t s =
     (let (pad, on_ms) = (case t of Thread1 \<Rightarrow> (GPIOD_LED_RED, 100)
            | Thread2 \<Rightarrow> (GPIOD_LED_GREEN, if fs_ready s then 250 else 500) | Thread3 \<Rightarrow> (GPIOD_LED_BLUE, 500))
      in on_world (\<lambda>w. chThdSleepMilliseconds hal 1 (palSetPad hal pad (chThdSleepMilliseconds hal on_ms (palClearPad hal pad w)))) s)"

end
