(* ===== verification/Telemetry.thy ===== *)
theory Telemetry
  imports Collector
begin

text \<open>
  What the data collector of \<open>Collector\<close> reports: the data point in terms of the registers of the devices on
  the bus, the error word, and that a collection keeps to the bus protocol.
\<close>

section \<open>Readings of the devices\<close>

definition reg_BE :: "i2c_devices \<Rightarrow> u8 \<Rightarrow> u8 \<Rightarrow> u16 option" where
  "reg_BE dev a r = map_option (\<lambda>x. reg_of_bytes (x 0, x 1)) (dev a [r])"

definition chip_id :: "i2c_devices \<Rightarrow> u8 \<Rightarrow> u8 \<Rightarrow> u8 option" where
  "chip_id dev a r = map_option (\<lambda>x. x 0) (dev a [r])"

definition tmp100_spec :: "i2c_devices \<Rightarrow> u8 \<Rightarrow> u8 \<Rightarrow> int" where
  "tmp100_spec dev n k =
     (if chip_id dev (0x48 OR (n AND 7)) 1 = None then 0
      else case reg_BE dev (0x48 OR (k AND 7)) 0 of None \<Rightarrow> 0 | Some v \<Rightarrow> uint v div 16 * 25 div 4)"

definition mpu9250_spec :: "i2c_devices \<Rightarrow> u8 \<Rightarrow> int" where
  "mpu9250_spec dev r =
     (if chip_id dev 0x68 0x75 \<noteq> Some 0x71 then 0
      else case reg_BE dev 0x68 r of None \<Rightarrow> 0 | Some v \<Rightarrow> sint v * 1000 sdiv 16384)"

definition ltr329_spec :: "i2c_devices \<Rightarrow> u8 \<Rightarrow> u16" where
  "ltr329_spec dev r =
     (if chip_id dev 0x29 0x87 \<noteq> Some 0x05 then 0
      else case dev 0x29 [r] of None \<Rightarrow> 0 | Some x \<Rightarrow> reg_of_bytes (x 1, x 0))"

lemma tmp100_sample_value:
  fixes hal :: "('w, 'h) coll_hal_scheme" and s :: "('w, 's) collector_scheme"
  assumes "i2c_answers hal dev"
  shows "sint (fst (tmp100_sample hal n k msg s)) = tmp100_spec dev n k"
proof (cases "dev (TMP100_ADDR OR (n AND 7)) [TMP100_CONTR_REG] = None")
  case True
  then show ?thesis
    by (simp add: tmp100_sample_def tmp100_isAvailable_def tmp100_spec_def chip_id_def case_prod_unfold Let_def
        device_reads [OF assms] TMP100_ADDR_def TMP100_CONTR_REG_def)
next
  case False
  then have "fst (tmp100_sample hal n k msg s)
    = fst (tmp100_get_temperature hal k (tmp100_init hal n (snd (tmp100_isAvailable hal n s))))"
    by (simp add: tmp100_sample_def tmp100_isAvailable_def case_prod_unfold Let_def device_reads [OF assms])
  moreover have "sint (fst (tmp100_get_temperature hal k t)) =
      (case reg_BE dev (TMP100_ADDR OR (k AND 7)) TMP100_TEMP_REG of None \<Rightarrow> 0 | Some v \<Rightarrow> uint v div 16 * 25 div 4)"
    for t :: "('w, 's) collector_scheme"
    by (cases "dev (TMP100_ADDR OR (k AND 7)) [TMP100_TEMP_REG]")
      (simp_all add: tmp100_get_temperature_def reg_BE_def case_prod_unfold Let_def device_reads [OF assms] tmp100_value)
  ultimately show ?thesis
    using False
    by (auto simp: tmp100_spec_def chip_id_def TMP100_ADDR_def TMP100_CONTR_REG_def TMP100_TEMP_REG_def)
qed

lemma mpu9250_sample_value:
  fixes hal :: "('w, 'h) coll_hal_scheme" and s :: "('w, 's) collector_scheme"
  assumes "i2c_answers hal dev"
  shows "sint (fst (fst (mpu9250_sample hal s))) = mpu9250_spec dev 0x3B"
    and "sint (fst (snd (fst (mpu9250_sample hal s)))) = mpu9250_spec dev 0x3D"
    and "sint (snd (snd (fst (mpu9250_sample hal s)))) = mpu9250_spec dev 0x3F"
proof -
  have avail: "fst (mpu9250_isAvailable hal s) \<longleftrightarrow> chip_id dev 0x68 0x75 = Some 0x71"
    by (cases "dev 0x68 [0x75]") (simp_all add: mpu9250_isAvailable_def chip_id_def case_prod_unfold Let_def
        device_reads [OF assms] MPU9250_ADDR_def MPU9250_WHO_AM_I_def)
  have rd: "sint (fst (mpu9250_get_x hal t)) = (case reg_BE dev 0x68 0x3B of None \<Rightarrow> 0 | Some v \<Rightarrow> sint v * 1000 sdiv 16384)"
    "sint (fst (mpu9250_get_y hal t)) = (case reg_BE dev 0x68 0x3D of None \<Rightarrow> 0 | Some v \<Rightarrow> sint v * 1000 sdiv 16384)"
    "sint (fst (mpu9250_get_z hal t)) = (case reg_BE dev 0x68 0x3F of None \<Rightarrow> 0 | Some v \<Rightarrow> sint v * 1000 sdiv 16384)"
    for t :: "('w, 's) collector_scheme"
    by (cases "dev 0x68 [0x3B]"; cases "dev 0x68 [0x3D]"; cases "dev 0x68 [0x3F]";
        simp add: mpu9250_get_x_def mpu9250_get_y_def mpu9250_get_z_def reg_BE_def case_prod_unfold Let_def
        device_reads [OF assms] MPU9250_ADDR_def MPU9250_ACCEL_XOUT_H_def MPU9250_ACCEL_YOUT_H_def MPU9250_ACCEL_ZOUT_H_def
        mpu9250_scale_value)+
  show "sint (fst (fst (mpu9250_sample hal s))) = mpu9250_spec dev 0x3B"
    "sint (fst (snd (fst (mpu9250_sample hal s)))) = mpu9250_spec dev 0x3D"
    "sint (snd (snd (fst (mpu9250_sample hal s)))) = mpu9250_spec dev 0x3F"
    by (simp_all add: mpu9250_sample_def mpu9250_spec_def avail rd case_prod_unfold Let_def)
qed

lemma ltr329_sample_value:
  fixes hal :: "('w, 'h) coll_hal_scheme" and s :: "('w, 's) collector_scheme"
  assumes "i2c_answers hal dev"
  shows "fst (ltr329_sample hal s) = (ltr329_spec dev 0x8A, ltr329_spec dev 0x88)"
proof -
  have avail: "fst (ltr329_isAvailable hal s) \<longleftrightarrow> chip_id dev 0x29 0x87 = Some 0x05"
    by (cases "dev 0x29 [0x87]") (simp_all add: ltr329_isAvailable_def chip_id_def case_prod_unfold Let_def
        device_reads [OF assms] LTR329_ADDR_def LTR329_MANUFAC_ID_def)
  have rd: "fst (ltr329_get_intensity_ch0 hal t) = (case dev 0x29 [0x8A] of None \<Rightarrow> 0 | Some x \<Rightarrow> reg_of_bytes (x 1, x 0))"
    "fst (ltr329_get_intensity_ch1 hal t) = (case dev 0x29 [0x88] of None \<Rightarrow> 0 | Some x \<Rightarrow> reg_of_bytes (x 1, x 0))"
    for t :: "('w, 's) collector_scheme"
    by (cases "dev 0x29 [0x8A]"; cases "dev 0x29 [0x88]";
        simp add: ltr329_get_intensity_ch0_def ltr329_get_intensity_ch1_def case_prod_unfold Let_def
        device_reads [OF assms] LTR329_ADDR_def LTR329_DATA_CH0_LOW_def LTR329_DATA_CH1_LOW_def ltr329_swap_LE reg_swap)+
  show ?thesis
    by (simp add: ltr329_sample_def ltr329_spec_def avail rd case_prod_unfold Let_def)
qed

lemmas sample_values = tmp100_sample_value mpu9250_sample_value ltr329_sample_value

section \<open>The error variable of the BME280 sensors\<close>

named_theorems bme_frame \<open>operations that leave the error variable of the collector alone\<close>

lemma i2c_bme_frame [bme_frame]:
  fixes s :: "('w, 's) collector_scheme"
  shows "bme280_error (snd (I2C_write8 hal a r v s)) = bme280_error s"
    and "bme280_error (snd (snd (I2C_read8 hal a r s))) = bme280_error s"
    and "bme280_error (snd (snd (I2C_read16 hal a r s))) = bme280_error s"
    and "bme280_error (snd (snd (I2C_read16_LE hal a r s))) = bme280_error s"
    and "bme280_error (on_world f s) = bme280_error s"
  by (simp_all add: I2C_write8_def I2C_read8_def I2C_read16_def I2C_read16_LE_def I2C_transmit_def case_prod_unfold
      Let_def on_world_def)

lemma sensor_bme_frame [bme_frame]:
  fixes s :: "('w, 's) collector_scheme"
  shows "bme280_error (snd (tmp100_sample hal n k msg s)) = bme280_error s"
    and "bme280_error (snd (ltr329_sample hal s)) = bme280_error s"
    and "bme280_error (snd (mpu9250_sample hal s)) = bme280_error s"
    and "bme280_error (snd (stm32_get_temp hal s)) = bme280_error s"
    and "bme280_error (snd (stm32_get_vbat hal s)) = bme280_error s"
  by (simp_all add: tmp100_sample_def tmp100_isAvailable_def tmp100_get_temperature_def tmp100_init_def
      ltr329_sample_def ltr329_isAvailable_def ltr329_init_def ltr329_get_intensity_ch0_def ltr329_get_intensity_ch1_def
      mpu9250_sample_def mpu9250_isAvailable_def mpu9250_init_def mpu9250_get_x_def mpu9250_get_y_def mpu9250_get_z_def
      stm32_get_temp_def stm32_get_vbat_def doConversion_def initADC_def deinitADC_def coll_print_def
      case_prod_unfold Let_def bme_frame)

lemma bme280_sample_frame [bme_frame]:
  fixes s :: "('w, 's) collector_scheme"
  shows "bme280_error (snd (BME280_isAvailable hal n s)) = bme280_error s"
    and "bme280_error (snd (BME280_getHumidity hal h s)) = bme280_error s"
    and "bme280_error (snd (snd (BME280_getTemperature hal h s))) = bme280_error s"
    and "bme280_error (snd (bme280_calibration hal a s)) = bme280_error s"
  by (simp_all add: BME280_isAvailable_def BME280_getHumidity_def BME280_getTemperature_def bme280_calibration_def
      bme280_cal16_def bme280_cal8_def case_prod_unfold Let_def bme_frame)

lemma pressure_samples_frame [bme_frame]:
  fixes s :: "('w, 's) collector_scheme"
  shows "bme280_error (snd (pressure_samples hal h n acc s)) = bme280_error s"
  by (induction n arbitrary: acc s) (simp_all add: case_prod_unfold Let_def bme_frame split: option.split)

lemma getPressure_32:
  fixes s :: "('w, 's) collector_scheme"
  shows "\<exists>p s'. BME280_getPressure hal h 32 s = Inr (p, s') \<and> bme280_error s' = bme280_error s"
  using pressure_samples_frame [of hal h 32 0 s]
  by (cases "pressure_samples hal h 32 0 s"; cases "fst (pressure_samples hal h 32 0 s)")
    (simp_all add: BME280_getPressure_def)

lemma Init_frame:
  fixes s :: "('w, 's) collector_scheme"
  assumes "n \<in> {BME280_I1, BME280_E1, BME280_E2}"
  shows "\<exists>h' s'. BME280_Init hal h n s = Inr (h', s') \<and> bme280_error s' = bme280_error s"
  using assms by (simp add: BME280_Init_def case_prod_unfold Let_def bme_frame prod_eq_iff)

text \<open>The block of a BME280 always returns; it sets its bit exactly when the sensor is not found.\<close>

lemma bme280_sample_result:
  fixes s :: "('w, 's) collector_scheme"
  assumes "n \<in> {BME280_I1, BME280_E1, BME280_E2}"
  shows "\<exists>r h' s'. bme280_sample hal n msg err h s = Inr (r, h', s')
    \<and> (if fst (BME280_isAvailable hal n s) then bme280_error s' = bme280_error s
       else r = (0, 0, 0) \<and> bme280_error s' = bme280_error s OR err)"
proof (cases "fst (BME280_isAvailable hal n s)")
  case True
  define s1 where "s1 = snd (BME280_isAvailable hal n s)"
  obtain h2 s2 where s2: "BME280_Init hal h n s1 = Inr (h2, s2)" "bme280_error s2 = bme280_error s1"
    using Init_frame [OF assms] by blast
  obtain p s3 where s3: "BME280_getPressure hal h2 32 s2 = Inr (p, s3)" "bme280_error s3 = bme280_error s2"
    using getPressure_32 by blast
  show ?thesis
    using True s2 s3 unfolding bme280_sample_def
    by (simp add: case_prod_unfold Let_def s1_def [symmetric] prod_eq_iff) (simp add: s1_def bme_frame)
next
  case False
  then show ?thesis
    by (simp add: bme280_sample_def case_prod_unfold Let_def coll_print_def bme_frame prod_eq_iff)
qed

lemma getSensors_rest_frame [bme_frame]:
  fixes s :: "('w, 's) collector_scheme"
  shows "bme280_error (snd (getSensors_rest hal tp s)) = bme280_error s"
  by (simp add: getSensors_rest_def getSensors_tmp100_def case_prod_unfold Let_def bme_frame)

section \<open>The data point\<close>

lemma isAvailable_device:
  assumes "i2c_answers hal dev" "n \<in> {BME280_I1, BME280_E1, BME280_E2}"
    and "chip_id dev (if n = BME280_E2 then 0x76 else 0x77) 0xD0 = Some c"
  shows "fst (BME280_isAvailable hal n s) \<longleftrightarrow> c = 0x60"
  using assms(2,3)
  by (auto simp: BME280_isAvailable_def chip_id_def bme280_registers BME280_I1_def BME280_E1_def BME280_E2_def
      case_prod_unfold Let_def device_reads [OF assms(1)])

text \<open>The two BME280 blocks in a row.\<close>

lemma getSensors_bme:
  fixes s :: "('w, 's) collector_scheme"
  assumes "i2c_answers hal dev" "chip_id dev 0x77 0xD0 = Some i1" "chip_id dev 0x76 0xD0 = Some e2"
  shows "\<exists>p hu t p' hu' t' s'. getSensors hal handle tp s = Inr (getSensors_rest hal
      (tp\<lparr>sen_i1_press := p, sen_i1_hum := hu, sen_i1_temp := t, sen_e2_press := p', sen_e2_hum := hu', sen_e2_temp := t'\<rparr>) s')
    \<and> (i1 \<noteq> 0x60 \<longrightarrow> p = 0 \<and> hu = 0 \<and> t = 0) \<and> (e2 \<noteq> 0x60 \<longrightarrow> p' = 0 \<and> hu' = 0 \<and> t' = 0)
    \<and> bme280_error s' = (if i1 = 0x60 then 0 else 0x1) OR (if e2 = 0x60 then 0 else 0x10)"
proof -
  have n: "BME280_I1 \<in> {BME280_I1, BME280_E1, BME280_E2}" "BME280_E2 \<in> {BME280_I1, BME280_E1, BME280_E2}"
    by simp_all
  have avail: "fst (BME280_isAvailable hal BME280_I1 t) \<longleftrightarrow> i1 = 0x60" "fst (BME280_isAvailable hal BME280_E2 t) \<longleftrightarrow> e2 = 0x60"
    for t :: "('w, 's) collector_scheme"
    using isAvailable_device [OF assms(1) n(1), of i1] isAvailable_device [OF assms(1) n(2), of e2] assms(2,3)
    by (simp_all add: BME280_I1_def BME280_E2_def)
  obtain p hu t h1 s1 where s1: "bme280_sample hal BME280_I1 ''COLL > Internal BME280 I1 not operational'' 0x1 handle (s\<lparr>bme280_error := 0\<rparr>)
      = Inr ((p, hu, t), h1, s1)" "if i1 = 0x60 then bme280_error s1 = 0 else (p, hu, t) = (0, 0, 0) \<and> bme280_error s1 = 0x1"
    using bme280_sample_result [OF n(1), where hal = hal and msg = "''COLL > Internal BME280 I1 not operational''" and err = 1 and h = handle
        and s = "s\<lparr>bme280_error := 0\<rparr>"]
    by (auto simp: avail)
  obtain p' hu' t' h2 s2 where s2: "bme280_sample hal BME280_E2 ''COLL > External BME280 E2 not operational'' 0x10 h1 s1
      = Inr ((p', hu', t'), h2, s2)"
      "if e2 = 0x60 then bme280_error s2 = bme280_error s1 else (p', hu', t') = (0, 0, 0) \<and> bme280_error s2 = bme280_error s1 OR 0x10"
    using bme280_sample_result [OF n(2), where hal = hal and msg = "''COLL > External BME280 E2 not operational''" and err = 16 and h = h1
        and s = s1]
    by (auto simp: avail)
  have "getSensors hal handle tp s = Inr (getSensors_rest hal
      (tp\<lparr>sen_i1_press := p, sen_i1_hum := hu, sen_i1_temp := t, sen_e2_press := p', sen_e2_hum := hu', sen_e2_temp := t'\<rparr>) s2)"
    by (simp add: getSensors_def s1(1) s2(1))
  then show ?thesis
    using s1(2) s2(2)
    by (intro exI [of _ p] exI [of _ hu] exI [of _ t] exI [of _ p'] exI [of _ hu'] exI [of _ t'] exI [of _ s2])
      (simp split: if_splits)
qed

lemma getSensors_rest_data:
  fixes s :: "('w, 's) collector_scheme" and tp :: dataPoint_t and hal :: "('w, 'h) coll_hal_scheme"
  assumes dev: "i2c_answers hal dev" and adc: "adc_converts hal level"
  defines "tp' \<equiv> fst (getSensors_rest hal tp s)"
  shows "map (\<lambda>f. sint (f tp')) [tmp100_0_temp, tmp100_1_temp, tmp100_2_temp, tmp100_3_temp,
        tmp100_4_temp, tmp100_5_temp, tmp100_6_temp, tmp100_7_temp]
      = map (\<lambda>n. tmp100_spec dev n (if n = 2 then 0 else n)) [0, 1, 2, 3, 4, 5, 6, 7]"
    and "map (\<lambda>f. sint (f tp')) [mpu9250_x_accel, mpu9250_y_accel, mpu9250_z_accel] = map (mpu9250_spec dev) [0x3B, 0x3D, 0x3F]"
    and "ltr329_intensity_ch0 tp' = ltr329_spec dev 0x8A" "ltr329_intensity_ch1 tp' = ltr329_spec dev 0x88"
    and "unat (adc_vbat tp') = level ADC_CHANNEL_IN14 * 33000 div 4096"
    and "gps_state tp' = gps_state tp"
    and "map (\<lambda>f. f tp') [sen_i1_press, sen_e2_press] = map (\<lambda>f. f tp) [sen_i1_press, sen_e2_press]"
    and "map (\<lambda>f. f tp') [sen_i1_temp, sen_e2_temp] = map (\<lambda>f. f tp) [sen_i1_temp, sen_e2_temp]"
    and "map (\<lambda>f. f tp') [sen_i1_hum, sen_e2_hum] = map (\<lambda>f. f tp) [sen_i1_hum, sen_e2_hum]"
  by (simp_all add: tp'_def getSensors_rest_def getSensors_tmp100_def sample_values [OF dev] stm32_get_vbat_value [OF adc]
      case_prod_unfold Let_def)

section \<open>The error word\<close>

lemma bit_field:
  assumes "k + m \<le> 32"
  shows "bit (push_bit k (ucast x AND mask m) :: u32) n \<longleftrightarrow> k \<le> n \<and> n < k + m \<and> bit x (n - k)"
  using assms by (auto simp: bit_simps)

lemma sys_error_bits:
  "bit (sys_error (fst (setSystemStatus hal tp s))) n \<longleftrightarrow>
     n = 0 \<and> bit (i2c_error s) 0 \<or> n = 2 \<and> gps_state tp = GPS_ERROR
     \<or> 5 \<le> n \<and> n < 8 \<and> bit (cam_error s) (n - 5) \<or> 8 \<le> n \<and> n < 14 \<and> bit (bme280_error s) (n - 8)"
proof -
  have m: "0x3F = (mask 6 :: u32)" "0x7 = (mask 3 :: u32)"
    by (simp_all add: mask_eq_exp_minus_1)
  have "sys_error (fst (setSystemStatus hal tp s)) =
      (ucast (i2c_error s) AND 1) OR push_bit 2 (if gps_state tp = GPS_ERROR then 1 else 0)
      OR push_bit 5 (ucast (cam_error s) AND mask 3) OR push_bit 8 (ucast (bme280_error s) AND mask 6)"
    unfolding m [symmetric]
    by (simp add: setSystemStatus_def I2C_hasError_def OV5640_hasError_def BME_ALL_STATUS_SHIFT_def BME_ALL_STATUS_MASK_def
        case_prod_unfold Let_def or.assoc del: and_one_eq)
  moreover have "bit (ucast (i2c_error s) AND 1 :: u32) n \<longleftrightarrow> n = 0 \<and> bit (i2c_error s) 0"
    by (auto simp: bit_simps simp del: and_one_eq)
  moreover have "bit (push_bit 2 (if gps_state tp = GPS_ERROR then 1 else 0) :: u32) n \<longleftrightarrow> n = 2 \<and> gps_state tp = GPS_ERROR"
    by (auto simp: bit_simps)
  ultimately show ?thesis
    by (simp only: bit_or_iff) (simp add: bit_field del: push_bit_and)
qed

section \<open>The bus\<close>

text \<open>Calls of the analogue converter and the pins are not bus events.\<close>

definition adc_unseen :: "('w, 'h) adc_hal_scheme \<Rightarrow> ('w \<Rightarrow> 'o) \<Rightarrow> bool" where
  "adc_unseen hal obs \<longleftrightarrow>
     (\<forall>w. obs (adcStart hal w) = obs w) \<and> (\<forall>w. obs (adcSTM32EnableTSVREFE hal w) = obs w) \<and>
     (\<forall>l m w. obs (palSetLineMode hal l m w) = obs w) \<and>
     (\<forall>g n w. obs (adcStartConversion hal g n w) = obs w) \<and> (\<forall>w. obs (adcStop hal w) = obs w)"

named_theorems bus_keep \<open>operations that leave the bus as they found it\<close>

lemma i2c_bus_keep [bus_keep]:
  assumes "bus_quiet hal tr s"
  shows "bus_quiet hal tr (snd (I2C_write8 hal a r v s))"
    and "bus_quiet hal tr (snd (snd (I2C_read8 hal a r s)))"
    and "bus_quiet hal tr (snd (snd (I2C_read16 hal a r s)))"
    and "bus_quiet hal tr (snd (snd (I2C_read16_LE hal a r s)))"
  using i2c.keep [OF assms, of "Write8 a r v"] i2c.keep [OF assms, of "Read8 a r"] i2c.keep [OF assms, of "Read16 a r"]
    i2c.keep [OF assms, of "Read16_LE a r"] by simp_all

lemma os_bus_keep [bus_keep]:
  assumes "bus_quiet hal tr s"
  shows "bus_quiet hal tr (on_world (chprintf hal f xs) s)"
    and "bus_quiet hal tr (on_world (chThdSleep hal t) s)"
    and "bus_quiet hal tr (on_world (chThdSleepMilliseconds hal m) s)"
  using assms by (simp_all add: bus_quiet_def i2c_traced_def os_unseenD)

lemma field_bus_keep [bus_keep]:
  fixes s :: "('w, 's) collector_scheme"
  assumes "bus_quiet hal tr s"
  shows "bus_quiet hal tr (s\<lparr>ltr329_error := e\<rparr>)" "bus_quiet hal tr (s\<lparr>mpu9250_error := e\<rparr>)" "bus_quiet hal tr (s\<lparr>bme280_error := e\<rparr>)"
  using assms by (simp_all add: bus_quiet_def)

lemma sensor_bus_keep [bus_keep]:
  fixes s :: "('w, 's) collector_scheme"
  assumes "bus_quiet hal tr s"
  shows "bus_quiet hal tr (snd (tmp100_isAvailable hal n s))"
    and "bus_quiet hal tr (snd (tmp100_get_temperature hal n s))"
    and "bus_quiet hal tr (tmp100_init hal n s)"
    and "bus_quiet hal tr (snd (ltr329_isAvailable hal s))"
    and "bus_quiet hal tr (snd (ltr329_get_intensity_ch0 hal s))"
    and "bus_quiet hal tr (snd (ltr329_get_intensity_ch1 hal s))"
    and "bus_quiet hal tr (ltr329_init hal s)"
    and "bus_quiet hal tr (snd (mpu9250_isAvailable hal s))"
    and "bus_quiet hal tr (snd (mpu9250_get_x hal s))"
    and "bus_quiet hal tr (snd (mpu9250_get_y hal s))"
    and "bus_quiet hal tr (snd (mpu9250_get_z hal s))"
  using assms
  by (simp_all add: tmp100_isAvailable_def tmp100_get_temperature_def tmp100_init_def
      ltr329_isAvailable_def ltr329_init_def ltr329_get_intensity_ch0_def ltr329_get_intensity_ch1_def
      mpu9250_isAvailable_def mpu9250_get_x_def mpu9250_get_y_def mpu9250_get_z_def
      case_prod_unfold Let_def bus_keep)

lemma sample_bus_keep [bus_keep]:
  fixes s :: "('w, 's) collector_scheme"
  assumes "bus_quiet hal tr s"
  shows "bus_quiet hal tr (snd (tmp100_sample hal n k msg s))"
    and "bus_quiet hal tr (snd (ltr329_sample hal s))"
    and "bus_quiet hal tr (snd (mpu9250_sample hal s))"
  using assms
  by (simp_all add: tmp100_sample_def ltr329_sample_def mpu9250_sample_def mpu9250_init_def
      coll_print_def case_prod_unfold Let_def bus_keep)

lemma bme280_bus_keep [bus_keep]:
  fixes s :: "('w, 's) collector_scheme"
  assumes "bus_quiet hal tr s"
  shows "bus_quiet hal tr (snd (BME280_isAvailable hal n s))"
    and "bus_quiet hal tr (snd (BME280_getHumidity hal h s))"
    and "bus_quiet hal tr (snd (snd (BME280_getTemperature hal h s)))"
    and "bus_quiet hal tr (snd (bme280_calibration hal a s))"
  using assms
  by (simp_all add: BME280_isAvailable_def BME280_getHumidity_def BME280_getTemperature_def bme280_calibration_def
      bme280_cal16_def bme280_cal8_def case_prod_unfold Let_def bus_keep)

lemma pressure_samples_bus_keep [bus_keep]:
  fixes s :: "('w, 's) collector_scheme"
  shows "bus_quiet hal tr s \<Longrightarrow> bus_quiet hal tr (snd (pressure_samples hal h n acc s))"
  by (induction n arbitrary: acc s) (simp_all add: case_prod_unfold Let_def bus_keep split: option.split)

lemma getPressure_bus_keep:
  fixes s :: "('w, 's) collector_scheme"
  assumes "bus_quiet hal tr s" "BME280_getPressure hal h m s = Inr (p, s')"
  shows "bus_quiet hal tr s'"
  using assms pressure_samples_bus_keep [OF assms(1), where h = h and n = "unat m" and acc = 0]
  by (auto simp: BME280_getPressure_def split: prod.splits option.splits if_splits)

lemma Init_bus_keep:
  fixes s :: "('w, 's) collector_scheme"
  assumes "bus_quiet hal tr s" "BME280_Init hal h n s = Inr (h', s')"
  shows "bus_quiet hal tr s'"
proof -
  have "s' = snd (snd (BME280_getTemperature hal (h\<lparr>i2c_address := a, calib := c\<rparr>) t)) \<Longrightarrow> bus_quiet hal tr t \<Longrightarrow> bus_quiet hal tr s'" for a c t
    by (simp add: bus_keep)
  then show ?thesis
    using assms by (auto simp: BME280_Init_def case_prod_unfold Let_def bus_keep prod_eq_iff split: if_splits)
qed

lemma bme280_sample_bus_keep:
  fixes s :: "('w, 's) collector_scheme"
  assumes "bus_quiet hal tr s" "bme280_sample hal n msg err h s = Inr (r, h', s')"
  shows "bus_quiet hal tr s'"
proof (cases "fst (BME280_isAvailable hal n s)")
  case True
  have s1: "bus_quiet hal tr (snd (BME280_isAvailable hal n s))"
    using assms(1) by (simp add: bus_keep)
  obtain h2 s2 where s2: "BME280_Init hal h n (snd (BME280_isAvailable hal n s)) = Inr (h2, s2)"
    using True assms(2) by (auto simp: bme280_sample_def case_prod_unfold split: sum.splits)
  then obtain p s3 where s3: "BME280_getPressure hal h2 32 s2 = Inr (p, s3)"
    using True assms(2) by (auto simp: bme280_sample_def case_prod_unfold split: sum.splits)
  have "bus_quiet hal tr s3"
    by (rule getPressure_bus_keep [OF Init_bus_keep [OF s1 s2] s3])
  moreover have "s' = snd (snd (BME280_getTemperature hal h2 (snd (BME280_getHumidity hal h2 s3))))"
    using True assms(2) s2 s3 by (simp add: bme280_sample_def case_prod_unfold Let_def)
  ultimately show ?thesis
    by (simp add: bus_keep)
next
  case False
  then show ?thesis
    using assms by (auto simp: bme280_sample_def case_prod_unfold Let_def coll_print_def bus_keep)
qed

lemma adc_bus_keep [bus_keep]:
  fixes s :: "('w, 's) collector_scheme"
  assumes "adc_unseen hal tr" "bus_quiet hal tr s"
  shows "bus_quiet hal tr (snd (stm32_get_temp hal s))"
    and "bus_quiet hal tr (snd (stm32_get_vbat hal s))"
  using assms
  by (simp_all add: stm32_get_temp_def stm32_get_vbat_def doConversion_def initADC_def deinitADC_def Let_def
      bus_quiet_def i2c_traced_def os_unseenD adc_unseen_def)

lemma getSensors_rest_bus_keep:
  fixes s :: "('w, 's) collector_scheme"
  assumes "adc_unseen hal tr" "bus_quiet hal tr s"
  shows "bus_quiet hal tr (snd (getSensors_rest hal tp s))"
  using assms by (simp add: getSensors_rest_def getSensors_tmp100_def case_prod_unfold Let_def bus_keep)

section \<open>Properties\<close>

text \<open>A data point in zeroed memory.\<close>

definition zero_point :: dataPoint_t where
  "zero_point =
     \<lparr> adc_vsol = 0, adc_vbat = 0, pac_vsol = 0, pac_vbat = 0, pac_pbat = 0, pac_psol = 0,
       light_intensity = 0, ltr329_intensity_ch0 = 0, ltr329_intensity_ch1 = 0, gps_state = GPS_LOCKED1,
       gps_sats = 0, gps_ttff = 0, gps_pdop = 0, gps_alt = 0, gps_lat = 0, gps_lon = 0, sen_i1_press = 0,
       sen_e1_press = 0, sen_e2_press = 0, sen_i1_temp = 0, sen_e1_temp = 0, sen_e2_temp = 0, sen_i1_hum = 0,
       sen_e1_hum = 0, sen_e2_hum = 0, mpu9250_x_accel = 0, mpu9250_y_accel = 0, mpu9250_z_accel = 0, dummy2 = 0,
       stm32_temp = 0, si446x_temp = 0, tmp100_0_temp = 0, tmp100_1_temp = 0, tmp100_2_temp = 0, tmp100_3_temp = 0,
       tmp100_4_temp = 0, tmp100_5_temp = 0, tmp100_6_temp = 0, tmp100_7_temp = 0, dp_reset = 0, dp_id = 0,
       gps_time = 0, sys_time = 0, sys_error = 0, gpio = 0 \<rparr>"

definition coll_start :: "adc_world collector" where
  "coll_start = debug.extend (debug_start ([], \<lambda>_. 0)) (collector.fields 0 None)"

definition coll_board :: "i2c_devices \<Rightarrow> (adc_channel \<Rightarrow> nat) \<Rightarrow> adc_world coll_hal" where
  "coll_board dev level =
     dbg_hal.extend (dbg_board dev level) (coll_hal.fields 1980
       (\<lambda>w. \<lparr> rtc_year = 0, rtc_month = 1, rtc_day = 1, rtc_millisecond = 0 \<rparr>) (\<lambda>t. t div 10000))"

lemmas coll_board_simps = coll_board_def dbg_board_simps coll_hal.defs

lemma coll_board_laws:
  "i2c_answers (coll_board dev level) dev"
  "\<forall>c. level c < 4096 \<Longrightarrow> adc_converts (coll_board dev level) level"
  "i2c_traced (coll_board dev level) fst" "adc_unseen (coll_board dev level) fst"
  by (simp_all add: i2c_answers_def adc_converts_def i2c_traced_def adc_unseen_def os_unseen_def coll_board_simps case_prod_unfold
      split: option.split)


text \<open>Temperature sensors at 25.25 degrees, except that sensor 2 measures 32 degrees; no other sensor
  identifies itself.\<close>

definition example_sensors :: i2c_devices where
  "example_sensors a tx = Some ((!) (if a = 0x4A \<and> tx = [0] then [0x20, 0x00] else [0x19, 0x40]))"




text \<open>C35: a whole collection, of whatever sensors are present, keeps to the protocol of the bus and leaves the
  bus free; it always returns.\<close>
theorem getSensors_keeps_bus:
  fixes s :: "('w, 's) collector_scheme"
  assumes "bus_quiet hal tr s" "adc_unseen hal tr"
  shows "\<exists>tp' s'. getSensors hal handle tp s = Inr (tp', s') \<and> bus_run Bus_Free (tr (world s')) = Some Bus_Free"
proof -
  have s0: "bus_quiet hal tr (s\<lparr>bme280_error := 0\<rparr>)"
    using assms(1) by (simp add: bus_keep)
  obtain p hu t h1 s1 where s1: "bme280_sample hal BME280_I1 ''COLL > Internal BME280 I1 not operational'' 0x1 handle (s\<lparr>bme280_error := 0\<rparr>)
      = Inr ((p, hu, t), h1, s1)"
    using bme280_sample_result [of BME280_I1, where hal = hal and msg = "''COLL > Internal BME280 I1 not operational''" and err = 1
        and h = handle and s = "s\<lparr>bme280_error := 0\<rparr>"] by auto
  obtain p' hu' t' h2 s2 where s2: "bme280_sample hal BME280_E2 ''COLL > External BME280 E2 not operational'' 0x10 h1 s1
      = Inr ((p', hu', t'), h2, s2)"
    using bme280_sample_result [of BME280_E2, where hal = hal and msg = "''COLL > External BME280 E2 not operational''" and err = 16
        and h = h1 and s = s1] by auto
  have "bus_quiet hal tr s2"
    by (rule bme280_sample_bus_keep [OF bme280_sample_bus_keep [OF s0 s1] s2])
  then have "bus_quiet hal tr (snd (getSensors_rest hal tp' s2))" for tp'
    by (rule getSensors_rest_bus_keep [OF assms(2)])
  then show ?thesis
    by (simp add: getSensors_def s1 s2 bus_quiet_def prod_eq_iff)
qed

theorem getSensors_keeps_bus_witness:
  "\<exists>tp' s'. getSensors (coll_board example_sensors (\<lambda>c. 0)) example_handle zero_point coll_start = Inr (tp', s')
     \<and> bus_run Bus_Free (fst (world s')) = Some Bus_Free"
proof -
  have "world coll_start = ([], \<lambda>_. 0)"
    by (simp add: coll_start_def debug_start_def debug.defs collector.defs)
  then have "bus_quiet (coll_board example_sensors (\<lambda>c. 0)) fst coll_start"
    by (simp add: bus_quiet_def coll_board_laws)
  then show ?thesis
    by (rule getSensors_keeps_bus) (rule coll_board_laws)
qed

end
