(* ===== verification/Firmware.thy ===== *)
theory Firmware
  imports Shell_Commands Telemetry
begin

text \<open>
  Properties of the whole program: the listing of the files, the way of an image from the camera to the card, and
  the state that the start of the program leaves for the main loop.
\<close>

section \<open>The listing of the files\<close>

text \<open>The files of the card as a tree, and the lines of its listing.\<close>

datatype node = File string | Folder string "node list"

fun node_name :: "node \<Rightarrow> string" where
  "node_name (File n) = n"
| "node_name (Folder n ns) = n"

fun listing :: "string \<Rightarrow> node list \<Rightarrow> string list list" where
  "listing p [] = []"
| "listing p (File n # ns) = [p, n] # listing p ns"
| "listing p (Folder n ms # ns) = listing (p @ CHR ''/'' # n) ms @ listing p ns"

text \<open>How many calls the recursion needs.\<close>

fun calls :: "node list \<Rightarrow> nat" where
  "calls [] = 1"
| "calls (File n # ns) = Suc (calls ns)"
| "calls (Folder n ms # ns) = Suc (Suc (calls ms) + calls ns)"

text \<open>The lengths of the paths of the folders.\<close>

fun paths_fit :: "nat \<Rightarrow> string \<Rightarrow> node list \<Rightarrow> bool" where
  "paths_fit k p [] \<longleftrightarrow> True"
| "paths_fit k p (File n # ns) \<longleftrightarrow> paths_fit k p ns"
| "paths_fit k p (Folder n ms # ns) \<longleftrightarrow>
     length p + length n + 1 < k \<and> paths_fit k (p @ CHR ''/'' # n) ms \<and> paths_fit k p ns"

text \<open>The documented behaviour of the directory functions: a directory object delivers the entries of its folder one
  after the other, and then an empty name. The names of a folder are texts that are not empty.\<close>

definition dir_laws ::
  "('w, 'h) cmd_hal_scheme \<Rightarrow> ('w \<Rightarrow> string list list) \<Rightarrow> (string \<Rightarrow> node list option) \<Rightarrow> (DIR \<Rightarrow> node list) \<Rightarrow> bool" where
  "dir_laws hal out folder rest \<longleftrightarrow>
     (\<forall>p ns w. folder p = Some ns \<longrightarrow> (\<exists>d w'. f_opendir hal p w = (FR_OK, d, w') \<and> rest d = ns \<and> out w' = out w)) \<and>
     (\<forall>d w. \<exists>fno d' w'. f_readdir hal d w = (FR_OK, fno, d', w') \<and> out w' = out w \<and>
        (case rest d of [] \<Rightarrow> fname fno = []
         | x # xs \<Rightarrow> fname fno = node_name x \<and> (fattrib_AM_DIR fno \<longleftrightarrow> (\<exists>n ms. x = Folder n ms)) \<and> rest d' = xs)) \<and>
     (\<forall>p ns n ms. folder p = Some ns \<longrightarrow> Folder n ms \<in> set ns \<longrightarrow> folder (p @ CHR ''/'' # n) = Some ms) \<and>
     (\<forall>p ns x. folder p = Some ns \<longrightarrow> x \<in> set ns \<longrightarrow> node_name x \<noteq> [] \<and> CHR 0x00 \<notin> set (node_name x)) \<and>
     (\<forall>p n w. out (chprintf_s hal (line ''%s/%s'') [p, n] w) = out w @ [[p, n]])"

lemma dir_lawsD:
  assumes "dir_laws hal out folder rest"
  shows "folder p = Some ns \<Longrightarrow> \<exists>d w'. f_opendir hal p w = (FR_OK, d, w') \<and> rest d = ns \<and> out w' = out w"
    and "rest d = [] \<Longrightarrow> \<exists>fno d' w'. f_readdir hal d w = (FR_OK, fno, d', w') \<and> out w' = out w \<and> fname fno = []"
    and "rest d = x # xs \<Longrightarrow> \<exists>fno d' w'. f_readdir hal d w = (FR_OK, fno, d', w') \<and> out w' = out w \<and>
      fname fno = node_name x \<and> (fattrib_AM_DIR fno \<longleftrightarrow> (\<exists>n ms. x = Folder n ms)) \<and> rest d' = xs"
    and "folder p = Some ns \<Longrightarrow> Folder n ms \<in> set ns \<Longrightarrow> folder (p @ CHR ''/'' # n) = Some ms"
    and "folder p = Some ns \<Longrightarrow> x \<in> set ns \<Longrightarrow> node_name x \<noteq> [] \<and> CHR 0x00 \<notin> set (node_name x)"
    and "out (chprintf_s hal (line ''%s/%s'') [p, n] w) = out w @ [[p, n]]"
proof -
  show "folder p = Some ns \<Longrightarrow> \<exists>d w'. f_opendir hal p w = (FR_OK, d, w') \<and> rest d = ns \<and> out w' = out w"
    using assms unfolding dir_laws_def by blast
  have "\<exists>fno d' w'. f_readdir hal d w = (FR_OK, fno, d', w') \<and> out w' = out w \<and>
        (case rest d of [] \<Rightarrow> fname fno = []
         | x # xs \<Rightarrow> fname fno = node_name x \<and> (fattrib_AM_DIR fno \<longleftrightarrow> (\<exists>n ms. x = Folder n ms)) \<and> rest d' = xs)"
    using assms unfolding dir_laws_def by blast
  then show "rest d = [] \<Longrightarrow> \<exists>fno d' w'. f_readdir hal d w = (FR_OK, fno, d', w') \<and> out w' = out w \<and> fname fno = []"
    "rest d = x # xs \<Longrightarrow> \<exists>fno d' w'. f_readdir hal d w = (FR_OK, fno, d', w') \<and> out w' = out w \<and>
      fname fno = node_name x \<and> (fattrib_AM_DIR fno \<longleftrightarrow> (\<exists>n ms. x = Folder n ms)) \<and> rest d' = xs"
    by auto
  show "folder p = Some ns \<Longrightarrow> Folder n ms \<in> set ns \<Longrightarrow> folder (p @ CHR ''/'' # n) = Some ms"
    "folder p = Some ns \<Longrightarrow> x \<in> set ns \<Longrightarrow> node_name x \<noteq> [] \<and> CHR 0x00 \<notin> set (node_name x)"
    "out (chprintf_s hal (line ''%s/%s'') [p, n] w) = out w @ [[p, n]]"
    using assms unfolding dir_laws_def by blast+
qed

lemma c_text_path:
  assumes "CHR 0x00 \<notin> set p"
  shows "c_text (p @ CHR 0x00 # t) = p"
proof -
  have "takeWhile (\<lambda>c. c \<noteq> CHR 0x00) (p @ CHR 0x00 # t) = p @ takeWhile (\<lambda>c. c \<noteq> CHR 0x00) (CHR 0x00 # t)"
    by (rule takeWhile_append2) (use assms in auto)
  then show ?thesis
    by (simp add: c_text_def)
qed

text \<open>The path in the buffer.\<close>

definition path_is :: "nat \<Rightarrow> string \<Rightarrow> string \<Rightarrow> bool" where
  "path_is k p buf \<longleftrightarrow> length buf = k \<and> CHR 0x00 \<notin> set p \<and> (\<exists>t. buf = p @ CHR 0x00 # t)"

lemma path_is_text: "path_is k p buf \<Longrightarrow> c_text buf = p"
  by (auto simp: path_is_def c_text_path)

lemma path_put_is:
  assumes "path_is k p buf" "CHR 0x00 \<notin> set n" "length p + length n + 1 < k"
  shows "\<exists>buf'. path_put buf (length p) (CHR ''/'' # n) = Some buf' \<and> path_is k (p @ CHR ''/'' # n) buf'"
proof -
  obtain t where t: "buf = p @ CHR 0x00 # t" "length p + Suc (length t) = k"
    using assms(1) by (auto simp: path_is_def)
  have "path_put buf (length p) (CHR ''/'' # n) = Some (p @ (CHR ''/'' # n) @ CHR 0x00 # drop (Suc (length n)) t)"
    using assms(3) t(2) by (simp add: path_put_def t(1))
  moreover have "path_is k (p @ CHR ''/'' # n) (p @ (CHR ''/'' # n) @ CHR 0x00 # drop (Suc (length n)) t)"
    using assms t by (auto simp: path_is_def)
  ultimately show ?thesis
    by blast
qed

lemma path_cut_is:
  assumes "path_is k (p @ CHR ''/'' # n) buf"
  shows "path_is k p (buf[length p := CHR 0x00])"
  using assms by (auto simp: path_is_def list_update_append)

definition scanned ::
  "('w \<Rightarrow> string list list) \<Rightarrow> nat \<Rightarrow> string \<Rightarrow> node list \<Rightarrow> ('w, 's) shell_scheme
     \<Rightarrow> (fault + FRESULT \<times> ('w, 's) shell_scheme) option \<Rightarrow> bool" where
  "scanned out k p ns s r \<longleftrightarrow>
     (\<exists>s'. r = Some (Inr (FR_OK, s')) \<and> out (world s') = out (world s) @ listing p ns \<and> path_is k p (fbuff s'))"

lemma scan_files_open:
  assumes "dir_laws hal out folder rest" "folder p = Some ns" "path_is k p (fbuff s)"
    and "\<And>d w. rest d = ns \<Longrightarrow> out w = out (world s) \<Longrightarrow> scanned out k p ns s (scan_dir fuel hal (length p) d (s\<lparr>world := w\<rparr>))"
  shows "scanned out k p ns s (scan_files (Suc fuel) hal s)"
proof -
  obtain d w where "f_opendir hal p (world s) = (FR_OK, d, w)" "rest d = ns" "out w = out (world s)"
    using dir_lawsD(1) [OF assms(1,2)] by blast
  then show ?thesis
    using assms(4) by (simp add: path_is_text [OF assms(3)])
qed

lemma scan_dir_folder:
  fixes s :: "('w, 's) shell_scheme"
  assumes laws: "dir_laws hal out folder rest" and n: "CHR 0x00 \<notin> set n" "n \<noteq> []"
    and d: "rest d = Folder n ms # ns" and path: "path_is k p (fbuff s)" "length p + length n + 1 < k"
    and inner: "\<And>t :: ('w, 's) shell_scheme. path_is k (p @ CHR ''/'' # n) (fbuff t) \<Longrightarrow> scanned out k (p @ CHR ''/'' # n) ms t (scan_files fuel hal t)"
    and outer: "\<And>d (t :: ('w, 's) shell_scheme). rest d = ns \<Longrightarrow> path_is k p (fbuff t) \<Longrightarrow> scanned out k p ns t (scan_dir fuel hal (length p) d t)"
  shows "scanned out k p (Folder n ms # ns) s (scan_dir (Suc fuel) hal (length p) d s)"
proof -
  obtain fno d' w where r: "f_readdir hal d (world s) = (FR_OK, fno, d', w)" "out w = out (world s)" "fname fno = n"
    "fattrib_AM_DIR fno" "rest d' = ns"
    using dir_lawsD(3) [OF laws d, of "world s"] by auto
  obtain buf where buf: "path_put (fbuff s) (length p) (CHR ''/'' # n) = Some buf" "path_is k (p @ CHR ''/'' # n) buf"
    using path_put_is [OF path(1) n(1) path(2)] by blast
  obtain s1 where s1: "scan_files fuel hal (s\<lparr>world := w, fbuff := buf\<rparr>) = Some (Inr (FR_OK, s1))"
    "out (world s1) = out w @ listing (p @ CHR ''/'' # n) ms" "path_is k (p @ CHR ''/'' # n) (fbuff s1)"
    using inner [of "s\<lparr>world := w, fbuff := buf\<rparr>"] buf(2) by (auto simp: scanned_def)
  obtain s2 where "scan_dir fuel hal (length p) d' (s1\<lparr>fbuff := (fbuff s1)[length p := CHR 0x00]\<rparr>) = Some (Inr (FR_OK, s2))"
    "out (world s2) = out (world s1) @ listing p ns" "path_is k p (fbuff s2)"
    using outer [of d' "s1\<lparr>fbuff := (fbuff s1)[length p := CHR 0x00]\<rparr>"] path_cut_is [OF s1(3)] r(5) by (auto simp: scanned_def)
  then show ?thesis
    using r buf(1) s1(1,2) n(2) by (simp add: scanned_def)
qed

lemma scan_dir_lists:
  fixes s :: "('w, 's) shell_scheme"
  assumes laws: "dir_laws hal out folder rest"
  shows "rest d = ns \<Longrightarrow> folder p = Some (pre @ ns) \<Longrightarrow> path_is k p (fbuff s) \<Longrightarrow> paths_fit k p ns \<Longrightarrow> calls ns \<le> fuel \<Longrightarrow>
    scanned out k p ns s (scan_dir fuel hal (length p) d s)"
proof (induction ns arbitrary: p pre d s fuel rule: calls.induct)
  case 1
  obtain m where m: "fuel = Suc m"
    using 1 by (cases fuel) auto
  show ?case
    using dir_lawsD(2) [OF laws 1(1), of "world s"] 1(3) by (auto simp: m scanned_def)
next
  case (2 n ns)
  obtain m where m: "fuel = Suc m" "calls ns \<le> m"
    using 2 by (cases fuel) auto
  obtain fno d' w where r: "f_readdir hal d (world s) = (FR_OK, fno, d', w)" "out w = out (world s)" "fname fno = n"
    "\<not> fattrib_AM_DIR fno" "rest d' = ns"
    using dir_lawsD(3) [OF laws 2(2), of "world s"] by auto
  have n: "n \<noteq> []"
    using dir_lawsD(5) [OF laws 2(3), of "File n"] by simp
  show ?case
    using 2(1) [of d' p "pre @ [File n]" "s\<lparr>world := chprintf_s hal (line ''%s/%s'') [p, n] w\<rparr>" m] 2 m r n
    by (auto simp: scanned_def on_world_def dir_lawsD(6) [OF laws] path_is_text)
next
  case (3 n ms ns)
  obtain l where l: "fuel = Suc (Suc l)" "calls ms \<le> l" "calls ns \<le> Suc l"
    using 3(7) by (cases fuel; cases "fuel - 1") auto
  have n: "n \<noteq> []" "CHR 0x00 \<notin> set n"
    using dir_lawsD(5) [OF laws 3(4), of "Folder n ms"] by simp_all
  have folder: "folder (p @ CHR ''/'' # n) = Some ([] @ ms)"
    using dir_lawsD(4) [OF laws 3(4), of n ms] by simp
  show ?case
    unfolding l(1)
  proof (rule scan_dir_folder [OF laws n(2,1) 3(3,5)])
    show "length p + length n + 1 < k"
      using 3(6) by simp
    show "scanned out k (p @ CHR ''/'' # n) ms t (scan_files (Suc l) hal t)" if "path_is k (p @ CHR ''/'' # n) (fbuff t)" for t :: "('w, 's) shell_scheme"
    proof (rule scan_files_open [OF laws folder [simplified] that])
      show "scanned out k (p @ CHR ''/'' # n) ms t (scan_dir l hal (length (p @ CHR ''/'' # n)) d (t\<lparr>world := w\<rparr>))"
        if "rest d = ms" "out w = out (world t)" for d w
        using 3(1) [OF that(1) folder, of "t\<lparr>world := w\<rparr>" l] \<open>path_is k (p @ CHR ''/'' # n) (fbuff t)\<close> 3(6) l(2) that(2)
        by (simp add: scanned_def)
    qed
    show "scanned out k p ns t (scan_dir (Suc l) hal (length p) d t)" if "rest d = ns" "path_is k p (fbuff t)" for d and t :: "('w, 's) shell_scheme"
      using 3(2) [OF that(1), of p "pre @ [Folder n ms]" t "Suc l"] that(2) 3(4,6) l(3) by (simp del: scan_dir.simps)
  qed
qed

lemma cmd_tree_listing:
  assumes laws: "dir_laws hal out folder rest" "\<forall>f xs w. out (chprintf hal f xs w) = out w"
    and free: "f_getfree hal ''/'' (world s) = (FR_OK, c, z, w)" "out w = out (world s)"
    and "fs_ready s" "folder [] = Some ns" "fbuff s \<noteq> []" "paths_fit (length (fbuff s)) [] ns" "calls ns < fuel"
  shows "\<exists>s'. cmd_tree fuel hal 0 s = Some (Inr s') \<and> out (world s') = out (world s) @ listing [] ns"
proof -
  define t where "t = s\<lparr>world := chprintf hal (line ''FS: %lu free clusters with %lu sectors (%lu bytes) per cluster'')
                        [uint c, uint z, uint ((ucast z :: u32) * 512)] w, fbuff := (fbuff s)[0 := CHR 0x00]\<rparr>"
  have path: "path_is (length (fbuff s)) [] (fbuff t)"
    using assms(7) by (cases "fbuff s") (auto simp: t_def path_is_def)
  obtain m where m: "fuel = Suc m" "calls ns \<le> m"
    using assms(9) by (cases fuel) auto
  have "scanned out (length (fbuff s)) [] ns t (scan_files fuel hal t)"
    unfolding m(1)
  proof (rule scan_files_open [OF laws(1) assms(6) path])
    show "scanned out (length (fbuff s)) [] ns t (scan_dir m hal (length []) d (t\<lparr>world := w\<rparr>))"
      if "rest d = ns" "out w = out (world t)" for d w
      using scan_dir_lists [OF laws(1) that(1), of "[]" "[]" "length (fbuff s)" "t\<lparr>world := w\<rparr>" m] assms(6,8) path m(2) that(2)
      by (simp add: scanned_def)
  qed
  then show ?thesis
    using free(2) laws(2) by (auto simp: cmd_tree_def usage_def on_world_def free(1) assms(5) t_def [symmetric] scanned_def)
      (simp_all add: t_def)
qed

section \<open>From the camera to the card\<close>

text \<open>What a capture leaves alone: an observation of the world that none of its calls changes, and the variables
  of the other modules.\<close>

definition kept :: "('w \<Rightarrow> 'o) \<Rightarrow> ('w, 's) ov5640_scheme \<Rightarrow> 'o \<times> 's" where
  "kept obs s = (obs (world s), ov5640.more s)"

lemma kept_world: "kept obs (s\<lparr>world := w\<rparr>) = (obs w, ov5640.more s)"
  by (simp add: kept_def)

lemma more_kept [simp]:
  "ov5640.more (on_world f s) = ov5640.more s" "ov5640.more (cam_print hal msg s) = ov5640.more s"
  "ov5640.more (dma_stream_setup hal h s) = ov5640.more s" "ov5640.more (snd (dcmi_dma_init_open_ended hal s)) = ov5640.more s"
  "ov5640.more (snd (dcmi_dma_arm hal s)) = ov5640.more s" "ov5640.more (dcmi_dma_open_ended_stop hal s) = ov5640.more s"
  by (simp_all add: on_world_def cam_print_def dma_stream_setup_def dcmi_dma_init_open_ended_def dcmi_dma_arm_def
      dcmi_dma_open_ended_stop_def Let_def)

lemma snapshot_start_kept:
  assumes "cam_unseen hal obs" "dma_unseen hal obs"
  shows "kept obs (snapshot_start hal m s) = kept obs s"
proof -
  have "obs (world (snapshot_start hal m s)) = obs (world s)"
    by (simp add: snapshot_start_def Let_def cam_unseenD [OF assms(1)] obs_pins [OF assms(1)] obs_InitDMA [OF assms(2)])
  then show ?thesis
    by (simp add: kept_def snapshot_start_def OV5640_InitDCMI_def OV5640_InitDMA_def Let_def)
qed

lemma wait_dcmi_kept:
  assumes "cam_unseen hal obs" "\<And>s u. irq s = Inr u \<Longrightarrow> kept obs u = kept obs s"
    and "wait_dcmi hal irq timeout finished s = Some (Inr (b, u))"
  shows "kept obs u = kept obs s"
proof -
  have "cam_unseen hal obs \<longrightarrow> (\<forall>s u. irq s = Inr u \<longrightarrow> kept obs u = kept obs s) \<longrightarrow>
      (\<forall>b u. r = Inr (b, u) \<longrightarrow> kept obs u = kept obs s)" if "wait_dcmi hal irq timeout finished s = Some r" for r
    using that
  proof (rule wait_dcmi.raw_induct [where P = "\<lambda>hal irq timeout finished s r. cam_unseen hal obs \<longrightarrow>
      (\<forall>s u. irq s = Inr u \<longrightarrow> kept obs u = kept obs s) \<longrightarrow> (\<forall>b u. r = Inr (b, u) \<longrightarrow> kept obs u = kept obs s)", rotated])
    fix loop hal irq timeout finished s r
    assume IH: "\<And>hal irq timeout finished s r. loop hal irq timeout finished s = Some r \<Longrightarrow> cam_unseen hal obs \<longrightarrow>
        (\<forall>s u. irq s = Inr u \<longrightarrow> kept obs u = kept obs s) \<longrightarrow> (\<forall>b u. r = Inr (b, u) \<longrightarrow> kept obs u = kept obs s)"
      and r: "(if finished then Some (Inr (finished, s))
        else let (now, w) = chVTGetSystemTimeX hal (world s); s = s\<lparr>world := w\<rparr>
             in if now < timeout
                then case irq (on_world (chThdSleepMilliseconds hal 1) s) of Inl f \<Rightarrow> Some (Inl f)
                     | Inr s \<Rightarrow> loop hal irq timeout (dcmi_idle hal (world s)) s
                else Some (Inr (finished, s))) = Some r"
    show "cam_unseen hal obs \<longrightarrow> (\<forall>s u. irq s = Inr u \<longrightarrow> kept obs u = kept obs s) \<longrightarrow>
        (\<forall>b u. r = Inr (b, u) \<longrightarrow> kept obs u = kept obs s)"
    proof (intro impI)
      assume cam: "cam_unseen hal obs" and irq: "\<forall>s u. irq s = Inr u \<longrightarrow> kept obs u = kept obs s"
      have "kept obs u = kept obs s"
        if "irq (on_world (chThdSleepMilliseconds hal 1) (s\<lparr>world := snd (chVTGetSystemTimeX hal (world s))\<rparr>)) = Inr u" for u
        using irq that by (simp add: kept_def cam_unseenD [OF cam])
      then show "\<forall>b u. r = Inr (b, u) \<longrightarrow> kept obs u = kept obs s"
        using r IH [where hal = hal and irq = irq and timeout = timeout] cam irq
        by (auto simp: Let_def case_prod_unfold kept_world kept_def [of obs s] cam_unseenD [OF cam] split: if_splits sum.splits)
    qed
  qed
  then show ?thesis
    using assms by blast
qed

lemma snapshot_end_kept:
  assumes "cam_unseen hal obs" "dma_unseen hal obs" "snapshot_end hal finished s = Inr (ok, u)"
  shows "kept obs u = kept obs s"
proof -
  have stop: "kept obs (dcmi_dma_open_ended_stop hal s) = kept obs s"
    by (simp add: kept_def dcmi_dma_open_ended_stop_def Let_def dma_unseenD [OF assms(2)])
  show ?thesis
    using assms(3) unfolding stop [symmetric]
    by (auto simp: snapshot_end_def Let_def kept_def cam_unseenD [OF assms(1)] cam_print_def split: if_splits sum.splits)
qed

lemma Snapshot2RAM_kept:
  assumes "cam_unseen hal obs" "dma_unseen hal obs" "\<And>s u. irq s = Inr u \<Longrightarrow> kept obs u = kept obs s"
    and "OV5640_Snapshot2RAM hal irq m s = Some (Inr (ok, u))"
  shows "kept obs u = kept obs s"
proof -
  define s1 where "s1 = (snapshot_start hal m s)\<lparr>world := snd (chVTGetSystemTimeX hal (world (snapshot_start hal m s)))\<rparr>"
  have s1: "kept obs s1 = kept obs s"
    using snapshot_start_kept [OF assms(1,2), of m s] by (simp add: s1_def kept_def cam_unseenD [OF assms(1)])
  obtain b t where t: "wait_dcmi hal irq (fst (chVTGetSystemTimeX hal (world (snapshot_start hal m s))) + TIME_MS2I hal 5000)
      (dcmi_idle hal (world s1)) s1 = Some (Inr (b, t))" "snapshot_end hal b t = Inr (ok, u)"
    using assms(4) by (auto simp: OV5640_Snapshot2RAM_def Let_def case_prod_unfold s1_def split: option.splits sum.splits)
  show ?thesis
    using wait_dcmi_kept [OF assms(1,3) t(1)] snapshot_end_kept [OF assms(1,2) t(2)] s1 by simp
qed

lemma more_fields:
  fixes s u :: "('w, 's) app_scheme"
  assumes "ov5640.more u = ov5640.more s"
  shows "image_index u = image_index s" "fs_ready u = fs_ready s"
  using assms by (cases s; cases u; simp)+

text \<open>A card slot that works beside the camera: the calls of a capture do not change the files, and neither
  does registering the volume again.\<close>

definition card_apart ::
  "('w, 'h) fs_hal_scheme \<Rightarrow> (('w, 's) ov5640_scheme \<Rightarrow> fault + ('w, 's) ov5640_scheme) \<Rightarrow> ('w \<Rightarrow> fs_view) \<Rightarrow> bool" where
  "card_apart hal irq vw \<longleftrightarrow>
     cam_unseen hal (\<lambda>w. fst (vw w)) \<and> dma_unseen hal (\<lambda>w. fst (vw w)) \<and>
     (\<forall>s u. irq s = Inr u \<longrightarrow> kept (\<lambda>w. fst (vw w)) u = kept (\<lambda>w. fst (vw w)) s) \<and>
     (\<forall>d b w. vw (snd (f_mount hal d b w)) = vw w)"

lemma mount_again_view:
  assumes "fs_laws hal vw" "card_apart hal irq vw"
  shows "vw (world (mount_again hal msg s)) = vw (world s)" "image_index (mount_again hal msg s) = image_index s"
    "OV5640_ram_buffer_length (mount_again hal msg s) = OV5640_ram_buffer_length s"
  using assms(2)
  by (simp_all add: mount_again_def card_apart_def Let_def case_prod_unfold on_world_def io_unseenD [OF fs_lawsD(1) [OF assms(1)]])

lemma image_round_writes:
  assumes card: "fs_laws hal vw" "fs_works hal vw" "card_apart hal irq vw"
    and snap: "OV5640_Snapshot2RAM hal irq m (on_world (palSetPad hal GPIOD_LED_RED) s) = Some (Inr (ok, s1))"
      "unat (OV5640_ram_buffer_length s1) \<le> length (OV5640_ram_buffer hal (world s1))"
      "10 < length (OV5640_ram_buffer hal (world s1))"
    and index: "fs_ready s" "sint (image_index s) \<le> j" "j \<le> 1000000" "fst (vw (world s)) (jpeg_name hal (word_of_int j)) = None"
      "\<forall>k. sint (image_index s) \<le> k \<and> k < j \<longrightarrow> fst (vw (world s)) (jpeg_name hal (word_of_int k)) \<noteq> None"
  shows "\<exists>s'. image_round hal irq m s = Some (Inr (True, s')) \<and> image_index s' = word_of_int (j + 1) \<and>
    fst (vw (world s')) = (fst (vw (world s)))(jpeg_name hal (word_of_int j) \<mapsto>
      take (unat (OV5640_ram_buffer_length s1)) (OV5640_ram_buffer hal (world s1)))"
proof -
  have cam: "cam_unseen hal (\<lambda>w. fst (vw w))" "dma_unseen hal (\<lambda>w. fst (vw w))"
    "\<And>s u. irq s = Inr u \<Longrightarrow> kept (\<lambda>w. fst (vw w)) u = kept (\<lambda>w. fst (vw w)) s"
    using card(3) by (simp_all add: card_apart_def)
  note unseen = io_unseenD [OF fs_lawsD(1) [OF card(1)]] and unseen' = cam_unseenD [OF cam(1)]
  have keep: "fst (vw (world s1)) = fst (vw (world s))" "image_index s1 = image_index s" "fs_ready s1 = fs_ready s"
    using Snapshot2RAM_kept [OF cam snap(1)] more_fields [of s1 s] by (simp_all add: kept_def unseen)
  define s2 where "s2 = mount_again hal ''SDC  > Mounting file system...'' (on_world (palClearPad hal GPIOD_LED_RED) s1)"
  have s2: "vw (world s2) = vw (world s1)" "image_index s2 = image_index s" "OV5640_ram_buffer_length s2 = OV5640_ram_buffer_length s1"
    by (simp_all add: s2_def mount_again_view [OF card(1,3)] unseen keep) (simp_all add: on_world_def keep)
  have buf: "OV5640_ram_buffer hal (world s2) = OV5640_ram_buffer hal (world s1)"
    by (simp add: fs_lawsD(2) [OF card(1)] s2)
  obtain s3 where s3: "write_jpeg hal s2 = Inr s3" "image_index s3 = word_of_int (j + 1)"
    "fst (vw (world s3)) = (fst (vw (world s)))(jpeg_name hal (word_of_int j) \<mapsto>
        take (unat (OV5640_ram_buffer_length s1)) (OV5640_ram_buffer hal (world s1)))"
    using write_jpeg_first_unused [OF card(1,2), of s2 j] snap(2,3) index(2-) by (auto simp: s2 keep buf)
  have "fs_ready (on_world (palClearPad hal GPIOD_LED_RED) s1)"
    using keep(3) index(1) by (simp add: on_world_def)
  then show ?thesis
    using s3 by (simp add: image_round_def snap(1) s2_def [symmetric] Let_def unseen unseen' del: fun_upd_apply) (simp add: on_world_def)
qed

section \<open>The start of the program\<close>

lemma erase_bytes_mem:
  assumes "mem_laws hal"
  shows "n \<le> 2 ^ 32 \<Longrightarrow> mem hal (erase_bytes hal n p w) a = (if unat (a - p) < n then 0 else mem hal w a)"
proof (induction n arbitrary: p w)
  case 0
  then show ?case
    by simp
next
  case (Suc n)
  have "unat (a - (p + 1)) < n \<or> a = p \<longleftrightarrow> unat (a - p) < Suc n"
  proof (cases "a = p")
    case False
    then have "unat (a - p - 1) = unat (a - p) - 1" "unat (a - p) \<noteq> 0"
      by (simp_all add: unat_minus_one unat_eq_0)
    then show ?thesis
      using False by (auto simp: algebra_simps)
  qed simp
  then show ?case
    using Suc by (auto simp: mem_lawsD [OF assms])
qed

text \<open>The initial calls, as an observer sees them who is not touched by drivers that start up.\<close>

definition boot_unseen :: "('w, 'h) cmd_hal_scheme \<Rightarrow> ('w \<Rightarrow> 'o) \<Rightarrow> bool" where
  "boot_unseen hal obs \<longleftrightarrow>
     card_unseen hal obs \<and> (\<forall>w. obs (sdcStart hal w) = obs w) \<and> (\<forall>e w. obs (chEvtObjectInit hal e w) = obs w) \<and>
     (\<forall>e i w. obs (chEvtRegister hal e i w) = obs w) \<and> (\<forall>w. obs (shellInit hal w) = obs w)"

definition boot_laws :: "('w, 'h) cmd_hal_scheme \<Rightarrow> ('w \<Rightarrow> nat set) \<Rightarrow> bool" where
  "boot_laws hal flags \<longleftrightarrow>
     boot_unseen hal flags \<and> boot_unseen hal (mem hal) \<and> (\<forall>w. flags (chSysInit hal w) = {}) \<and>
     (\<forall>p c w. flags (sdStart hal p c w) = flags w) \<and> (\<forall>f xs w. flags (chprintf hal f xs w) = flags w) \<and>
     (\<forall>w. flags (fsmcSdramInit hal w) = flags w) \<and> (\<forall>c w. flags (fsmcSdramStart hal c w) = flags w) \<and>
     (\<forall>m w. flags (mem_set hal m w) = flags w)"

lemma boot_unseen_init:
  assumes "boot_unseen hal obs"
  shows "obs (world (tmr_init hal s)) = obs (world s)" "obs (sdcStart hal w) = obs w"
    "obs (chEvtRegister hal e i w) = obs w" "obs (shellInit hal w) = obs w"
  using assms by (simp_all add: boot_unseen_def card_unseen_def tmr_init_def Let_def)

lemma erase_bytes_flags:
  assumes "boot_laws hal flags"
  shows "flags (erase_bytes hal n p w) = flags w"
  using assms by (induction n arbitrary: p w) (simp_all add: boot_laws_def)

section \<open>Properties\<close>


text \<open>A board with a camera and a card slot.\<close>

record card_board = board +
  b_files :: "string \<rightharpoonup> u8 list"
  b_open :: "FIL \<rightharpoonup> string"

definition card_view :: "ov5640_mode \<Rightarrow> card_board \<Rightarrow> fs_view" where
  "card_view m w = (b_files w, b_open w, OV5640_ram_buffer (board_hal m (\<lambda>_. None)) w)"

definition set_files :: "card_board \<Rightarrow> 'a \<times> 'b \<times> fs_view \<Rightarrow> 'a \<times> 'b \<times> card_board" where
  "set_files w = (\<lambda>(a, b, fs, op, buf). (a, b, w\<lparr>b_files := fs, b_open := op\<rparr>))"

definition still_app :: "'w fs_hal \<Rightarrow> 'w app_hal" where
  "still_app fs =
     fs_hal.extend fs
       (app_hal.fields (\<lambda>w. True) (\<lambda>w. w) (\<lambda>w. w) (\<lambda>w. w) (\<lambda>w. w) (\<lambda>t w. w) (\<lambda>e w. w) (\<lambda>e w. w) (\<lambda>t w. (None, w))
         (\<lambda>w. (False, w)) (\<lambda>w. w) (\<lambda>t w. False) (\<lambda>t w. w) (\<lambda>w. (Some 0, w)))"

definition still_cmd :: "'w app_hal \<Rightarrow> 'w cmd_hal" where
  "still_cmd app =
     app_hal.extend app
       (cmd_hal.fields (\<lambda>p w. (FR_OK, 0, 0, w)) (\<lambda>p w. (FR_OK, 0, w)) (\<lambda>d w. (FR_OK, \<lparr> fname = [], fattrib_AM_DIR = False \<rparr>, d, w))
         (\<lambda>t w. w) (\<lambda>w. w) (\<lambda>w. w) (\<lambda>w. w) (\<lambda>w. w) (\<lambda>c w. w) (\<lambda>w. w) (\<lambda>e i w. w) (\<lambda>w. w) 0x20000000 0xD0000000)"

definition camera_card :: "ov5640_mode \<Rightarrow> card_board cmd_hal" where
  "camera_card m =
     still_cmd (still_app (fs_over (board_hal m (\<lambda>_. None)) name_text
       (\<lambda>name md w. set_files w (files_open name md (card_view m w))) (\<lambda>h data w. set_files w (files_write h data (card_view m w)))))"

lemmas camera_card_simps = camera_card_def still_cmd_def still_app_def cmd_hal.defs app_hal.defs fs_over_simps

lemma camera_card_camera:
  "dma_laws (camera_card m)" "cam_unseen (camera_card m) (stream_obs (camera_card m))"
  "clock_laws (camera_card m) Inr b_time 10" "dma_served (camera_card m) Inr" "buffer_laws (camera_card m) m"
  "ram_buffer_addr (camera_card m) = 0xD0000000"
proof -
  show "dma_laws (camera_card m)" "cam_unseen (camera_card m) (stream_obs (camera_card m))"
    by (simp_all add: camera_card_simps board_hal_def dma_laws_def os_unseen_def stream_obs_def cam_unseen_def)
  show "clock_laws (camera_card m) Inr b_time 10" "dma_served (camera_card m) Inr" "buffer_laws (camera_card m) m"
    "ram_buffer_addr (camera_card m) = 0xD0000000"
    by (auto simp: clock_laws_def dma_served_def buffer_laws_def camera_card_simps board_hal_def on_world_def
        intro!: exI rtranclp.rtrancl_refl)
qed

lemma camera_card_files: "fs_laws (camera_card m) (card_view m)" "fs_works (camera_card m) (card_view m)"
proof -
  have ops: "f_open (camera_card m) = (\<lambda>name md w. set_files w (files_open name md (card_view m w)))"
    "f_write (camera_card m) = (\<lambda>h data w. set_files w (files_write h data (card_view m w)))"
    "f_close (camera_card m) = (\<lambda>h w. (FR_OK, w))" "OV5640_ram_buffer (camera_card m) = OV5640_ram_buffer (board_hal m (\<lambda>_. None))"
    by (simp_all add: camera_card_simps)
  have set: "set_files w r = (a, b, w') \<Longrightarrow> snd (snd (snd (snd r))) = snd (snd (card_view m w)) \<Longrightarrow> r = (a, b, card_view m w')" for w r a b w'
    by (cases r) (auto simp: set_files_def card_view_def board_hal_def)
  have keep: "snd (snd (snd (snd (files_open name md v)))) = snd (snd v)" "snd (snd (snd (snd (files_write h data v)))) = snd (snd v)"
    for name md v h data
    by (auto simp: files_open_def files_write_def Let_def split: prod.splits option.splits)
  have "io_unseen (camera_card m) (card_view m)"
    by (simp add: io_unseen_def camera_card_simps board_hal_def card_view_def)
  moreover have op: "open_result (card_view m w) name fr h (card_view m w') \<and> fr = (if fst (card_view m w) name = None then FR_OK else FR_EXIST)"
    if "f_open (camera_card m) name {FA_WRITE, FA_CREATE_NEW} w = (fr, h, w')" for name w fr h w'
    using files_results(1) [where name = name and v = "card_view m w"] unfolding set [OF that [unfolded ops] keep(1)] prod.case .
  moreover have "write_result (card_view m w) h data fr bw (card_view m w')"
    if "f_write (camera_card m) h data w = (fr, bw, w')" "\<forall>name. fst (snd (card_view m w)) h = Some name \<longrightarrow> fst (card_view m w) name \<noteq> None"
    for h data w fr bw w'
    using files_results(2) [of "card_view m w" h data] that(2) unfolding set [OF that(1) [unfolded ops] keep(2)] prod.case by blast
  ultimately show "fs_laws (camera_card m) (card_view m)"
    unfolding fs_laws_def ops(3,4) by (auto simp: card_view_def)
  have "fst (f_open (camera_card m) name {FA_WRITE, FA_CREATE_NEW} w) = (if fst (card_view m w) name = None then FR_OK else FR_EXIST)"
    for name w
    using op [of name w] by (cases "f_open (camera_card m) name {FA_WRITE, FA_CREATE_NEW} w") auto
  moreover have "fst (f_write (camera_card m) h data w) = FR_OK \<and> unat (fst (snd (f_write (camera_card m) h data w))) = length data"
    if "fst (snd (card_view m w)) h \<noteq> None" "length data < 2 ^ 32" for h data w
    using that by (auto simp: ops set_files_def files_write_def card_view_def unat_of_nat Let_def min_def)
  ultimately show "fs_works (camera_card m) (card_view m)"
    unfolding fs_works_def by blast
qed

lemma camera_card_apart: "card_apart (camera_card m) Inr (card_view m)"
  by (simp add: card_apart_def cam_unseen_def os_unseen_def dma_unseen_def camera_card_simps board_hal_def card_view_def)

definition shell_start :: "'w \<Rightarrow> 'w shell" where
  "shell_start w =
     app.extend (app_start w)
       (shell.fields zero_point \<lparr> r_memset = 0, r_memcpy = 0, r_memcpy_dma = 0, r_memcmp = 0 \<rparr>
         \<lparr> r_memset = 0, r_memcpy = 0, r_memcpy_dma = 0, r_memcmp = 0 \<rparr>)"

lemmas shell_start_simps = shell_start_def shell.defs app_start_simps

definition card_board_start :: card_board where
  "card_board_start = \<lparr> r_M0 = 0, r_M1 = 0, r_target = 0, r_enabled = False, r_mode = {}, b_bus = [],
     b_time = 0, b_cr = 0, b_buf = [], b_files = Map.empty, b_open = Map.empty \<rparr>"

lemma camera_card_time:
  "b_time (world (snapshot_start (camera_card m) m s)) = b_time (world s)"
proof -
  have unseen: "dma_unseen (camera_card m) b_time"
    by (simp add: dma_unseen_def camera_card_simps board_hal_def)
  have "b_time (chprintf (camera_card m) f xs w) = b_time w" "b_time (RCC_AHB2ENR_write (camera_card m) x w) = b_time w"
    "b_time (DCMI_CR_write (camera_card m) x w) = b_time w" "b_time (ram_buffer_write (camera_card m) b w) = b_time w" for f xs w x b
    by (simp_all add: camera_card_simps board_hal_def)
  then show ?thesis
    by (simp add: snapshot_start_def OV5640_InitDCMI_def Let_def obs_InitDMA [OF unseen])
qed


text \<open>The start of the program leaves eight megabytes of zeros in the external memory, and the state from which
  the card monitor runs: no card event waiting, the file system not ready, ten polls to go.\<close>
theorem main_init_starts:
  assumes "mem_laws hal" "boot_laws hal flags" "\<not> fs_ready s"
  shows "card_start flags ([], None, main_init hal s)
    \<and> (\<forall>a. unat (a - SDRAM_BANK_ADDR) < 8 * 1024 * 1024 \<longrightarrow> mem hal (world (main_init hal s)) a = 0)"
proof
  note flags = boot_unseen_init [of hal flags] and mems = boot_unseen_init [of hal "mem hal"]
  have unseen: "boot_unseen hal flags" "boot_unseen hal (mem hal)"
    using assms(2) by (simp_all add: boot_laws_def)
  have "flags (world (main_init hal s)) = {}"
    using assms(2) by (simp add: main_init_def sdram_bulk_erase_def Let_def flags [OF unseen(1)] erase_bytes_flags [OF assms(2)])
      (simp add: boot_laws_def)
  moreover have "cnt (main_init hal s) = POLLING_INTERVAL" "fs_ready (main_init hal s) = fs_ready s"
    by (simp_all add: main_init_def sdram_bulk_erase_def tmr_init_def Let_def on_world_def)
  ultimately show "card_start flags ([], None, main_init hal s)"
    using assms(3) by (simp add: card_start_def)
  show "\<forall>a. unat (a - SDRAM_BANK_ADDR) < 8 * 1024 * 1024 \<longrightarrow> mem hal (world (main_init hal s)) a = 0"
    by (simp add: main_init_def sdram_bulk_erase_def Let_def mems [OF unseen(2)] erase_bytes_mem [OF assms(1)] IS42S16400J_SIZE_def)
qed

definition memory_cmd :: "memory cmd_hal" where
  "memory_cmd = (still_cmd (still_app still_fs))\<lparr>mem := \<lambda>w. w, mem_set := \<lambda>m w. m,
     dmaStartMemCopy := \<lambda>s d n w. mem_copy d s (4 * unat n) w\<rparr>"

lemmas memory_cmd_simps = memory_cmd_def still_cmd_def still_app_def still_fs_def cmd_hal.defs app_hal.defs fs_over_simps still_hal_def

theorem main_init_starts_witness:
  "card_start (\<lambda>w. {}) ([], None, main_init memory_cmd (shell_start (\<lambda>a. 7)))
    \<and> mem memory_cmd (world (main_init memory_cmd (shell_start (\<lambda>a. 7)))) 0xD07FFFFF = 0"
proof -
  have "mem_laws memory_cmd" "boot_laws memory_cmd (\<lambda>w. {})" "\<not> fs_ready (shell_start (\<lambda>a. 7 :: u8))"
    by (simp_all add: mem_laws_def boot_laws_def boot_unseen_def card_unseen_def memory_cmd_simps shell_start_simps)
  note init = main_init_starts [OF this]
  then show ?thesis
    by (simp add: SDRAM_BANK_ADDR_def)
qed

text \<open>C38: the tree command prints every file of the card once, with its path, folder by folder in the order of the card,
  as long as the paths of the folders fit into the buffer of the path; the path in the buffer is restored after
  every folder.\<close>
theorem cmd_tree_lists:
  assumes laws: "dir_laws hal out folder rest" "\<forall>f xs w. out (chprintf hal f xs w) = out w"
    and free: "f_getfree hal ''/'' (world s) = (FR_OK, c, z, w)" "out w = out (world s)"
    and "fs_ready s" "folder [] = Some ns" "fbuff s \<noteq> []" "paths_fit (length (fbuff s)) [] ns" "calls ns < fuel"
  shows "\<exists>s'. cmd_tree fuel hal 0 s = Some (Inr s') \<and> out (world s') = out (world s) @ listing [] ns"
  by (rule cmd_tree_listing [OF assms])

definition tree_rest :: "DIR \<Rightarrow> node list" where
  "tree_rest d = (if d = 0 then [File ''a.jpg'', Folder ''old'' [File ''b.jpg'']] else if d = 1 then [Folder ''old'' [File ''b.jpg'']]
     else if d = 3 then [File ''b.jpg''] else [])"

definition tree_folder :: "string \<Rightarrow> node list option" where
  "tree_folder p = (if p = [] then Some (tree_rest 0) else if p = ''/old'' then Some (tree_rest 3) else None)"

definition tree_board :: "string list list cmd_hal" where
  "tree_board = (still_cmd (still_app still_fs))\<lparr>
     f_opendir := \<lambda>p w. (FR_OK, if p = [] then 0 else 3, w),
     f_readdir := \<lambda>d w. (FR_OK, case tree_rest d of [] \<Rightarrow> \<lparr> fname = [], fattrib_AM_DIR = False \<rparr>
       | File n # xs \<Rightarrow> \<lparr> fname = n, fattrib_AM_DIR = False \<rparr> | Folder n ms # xs \<Rightarrow> \<lparr> fname = n, fattrib_AM_DIR = True \<rparr>, Suc d, w),
     chprintf_s := \<lambda>f xs w. w @ [xs]\<rparr>"

lemmas tree_board_simps = tree_board_def still_cmd_def still_app_def still_fs_def cmd_hal.defs app_hal.defs fs_over_simps still_hal_def

lemma tree_board_laws: "dir_laws tree_board (\<lambda>w. w) tree_folder tree_rest"
  by (auto simp: dir_laws_def tree_board_simps tree_folder_def tree_rest_def split: if_splits)

theorem cmd_tree_lists_witness:
  "\<exists>s'. cmd_tree 10 tree_board 0 ((shell_start [])\<lparr>fs_ready := True\<rparr>) = Some (Inr s')
     \<and> world s' = [[[], ''a.jpg''], [''/old'', ''b.jpg'']]"
  using cmd_tree_lists [OF tree_board_laws, of "(shell_start [])\<lparr>fs_ready := True\<rparr>" 0 0 "[]" "tree_rest 0" 10]
  by (simp add: tree_folder_def tree_rest_def tree_board_simps shell_start_simps)

end
