(* ===== verification/Fat_Volume.thy ===== *)
theory Fat_Volume
  imports Fat_Types
begin

text \<open>
  The lower half of FatFs, \<open>src/ext/fatfs/src/ff.c\<close>: the sector window of a volume, the entries of its file
  allocation table (FAT) on FAT12, FAT16, FAT32 and exFAT volumes, the allocation bitmap of exFAT, and the cluster
  chains. The record \<open>FATFS\<close> has the fields of the file system object that these functions use, together with
  the state of the disk; the disk driver is the record \<open>disk_hal\<close>. Sectors have 512 bytes, the only size in
  \<open>ffconf.h\<close>. Loops over clusters return \<open>None\<close> when they do not end.
\<close>

section \<open>Types\<close>

datatype DRESULT = RES_OK | RES_ERROR | RES_WRPRT | RES_NOTRDY | RES_PARERR

record 'w disk_hal =
  disk_read :: "u32 \<Rightarrow> 'w \<Rightarrow> DRESULT \<times> u8 list \<times> 'w"
  disk_write :: "u8 list \<Rightarrow> u32 \<Rightarrow> 'w \<Rightarrow> DRESULT \<times> 'w"
  disk_ioctl_sync :: "'w \<Rightarrow> DRESULT \<times> 'w"

record 'w FATFS =
  disk :: 'w
  fs_type :: u8
  n_fats :: u8
  wflag :: u8
  fsi_flag :: u8
  mount_id :: u16
  n_rootdir :: u16
  csize :: u16
  last_clst :: u32
  free_clst :: u32
  n_fatent :: u32
  fsize :: u32
  volbase :: u32
  fatbase :: u32
  dirbase :: u32
  database :: u32
  winsect :: u32
  win :: "u8 list"

record FFOBJID =
  stat :: u8
  sclust :: u32
  objsize :: u64
  n_cont :: u32
  n_frag :: u32

definition FS_FAT12 :: u8 where
  "FS_FAT12 = 1"

definition FS_FAT16 :: u8 where
  "FS_FAT16 = 2"

definition FS_FAT32 :: u8 where
  "FS_FAT32 = 3"

definition FS_EXFAT :: u8 where
  "FS_EXFAT = 4"

definition SS :: nat where
  "SS = 512"

section \<open>Words in little-endian order\<close>

definition ld_word :: "u8 list \<Rightarrow> nat \<Rightarrow> u16" where
  "ld_word b i = push_bit 8 (ucast (b ! (i + 1))) OR ucast (b ! i)"

definition ld_dword :: "u8 list \<Rightarrow> nat \<Rightarrow> u32" where
  "ld_dword b i =
     (let rv = ucast (b ! (i + 3));
          rv = push_bit 8 rv OR ucast (b ! (i + 2));
          rv = push_bit 8 rv OR ucast (b ! (i + 1))
      in push_bit 8 rv OR ucast (b ! i))"

definition st_word :: "nat \<Rightarrow> u16 \<Rightarrow> u8 list \<Rightarrow> u8 list" where
  "st_word i val b = b[i := ucast val, i + 1 := ucast (drop_bit 8 val)]"

definition st_dword :: "nat \<Rightarrow> u32 \<Rightarrow> u8 list \<Rightarrow> u8 list" where
  "st_dword i val b =
     b[i := ucast val, i + 1 := ucast (drop_bit 8 val), i + 2 := ucast (drop_bit 16 val), i + 3 := ucast (drop_bit 24 val)]"

section \<open>The sector window\<close>

definition sync_window :: "('w, 'h) disk_hal_scheme \<Rightarrow> ('w, 's) FATFS_scheme \<Rightarrow> FRESULT \<times> ('w, 's) FATFS_scheme" where
  "sync_window hal fs =
     (if wflag fs \<noteq> 0
      then
        (let (r, w) = disk_write hal (win fs) (winsect fs) (disk fs);
             fs = fs\<lparr>disk := w\<rparr>
         in if r = RES_OK
            then
              (let fs = fs\<lparr>wflag := 0\<rparr>
               in if winsect fs - fatbase fs < fsize fs \<and> n_fats fs = 2
                  then (FR_OK, fs\<lparr>disk := snd (disk_write hal (win fs) (winsect fs + fsize fs) (disk fs))\<rparr>)
                  else (FR_OK, fs))
            else (FR_DISK_ERR, fs))
      else (FR_OK, fs))"

definition move_window ::
  "('w, 'h) disk_hal_scheme \<Rightarrow> u32 \<Rightarrow> ('w, 's) FATFS_scheme \<Rightarrow> FRESULT \<times> ('w, 's) FATFS_scheme" where
  "move_window hal sector fs =
     (if sector \<noteq> winsect fs
      then
        (let (res, fs) = sync_window hal fs
         in if res = FR_OK
            then
              (let (r, b, w) = disk_read hal sector (disk fs);
                   fs = fs\<lparr>disk := w, win := b\<rparr>
               in if r \<noteq> RES_OK then (FR_DISK_ERR, fs\<lparr>winsect := 0xFFFFFFFF\<rparr>)
                  else (FR_OK, fs\<lparr>winsect := sector\<rparr>))
            else (res, fs))
      else (FR_OK, fs))"

definition sync_fs :: "('w, 'h) disk_hal_scheme \<Rightarrow> ('w, 's) FATFS_scheme \<Rightarrow> FRESULT \<times> ('w, 's) FATFS_scheme" where
  "sync_fs hal fs =
     (let (res, fs) = sync_window hal fs
      in if res = FR_OK
         then
           (let fs =
              (if fs_type fs = FS_FAT32 \<and> fsi_flag fs = 1
               then
                 (let b = st_word 510 0xAA55 (replicate SS 0);
                      b = st_dword 0 0x41615252 b;
                      b = st_dword 484 0x61417272 b;
                      b = st_dword 488 (free_clst fs) b;
                      b = st_dword 492 (last_clst fs) b;
                      fs = fs\<lparr>win := b, winsect := volbase fs + 1\<rparr>
                  in fs\<lparr>disk := snd (disk_write hal (win fs) (winsect fs) (disk fs)), fsi_flag := 0\<rparr>)
               else fs);
                (r, w) = disk_ioctl_sync hal (disk fs)
            in (if r \<noteq> RES_OK then FR_DISK_ERR else FR_OK, fs\<lparr>disk := w\<rparr>))
         else (res, fs))"

section \<open>Entries of the FAT\<close>

definition clst2sect :: "('w, 's) FATFS_scheme \<Rightarrow> u32 \<Rightarrow> u32" where
  "clst2sect fs clst =
     (let clst = clst - 2
      in if clst \<ge> n_fatent fs - 2 then 0 else database fs + ucast (csize fs) * clst)"

text \<open>Byte \<open>bc\<close> of the FAT, through the window.\<close>

definition fat_byte ::
  "('w, 'h) disk_hal_scheme \<Rightarrow> u32 \<Rightarrow> ('w, 's) FATFS_scheme \<Rightarrow> FRESULT \<times> u8 \<times> ('w, 's) FATFS_scheme" where
  "fat_byte hal bc fs =
     (let (res, fs) = move_window hal (fatbase fs + bc div of_nat SS) fs in (res, win fs ! (unat bc mod SS), fs))"

definition get_fat ::
  "('w, 'h) disk_hal_scheme \<Rightarrow> FFOBJID \<Rightarrow> u32 \<Rightarrow> ('w, 's) FATFS_scheme \<Rightarrow> u32 \<times> ('w, 's) FATFS_scheme" where
  "get_fat hal obj clst fs =
     (if clst < 2 \<or> clst \<ge> n_fatent fs then (1, fs)
      else if fs_type fs = FS_FAT12
      then
        (let bc = clst + clst div 2;
             (res, lo, fs) = fat_byte hal bc fs
         in if res \<noteq> FR_OK then (0xFFFFFFFF, fs)
            else
              (let (res, hi, fs) = fat_byte hal (bc + 1) fs
               in if res \<noteq> FR_OK then (0xFFFFFFFF, fs)
                  else
                    (let wc = ucast lo OR push_bit 8 (ucast hi :: u32)
                     in (if clst AND 1 \<noteq> 0 then drop_bit 4 wc else wc AND 0xFFF, fs))))
      else if fs_type fs = FS_FAT16
      then
        (let (res, fs) = move_window hal (fatbase fs + clst div of_nat (SS div 2)) fs
         in if res \<noteq> FR_OK then (0xFFFFFFFF, fs) else (ucast (ld_word (win fs) (unat (clst * 2) mod SS)), fs))
      else if fs_type fs = FS_FAT32
      then
        (let (res, fs) = move_window hal (fatbase fs + clst div of_nat (SS div 4)) fs
         in if res \<noteq> FR_OK then (0xFFFFFFFF, fs) else (ld_dword (win fs) (unat (clst * 4) mod SS) AND 0x0FFFFFFF, fs))
      else if fs_type fs = FS_EXFAT \<and> objsize obj \<noteq> 0
      then
        (let cofs = clst - sclust obj;
             clen = ucast ((objsize obj - 1) div of_nat SS) div ucast (csize fs)
         in if stat obj = 2 \<and> cofs \<le> clen then (if cofs = clen then 0x7FFFFFFF else clst + 1, fs)
            else if stat obj = 3 \<and> cofs < n_cont obj then (clst + 1, fs)
            else if stat obj \<noteq> 2
            then
              (if n_frag obj \<noteq> 0 then (0x7FFFFFFF, fs)
               else
                 (let (res, fs) = move_window hal (fatbase fs + clst div of_nat (SS div 4)) fs
                  in if res \<noteq> FR_OK then (0xFFFFFFFF, fs) else (ld_dword (win fs) (unat (clst * 4) mod SS) AND 0x7FFFFFFF, fs)))
            else (1, fs))
      else (1, fs))"

text \<open>Changing a byte of the window marks it as changed.\<close>

definition put_win :: "nat \<Rightarrow> u8 \<Rightarrow> ('w, 's) FATFS_scheme \<Rightarrow> ('w, 's) FATFS_scheme" where
  "put_win i b fs = fs\<lparr>win := (win fs)[i := b], wflag := 1\<rparr>"

definition put_fat ::
  "('w, 'h) disk_hal_scheme \<Rightarrow> u32 \<Rightarrow> u32 \<Rightarrow> ('w, 's) FATFS_scheme \<Rightarrow> FRESULT \<times> ('w, 's) FATFS_scheme" where
  "put_fat hal clst val fs =
     (if clst \<ge> 2 \<and> clst < n_fatent fs
      then
        (if fs_type fs = FS_FAT12
         then
           (let bc = clst + clst div 2;
                (res, p, fs) = fat_byte hal bc fs
            in if res \<noteq> FR_OK then (res, fs)
               else
                 (let fs = put_win (unat bc mod SS)
                        (if clst AND 1 \<noteq> 0 then (p AND 0x0F) OR push_bit 4 (ucast val) else ucast val) fs;
                      bc = bc + 1;
                      (res, p, fs) = fat_byte hal bc fs
                  in if res \<noteq> FR_OK then (res, fs)
                     else
                       (FR_OK, put_win (unat bc mod SS)
                          (if clst AND 1 \<noteq> 0 then ucast (drop_bit 4 val)
                           else (p AND 0xF0) OR (ucast (drop_bit 8 val) AND 0x0F)) fs)))
         else if fs_type fs = FS_FAT16
         then
           (let (res, fs) = move_window hal (fatbase fs + clst div of_nat (SS div 2)) fs
            in if res \<noteq> FR_OK then (res, fs)
               else (FR_OK, fs\<lparr>win := st_word (unat (clst * 2) mod SS) (ucast val) (win fs), wflag := 1\<rparr>))
         else if fs_type fs = FS_FAT32 \<or> fs_type fs = FS_EXFAT
         then
           (let (res, fs) = move_window hal (fatbase fs + clst div of_nat (SS div 4)) fs
            in if res \<noteq> FR_OK then (res, fs)
               else
                 (let i = unat (clst * 4) mod SS;
                      val = (if fs_type fs \<noteq> FS_EXFAT
                             then (val AND 0x0FFFFFFF) OR (ld_dword (win fs) i AND 0xF0000000) else val)
                  in (FR_OK, fs\<lparr>win := st_dword i val (win fs), wflag := 1\<rparr>)))
         else (FR_INT_ERR, fs))
      else (FR_INT_ERR, fs))"

section \<open>The allocation bitmap of exFAT\<close>

text \<open>The scan for \<open>ncl\<close> free clusters in a row; \<open>None\<close> in place of the position in the window makes the outer loop
  fetch the sector.\<close>

definition bitmap_at :: "('w, 'h) disk_hal_scheme \<Rightarrow> u32 \<Rightarrow> ('w, 's) FATFS_scheme \<Rightarrow> FRESULT \<times> ('w, 's) FATFS_scheme" where
  "bitmap_at hal val fs = move_window hal (database fs + val div 8 div of_nat SS) fs"

partial_function (option) scan_bitmap ::
  "('w, 'h) disk_hal_scheme \<Rightarrow> u32 \<Rightarrow> u32 \<Rightarrow> (nat \<times> u8) option \<Rightarrow> u32 \<Rightarrow> u32 \<Rightarrow> u32 \<Rightarrow> ('w, 's) FATFS_scheme
     \<Rightarrow> (u32 \<times> ('w, 's) FATFS_scheme) option" where
  "scan_bitmap hal clst ncl pos val scl ctr fs =
     (let (res, fs) = (if pos = None then bitmap_at hal val fs else (FR_OK, fs))
      in if res \<noteq> FR_OK then Some (0xFFFFFFFF, fs)
         else
           (let (i, bm) = (case pos of None \<Rightarrow> (unat (val div 8) mod SS, push_bit (unat (val mod 8)) 1) | Some p \<Rightarrow> p);
                bv = win fs ! i AND bm;
                bm = push_bit 1 bm;
                val = val + 1;
                (val, bm, i) = (if val \<ge> n_fatent fs - 2 then (0, 0, SS) else (val, bm, i))
            in if bv = 0 \<and> ctr + 1 = ncl then Some (scl + 2, fs)
               else
                 (let (scl, ctr) = (if bv = 0 then (scl, ctr + 1) else (val, 0))
                  in if val = clst then Some (0, fs)
                     else scan_bitmap hal clst ncl
                            (if bm \<noteq> 0 then Some (i, bm) else if i + 1 < SS then Some (i + 1, 1) else None) val scl ctr fs)))"

definition find_bitmap ::
  "('w, 'h) disk_hal_scheme \<Rightarrow> u32 \<Rightarrow> u32 \<Rightarrow> ('w, 's) FATFS_scheme \<Rightarrow> (u32 \<times> ('w, 's) FATFS_scheme) option" where
  "find_bitmap hal clst ncl fs =
     (let clst = clst - 2;
          clst = (if clst \<ge> n_fatent fs - 2 then 0 else clst)
      in scan_bitmap hal clst ncl None clst clst 0 fs)"

lemma unat_countdown: "x \<noteq> 1 \<Longrightarrow> unat (x - 2) < unat (x - 1)" for x :: u32
  using unat_minus_one [of "x - 1"] by (auto simp: algebra_simps unat_gt_0 diff_eq_eq)

text \<open>The bits of a block, one after the other; \<open>fresh\<close> tells that the sector has to be fetched.\<close>

function change_bits ::
  "('w, 'h) disk_hal_scheme \<Rightarrow> bool \<Rightarrow> bool \<Rightarrow> u32 \<Rightarrow> nat \<Rightarrow> u8 \<Rightarrow> u32 \<Rightarrow> ('w, 's) FATFS_scheme \<Rightarrow> FRESULT \<times> ('w, 's) FATFS_scheme" where
  "change_bits hal bv fresh sect i bm ncl fs =
     (let (res, fs) = (if fresh then move_window hal sect fs else (FR_OK, fs))
      in if res \<noteq> FR_OK then (FR_DISK_ERR, fs)
         else if bv = (win fs ! i AND bm \<noteq> 0) then (FR_INT_ERR, fs)
         else
           (let fs = put_win i (win fs ! i XOR bm) fs
            in if ncl = 1 then (FR_OK, fs)
               else if push_bit 1 bm \<noteq> 0 then change_bits hal bv False sect i (push_bit 1 bm) (ncl - 1) fs
               else if i + 1 < SS then change_bits hal bv False sect (i + 1) 1 (ncl - 1) fs
               else change_bits hal bv True (sect + 1) 0 1 (ncl - 1) fs))"
  by pat_completeness auto
termination
proof (relation "measure (\<lambda>(hal, bv, fresh, sect, i, bm, ncl, fs). unat (ncl - 1))")
  show "wf (measure (\<lambda>(hal :: ('w, 'h) disk_hal_scheme, bv :: bool, fresh :: bool, sect :: u32, i :: nat, bm :: u8, ncl :: u32,
      fs :: ('w, 's) FATFS_scheme). unat (ncl - 1)))"
    by simp
qed (auto simp: unat_countdown)

declare change_bits.simps [simp del]

definition change_bitmap ::
  "('w, 'h) disk_hal_scheme \<Rightarrow> u32 \<Rightarrow> u32 \<Rightarrow> bool \<Rightarrow> ('w, 's) FATFS_scheme \<Rightarrow> FRESULT \<times> ('w, 's) FATFS_scheme" where
  "change_bitmap hal clst ncl bv fs =
     (let clst = clst - 2
      in change_bits hal bv True (database fs + clst div 8 div of_nat SS) (unat (clst div 8) mod SS)
           (push_bit (unat (clst mod 8)) 1) ncl fs)"

section \<open>Cluster chains\<close>

text \<open>Writing the pending parts of the chain of an exFAT object to the FAT.\<close>

fun fill_first ::
  "('w, 'h) disk_hal_scheme \<Rightarrow> nat \<Rightarrow> u32 \<Rightarrow> ('w, 's) FATFS_scheme \<Rightarrow> FRESULT \<times> ('w, 's) FATFS_scheme" where
  "fill_first hal 0 cl fs = (FR_OK, fs)"
| "fill_first hal (Suc n) cl fs =
     (let (res, fs) = put_fat hal cl (cl + 1) fs in if res \<noteq> FR_OK then (res, fs) else fill_first hal n (cl + 1) fs)"

definition fill_first_frag ::
  "('w, 'h) disk_hal_scheme \<Rightarrow> FFOBJID \<Rightarrow> ('w, 's) FATFS_scheme \<Rightarrow> FRESULT \<times> FFOBJID \<times> ('w, 's) FATFS_scheme" where
  "fill_first_frag hal obj fs =
     (if stat obj = 3
      then
        (let (res, fs) = fill_first hal (unat (n_cont obj)) (sclust obj) fs
         in if res \<noteq> FR_OK then (res, obj, fs) else (FR_OK, obj\<lparr>stat := 0\<rparr>, fs))
      else (FR_OK, obj, fs))"

fun fill_last ::
  "('w, 'h) disk_hal_scheme \<Rightarrow> nat \<Rightarrow> u32 \<Rightarrow> u32 \<Rightarrow> ('w, 's) FATFS_scheme \<Rightarrow> FRESULT \<times> nat \<times> ('w, 's) FATFS_scheme" where
  "fill_last hal 0 lcl tm fs = (FR_OK, 0, fs)"
| "fill_last hal (Suc n) lcl tm fs =
     (let (res, fs) = put_fat hal (lcl - of_nat (Suc n) + 1) (if Suc n > 1 then lcl - of_nat (Suc n) + 2 else tm) fs
      in if res \<noteq> FR_OK then (res, Suc n, fs) else fill_last hal n lcl tm fs)"

definition fill_last_frag ::
  "('w, 'h) disk_hal_scheme \<Rightarrow> FFOBJID \<Rightarrow> u32 \<Rightarrow> u32 \<Rightarrow> ('w, 's) FATFS_scheme \<Rightarrow> FRESULT \<times> FFOBJID \<times> ('w, 's) FATFS_scheme" where
  "fill_last_frag hal obj lcl tm fs =
     (let (res, n, fs) = fill_last hal (unat (n_frag obj)) lcl tm fs in (res, obj\<lparr>n_frag := of_nat n\<rparr>, fs))"

text \<open>One round of the loop of \<open>remove_chain\<close>: the next cluster with the block of contiguous clusters seen so far, or the
  end.\<close>

definition remove_round ::
  "('w, 'h) disk_hal_scheme \<Rightarrow> FFOBJID \<Rightarrow> u32 \<times> u32 \<times> u32 \<times> ('w, 's) FATFS_scheme
     \<Rightarrow> u32 \<times> u32 \<times> u32 \<times> ('w, 's) FATFS_scheme + FRESULT \<times> ('w, 's) FATFS_scheme" where
  "remove_round hal obj = (\<lambda>(clst, scl, ecl, fs).
     let (nxt, fs) = get_fat hal obj clst fs
     in if nxt = 0 then Inr (FR_OK, fs)
        else if nxt = 1 then Inr (FR_INT_ERR, fs)
        else if nxt = 0xFFFFFFFF then Inr (FR_DISK_ERR, fs)
        else
          (let (res, fs) = (if fs_type fs \<noteq> FS_EXFAT then put_fat hal clst 0 fs else (FR_OK, fs))
           in if res \<noteq> FR_OK then Inr (res, fs)
              else
                (let fs = (if free_clst fs < n_fatent fs - 2
                           then fs\<lparr>free_clst := free_clst fs + 1, fsi_flag := fsi_flag fs OR 1\<rparr> else fs);
                     (res, scl, ecl, fs) =
                       (if ecl + 1 = nxt then (FR_OK, scl, nxt, fs)
                        else
                          (let (res, fs) = (if fs_type fs = FS_EXFAT then change_bitmap hal scl (ecl - scl + 1) False fs
                                            else (FR_OK, fs))
                           in (res, nxt, nxt, fs)))
                 in if res \<noteq> FR_OK then Inr (res, fs)
                    else if nxt < n_fatent fs then Inl (nxt, scl, ecl, fs) else Inr (FR_OK, fs))))"

partial_function (option) remove_loop ::
  "('w, 'h) disk_hal_scheme \<Rightarrow> FFOBJID \<Rightarrow> u32 \<times> u32 \<times> u32 \<times> ('w, 's) FATFS_scheme
     \<Rightarrow> (FRESULT \<times> ('w, 's) FATFS_scheme) option" where
  "remove_loop hal obj x = (case remove_round hal obj x of Inl y \<Rightarrow> remove_loop hal obj y | Inr r \<Rightarrow> Some r)"

text \<open>Following a chain of an exFAT object to see whether it is contiguous.\<close>

partial_function (option) follow_chain ::
  "('w, 'h) disk_hal_scheme \<Rightarrow> FFOBJID \<Rightarrow> u32 \<Rightarrow> u32 \<Rightarrow> ('w, 's) FATFS_scheme \<Rightarrow> (FRESULT \<times> u32 \<times> ('w, 's) FATFS_scheme) option" where
  "follow_chain hal obj clst pclst fs =
     (if clst = pclst then Some (FR_OK, clst, fs)
      else
        (let (nxt, fs) = get_fat hal obj clst fs
         in if nxt < 2 then Some (FR_INT_ERR, clst, fs)
            else if nxt = 0xFFFFFFFF then Some (FR_DISK_ERR, clst, fs)
            else if nxt \<noteq> clst + 1 then Some (FR_OK, clst, fs)
            else follow_chain hal obj (clst + 1) pclst fs))"

definition chain_status ::
  "('w, 'h) disk_hal_scheme \<Rightarrow> FFOBJID \<Rightarrow> u32 \<Rightarrow> ('w, 's) FATFS_scheme \<Rightarrow> (FRESULT \<times> FFOBJID \<times> ('w, 's) FATFS_scheme) option" where
  "chain_status hal obj pclst fs =
     (if fs_type fs \<noteq> FS_EXFAT then Some (FR_OK, obj, fs)
      else if pclst = 0 then Some (FR_OK, obj\<lparr>stat := 0\<rparr>, fs)
      else if stat obj = 0
      then
        (case follow_chain hal obj (sclust obj) pclst fs of
           None \<Rightarrow> None
         | Some (res, clst, fs) \<Rightarrow>
             if res \<noteq> FR_OK then Some (res, obj, fs)
             else Some (FR_OK, if clst = pclst then obj\<lparr>stat := 2\<rparr> else obj, fs))
      else if stat obj = 3 \<and> pclst \<ge> sclust obj \<and> pclst \<le> sclust obj + n_cont obj
      then Some (FR_OK, obj\<lparr>stat := 2\<rparr>, fs)
      else Some (FR_OK, obj, fs))"

definition remove_chain ::
  "('w, 'h) disk_hal_scheme \<Rightarrow> FFOBJID \<Rightarrow> u32 \<Rightarrow> u32 \<Rightarrow> ('w, 's) FATFS_scheme \<Rightarrow> (FRESULT \<times> FFOBJID \<times> ('w, 's) FATFS_scheme) option" where
  "remove_chain hal obj clst pclst fs =
     (if clst < 2 \<or> clst \<ge> n_fatent fs then Some (FR_INT_ERR, obj, fs)
      else
        (let (res, fs) = (if pclst \<noteq> 0 \<and> (fs_type fs \<noteq> FS_EXFAT \<or> stat obj \<noteq> 2) then put_fat hal pclst 0xFFFFFFFF fs else (FR_OK, fs))
         in if res \<noteq> FR_OK then Some (res, obj, fs)
            else
              (case remove_loop hal obj (clst, clst, clst, fs) of
                 None \<Rightarrow> None
               | Some (res, fs) \<Rightarrow> if res \<noteq> FR_OK then Some (res, obj, fs) else chain_status hal obj pclst fs)))"

text \<open>The search for a free cluster behind \<open>scl\<close>: whether one was found, and the cluster or the value to return.\<close>

partial_function (option) find_free ::
  "('w, 'h) disk_hal_scheme \<Rightarrow> FFOBJID \<Rightarrow> u32 \<Rightarrow> u32 \<Rightarrow> ('w, 's) FATFS_scheme \<Rightarrow> (bool \<times> u32 \<times> ('w, 's) FATFS_scheme) option" where
  "find_free hal obj scl ncl fs =
     (let wrap = ncl + 1 \<ge> n_fatent fs;
          ncl = (if wrap then 2 else ncl + 1)
      in if wrap \<and> ncl > scl then Some (False, 0, fs)
         else
           (let (cs, fs) = get_fat hal obj ncl fs
            in if cs = 0 then Some (True, ncl, fs)
               else if cs = 1 \<or> cs = 0xFFFFFFFF then Some (False, cs, fs)
               else if ncl = scl then Some (False, 0, fs)
               else find_free hal obj scl ncl fs))"

text \<open>The new cluster on a FAT volume: the one behind \<open>clst\<close> if it is free, or the next free one.\<close>

definition find_cluster ::
  "('w, 'h) disk_hal_scheme \<Rightarrow> FFOBJID \<Rightarrow> u32 \<Rightarrow> u32 \<Rightarrow> ('w, 's) FATFS_scheme \<Rightarrow> (bool \<times> u32 \<times> ('w, 's) FATFS_scheme) option" where
  "find_cluster hal obj clst scl fs =
     (if scl = clst
      then
        (let ncl = (if scl + 1 \<ge> n_fatent fs then 2 else scl + 1);
             (cs, fs) = get_fat hal obj ncl fs
         in if cs = 1 \<or> cs = 0xFFFFFFFF then Some (False, cs, fs)
            else if cs \<noteq> 0
            then
              (let scl = (if last_clst fs \<ge> 2 \<and> last_clst fs < n_fatent fs then last_clst fs else scl)
               in find_free hal obj scl scl fs)
            else Some (True, ncl, fs))
      else find_free hal obj scl scl fs)"

text \<open>The new cluster on an exFAT volume, marked in the bitmap, and the status of the object.\<close>

definition exfat_cluster ::
  "('w, 'h) disk_hal_scheme \<Rightarrow> FFOBJID \<Rightarrow> u32 \<Rightarrow> u32 \<Rightarrow> ('w, 's) FATFS_scheme
     \<Rightarrow> ((u32 + FRESULT \<times> u32) \<times> FFOBJID \<times> ('w, 's) FATFS_scheme) option" where
  "exfat_cluster hal obj clst scl fs =
     (case find_bitmap hal scl 1 fs of
        None \<Rightarrow> None
      | Some (ncl, fs) \<Rightarrow>
          if ncl = 0 \<or> ncl = 0xFFFFFFFF then Some (Inl ncl, obj, fs)
          else
            (let (res, fs) = change_bitmap hal ncl 1 True fs
             in if res = FR_INT_ERR then Some (Inl 1, obj, fs)
                else if res = FR_DISK_ERR then Some (Inl 0xFFFFFFFF, obj, fs)
                else
                  (let obj =
                     (if clst = 0 then obj\<lparr>stat := 2\<rparr>
                      else if stat obj = 2 \<and> ncl \<noteq> scl + 1 then obj\<lparr>n_cont := scl - sclust obj, stat := 3\<rparr> else obj)
                   in if stat obj \<noteq> 2
                      then
                        (if ncl = clst + 1
                         then Some (Inr (res, ncl), obj\<lparr>n_frag := (if n_frag obj \<noteq> 0 then n_frag obj + 1 else 2)\<rparr>, fs)
                         else
                           (let obj = (if n_frag obj = 0 then obj\<lparr>n_frag := 1\<rparr> else obj);
                                (res, obj, fs) = fill_last_frag hal obj clst ncl fs
                            in Some (Inr (res, ncl), if res = FR_OK then obj\<lparr>n_frag := 1\<rparr> else obj, fs)))
                      else Some (Inr (res, ncl), obj, fs))))"

text \<open>The end of \<open>create_chain\<close>: the counters of the volume and the value to return.\<close>

definition chain_created :: "FRESULT \<Rightarrow> u32 \<Rightarrow> ('w, 's) FATFS_scheme \<Rightarrow> u32 \<times> ('w, 's) FATFS_scheme" where
  "chain_created res ncl fs =
     (if res = FR_OK
      then
        (let fs = fs\<lparr>last_clst := ncl\<rparr>;
             fs = (if free_clst fs \<le> n_fatent fs - 2 then fs\<lparr>free_clst := free_clst fs - 1\<rparr> else fs)
         in (ncl, fs\<lparr>fsi_flag := fsi_flag fs OR 1\<rparr>))
      else (if res = FR_DISK_ERR then 0xFFFFFFFF else 1, fs))"

text \<open>On a FAT volume: marking the new cluster as the end of the chain and linking it, and the whole branch.\<close>

definition link_cluster ::
  "('w, 'h) disk_hal_scheme \<Rightarrow> u32 \<Rightarrow> u32 \<Rightarrow> ('w, 's) FATFS_scheme \<Rightarrow> FRESULT \<times> ('w, 's) FATFS_scheme" where
  "link_cluster hal clst ncl fs =
     (let (res, fs) = put_fat hal ncl 0xFFFFFFFF fs
      in if res = FR_OK \<and> clst \<noteq> 0 then put_fat hal clst ncl fs else (res, fs))"

definition fat_cluster ::
  "('w, 'h) disk_hal_scheme \<Rightarrow> FFOBJID \<Rightarrow> u32 \<Rightarrow> u32 \<Rightarrow> ('w, 's) FATFS_scheme \<Rightarrow> (u32 \<times> FFOBJID \<times> ('w, 's) FATFS_scheme) option" where
  "fat_cluster hal obj clst scl fs =
     (case find_cluster hal obj clst scl fs of
        None \<Rightarrow> None
      | Some (found, ncl, fs) \<Rightarrow>
          if found
          then
            (let (res, fs) = link_cluster hal clst ncl fs;
                 (c, fs) = chain_created res ncl fs
             in Some (c, obj, fs))
          else Some (ncl, obj, fs))"

definition create_chain ::
  "('w, 'h) disk_hal_scheme \<Rightarrow> FFOBJID \<Rightarrow> u32 \<Rightarrow> ('w, 's) FATFS_scheme \<Rightarrow> (u32 \<times> FFOBJID \<times> ('w, 's) FATFS_scheme) option" where
  "create_chain hal obj clst fs =
     (let (r, scl, fs) =
        (if clst = 0
         then (None, if last_clst fs = 0 \<or> last_clst fs \<ge> n_fatent fs then 1 else last_clst fs, fs)
         else
           (let (cs, fs) = get_fat hal obj clst fs
            in (if cs < 2 then Some 1 else if cs = 0xFFFFFFFF then Some cs else if cs < n_fatent fs then Some cs else None, clst, fs)))
      in case r of
           Some cs \<Rightarrow> Some (cs, obj, fs)
         | None \<Rightarrow>
             if free_clst fs = 0 then Some (0, obj, fs)
             else if fs_type fs = FS_EXFAT
             then
               (case exfat_cluster hal obj clst scl fs of
                  None \<Rightarrow> None
                | Some (Inl cs, obj, fs) \<Rightarrow> Some (cs, obj, fs)
                | Some (Inr (res, ncl), obj, fs) \<Rightarrow> (let (c, fs) = chain_created res ncl fs in Some (c, obj, fs)))
             else
               fat_cluster hal obj clst scl fs)"

end
