(* ===== verification/Fat_Table.thy ===== *)
theory Fat_Table
  imports Fat_Volume
begin

text \<open>
  The file allocation table as an array. Seen through the window, the bytes of the first FAT are a function, and
  \<open>get_fat\<close> and \<open>put_fat\<close> read and change its entries; the three entry formats meet the same interface, the locale
  \<open>fat_array\<close>. On top of it the chains: \<open>remove_chain\<close> frees the clusters of a chain, and \<open>create_chain\<close> appends a
  free cluster.
\<close>

section \<open>Entry formats\<close>

locale fat_array =
  fixes get :: "(nat \<Rightarrow> u8) \<Rightarrow> nat \<Rightarrow> u32"
    and put :: "nat \<Rightarrow> u32 \<Rightarrow> (nat \<Rightarrow> u8) \<Rightarrow> nat \<Rightarrow> u8"
    and wide :: u32
  assumes get_put: "get (put c x f) c = x AND wide"
    and get_put_other: "c \<noteq> d \<Longrightarrow> get (put c x f) d = get f d"
    and get_wide: "get f c AND wide = get f c"
begin

lemma get_put_fun: "get (put c x f) = (get f)(c := x AND wide)"
  by (auto simp: get_put get_put_other)

lemma get_le: "get f c \<le> wide"
  by (metis get_wide word_and_le1)

end

definition get12 :: "(nat \<Rightarrow> u8) \<Rightarrow> nat \<Rightarrow> u32" where
  "get12 f c =
     (let wc = ucast (f (c + c div 2)) OR push_bit 8 (ucast (f (c + c div 2 + 1)))
      in if odd c then drop_bit 4 wc else wc AND 0xFFF)"

definition put12 :: "nat \<Rightarrow> u32 \<Rightarrow> (nat \<Rightarrow> u8) \<Rightarrow> nat \<Rightarrow> u8" where
  "put12 c x f =
     (let i = c + c div 2
      in f(i := if odd c then (f i AND 0x0F) OR push_bit 4 (ucast x) else ucast x,
           i + 1 := if odd c then ucast (drop_bit 4 x) else (f (i + 1) AND 0xF0) OR (ucast (drop_bit 8 x) AND 0x0F)))"

definition get16 :: "(nat \<Rightarrow> u8) \<Rightarrow> nat \<Rightarrow> u32" where
  "get16 f c = ucast (push_bit 8 (ucast (f (2 * c + 1))) OR ucast (f (2 * c)) :: u16)"

definition put16 :: "nat \<Rightarrow> u32 \<Rightarrow> (nat \<Rightarrow> u8) \<Rightarrow> nat \<Rightarrow> u8" where
  "put16 c x f = (let x = ucast x :: u16 in f(2 * c := ucast x, 2 * c + 1 := ucast (drop_bit 8 x)))"

definition dword_at :: "(nat \<Rightarrow> u8) \<Rightarrow> nat \<Rightarrow> u32" where
  "dword_at f i =
     push_bit 8 (push_bit 8 (push_bit 8 (ucast (f (i + 3))) OR ucast (f (i + 2))) OR ucast (f (i + 1))) OR ucast (f i)"

definition dword_put :: "nat \<Rightarrow> u32 \<Rightarrow> (nat \<Rightarrow> u8) \<Rightarrow> nat \<Rightarrow> u8" where
  "dword_put i x f =
     f(i := ucast x, i + 1 := ucast (drop_bit 8 x), i + 2 := ucast (drop_bit 16 x), i + 3 := ucast (drop_bit 24 x))"

definition get32 :: "(nat \<Rightarrow> u8) \<Rightarrow> nat \<Rightarrow> u32" where
  "get32 f c = dword_at f (4 * c) AND 0x0FFFFFFF"

definition put32 :: "nat \<Rightarrow> u32 \<Rightarrow> (nat \<Rightarrow> u8) \<Rightarrow> nat \<Rightarrow> u8" where
  "put32 c x f = dword_put (4 * c) ((x AND 0x0FFFFFFF) OR (dword_at f (4 * c) AND 0xF0000000)) f"

lemma masks:
  "(0xFFF :: u32) = mask 12" "(0x0F :: u8) = mask 4" "(0xF0 :: u8) = push_bit 4 (mask 4)" "(0xFFFF :: u32) = mask 16"
  "(0x0FFFFFFF :: u32) = mask 28" "(0xF0000000 :: u32) = push_bit 28 (mask 4)" "(0xFFFFFFFF :: u32) = mask 32"
  by (simp_all add: mask_eq_exp_minus_1)

text \<open>In a FAT12 table the byte between an even entry and the next holds half of each.\<close>

lemma fat12_gap:
  fixes c d :: nat
  assumes "c < d"
  shows "even c \<and> d = c + 1 \<or> c + c div 2 + 1 < d + d div 2"
proof (cases "d = c + 1")
  case True
  then show ?thesis
    by (cases "even c") (auto elim!: evenE oddE)
next
  case False
  then have "(c + 2) div 2 \<le> d div 2"
    using assms by (intro div_le_mono) simp
  then show ?thesis
    using assms by simp
qed

lemma shared_byte:
  fixes p q r :: u8
  shows "(ucast r OR push_bit 8 (ucast ((p AND 0x0F) OR push_bit 4 q))) AND 0xFFF = (ucast r OR push_bit 8 (ucast p)) AND (0xFFF :: u32)"
    and "drop_bit 4 (ucast ((p AND 0xF0) OR (q AND 0x0F)) OR push_bit 8 (ucast r)) = drop_bit 4 (ucast p OR push_bit 8 (ucast r) :: u32)"
proof -
  show "(ucast r OR push_bit 8 (ucast ((p AND 0x0F) OR push_bit 4 q))) AND 0xFFF = (ucast r OR push_bit 8 (ucast p)) AND (0xFFF :: u32)"
    unfolding masks by (rule bit_word_eqI) (auto simp: bit_simps)
  have "n < 4 \<and> n < 8" if "bit p (4 + n)" for n
    using bit_imp_le_length [OF that] by simp
  then show "drop_bit 4 (ucast ((p AND 0xF0) OR (q AND 0x0F)) OR push_bit 8 (ucast r)) = drop_bit 4 (ucast p OR push_bit 8 (ucast r) :: u32)"
    unfolding masks drop_bit_or by (intro arg_cong2 [where f = "(OR)"] bit_word_eqI) (auto simp: bit_simps)
qed

lemma own_bytes:
  fixes p :: u8 and x :: u32
  shows "drop_bit 4 (ucast ((p AND 0x0F) OR push_bit 4 (ucast x)) OR push_bit 8 (ucast (ucast (drop_bit 4 x) :: u8))) = x AND 0xFFF"
    and "(ucast (ucast x :: u8) OR push_bit 8 (ucast ((p AND 0xF0) OR (ucast (drop_bit 8 x) AND 0x0F)))) AND 0xFFF = x AND (0xFFF :: u32)"
  unfolding masks by (rule bit_word_eqI; auto simp: bit_simps less_diff_conv2)+

lemma get12_even: "even c \<Longrightarrow> get12 f c = (ucast (f (c + c div 2)) OR push_bit 8 (ucast (f (c + c div 2 + 1)))) AND 0xFFF"
  by (simp only: get12_def Let_def not_True_eq_False if_False)

lemma get12_odd: "odd c \<Longrightarrow> get12 f c = drop_bit 4 (ucast (f (c + c div 2)) OR push_bit 8 (ucast (f (c + c div 2 + 1))))"
  by (simp only: get12_def Let_def not_False_eq_True if_True)

lemma put12_bytes:
  "odd c \<Longrightarrow> put12 c x f (c + c div 2) = (f (c + c div 2) AND 0x0F) OR push_bit 4 (ucast x)"
  "odd c \<Longrightarrow> put12 c x f (c + c div 2 + 1) = ucast (drop_bit 4 x)"
  "even c \<Longrightarrow> put12 c x f (c + c div 2) = ucast x"
  "even c \<Longrightarrow> put12 c x f (c + c div 2 + 1) = (f (c + c div 2 + 1) AND 0xF0) OR (ucast (drop_bit 8 x) AND 0x0F)"
  "i \<noteq> c + c div 2 \<Longrightarrow> i \<noteq> c + c div 2 + 1 \<Longrightarrow> put12 c x f i = f i"
  by (simp_all add: put12_def Let_def)

lemma get12_put12_other:
  assumes "c \<noteq> d"
  shows "get12 (put12 c x f) d = get12 f d"
proof -
  have "(d + d div 2 + 1 < c + c div 2 \<or> c + c div 2 + 1 < d + d div 2) \<or> even d \<and> c = d + 1 \<or> even c \<and> d = c + 1"
    using fat12_gap [of c d] fat12_gap [of d c] assms by linarith
  then consider "d + d div 2 + 1 < c + c div 2 \<or> c + c div 2 + 1 < d + d div 2" | "even d" "c = d + 1" | "even c" "d = c + 1"
    by blast
  then show ?thesis
  proof cases
    case 1
    then show ?thesis
      by (auto simp: get12_def put12_def Let_def)
  next
    case 2
    then have c: "d + d div 2 + 1 = c + c div 2" "odd c" "d + d div 2 \<noteq> c + c div 2" "d + d div 2 \<noteq> c + c div 2 + 1"
      by auto
    show ?thesis
      unfolding get12_even [OF 2(1)] c(1) put12_bytes(1) [OF c(2)] put12_bytes(5) [OF c(3,4)] by (rule shared_byte)
  next
    case 3
    then have d: "d + d div 2 = c + c div 2 + 1" "odd d" "d + d div 2 + 1 \<noteq> c + c div 2" "d + d div 2 + 1 \<noteq> c + c div 2 + 1"
      by auto
    show ?thesis
      unfolding get12_odd [OF d(2)] put12_bytes(5) [OF d(3,4)] unfolding d(1) put12_bytes(4) [OF 3(1)] by (rule shared_byte)
  qed
qed

interpretation fat12: fat_array get12 put12 "0xFFF"
proof
  show "get12 (put12 c x f) c = x AND 0xFFF" for c x f
  proof (cases "even c")
    case True
    show ?thesis
      unfolding get12_even [OF True] put12_bytes(3,4) [OF True] by (rule own_bytes)
  next
    case False
    show ?thesis
      unfolding get12_odd [OF False] put12_bytes(1,2) [OF False] by (rule own_bytes)
  qed
  show "get12 f c AND 0xFFF = get12 f c" for f c
    unfolding get12_def masks by (rule bit_word_eqI) (auto simp: bit_simps Let_def dest: bit_imp_le_length)
qed (rule get12_put12_other)

lemma dword_at_put: "dword_at (dword_put i x f) i = x"
proof (rule bit_word_eqI)
  fix n
  assume "n < LENGTH(32)"
  then consider "n < 8" | "8 \<le> n" "n < 16" | "16 \<le> n" "n < 24" | "24 \<le> n" "n < 32"
    by fastforce
  then show "bit (dword_at (dword_put i x f) i) n = bit x n"
    by cases (auto simp add: dword_at_def dword_put_def bit_simps)
qed

interpretation fat16: fat_array get16 put16 "0xFFFF"
proof
  show "get16 (put16 c x f) c = x AND 0xFFFF" for c x f
    unfolding get16_def put16_def masks by (rule bit_word_eqI) (auto simp: bit_simps Let_def)
  show "get16 (put16 c x f) d = get16 f d" if "c \<noteq> d" for c d x f
  proof -
    have "2 * d \<noteq> 2 * c" "2 * d \<noteq> 2 * c + 1" "2 * d + 1 \<noteq> 2 * c"
      using that by presburger+
    then show ?thesis
      by (simp add: get16_def put16_def Let_def)
  qed
  show "get16 f c AND 0xFFFF = get16 f c" for f c
    unfolding get16_def masks by (rule bit_word_eqI) (auto simp: bit_simps)
qed

interpretation fat32: fat_array get32 put32 "0x0FFFFFFF"
proof
  show "get32 (put32 c x f) c = x AND 0x0FFFFFFF" for c x f
    unfolding get32_def put32_def dword_at_put masks by (rule bit_word_eqI) (auto simp: bit_simps)
  show "get32 (put32 c x f) d = get32 f d" if "c \<noteq> d" for c d x f
  proof -
    have "put32 c x f (4 * d + i) = f (4 * d + i)" if "i < 4" for i
    proof -
      have "4 * d + i \<noteq> 4 * c" "4 * d + i \<noteq> 4 * c + 1" "4 * d + i \<noteq> 4 * c + 2" "4 * d + i \<noteq> 4 * c + 3"
        using that \<open>c \<noteq> d\<close> by presburger+
      then show ?thesis
        by (simp add: put32_def dword_put_def)
    qed
    from this [of 0] this [of 1] this [of 2] this [of 3] show ?thesis
      by (simp add: get32_def dword_at_def)
  qed
  show "get32 f c AND 0x0FFFFFFF = get32 f c" for f c
    by (simp add: get32_def and.assoc)
qed

section \<open>The table through the window\<close>

text \<open>A disk that works: what was written to a sector is read from it.\<close>

definition disk_works :: "('w, 'h) disk_hal_scheme \<Rightarrow> ('w \<Rightarrow> u32 \<Rightarrow> u8 list) \<Rightarrow> bool" where
  "disk_works hal sec \<longleftrightarrow>
     (\<forall>w s. length (sec w s) = SS) \<and>
     (\<forall>s w. \<exists>w'. disk_read hal s w = (RES_OK, sec w s, w') \<and> sec w' = sec w) \<and>
     (\<forall>b s w. length b = SS \<longrightarrow> (\<exists>w'. disk_write hal b s w = (RES_OK, w') \<and> sec w' = (sec w)(s := b)))"

lemma disk_worksD:
  assumes "disk_works hal sec"
  shows "length (sec w s) = SS"
    and "\<exists>w'. disk_read hal s w = (RES_OK, sec w s, w') \<and> sec w' = sec w"
    and "length b = SS \<Longrightarrow> \<exists>w'. disk_write hal b s w = (RES_OK, w') \<and> sec w' = (sec w)(s := b)"
  using assms unfolding disk_works_def by blast+

text \<open>The fields that the accesses to the table leave alone.\<close>

definition geometry where
  "geometry fs = (fs_type fs, n_fats fs, fsi_flag fs, mount_id fs, n_rootdir fs, csize fs, last_clst fs, free_clst fs, n_fatent fs,
     fsize fs, volbase fs, fatbase fs, dirbase fs, database fs, FATFS.more fs)"

text \<open>How many bytes of the table the entries below \<open>n\<close> take, and the largest number of entries of each type.\<close>

definition table_bytes :: "u8 \<Rightarrow> nat \<Rightarrow> nat" where
  "table_bytes t n = (if t = FS_FAT12 then n + (n - 1) div 2 + 1 else if t = FS_FAT16 then 2 * n else 4 * n)"

definition max_entries :: "u8 \<Rightarrow> nat" where
  "max_entries t = (if t = FS_FAT12 then 0xFF7 else if t = FS_FAT16 then 0xFFF7 else 0xFFFFFF7)"

text \<open>The sectors of the second FAT. On the disk it is a copy of the first, and the window is not there.\<close>

definition in_copy :: "('w, 's) FATFS_scheme \<Rightarrow> u32 \<Rightarrow> bool" where
  "in_copy fs s \<longleftrightarrow> s - fatbase fs - fsize fs < fsize fs"

definition mirrored :: "('w \<Rightarrow> u32 \<Rightarrow> u8 list) \<Rightarrow> ('w, 's) FATFS_scheme \<Rightarrow> bool" where
  "mirrored sec fs \<longleftrightarrow>
     \<not> in_copy fs (winsect fs) \<and>
     (n_fats fs = 2 \<longrightarrow> (\<forall>i < fsize fs. sec (disk fs) (fatbase fs + fsize fs + i) = sec (disk fs) (fatbase fs + i)))"

text \<open>A mounted volume: the window holds the sector it claims to hold, the table fits into the FAT, and the second FAT
  is a copy of the first.\<close>

definition fat_ok :: "('w \<Rightarrow> u32 \<Rightarrow> u8 list) \<Rightarrow> ('w, 's) FATFS_scheme \<Rightarrow> bool" where
  "fat_ok sec fs \<longleftrightarrow>
     length (win fs) = SS \<and> (wflag fs = 0 \<and> winsect fs \<noteq> 0xFFFFFFFF \<longrightarrow> win fs = sec (disk fs) (winsect fs)) \<and>
     (winsect fs = 0xFFFFFFFF \<longrightarrow> wflag fs = 0) \<and>
     mirrored sec fs \<and> unat (fatbase fs) + 2 * unat (fsize fs) < 2 ^ 32 \<and> fs_type fs \<in> {FS_FAT12, FS_FAT16, FS_FAT32} \<and>
     2 < unat (n_fatent fs) \<and> unat (n_fatent fs) \<le> max_entries (fs_type fs) \<and> table_bytes (fs_type fs) (unat (n_fatent fs)) \<le> unat (fsize fs) * SS"

text \<open>The sectors as a caller sees them, and the bytes of the first FAT.\<close>

definition sector_of :: "('w \<Rightarrow> u32 \<Rightarrow> u8 list) \<Rightarrow> ('w, 's) FATFS_scheme \<Rightarrow> u32 \<Rightarrow> u8 list" where
  "sector_of sec fs s = (if s = winsect fs then win fs else sec (disk fs) s)"

definition fat_bytes :: "('w \<Rightarrow> u32 \<Rightarrow> u8 list) \<Rightarrow> ('w, 's) FATFS_scheme \<Rightarrow> nat \<Rightarrow> u8" where
  "fat_bytes sec fs k = (if k < unat (fsize fs) * SS then sector_of sec fs (fatbase fs + of_nat (k div SS)) ! (k mod SS) else 0)"

lemma mirror_gap:
  fixes b n i j :: u32
  assumes "unat b + 2 * unat n < 2 ^ 32" "i < n" "j < n"
  shows "b + n + i \<noteq> b + j" "b + i \<noteq> b + n + j"
proof -
  have "unat (n + i) = unat n + unat i" "unat (n + j) = unat n + unat j"
    using assms by (simp_all add: word_less_nat_alt unat_plus_small)
  then have "n + i \<noteq> j" "i \<noteq> n + j"
    using assms(2,3) by (auto simp: word_less_nat_alt)
  then show "b + n + i \<noteq> b + j" "b + i \<noteq> b + n + j"
    by (simp_all add: add.assoc)
qed

text \<open>Writing the window back keeps the copy.\<close>

lemma mirrored_sync:
  assumes disk: "disk_works hal sec" and ok: "fat_ok sec fs"
  shows "mirrored sec (snd (sync_window hal fs))"
proof (cases "wflag fs = 0")
  case True
  then show ?thesis
    using ok by (simp add: sync_window_def fat_ok_def)
next
  case False
  have len: "length (win fs) = SS" and m: "mirrored sec fs" and size: "unat (fatbase fs) + 2 * unat (fsize fs) < 2 ^ 32"
    using ok by (auto simp: fat_ok_def)
  obtain w where w: "disk_write hal (win fs) (winsect fs) (disk fs) = (RES_OK, w)" "sec w = (sec (disk fs))(winsect fs := win fs)"
    using disk_worksD(3) [OF disk len] by blast
  obtain w' where w': "disk_write hal (win fs) (winsect fs + fsize fs) w = (RES_OK, w')" "sec w' = (sec w)(winsect fs + fsize fs := win fs)"
    using disk_worksD(3) [OF disk len] by blast
  have out: "fatbase fs + fsize fs + i \<noteq> winsect fs" if "i < fsize fs" for i
  proof
    assume "fatbase fs + fsize fs + i = winsect fs"
    from this [symmetric] show False
      using m that by (simp add: mirrored_def in_copy_def)
  qed
  show ?thesis
  proof (cases "winsect fs - fatbase fs < fsize fs \<and> n_fats fs = 2")
    case True
    define j where "j = winsect fs - fatbase fs"
    have j: "winsect fs = fatbase fs + j" "j < fsize fs"
      using True by (simp_all add: j_def)
    have "sec w' (fatbase fs + fsize fs + i) = sec w' (fatbase fs + i)" if "i < fsize fs" for i
      using m True that mirror_gap [OF size that j(2)] mirror_gap(1) [OF size j(2) that] by (auto simp: w(2) w'(2) mirrored_def j(1) algebra_simps)
    then show ?thesis
      using False True w w' m by (simp add: sync_window_def mirrored_def Let_def in_copy_def)
  next
    case f: False
    have "fatbase fs + i \<noteq> winsect fs" if "i < fsize fs" "n_fats fs = 2" for i
    proof
      assume "fatbase fs + i = winsect fs"
      from this [symmetric] show False
        using f that by simp
    qed
    then show ?thesis
      using False f w m out by (auto simp: sync_window_def mirrored_def Let_def in_copy_def)
  qed
qed

lemma sync_window_works:
  assumes disk: "disk_works hal sec" and ok: "fat_ok sec fs"
  shows "\<exists>fs'. sync_window hal fs = (FR_OK, fs') \<and> geometry fs' = geometry fs \<and> win fs' = win fs \<and> winsect fs' = winsect fs
    \<and> wflag fs' = 0 \<and> (\<forall>s. s \<noteq> 0xFFFFFFFF \<longrightarrow> \<not> in_copy fs s \<longrightarrow> sec (disk fs') s = sector_of sec fs s)"
proof (cases "wflag fs = 0")
  case True
  then show ?thesis
    using ok by (auto simp: sync_window_def fat_ok_def sector_of_def)
next
  case False
  have len: "length (win fs) = SS"
    using ok by (simp add: fat_ok_def)
  obtain w where w: "disk_write hal (win fs) (winsect fs) (disk fs) = (RES_OK, w)" "sec w = (sec (disk fs))(winsect fs := win fs)"
    using disk_worksD(3) [OF disk len] by blast
  obtain w' where w': "disk_write hal (win fs) (winsect fs + fsize fs) w = (RES_OK, w')" "sec w' = (sec w)(winsect fs + fsize fs := win fs)"
    using disk_worksD(3) [OF disk len] by blast
  have "in_copy fs (winsect fs + fsize fs)" if "winsect fs - fatbase fs < fsize fs"
    using that by (simp add: in_copy_def algebra_simps)
  then show ?thesis
    using False w w' by (auto simp: sync_window_def geometry_def sector_of_def Let_def)
qed

lemma move_window_works:
  assumes disk: "disk_works hal sec" and ok: "fat_ok sec fs" and s: "s \<noteq> 0xFFFFFFFF" "\<not> in_copy fs s"
  shows "\<exists>fs'. move_window hal s fs = (FR_OK, fs') \<and> geometry fs' = geometry fs \<and> winsect fs' = s \<and> fat_ok sec fs'
    \<and> (\<forall>t. t \<noteq> 0xFFFFFFFF \<longrightarrow> \<not> in_copy fs t \<longrightarrow> sector_of sec fs' t = sector_of sec fs t)"
proof (cases "s = winsect fs")
  case True
  then show ?thesis
    using ok by (simp add: move_window_def)
next
  case False
  obtain fs1 where fs1: "sync_window hal fs = (FR_OK, fs1)" "geometry fs1 = geometry fs" "wflag fs1 = 0"
    "\<forall>s. s \<noteq> 0xFFFFFFFF \<longrightarrow> \<not> in_copy fs s \<longrightarrow> sec (disk fs1) s = sector_of sec fs s"
    using sync_window_works [OF disk ok] by blast
  obtain w where w: "disk_read hal s (disk fs1) = (RES_OK, sec (disk fs1) s, w)" "sec w = sec (disk fs1)"
    using disk_worksD(2) [OF disk] by blast
  define fs2 where "fs2 = fs1\<lparr>disk := w, win := sec (disk fs1) s, winsect := s\<rparr>"
  have "mirrored sec fs2"
    using mirrored_sync [OF disk ok] fs1(1,2) s(2) by (simp add: mirrored_def fs2_def w(2) in_copy_def geometry_def)
  moreover have "move_window hal s fs = (FR_OK, fs2)"
    using False fs1(1) w(1) by (simp add: move_window_def fs2_def)
  moreover have "geometry fs2 = geometry fs" "winsect fs2 = s"
    using fs1(2) by (simp_all add: fs2_def geometry_def)
  moreover from calculation(1) have "fat_ok sec fs2"
    using ok s fs1(2,3) w(2) disk_worksD(1) [OF disk] by (simp add: fat_ok_def fs2_def geometry_def)
  moreover have "sector_of sec fs2 t = sector_of sec fs t" if "t \<noteq> 0xFFFFFFFF" "\<not> in_copy fs t" for t
  proof -
    have "sec (disk fs1) t = sector_of sec fs t"
      using fs1(4) that by blast
    then show ?thesis
      unfolding sector_of_def [of sec fs2] by (auto simp: fs2_def w(2))
  qed
  ultimately show ?thesis
    by blast
qed

text \<open>The sectors of the first FAT are not those of its copy.\<close>

lemma fat_index:
  assumes "k < unat (fsize fs) * SS"
  shows "k div SS < unat (fsize fs)" "unat (of_nat (k div SS) :: u32) = k div SS"
proof -
  show "k div SS < unat (fsize fs)"
    using assms by (simp add: SS_def less_mult_imp_div_less)
  then have "k div SS < 4294967296"
    using unat_u32_bound [of "fsize fs"] by linarith
  then show "unat (of_nat (k div SS) :: u32) = k div SS"
    by (simp add: unat_of_nat)
qed

lemma fat_sector:
  assumes "fat_ok sec fs" "k < unat (fsize fs) * SS"
  shows "fatbase fs + of_nat (k div SS) \<noteq> 0xFFFFFFFF" "\<not> in_copy fs (fatbase fs + of_nat (k div SS))"
proof -
  note k = fat_index(1) [OF assms(2)] and n = fat_index(2) [OF assms(2)]
  have size: "unat (fatbase fs) + 2 * unat (fsize fs) < 4294967296"
    using assms(1) by (simp add: fat_ok_def)
  have "unat (fatbase fs + of_nat (k div SS)) = unat (fatbase fs) + k div SS"
    using size k n by (subst unat_plus_small) simp_all
  then show "fatbase fs + of_nat (k div SS) \<noteq> 0xFFFFFFFF"
    using size k by (auto simp: word_unat_eq_iff)
  have "unat (of_nat (k div SS) - fsize fs) = 2 ^ 32 + k div SS - unat (fsize fs)"
    using n k by (subst unat_sub_if') simp
  then show "\<not> in_copy fs (fatbase fs + of_nat (k div SS))"
    using size k by (simp add: in_copy_def word_less_nat_alt)
qed

lemma fat_bytes_geometry:
  assumes "geometry fs' = geometry fs" "fat_ok sec fs"
    and "\<And>t. t \<noteq> 0xFFFFFFFF \<Longrightarrow> \<not> in_copy fs t \<Longrightarrow> sector_of sec fs' t = sector_of sec fs t"
  shows "fat_bytes sec fs' = fat_bytes sec fs"
  using assms(1,3) fat_sector [OF assms(2)] by (auto simp: fat_bytes_def geometry_def fun_eq_iff)

text \<open>Fetching a sector of the table, reading and changing a byte of it.\<close>

lemma fetch_fat:
  assumes disk: "disk_works hal sec" and ok: "fat_ok sec fs" and k: "k < unat (fsize fs) * SS"
  shows "\<exists>fs'. move_window hal (fatbase fs + of_nat (k div SS)) fs = (FR_OK, fs') \<and> geometry fs' = geometry fs \<and> fat_ok sec fs'
    \<and> winsect fs' = fatbase fs + of_nat (k div SS) \<and> fat_bytes sec fs' = fat_bytes sec fs"
  using move_window_works [OF disk ok fat_sector [OF ok k]] fat_bytes_geometry [OF _ ok] by blast

lemma win_fat_bytes:
  assumes "winsect fs = fatbase fs + of_nat (k div SS)" "k < unat (fsize fs) * SS"
  shows "win fs ! (k mod SS) = fat_bytes sec fs k"
  using assms by (simp add: fat_bytes_def sector_of_def)

lemma put_win_bytes:
  assumes ok: "fat_ok sec fs" and w: "winsect fs = fatbase fs + of_nat (k div SS)" and k: "k < unat (fsize fs) * SS"
  shows "fat_ok sec (put_win (k mod SS) b fs)" "geometry (put_win (k mod SS) b fs) = geometry fs"
    "fat_bytes sec (put_win (k mod SS) b fs) = (fat_bytes sec fs)(k := b)" "winsect (put_win i b fs) = winsect fs"
proof -
  have "winsect fs \<noteq> 0xFFFFFFFF"
    using fat_sector(1) [OF ok k] w by simp
  then show "fat_ok sec (put_win (k mod SS) b fs)"
    using ok by (simp add: fat_ok_def mirrored_def in_copy_def put_win_def)
  show "geometry (put_win (k mod SS) b fs) = geometry fs" "winsect (put_win i b fs) = winsect fs"
    by (simp_all add: geometry_def put_win_def)
  have len: "length (win fs) = SS"
    using ok by (simp add: fat_ok_def)
  have "fat_bytes sec (put_win (k mod SS) b fs) j = ((fat_bytes sec fs)(k := b)) j" for j
  proof (cases "j < unat (fsize fs) * SS \<and> j div SS = k div SS")
    case True
    then have "j = k \<longleftrightarrow> j mod SS = k mod SS"
      by (metis div_mult_mod_eq)
    then show ?thesis
      using True k w len by (auto simp: fat_bytes_def sector_of_def put_win_def nth_list_update SS_def)
  next
    case False
    have "of_nat (j div SS) \<noteq> (of_nat (k div SS) :: u32)" if "j < unat (fsize fs) * SS"
      using False that fat_index(2) [OF that] fat_index(2) [OF k] by metis
    then show ?thesis
      using False k w by (auto simp: fat_bytes_def sector_of_def put_win_def)
  qed
  then show "fat_bytes sec (put_win (k mod SS) b fs) = (fat_bytes sec fs)(k := b)"
    by blast
qed

section \<open>The entries\<close>

definition fat_get :: "u8 \<Rightarrow> (nat \<Rightarrow> u8) \<Rightarrow> nat \<Rightarrow> u32" where
  "fat_get t = (if t = FS_FAT12 then get12 else if t = FS_FAT16 then get16 else get32)"

definition fat_put :: "u8 \<Rightarrow> nat \<Rightarrow> u32 \<Rightarrow> (nat \<Rightarrow> u8) \<Rightarrow> nat \<Rightarrow> u8" where
  "fat_put t = (if t = FS_FAT12 then put12 else if t = FS_FAT16 then put16 else put32)"

definition fat_mask :: "u8 \<Rightarrow> u32" where
  "fat_mask t = (if t = FS_FAT12 then 0xFFF else if t = FS_FAT16 then 0xFFFF else 0x0FFFFFFF)"

lemma fat_get_put: "fat_get t (fat_put t c x f) = (fat_get t f)(c := x AND fat_mask t)"
  by (simp add: fat_get_def fat_put_def fat_mask_def fat12.get_put_fun fat16.get_put_fun fat32.get_put_fun del: fun_upd_apply)

text \<open>The table of a volume.\<close>

definition fat :: "('w \<Rightarrow> u32 \<Rightarrow> u8 list) \<Rightarrow> ('w, 's) FATFS_scheme \<Rightarrow> nat \<Rightarrow> u32" where
  "fat sec fs = fat_get (fs_type fs) (fat_bytes sec fs)"

definition stays :: "('w \<Rightarrow> u32 \<Rightarrow> u8 list) \<Rightarrow> ('w, 's) FATFS_scheme \<Rightarrow> ('w, 's) FATFS_scheme \<Rightarrow> bool" where
  "stays sec fs fs' \<longleftrightarrow> geometry fs' = geometry fs \<and> fat_ok sec fs' \<and> fat_bytes sec fs' = fat_bytes sec fs"

lemma word_sector:
  fixes bc :: u32
  assumes "unat bc = k"
  shows "bc div of_nat SS = of_nat (k div SS)"
proof -
  have "unat bc div 512 < 4294967296"
    using unat_u32_bound [of bc] by linarith
  then show ?thesis
    using assms by (auto simp: SS_def word_unat_eq_iff unat_div unat_of_nat)
qed

lemma entry_index:
  assumes "fat_ok sec fs" "2 \<le> clst" "clst < n_fatent fs"
  shows "fs_type fs = FS_FAT12 \<Longrightarrow> unat (clst + clst div 2) = unat clst + unat clst div 2"
    and "fs_type fs = FS_FAT12 \<Longrightarrow> unat clst + unat clst div 2 + 1 < unat (fsize fs) * SS"
    and "fs_type fs = FS_FAT16 \<Longrightarrow> unat (clst * 2) = 2 * unat clst"
    and "fs_type fs = FS_FAT16 \<Longrightarrow> 2 * unat clst + 1 < unat (fsize fs) * SS"
    and "fs_type fs = FS_FAT32 \<Longrightarrow> unat (clst * 4) = 4 * unat clst"
    and "fs_type fs = FS_FAT32 \<Longrightarrow> 4 * unat clst + 3 < unat (fsize fs) * SS"
    and "fs_type fs = FS_FAT12 \<Longrightarrow> unat (clst + clst div 2 + 1) = unat clst + unat clst div 2 + 1"
proof -
  note ok = assms(1) [unfolded fat_ok_def]
  have n: "unat clst < unat (n_fatent fs)"
    using assms(3) by (simp add: word_less_nat_alt)
  have n': "unat clst div 2 \<le> (unat (n_fatent fs) - 1) div 2"
    using n by (intro div_le_mono) simp
  have "unat clst < 0xFF7" if "fs_type fs = FS_FAT12"
    using n ok that by (simp add: max_entries_def)
  then show "fs_type fs = FS_FAT12 \<Longrightarrow> unat (clst + clst div 2) = unat clst + unat clst div 2"
    "fs_type fs = FS_FAT12 \<Longrightarrow> unat (clst + clst div 2 + 1) = unat clst + unat clst div 2 + 1"
    by (simp_all add: unat_word_ariths unat_div)
  show "fs_type fs = FS_FAT12 \<Longrightarrow> unat clst + unat clst div 2 + 1 < unat (fsize fs) * SS"
    using n n' ok by (simp add: table_bytes_def)
  have "unat clst < 0xFFF7" if "fs_type fs = FS_FAT16"
    using n ok that by (simp add: max_entries_def FS_FAT16_def FS_FAT12_def)
  then show "fs_type fs = FS_FAT16 \<Longrightarrow> unat (clst * 2) = 2 * unat clst"
    by (simp add: unat_word_ariths)
  show "fs_type fs = FS_FAT16 \<Longrightarrow> 2 * unat clst + 1 < unat (fsize fs) * SS"
    using n ok by (simp add: table_bytes_def FS_FAT16_def FS_FAT12_def)
  have "unat clst < 0xFFFFFF7" if "fs_type fs = FS_FAT32"
    using n ok that by (simp add: max_entries_def FS_FAT16_def FS_FAT12_def FS_FAT32_def)
  then show "fs_type fs = FS_FAT32 \<Longrightarrow> unat (clst * 4) = 4 * unat clst"
    by (simp add: unat_word_ariths)
  show "fs_type fs = FS_FAT32 \<Longrightarrow> 4 * unat clst + 3 < unat (fsize fs) * SS"
    using n ok by (simp add: table_bytes_def FS_FAT16_def FS_FAT12_def FS_FAT32_def)
qed

lemma fat_byte_works:
  assumes "disk_works hal sec" "fat_ok sec fs" "unat bc = k" "k < unat (fsize fs) * SS"
  shows "\<exists>fs'. fat_byte hal bc fs = (FR_OK, fat_bytes sec fs k, fs') \<and> stays sec fs fs' \<and> winsect fs' = fatbase fs' + of_nat (k div SS)"
proof -
  obtain fs' where "move_window hal (fatbase fs + of_nat (k div SS)) fs = (FR_OK, fs')" "geometry fs' = geometry fs" "fat_ok sec fs'"
    "winsect fs' = fatbase fs + of_nat (k div SS)" "fat_bytes sec fs' = fat_bytes sec fs"
    using fetch_fat [OF assms(1,2,4)] by blast
  moreover from this have "win fs' ! (k mod SS) = fat_bytes sec fs k"
    using win_fat_bytes [of fs' k sec] assms(4) by (simp add: geometry_def)
  ultimately show ?thesis
    using assms(3) by (auto simp: fat_byte_def word_sector stays_def geometry_def)
qed

lemma word_fetch_sector:
  fixes clst :: u32
  shows "clst div of_nat (SS div 2) = of_nat ((2 * unat clst) div SS)" "clst div of_nat (SS div 4) = of_nat ((4 * unat clst) div SS)"
proof -
  have "(2 * unat clst) div 512 = unat clst div 256" "(4 * unat clst) div 512 = unat clst div 128"
    by linarith+
  moreover have "unat clst div 256 < 4294967296" "unat clst div 128 < 4294967296"
    using unat_u32_bound [of clst] by linarith+
  ultimately show "clst div of_nat (SS div 2) = of_nat ((2 * unat clst) div SS)" "clst div of_nat (SS div 4) = of_nat ((4 * unat clst) div SS)"
    by (simp_all add: SS_def word_unat_eq_iff unat_div unat_of_nat)
qed

text \<open>Entries of two and four bytes lie within a sector.\<close>

lemma within_block:
  fixes c i m n :: nat
  assumes "i < m"
  shows "(m * c + i) div (m * n) = (m * c) div (m * n)" "(m * c + i) mod (m * n) = (m * c) mod (m * n) + i"
  using assms by (simp_all add: div_mult2_eq mod_mult2_eq)

lemma within_sector:
  "i < 2 \<Longrightarrow> (2 * c + i) div SS = (2 * c) div SS" "i < 2 \<Longrightarrow> (2 * c + i) mod SS = (2 * c) mod SS + i"
  "i < 4 \<Longrightarrow> (4 * c + i) div SS = (4 * c) div SS" "i < 4 \<Longrightarrow> (4 * c + i) mod SS = (4 * c) mod SS + i"
proof -
  have "SS = 2 * 256" "SS = 4 * 128"
    by (simp_all add: SS_def)
  then show "i < 2 \<Longrightarrow> (2 * c + i) div SS = (2 * c) div SS" "i < 2 \<Longrightarrow> (2 * c + i) mod SS = (2 * c) mod SS + i"
    "i < 4 \<Longrightarrow> (4 * c + i) div SS = (4 * c) div SS" "i < 4 \<Longrightarrow> (4 * c + i) mod SS = (4 * c) mod SS + i"
    using within_block [of i 2 c 256] within_block [of i 4 c 128] by metis+
qed

lemma win_bytes:
  assumes "winsect fs = fatbase fs + of_nat (j div SS)" "j + i < unat (fsize fs) * SS"
    and "j = 2 * c \<and> i < 2 \<or> j = 4 * c \<and> i < 4"
  shows "win fs ! (j mod SS + i) = fat_bytes sec fs (j + i)"
proof -
  have "(j + i) div SS = j div SS" "(j + i) mod SS = j mod SS + i"
    using assms(3) within_sector [of i c] by auto
  then show ?thesis
    using win_fat_bytes [of fs "j + i" sec] assms(1,2) by simp
qed

lemma ld_win16:
  assumes "winsect fs = fatbase fs + of_nat ((2 * c) div SS)" "2 * c + 1 < unat (fsize fs) * SS"
  shows "ucast (ld_word (win fs) ((2 * c) mod SS)) = get16 (fat_bytes sec fs) c"
  using win_bytes [OF assms(1), of 0 c sec] win_bytes [OF assms(1), of 1 c sec] assms(2) by (simp add: ld_word_def get16_def)

lemma ld_win32:
  assumes "winsect fs = fatbase fs + of_nat ((4 * c) div SS)" "4 * c + 3 < unat (fsize fs) * SS"
  shows "ld_dword (win fs) ((4 * c) mod SS) = dword_at (fat_bytes sec fs) (4 * c)"
  using win_bytes [OF assms(1), of 0 c sec] win_bytes [OF assms(1), of 1 c sec] win_bytes [OF assms(1), of 2 c sec]
    win_bytes [OF assms(1), of 3 c sec] assms(2) by (simp add: ld_dword_def dword_at_def Let_def)

lemma odd_cluster: "clst AND 1 \<noteq> 0 \<longleftrightarrow> odd (unat clst)" for clst :: u32
  by (simp add: and_one_eq odd_iff_mod_2_eq_one word_unat_eq_iff unat_mod)

lemma stays_refl: "fat_ok sec fs \<Longrightarrow> stays sec fs fs"
  by (simp add: stays_def)

lemma stays_trans: "stays sec fs fs' \<Longrightarrow> stays sec fs' fs'' \<Longrightarrow> stays sec fs fs''"
  by (simp add: stays_def)

lemma stays_fields:
  assumes "stays sec fs fs'"
  shows "fs_type fs' = fs_type fs" "n_fatent fs' = n_fatent fs" "fsize fs' = fsize fs" "fatbase fs' = fatbase fs"
    "free_clst fs' = free_clst fs" "last_clst fs' = last_clst fs" "fat_bytes sec fs' = fat_bytes sec fs" "fat sec fs' = fat sec fs" "fat_ok sec fs'"
  using assms by (simp_all add: stays_def geometry_def fat_def)

section \<open>Reading and writing entries\<close>

lemma get_fat12:
  assumes "disk_works hal sec" "fat_ok sec fs" "2 \<le> clst" "clst < n_fatent fs" "fs_type fs = FS_FAT12"
  shows "\<exists>fs'. get_fat hal obj clst fs = (get12 (fat_bytes sec fs) (unat clst), fs') \<and> stays sec fs fs'"
proof -
  note e = entry_index(1,2,7) [OF assms(2-5)]
  obtain fs1 where fs1: "fat_byte hal (clst + clst div 2) fs = (FR_OK, fat_bytes sec fs (unat clst + unat clst div 2), fs1)" "stays sec fs fs1"
    using fat_byte_works [OF assms(1,2) e(1)] e(2) by fastforce
  obtain fs2 where "fat_byte hal (clst + clst div 2 + 1) fs1 = (FR_OK, fat_bytes sec fs (unat clst + unat clst div 2 + 1), fs2)" "stays sec fs1 fs2"
    using fat_byte_works [OF assms(1) stays_fields(9) [OF fs1(2)] e(3)] e(2) by (fastforce simp: stays_fields [OF fs1(2)])
  then show ?thesis
    using assms fs1 stays_trans [OF fs1(2)] by (auto simp: get_fat_def get12_def Let_def odd_cluster not_less)
qed

lemma fetched:
  assumes "disk_works hal sec" "fat_ok sec fs" "k < unat (fsize fs) * SS"
  obtains fs' where "move_window hal (fatbase fs + of_nat (k div SS)) fs = (FR_OK, fs')" "stays sec fs fs'" "winsect fs' = fatbase fs' + of_nat (k div SS)"
  using fetch_fat [OF assms] by (auto simp: stays_def geometry_def)

lemma get_fat16:
  assumes "disk_works hal sec" "fat_ok sec fs" "2 \<le> clst" "clst < n_fatent fs" "fs_type fs = FS_FAT16"
  shows "\<exists>fs'. get_fat hal obj clst fs = (get16 (fat_bytes sec fs) (unat clst), fs') \<and> stays sec fs fs'"
proof -
  note e = entry_index(3,4) [OF assms(2-5)] 
  obtain fs' where "move_window hal (fatbase fs + of_nat ((2 * unat clst) div SS)) fs = (FR_OK, fs')" "stays sec fs fs'"
    "winsect fs' = fatbase fs' + of_nat ((2 * unat clst) div SS)"
    using fetched [OF assms(1,2)] e(2) by (metis add_lessD1)
  moreover from this have "ucast (ld_word (win fs') ((2 * unat clst) mod SS)) = get16 (fat_bytes sec fs) (unat clst)"
    using ld_win16 [of fs' "unat clst" sec] e(2) by (simp add: stays_fields)
  ultimately show ?thesis
    using assms(3-5) e(1) by (auto simp: get_fat_def word_fetch_sector not_less FS_FAT12_def FS_FAT16_def simp del: of_nat_div)
qed

lemma get_fat32:
  assumes "disk_works hal sec" "fat_ok sec fs" "2 \<le> clst" "clst < n_fatent fs" "fs_type fs = FS_FAT32"
  shows "\<exists>fs'. get_fat hal obj clst fs = (get32 (fat_bytes sec fs) (unat clst), fs') \<and> stays sec fs fs'"
proof -
  note e = entry_index(5,6) [OF assms(2-5)]
  obtain fs' where "move_window hal (fatbase fs + of_nat ((4 * unat clst) div SS)) fs = (FR_OK, fs')" "stays sec fs fs'"
    "winsect fs' = fatbase fs' + of_nat ((4 * unat clst) div SS)"
    using fetched [OF assms(1,2)] e(2) by (metis add_lessD1)
  moreover from this have "ld_dword (win fs') ((4 * unat clst) mod SS) = dword_at (fat_bytes sec fs) (4 * unat clst)"
    using ld_win32 [of fs' "unat clst" sec] e(2) by (simp add: stays_fields)
  ultimately show ?thesis
    using assms(3-5) e(1)
    by (auto simp: get_fat_def get32_def word_fetch_sector not_less FS_FAT12_def FS_FAT16_def FS_FAT32_def simp del: of_nat_div)
qed

lemma get_fat_entry:
  assumes "disk_works hal sec" "fat_ok sec fs" "2 \<le> clst" "clst < n_fatent fs"
  obtains fs' where "get_fat hal obj clst fs = (fat sec fs (unat clst), fs')" "stays sec fs fs'"
proof -
  have "fs_type fs \<in> {FS_FAT12, FS_FAT16, FS_FAT32}"
    using assms(2) by (simp add: fat_ok_def)
  then have "\<exists>fs'. get_fat hal obj clst fs = (fat sec fs (unat clst), fs') \<and> stays sec fs fs'"
    using get_fat12 [OF assms, of obj] get_fat16 [OF assms, of obj] get_fat32 [OF assms, of obj]
    by (auto simp: fat_def fat_get_def FS_FAT12_def FS_FAT16_def FS_FAT32_def)
  then show thesis
    using that by blast
qed

text \<open>An entry has at most 28 bits, so \<open>get_fat\<close> has no room for a disk error in it.\<close>

lemma fat_entry_bound: "fat sec fs c \<le> fat_mask (fs_type fs)" "fat_mask t \<le> 0x0FFFFFFF" "fat sec fs c \<noteq> 0xFFFFFFFF"
proof -
  show *: "fat sec fs c \<le> fat_mask (fs_type fs)" "fat_mask t \<le> 0x0FFFFFFF" for t
    by (simp_all add: fat_def fat_get_def fat_mask_def fat12.get_le fat16.get_le fat32.get_le)
  show "fat sec fs c \<noteq> 0xFFFFFFFF"
    using order_trans [OF *] by auto
qed

text \<open>The volume after its table was changed to the bytes \<open>f\<close>.\<close>

definition becomes :: "('w \<Rightarrow> u32 \<Rightarrow> u8 list) \<Rightarrow> ('w, 's) FATFS_scheme \<Rightarrow> (nat \<Rightarrow> u8) \<Rightarrow> ('w, 's) FATFS_scheme \<Rightarrow> bool" where
  "becomes sec fs f fs' \<longleftrightarrow> geometry fs' = geometry fs \<and> fat_ok sec fs' \<and> fat_bytes sec fs' = f"

lemma becomes_put_win:
  assumes "becomes sec fs f fs'" "winsect fs' = fatbase fs' + of_nat (k div SS)" "k < unat (fsize fs) * SS"
  shows "becomes sec fs (f(k := b)) (put_win (k mod SS) b fs')"
  using assms put_win_bytes(1-3) [of sec fs' k b] by (simp add: becomes_def geometry_def)

lemma becomes_fields:
  assumes "becomes sec fs f fs'"
  shows "fs_type fs' = fs_type fs" "n_fatent fs' = n_fatent fs" "fsize fs' = fsize fs" "fatbase fs' = fatbase fs"
    "fat_bytes sec fs' = f" "fat_ok sec fs'"
  using assms by (simp_all add: becomes_def geometry_def)

lemma stays_becomes: "becomes sec fs f fs' \<Longrightarrow> stays sec fs' fs'' \<Longrightarrow> becomes sec fs f fs''"
  by (simp add: stays_def becomes_def)

lemma becomes_refl: "fat_ok sec fs \<Longrightarrow> becomes sec fs (fat_bytes sec fs) fs"
  by (simp add: becomes_def)

lemma put_fat12:
  assumes "disk_works hal sec" "fat_ok sec fs" "2 \<le> clst" "clst < n_fatent fs" "fs_type fs = FS_FAT12"
  shows "\<exists>fs'. put_fat hal clst val fs = (FR_OK, fs') \<and> becomes sec fs (put12 (unat clst) val (fat_bytes sec fs)) fs'"
proof -
  define k p where "k = unat clst + unat clst div 2" and "p = fat_bytes sec fs k"
  note e = entry_index(1,2,7) [OF assms(2-5), folded k_def]
  have k: "k < unat (fsize fs) * SS"
    using e(2) by simp
  obtain fs1 where fs1: "fat_byte hal (clst + clst div 2) fs = (FR_OK, p, fs1)" "stays sec fs fs1" "winsect fs1 = fatbase fs1 + of_nat (k div SS)"
    using fat_byte_works [OF assms(1,2) e(1) k] by (auto simp: p_def)
  define b where "b = (if odd (unat clst) then (p AND 0x0F) OR push_bit 4 (ucast val) else ucast val)"
  define fs2 where "fs2 = put_win (k mod SS) b fs1"
  have fs2: "becomes sec fs ((fat_bytes sec fs)(k := b)) fs2"
    unfolding fs2_def using stays_becomes [OF becomes_refl [OF assms(2)] fs1(2)] fs1(3) k by (rule becomes_put_win)
  obtain fs3 where fs3: "fat_byte hal (clst + clst div 2 + 1) fs2 = (FR_OK, fat_bytes sec fs (k + 1), fs3)" "stays sec fs2 fs3"
    "winsect fs3 = fatbase fs3 + of_nat ((k + 1) div SS)"
    using fat_byte_works [OF assms(1) becomes_fields(6) [OF fs2] e(3)] e(2) by (auto simp: becomes_fields [OF fs2])
  define b' where "b' = (if odd (unat clst) then ucast (drop_bit 4 val) else (fat_bytes sec fs (k + 1) AND 0xF0) OR (ucast (drop_bit 8 val) AND 0x0F))"
  have "becomes sec fs ((fat_bytes sec fs)(k := b, k + 1 := b')) (put_win ((k + 1) mod SS) b' fs3)"
    using stays_becomes [OF fs2 fs3(2)] fs3(3) e(2) by (rule becomes_put_win)
  moreover have "put_fat hal clst val fs = (FR_OK, put_win ((k + 1) mod SS) b' fs3)"
    using assms(3-5) fs1(1) fs3(1) e(1,3) by (simp add: put_fat_def odd_cluster Let_def b'_def b_def fs2_def not_less)
  ultimately show ?thesis
    by (auto simp: put12_def Let_def k_def p_def b_def b'_def)
qed

text \<open>Storing a word of two or four bytes is storing its bytes.\<close>

lemma st_win:
  "fs\<lparr>win := st_word i x (win fs), wflag := 1\<rparr> = put_win (i + 1) (ucast (drop_bit 8 x)) (put_win i (ucast x) fs)"
  "fs\<lparr>win := st_dword i y (win fs), wflag := 1\<rparr> =
     put_win (i + 3) (ucast (drop_bit 24 y)) (put_win (i + 2) (ucast (drop_bit 16 y))
       (put_win (i + 1) (ucast (drop_bit 8 y)) (put_win i (ucast y) fs)))"
  by (simp_all add: put_win_def st_word_def st_dword_def)

lemma becomes_put_within:
  assumes "becomes sec fs f fs'" "winsect fs' = fatbase fs' + of_nat (j div SS)" "j + i < unat (fsize fs) * SS"
    and "j = 2 * c \<and> i < 2 \<or> j = 4 * c \<and> i < 4"
  shows "becomes sec fs (f(j + i := b)) (put_win (j mod SS + i) b fs')"
proof -
  have "(j + i) div SS = j div SS" "(j + i) mod SS = j mod SS + i"
    using assms(4) within_sector [of i c] by auto
  then show ?thesis
    using becomes_put_win [OF assms(1), of "j + i" b] assms(2,3) by simp
qed

lemma put_win_fields [simp]:
  "winsect (put_win i b fs) = winsect fs" "fatbase (put_win i b fs) = fatbase fs"
  by (simp_all add: put_win_def)

lemma put_fat16:
  assumes "disk_works hal sec" "fat_ok sec fs" "2 \<le> clst" "clst < n_fatent fs" "fs_type fs = FS_FAT16"
  shows "\<exists>fs'. put_fat hal clst val fs = (FR_OK, fs') \<and> becomes sec fs (put16 (unat clst) val (fat_bytes sec fs)) fs'"
proof -
  define k x where "k = 2 * unat clst" and "x = (ucast val :: u16)"
  note e = entry_index(3,4) [OF assms(2-5), folded k_def]
  have k: "k < unat (fsize fs) * SS"
    using e(2) by simp
  obtain fs1 where fs1: "move_window hal (fatbase fs + of_nat (k div SS)) fs = (FR_OK, fs1)" "stays sec fs fs1" "winsect fs1 = fatbase fs1 + of_nat (k div SS)"
    using fetched [OF assms(1,2) k] by blast
  define fs2 where "fs2 = put_win (k mod SS) (ucast x) fs1"
  have fs2: "becomes sec fs ((fat_bytes sec fs)(k := ucast x)) fs2"
    unfolding fs2_def using stays_becomes [OF becomes_refl [OF assms(2)] fs1(2)] fs1(3) k by (rule becomes_put_win)
  have "becomes sec fs ((fat_bytes sec fs)(k := ucast x, k + 1 := ucast (drop_bit 8 x))) (put_win (k mod SS + 1) (ucast (drop_bit 8 x)) fs2)"
    using fs2 _ e(2) by (rule becomes_put_within [where c = "unat clst"]) (simp_all add: fs2_def fs1(3) k_def)
  moreover have "put_fat hal clst val fs = (FR_OK, put_win (k mod SS + 1) (ucast (drop_bit 8 x)) fs2)"
    using assms(3-5) fs1(1) e(1)
    by (auto simp: put_fat_def Let_def x_def fs2_def k_def word_fetch_sector st_win FS_FAT12_def FS_FAT16_def simp del: of_nat_div)
  ultimately show ?thesis
    by (auto simp: put16_def Let_def k_def x_def)
qed

lemma becomes_st_dword:
  assumes "becomes sec fs f fs'" "winsect fs' = fatbase fs' + of_nat ((4 * c) div SS)" "4 * c + 3 < unat (fsize fs) * SS"
  shows "becomes sec fs (dword_put (4 * c) x f) (fs'\<lparr>win := st_dword ((4 * c) mod SS) x (win fs'), wflag := 1\<rparr>)"
proof -
  have *: "becomes sec fs (g(4 * c + i := b)) (put_win ((4 * c) mod SS + i) b fs'')"
    if "becomes sec fs g fs''" "winsect fs'' = fatbase fs'' + of_nat ((4 * c) div SS)" "i < 4" for g fs'' i b
    using becomes_put_within [OF that(1,2), of i c b] that(3) assms(3) by simp
  show ?thesis
    unfolding st_win dword_put_def
    by (intro * *[where i = 0, simplified] assms) (simp_all add: assms(2))
qed

lemma put_fat32:
  assumes "disk_works hal sec" "fat_ok sec fs" "2 \<le> clst" "clst < n_fatent fs" "fs_type fs = FS_FAT32"
  shows "\<exists>fs'. put_fat hal clst val fs = (FR_OK, fs') \<and> becomes sec fs (put32 (unat clst) val (fat_bytes sec fs)) fs'"
proof -
  define k where "k = 4 * unat clst"
  note e = entry_index(5,6) [OF assms(2-5), folded k_def]
  have k: "k < unat (fsize fs) * SS"
    using e(2) by simp
  obtain fs1 where fs1: "move_window hal (fatbase fs + of_nat (k div SS)) fs = (FR_OK, fs1)" "stays sec fs fs1" "winsect fs1 = fatbase fs1 + of_nat (k div SS)"
    using fetched [OF assms(1,2) k] by blast
  define x where "x = (val AND 0x0FFFFFFF) OR (dword_at (fat_bytes sec fs) k AND 0xF0000000)"
  have "ld_dword (win fs1) (k mod SS) = dword_at (fat_bytes sec fs) k"
    using ld_win32 [OF fs1(3) [unfolded k_def], of sec] e(2) by (simp add: stays_fields [OF fs1(2)] k_def)
  then have "put_fat hal clst val fs = (FR_OK, fs1\<lparr>win := st_dword (k mod SS) x (win fs1), wflag := 1\<rparr>)"
    using assms(3-5) fs1(1) e(1) stays_fields(1) [OF fs1(2)]
    by (auto simp: put_fat_def Let_def x_def k_def word_fetch_sector FS_FAT12_def FS_FAT16_def FS_FAT32_def FS_EXFAT_def simp del: of_nat_div)
  moreover have "becomes sec fs (dword_put k x (fat_bytes sec fs)) (fs1\<lparr>win := st_dword (k mod SS) x (win fs1), wflag := 1\<rparr>)"
    unfolding k_def using stays_becomes [OF becomes_refl [OF assms(2)] fs1(2)] fs1(3) [unfolded k_def] e(2) [unfolded k_def]
    by (rule becomes_st_dword)
  ultimately show ?thesis
    by (simp add: put32_def x_def k_def)
qed

lemma put_fat_entry:
  assumes "disk_works hal sec" "fat_ok sec fs" "2 \<le> clst" "clst < n_fatent fs"
  obtains fs' where "put_fat hal clst val fs = (FR_OK, fs')" "geometry fs' = geometry fs" "fat_ok sec fs'"
    "fat sec fs' = (fat sec fs)(unat clst := val AND fat_mask (fs_type fs))"
proof -
  have "fs_type fs \<in> {FS_FAT12, FS_FAT16, FS_FAT32}"
    using assms(2) by (simp add: fat_ok_def)
  then have "\<exists>fs'. put_fat hal clst val fs = (FR_OK, fs') \<and> becomes sec fs (fat_put (fs_type fs) (unat clst) val (fat_bytes sec fs)) fs'"
    using put_fat12 [OF assms, of val] put_fat16 [OF assms, of val] put_fat32 [OF assms, of val]
    by (auto simp: fat_put_def FS_FAT12_def FS_FAT16_def FS_FAT32_def)
  then obtain fs' where *: "put_fat hal clst val fs = (FR_OK, fs')" "becomes sec fs (fat_put (fs_type fs) (unat clst) val (fat_bytes sec fs)) fs'"
    by blast
  then have "fat sec fs' = (fat sec fs)(unat clst := val AND fat_mask (fs_type fs))"
    unfolding fat_def by (simp add: becomes_fields fat_get_put del: fun_upd_apply)
  then show thesis
    using that * by (simp add: becomes_def)
qed

section \<open>Chains\<close>

lemma eoc_mask: "0xFFFFFFFF AND fat_mask t = fat_mask t"
  by (simp add: fat_mask_def)

text \<open>The clusters \<open>cs\<close> are a chain in the table \<open>f\<close> with \<open>n\<close> entries: each entry is the next cluster, and the last
  one is not a cluster number.\<close>

fun is_chain :: "(nat \<Rightarrow> u32) \<Rightarrow> u32 \<Rightarrow> u32 list \<Rightarrow> bool" where
  "is_chain f n [] \<longleftrightarrow> False"
| "is_chain f n [c] \<longleftrightarrow> 2 \<le> c \<and> c < n \<and> n \<le> f (unat c)"
| "is_chain f n (c # d # cs) \<longleftrightarrow> 2 \<le> c \<and> c < n \<and> f (unat c) = d \<and> is_chain f n (d # cs)"

lemma is_chain_range: "is_chain f n cs \<Longrightarrow> c \<in> set cs \<Longrightarrow> 2 \<le> c \<and> c < n"
  by (induction f n cs rule: is_chain.induct) auto

lemma is_chain_unique: "is_chain f n (c # xs) \<Longrightarrow> is_chain f n (c # ys) \<Longrightarrow> xs = ys"
proof (induction xs arbitrary: c ys)
  case Nil
  then show ?case
    by (cases ys) (auto dest: is_chain_range simp: not_le)
next
  case (Cons d xs)
  then show ?case
    by (cases ys) (auto dest: is_chain_range simp: not_le)
qed

lemma is_chain_suffix: "is_chain f n (xs @ c # ys) \<Longrightarrow> is_chain f n (c # ys)"
proof (induction xs)
  case (Cons x xs)
  then show ?case
    by (cases xs) auto
qed simp

text \<open>A chain has an end, so it does not come back to a cluster.\<close>

lemma is_chain_distinct: "is_chain f n cs \<Longrightarrow> distinct cs"
proof (induction cs)
  case (Cons c cs)
  have "c \<notin> set cs"
  proof
    assume "c \<in> set cs"
    then obtain xs ys where "cs = xs @ c # ys"
      by (auto simp: in_set_conv_decomp)
    then have "is_chain f n (c # ys)" "cs \<noteq> ys"
      using Cons.prems is_chain_suffix [of f n "c # xs" c ys] by auto
    then show False
      using is_chain_unique Cons.prems by blast
  qed
  moreover have "is_chain f n cs \<or> cs = []"
    using Cons.prems by (cases cs) auto
  ultimately show ?case
    using Cons.IH by auto
qed simp

lemma is_chain_cong:
  assumes "is_chain f n cs" "\<And>c. c \<in> set cs \<Longrightarrow> g (unat c) = f (unat c)"
  shows "is_chain g n cs"
  using assms by (induction f n cs rule: is_chain.induct) auto

lemma is_chain_upd: "is_chain f n cs \<Longrightarrow> c \<notin> set cs \<Longrightarrow> is_chain (f(unat c := x)) n cs"
  by (erule is_chain_cong) (auto simp flip: word_unat_eq_iff)

text \<open>The counter of free clusters after \<open>k\<close> more became free: it does not pass the number of clusters \<open>m\<close>.\<close>

definition count_freed :: "nat \<Rightarrow> nat \<Rightarrow> nat \<Rightarrow> nat" where
  "count_freed m free k = (if free < m then min (free + k) m else free)"

lemma count_freed_0 [simp]: "count_freed m free 0 = free"
  by (simp add: count_freed_def)

lemma count_freed_Suc: "count_freed m (if free < m then free + 1 else free) k = count_freed m free (Suc k)"
  by (simp add: count_freed_def)

text \<open>The volume after the entries became \<open>f\<close> and the counter of free clusters \<open>k\<close>.\<close>

definition freed :: "('w \<Rightarrow> u32 \<Rightarrow> u8 list) \<Rightarrow> ('w, 's) FATFS_scheme \<Rightarrow> (nat \<Rightarrow> u32) \<Rightarrow> nat \<Rightarrow> ('w, 's) FATFS_scheme \<Rightarrow> bool" where
  "freed sec fs f k fs' \<longleftrightarrow> fat_ok sec fs' \<and> fat sec fs' = f \<and> unat (free_clst fs') = k \<and> n_fatent fs' = n_fatent fs \<and>
     fs_type fs' = fs_type fs \<and> last_clst fs' = last_clst fs"

lemma fat_not_exfat: "fat_ok sec fs \<Longrightarrow> fs_type fs \<noteq> FS_EXFAT"
  by (auto simp: fat_ok_def FS_FAT12_def FS_FAT16_def FS_FAT32_def FS_EXFAT_def)

lemma fat_counters:
  "fat_ok sec (fs\<lparr>free_clst := x, fsi_flag := y\<rparr>) = fat_ok sec fs" "fat sec (fs\<lparr>free_clst := x, fsi_flag := y\<rparr>) = fat sec fs"
  "fat_ok sec (fs\<lparr>last_clst := z\<rparr>) = fat_ok sec fs"
  "fat sec (fs\<lparr>last_clst := z\<rparr>) = fat sec fs"
proof -
  have "fat_bytes sec (fs\<lparr>free_clst := x, fsi_flag := y\<rparr>) = fat_bytes sec fs"
    "fat_bytes sec (fs\<lparr>last_clst := z\<rparr>) = fat_bytes sec fs"
    by (simp_all add: fat_bytes_def sector_of_def fun_eq_iff)
  then show "fat sec (fs\<lparr>free_clst := x, fsi_flag := y\<rparr>) = fat sec fs"
    "fat sec (fs\<lparr>last_clst := z\<rparr>) = fat sec fs"
    by (simp_all add: fat_def)
qed (simp_all add: fat_ok_def mirrored_def in_copy_def)

lemma unat_next: "x < y \<Longrightarrow> unat (x + 1) = unat x + 1" for x y :: u32
proof -
  assume "x < y"
  then have "unat x + 1 < 4294967296"
    using unat_u32_bound [of y] by (simp only: word_less_nat_alt)
  then show ?thesis
    by (simp add: unat_word_ariths)
qed

lemma remove_round_frees:
  assumes disk: "disk_works hal sec" and ok: "fat_ok sec fs" and c: "2 \<le> clst" "clst < n_fatent fs" and nxt: "2 \<le> fat sec fs (unat clst)"
  shows "\<exists>fs' scl' ecl'. remove_round hal obj (clst, scl, ecl, fs) =
       (if fat sec fs (unat clst) < n_fatent fs then Inl (fat sec fs (unat clst), scl', ecl', fs') else Inr (FR_OK, fs')) \<and>
    freed sec fs ((fat sec fs)(unat clst := 0)) (count_freed (unat (n_fatent fs - 2)) (unat (free_clst fs)) 1) fs'"
proof -
  obtain fs1 where fs1: "get_fat hal obj clst fs = (fat sec fs (unat clst), fs1)" "stays sec fs fs1"
    using get_fat_entry [OF disk ok c] by blast
  note s1 = stays_fields [OF fs1(2)]
  obtain fs2 where fs2: "put_fat hal clst 0 fs1 = (FR_OK, fs2)" "geometry fs2 = geometry fs1" "fat_ok sec fs2" "fat sec fs2 = (fat sec fs)(unat clst := 0)"
    using put_fat_entry [OF disk s1(9) c(1), of 0] c(2) by (auto simp: s1)
  define fs3 where "fs3 = (if free_clst fs2 < n_fatent fs2 - 2 then fs2\<lparr>free_clst := free_clst fs2 + 1, fsi_flag := fsi_flag fs2 OR 1\<rparr> else fs2)"
  have g: "n_fatent fs2 = n_fatent fs" "free_clst fs2 = free_clst fs" "fs_type fs2 = fs_type fs" "last_clst fs2 = last_clst fs"
    using fs2(2) s1 by (auto simp: geometry_def)
  have fr: "freed sec fs ((fat sec fs)(unat clst := 0)) (count_freed (unat (n_fatent fs - 2)) (unat (free_clst fs)) 1) fs3"
    using fs2(3,4) unat_next [of "free_clst fs" "n_fatent fs - 2"]
    by (auto simp: freed_def fs3_def g fat_counters count_freed_def word_less_nat_alt simp del: fun_upd_apply)
  have "fat sec fs (unat clst) \<noteq> 0" "fat sec fs (unat clst) \<noteq> 1"
    using nxt by (auto simp: word_le_nat_alt)
  then have "remove_round hal obj (clst, scl, ecl, fs) =
       (if fat sec fs (unat clst) < n_fatent fs
        then Inl (fat sec fs (unat clst), if ecl + 1 = fat sec fs (unat clst) then scl else fat sec fs (unat clst), fat sec fs (unat clst), fs3)
        else Inr (FR_OK, fs3))"
    using fs1 fs2(1) fat_entry_bound(3) fat_not_exfat [OF s1(9)] fat_not_exfat [OF fs2(3)]
    by (auto simp: remove_round_def Let_def fs3_def g)
  then show ?thesis
    using fr by blast
qed

text \<open>The entries of the clusters \<open>cs\<close> become free.\<close>

definition free_entries :: "u32 list \<Rightarrow> (nat \<Rightarrow> u32) \<Rightarrow> nat \<Rightarrow> u32" where
  "free_entries cs f = (\<lambda>k. if k \<in> unat ` set cs then 0 else f k)"

lemma free_entries_Cons: "free_entries cs (f(unat c := 0)) = free_entries (c # cs) f"
  by (auto simp: free_entries_def)

lemma free_entries_1: "f(unat c := 0) = free_entries [c] f"
  by (auto simp: free_entries_def)

lemma remove_loop_frees:
  fixes fs :: "('w, 's) FATFS_scheme"
  assumes disk: "disk_works hal sec" and "fat_ok sec fs" "is_chain (fat sec fs) (n_fatent fs) (c # cs)"
  shows "\<exists>fs'. remove_loop hal obj (c, scl, ecl, fs) = Some (FR_OK, fs') \<and>
    freed sec fs (free_entries (c # cs) (fat sec fs)) (count_freed (unat (n_fatent fs - 2)) (unat (free_clst fs)) (Suc (length cs))) fs'"
  using assms(2,3)
proof (induction cs arbitrary: c scl ecl fs)
  case Nil
  then have c: "2 \<le> c" "c < n_fatent fs" "n_fatent fs \<le> fat sec fs (unat c)"
    by auto
  moreover from this have "2 \<le> fat sec fs (unat c)"
    by order
  ultimately obtain fs' where "remove_round hal obj (c, scl, ecl, fs) = Inr (FR_OK, fs')"
    "freed sec fs ((fat sec fs)(unat c := 0)) (count_freed (unat (n_fatent fs - 2)) (unat (free_clst fs)) 1) fs'"
    using remove_round_frees [OF disk Nil(1) c(1,2), of obj scl ecl] by (auto simp: not_less)
  then show ?case
    by (subst remove_loop.simps) (simp add: free_entries_1 del: fun_upd_apply)
next
  case (Cons d cs)
  then have c: "2 \<le> c" "c < n_fatent fs" "fat sec fs (unat c) = d" "is_chain (fat sec fs) (n_fatent fs) (d # cs)" "c \<notin> set (d # cs)"
    using is_chain_distinct [OF Cons(3)] by auto
  have d: "2 \<le> d" "d < n_fatent fs"
    using is_chain_range [OF c(4)] by auto
  then obtain fs1 scl' ecl' where r: "remove_round hal obj (c, scl, ecl, fs) = Inl (d, scl', ecl', fs1)"
    "freed sec fs ((fat sec fs)(unat c := 0)) (count_freed (unat (n_fatent fs - 2)) (unat (free_clst fs)) 1) fs1"
    using remove_round_frees [OF disk Cons(2) c(1,2), of obj scl ecl] by (auto simp: c(3))
  then have fs1: "fat_ok sec fs1" "fat sec fs1 = (fat sec fs)(unat c := 0)" "n_fatent fs1 = n_fatent fs"
    "unat (free_clst fs1) = count_freed (unat (n_fatent fs - 2)) (unat (free_clst fs)) 1"
    by (auto simp: freed_def)
  have "is_chain (fat sec fs1) (n_fatent fs1) (d # cs)"
    unfolding fs1 using c(4,5) by (rule is_chain_upd)
  then obtain fs' where "remove_loop hal obj (d, scl', ecl', fs1) = Some (FR_OK, fs')"
    "freed sec fs1 (free_entries (d # cs) (fat sec fs1)) (count_freed (unat (n_fatent fs1 - 2)) (unat (free_clst fs1)) (Suc (length cs))) fs'"
    using Cons.IH [OF fs1(1)] by blast
  moreover have "count_freed m (count_freed m k 1) (Suc l) = count_freed m k (Suc (Suc l))" for m k l
    by (auto simp: count_freed_def)
  ultimately have "remove_loop hal obj (c, scl, ecl, fs) = Some (FR_OK, fs')"
    "freed sec fs (free_entries (c # d # cs) (fat sec fs)) (count_freed (unat (n_fatent fs - 2)) (unat (free_clst fs)) (Suc (length (d # cs)))) fs'"
    using r(2) by (simp_all add: remove_loop.simps [of _ _ "(c, scl, ecl, fs)"] r(1) freed_def fs1 free_entries_Cons del: fun_upd_apply)
  then show ?case
    by blast
qed

lemma remove_chain_lemma:
  assumes disk: "disk_works hal sec" and ok: "fat_ok sec fs" and chain: "is_chain (fat sec fs) (n_fatent fs) (c # cs)"
    and p: "pclst = 0 \<or> 2 \<le> pclst \<and> pclst < n_fatent fs \<and> pclst \<notin> set (c # cs)"
  shows "\<exists>fs'. remove_chain hal obj c pclst fs = Some (FR_OK, obj, fs') \<and>
    freed sec fs (free_entries (c # cs) (if pclst = 0 then fat sec fs else (fat sec fs)(unat pclst := fat_mask (fs_type fs))))
      (count_freed (unat (n_fatent fs - 2)) (unat (free_clst fs)) (Suc (length cs))) fs'"
proof -
  let ?f = "if pclst = 0 then fat sec fs else (fat sec fs)(unat pclst := fat_mask (fs_type fs))"
  obtain fs1 where fs1: "(if pclst \<noteq> 0 then put_fat hal pclst 0xFFFFFFFF fs else (FR_OK, fs)) = (FR_OK, fs1)"
    "geometry fs1 = geometry fs" "fat_ok sec fs1" "fat sec fs1 = ?f"
  proof (cases "pclst = 0")
    case True
    then show ?thesis
      using that ok by auto
  next
    case False
    have "(0xFFFFFFFF :: u32) AND fat_mask (fs_type fs) = fat_mask (fs_type fs)"
      by (rule eoc_mask)
    then obtain fs1 where "put_fat hal pclst 0xFFFFFFFF fs = (FR_OK, fs1)" "geometry fs1 = geometry fs" "fat_ok sec fs1"
      "fat sec fs1 = (fat sec fs)(unat pclst := fat_mask (fs_type fs))"
      using put_fat_entry [OF disk ok, where clst = pclst and val = "0xFFFFFFFF"] p False by (metis (no_types))
    then show ?thesis
      using that False by simp
  qed
  have g: "n_fatent fs1 = n_fatent fs" "free_clst fs1 = free_clst fs" "fs_type fs1 = fs_type fs" "last_clst fs1 = last_clst fs"
    using fs1(2) by (auto simp: geometry_def)
  have "is_chain (fat sec fs1) (n_fatent fs1) (c # cs)"
    unfolding fs1(4) g using chain p is_chain_upd [OF chain, of pclst] by auto
  then obtain fs' where "remove_loop hal obj (c, c, c, fs1) = Some (FR_OK, fs')"
    "freed sec fs1 (free_entries (c # cs) (fat sec fs1)) (count_freed (unat (n_fatent fs1 - 2)) (unat (free_clst fs1)) (Suc (length cs))) fs'"
    using remove_loop_frees [OF disk fs1(3)] by blast
  moreover from this have "chain_status hal obj pclst fs' = Some (FR_OK, obj, fs')"
    by (auto simp: chain_status_def freed_def fat_not_exfat)
  moreover have "2 \<le> c" "c < n_fatent fs" "fs_type fs \<noteq> FS_EXFAT"
    using is_chain_range [OF chain] fat_not_exfat [OF ok] by auto
  ultimately show ?thesis
    using fs1(1,4) by (auto simp: remove_chain_def freed_def g not_less not_le)
qed

section \<open>A new cluster\<close>

text \<open>The clusters that the search from \<open>ncl\<close> on still looks at: up to the end of the table and around to \<open>scl\<close>.\<close>

definition ahead :: "u32 \<Rightarrow> u32 \<Rightarrow> u32 \<Rightarrow> u32 \<Rightarrow> bool" where
  "ahead n scl ncl c \<longleftrightarrow> (if ncl < scl then ncl < c \<and> c \<le> scl else ncl < c \<and> c < n \<or> 2 \<le> c \<and> c \<le> scl)"

definition distance :: "u32 \<Rightarrow> u32 \<Rightarrow> u32 \<Rightarrow> nat" where
  "distance n scl ncl = (if ncl < scl then unat scl - unat ncl else unat n - unat ncl + unat scl)"

text \<open>What a search over the clusters \<open>P\<close> has to give.\<close>

definition searched where
  "searched sec fs P res \<longleftrightarrow>
     (case res of
        None \<Rightarrow> False
      | Some (b, r, fs') \<Rightarrow>
          stays sec fs fs' \<and>
          (if b then 2 \<le> r \<and> r < n_fatent fs \<and> fat sec fs (unat r) = 0
           else r = 0 \<and> (\<forall>c. P c \<longrightarrow> fat sec fs (unat c) \<noteq> 0)))"

lemma ahead_wrap:
  assumes "n \<le> ncl + 1" "ncl < n" "scl < n"
  shows "scl < 2 \<Longrightarrow> \<not> ahead n scl ncl c"
    and "2 \<le> scl \<Longrightarrow> ahead n scl ncl c \<longleftrightarrow> c = 2 \<or> scl \<noteq> 2 \<and> ahead n scl 2 c"
    and "2 < scl \<Longrightarrow> distance n scl 2 < distance n scl ncl"
  using assms unat_next [OF assms(2)] by (auto simp: ahead_def distance_def word_less_nat_alt word_le_nat_alt word_unat_eq_iff)

lemma ahead_next:
  assumes "ncl + 1 < n" "ncl < n" "scl < n" "1 \<le> scl" "1 \<le> ncl"
  shows "ahead n scl ncl c \<longleftrightarrow> c = ncl + 1 \<or> ncl + 1 \<noteq> scl \<and> ahead n scl (ncl + 1) c"
    and "ncl + 1 \<noteq> scl \<Longrightarrow> distance n scl (ncl + 1) < distance n scl ncl"
  using assms unat_next [OF assms(2)] by (auto simp: ahead_def distance_def word_less_nat_alt word_le_nat_alt word_unat_eq_iff)

lemma searched_stays:
  assumes "searched sec fs' P res" "stays sec fs fs'"
  shows "searched sec fs P res"
  using assms stays_trans [OF assms(2)] by (auto simp: searched_def stays_fields [OF assms(2)] split: option.splits)

lemma searched_more:
  assumes "searched sec fs P res" "\<And>c. Q c \<Longrightarrow> c = d \<or> P c" "fat sec fs (unat d) \<noteq> 0"
  shows "searched sec fs Q res"
  using assms by (auto simp: searched_def split: if_splits option.splits) metis

text \<open>No entry has the value 1, which \<open>get_fat\<close> uses for an internal error.\<close>

definition no_marks :: "u32 \<Rightarrow> (nat \<Rightarrow> u32) \<Rightarrow> bool" where
  "no_marks n f \<longleftrightarrow> (\<forall>c. 2 \<le> c \<and> c < n \<longrightarrow> f (unat c) \<noteq> 1)"

text \<open>One cluster of the search: the rest \<open>k\<close> is needed when it is not free.\<close>

lemma searched_one:
  assumes disk: "disk_works hal sec" and ok: "fat_ok sec fs" and c: "2 \<le> c" "c < n_fatent fs" and m: "no_marks (n_fatent fs) (fat sec fs)"
    and Q: "\<And>d. Q d \<Longrightarrow> d = c \<or> \<not> stop \<and> P d"
    and rest: "\<And>fs1. stays sec fs fs1 \<Longrightarrow> \<not> stop \<Longrightarrow> searched sec fs1 P (k fs1)"
  shows "searched sec fs Q (let (cs, fs) = get_fat hal obj c fs in if cs = 0 then Some (True, c, fs)
    else if cs = 1 \<or> cs = 0xFFFFFFFF then Some (False, cs, fs) else if stop then Some (False, 0, fs) else k fs)"
proof -
  obtain fs1 where fs1: "get_fat hal obj c fs = (fat sec fs (unat c), fs1)" "stays sec fs fs1"
    using get_fat_entry [OF disk ok c] by blast
  have "fat sec fs (unat c) \<noteq> 1" "fat sec fs (unat c) \<noteq> 0xFFFFFFFF"
    using m c fat_entry_bound(3) by (auto simp: no_marks_def)
  moreover have "searched sec fs Q (k fs1)" if "\<not> stop" "fat sec fs (unat c) \<noteq> 0"
    using searched_stays [OF rest [OF fs1(2) that(1)] fs1(2)] _ that(2) by (rule searched_more) (use Q in blast)
  moreover have "searched sec fs Q (Some (True, c, fs1))" if "fat sec fs (unat c) = 0"
    using that c fs1(2) by (simp add: searched_def)
  moreover have "searched sec fs Q (Some (False, 0, fs1))" if "fat sec fs (unat c) \<noteq> 0" "stop"
    using that Q fs1(2) by (auto simp: searched_def)
  ultimately show ?thesis
    by (simp add: fs1(1))
qed

lemma find_free_works:
  fixes fs :: "('w, 's) FATFS_scheme"
  assumes disk: "disk_works hal sec" and "fat_ok sec fs" "no_marks (n_fatent fs) (fat sec fs)"
    and "1 \<le> scl" "scl < n_fatent fs" "1 \<le> ncl" "ncl < n_fatent fs"
  shows "searched sec fs (ahead (n_fatent fs) scl ncl) (find_free hal obj scl ncl fs)"
  using assms(2-)
proof (induction "distance (n_fatent fs) scl ncl" arbitrary: ncl fs rule: less_induct)
  case less
  have IH: "searched sec fs1 (ahead (n_fatent fs) scl ncl') (find_free hal obj scl ncl' fs1)"
    if "stays sec fs fs1" "distance (n_fatent fs) scl ncl' < distance (n_fatent fs) scl ncl" "1 \<le> ncl'" "ncl' < n_fatent fs" for ncl' fs1
    using less.hyps [of fs1 ncl'] that less.prems by (simp add: stays_fields [OF that(1)])
  show ?case
  proof (cases "n_fatent fs \<le> ncl + 1")
    case True
    note a = ahead_wrap [OF True less.prems(6,4)]
    show ?thesis
    proof (cases "scl < 2")
      case scl: True
      then have "find_free hal obj scl ncl fs = Some (False, 0, fs)"
        using True by (subst find_free.simps) (simp add: Let_def)
      then show ?thesis
        using a(1) [OF scl] stays_refl [OF less.prems(1)] by (simp add: searched_def)
    next
      case False
      then have scl: "2 \<le> scl"
        by simp
      have "find_free hal obj scl ncl fs = (let (cs, fs) = get_fat hal obj 2 fs in if cs = 0 then Some (True, 2, fs)
          else if cs = 1 \<or> cs = 0xFFFFFFFF then Some (False, cs, fs) else if 2 = scl then Some (False, 0, fs) else find_free hal obj scl 2 fs)"
        using True False by (subst find_free.simps) (simp add: Let_def)
      moreover have "2 < n_fatent fs"
        using scl less.prems(4) by order
      ultimately show ?thesis
        using a(2,3) scl IH
        by (simp only:, intro searched_one [OF disk less.prems(1) _ _ less.prems(2), where P = "ahead (n_fatent fs) scl 2"]) auto
    qed
  next
    case False
    then have n: "ncl + 1 < n_fatent fs"
      by simp
    note a = ahead_next [OF n less.prems(6,4,3,5)]
    have "find_free hal obj scl ncl fs = (let (cs, fs) = get_fat hal obj (ncl + 1) fs in if cs = 0 then Some (True, ncl + 1, fs)
          else if cs = 1 \<or> cs = 0xFFFFFFFF then Some (False, cs, fs) else if ncl + 1 = scl then Some (False, 0, fs) else find_free hal obj scl (ncl + 1) fs)"
      using False by (subst find_free.simps) (simp add: Let_def)
    moreover have "2 \<le> ncl + 1" "1 \<le> ncl + 1"
      using unat_next [OF less.prems(6)] less.prems(5) by (simp_all add: word_le_nat_alt)
    ultimately show ?thesis
      using a n IH
      by (simp only:, intro searched_one [OF disk less.prems(1) _ _ less.prems(2), where P = "ahead (n_fatent fs) scl (ncl + 1)"]) auto
  qed
qed

lemma find_free_all:
  assumes disk: "disk_works hal sec" and "fat_ok sec fs" "no_marks (n_fatent fs) (fat sec fs)" "1 \<le> scl" "scl < n_fatent fs"
  shows "searched sec fs (\<lambda>c. 2 \<le> c \<and> c < n_fatent fs) (find_free hal obj scl scl fs)"
proof -
  have "ahead (n_fatent fs) scl scl = (\<lambda>c. 2 \<le> c \<and> c < n_fatent fs)"
    using assms(4,5) by (auto simp: ahead_def fun_eq_iff word_le_nat_alt word_less_nat_alt)
  then show ?thesis
    using find_free_works [OF assms(1-5,4,5), of obj] by simp
qed

lemma find_cluster_works:
  assumes disk: "disk_works hal sec" and ok: "fat_ok sec fs" and m: "no_marks (n_fatent fs) (fat sec fs)" and scl: "1 \<le> scl" "scl < n_fatent fs"
  shows "searched sec fs (\<lambda>c. 2 \<le> c \<and> c < n_fatent fs) (find_cluster hal obj clst scl fs)"
proof (cases "scl = clst")
  case True
  define ncl where "ncl = (if scl + 1 \<ge> n_fatent fs then 2 else scl + 1)"
  have ncl: "2 \<le> ncl" "ncl < n_fatent fs"
    using scl ok unat_next [OF scl(2)] by (auto simp: ncl_def fat_ok_def word_le_nat_alt word_less_nat_alt)
  obtain fs1 where fs1: "get_fat hal obj ncl fs = (fat sec fs (unat ncl), fs1)" "stays sec fs fs1"
    using get_fat_entry [OF disk ok ncl] by blast
  note s1 = stays_fields [OF fs1(2)]
  have e: "fat sec fs (unat ncl) \<noteq> 1" "fat sec fs (unat ncl) \<noteq> 0xFFFFFFFF"
    using m ncl fat_entry_bound(3) by (auto simp: no_marks_def)
  show ?thesis
  proof (cases "fat sec fs (unat ncl) = 0")
    case t: True
    then have "find_cluster hal obj clst scl fs = Some (True, ncl, fs1)"
      using True fs1(1) unfolding find_cluster_def ncl_def [symmetric] by simp
    then show ?thesis
      using t ncl fs1(2) by (simp add: searched_def)
  next
    case False
    define scl' where "scl' = (if last_clst fs1 \<ge> 2 \<and> last_clst fs1 < n_fatent fs1 then last_clst fs1 else scl)"
    have "find_cluster hal obj clst scl fs = find_free hal obj scl' scl' fs1"
      using True False e fs1(1) unfolding find_cluster_def ncl_def [symmetric] by (simp add: scl'_def Let_def)
    moreover have "1 \<le> scl'" "scl' < n_fatent fs1"
      using scl by (auto simp: scl'_def s1 word_le_nat_alt)
    then have "searched sec fs1 (\<lambda>c. 2 \<le> c \<and> c < n_fatent fs1) (find_free hal obj scl' scl' fs1)"
      using find_free_all [OF disk s1(9)] m by (simp add: s1)
    ultimately show ?thesis
      using searched_stays [OF _ fs1(2)] by (simp add: s1)
  qed
next
  case False
  then show ?thesis
    using find_free_all [OF assms] by (simp add: find_cluster_def)
qed

text \<open>Every cluster number fits into an entry.\<close>

lemma and_mask_small: "unat c < 2 ^ k \<Longrightarrow> c AND mask k = c" for c :: u32
  by (simp add: take_bit_eq_mask [symmetric] word_unat_eq_iff unsigned_take_bit_eq take_bit_nat_eq_self)

lemma cluster_mask:
  assumes "fat_ok sec fs" "c < n_fatent fs"
  shows "c AND fat_mask (fs_type fs) = c"
proof -
  have "unat c < max_entries (fs_type fs)"
    using assms by (simp add: fat_ok_def word_less_nat_alt)
  then have "unat c < 2 ^ (if fs_type fs = FS_FAT12 then 12 else if fs_type fs = FS_FAT16 then 16 else 28)"
    by (simp add: max_entries_def split: if_splits)
  then show ?thesis
    unfolding fat_mask_def masks by (auto intro: and_mask_small split: if_splits)
qed

definition links :: "u8 \<Rightarrow> u32 \<Rightarrow> u32 \<Rightarrow> (nat \<Rightarrow> u32) \<Rightarrow> nat \<Rightarrow> u32" where
  "links t clst r f = (if clst = 0 then f(unat r := fat_mask t) else f(unat r := fat_mask t, unat clst := r))"

text \<open>Marking the new cluster as the end of the chain and linking it.\<close>

lemma link_cluster_works:
  assumes disk: "disk_works hal sec" and ok: "fat_ok sec fs" and r: "2 \<le> r" "r < n_fatent fs"
    and clst: "clst = 0 \<or> 2 \<le> clst \<and> clst < n_fatent fs"
  shows "\<exists>fs'. link_cluster hal clst r fs = (FR_OK, fs') \<and>
    geometry fs' = geometry fs \<and> fat_ok sec fs' \<and> fat sec fs' = links (fs_type fs) clst r (fat sec fs)"
proof -
  obtain fs1 where fs1: "put_fat hal r 0xFFFFFFFF fs = (FR_OK, fs1)" "geometry fs1 = geometry fs" "fat_ok sec fs1"
    "fat sec fs1 = (fat sec fs)(unat r := fat_mask (fs_type fs))"
    using put_fat_entry [OF disk ok r, where val = "0xFFFFFFFF"] unfolding eoc_mask by blast
  show ?thesis
  proof (cases "clst = 0")
    case True
    then show ?thesis
      using fs1 by (simp add: links_def link_cluster_def)
  next
    case False
    then have c: "2 \<le> clst" "clst < n_fatent fs1"
      using clst fs1(2) by (auto simp: geometry_def)
    have "r AND fat_mask (fs_type fs1) = r"
      using cluster_mask [OF fs1(3), of r] r(2) fs1(2) by (simp add: geometry_def)
    then obtain fs2 where "put_fat hal clst r fs1 = (FR_OK, fs2)" "geometry fs2 = geometry fs1" "fat_ok sec fs2"
      "fat sec fs2 = (fat sec fs1)(unat clst := r)"
      using put_fat_entry [OF disk fs1(3) c, where val = r] by metis
    then show ?thesis
      using fs1 False by (simp add: links_def link_cluster_def)
  qed
qed

lemma chain_created_ok:
  "chain_created FR_OK r fs =
     (r, fs\<lparr>last_clst := r, free_clst := (if free_clst fs \<le> n_fatent fs - 2 then free_clst fs - 1 else free_clst fs), fsi_flag := fsi_flag fs OR 1\<rparr>)"
  by (simp add: chain_created_def Let_def)

text \<open>The starting point of the search.\<close>

definition chain_ends :: "(nat \<Rightarrow> u32) \<Rightarrow> u32 \<Rightarrow> u32 \<Rightarrow> bool" where
  "chain_ends f n clst \<longleftrightarrow> 2 \<le> clst \<and> clst < n \<and> n \<le> f (unat clst)"

lemma create_chain_search:
  assumes disk: "disk_works hal sec" and ok: "fat_ok sec fs" and free: "free_clst fs \<noteq> 0"
    and clst: "clst = 0 \<or> chain_ends (fat sec fs) (n_fatent fs) clst"
  obtains scl fs1 where "stays sec fs fs1" "1 \<le> scl" "scl < n_fatent fs1"
    "create_chain hal obj clst fs = fat_cluster hal obj clst scl fs1"
proof (cases "clst = 0")
  case True
  have "1 \<le> (if last_clst fs = 0 \<or> last_clst fs \<ge> n_fatent fs then 1 else last_clst fs)"
    "(if last_clst fs = 0 \<or> last_clst fs \<ge> n_fatent fs then 1 else last_clst fs) < n_fatent fs"
    using ok by (auto simp: fat_ok_def word_le_nat_alt word_less_nat_alt word_unat_eq_iff)
  then show ?thesis
    using that [OF stays_refl [OF ok]] free fat_not_exfat [OF ok] True by (simp add: create_chain_def)
next
  case False
  then have c: "2 \<le> clst" "clst < n_fatent fs" "n_fatent fs \<le> fat sec fs (unat clst)"
    using clst by (auto simp: chain_ends_def)
  then obtain fs1 where fs1: "get_fat hal obj clst fs = (fat sec fs (unat clst), fs1)" "stays sec fs fs1"
    using get_fat_entry [OF disk ok] by blast
  note s1 = stays_fields [OF fs1(2)]
  have "\<not> fat sec fs (unat clst) < 2" "\<not> fat sec fs (unat clst) < n_fatent fs" "1 \<le> clst"
    using c by (auto simp: word_le_nat_alt word_less_nat_alt)
  then show ?thesis
    using that [OF fs1(2), of clst] free fat_not_exfat [OF s1(9)] False fs1(1) fat_entry_bound(3) [of sec fs] c(2)
    by (simp add: create_chain_def s1)
qed

lemma create_chain_lemma:
  assumes disk: "disk_works hal sec" and ok: "fat_ok sec fs" and m: "no_marks (n_fatent fs) (fat sec fs)" and free: "free_clst fs \<noteq> 0"
    and clst: "clst = 0 \<or> chain_ends (fat sec fs) (n_fatent fs) clst"
  shows "\<exists>r fs'. create_chain hal obj clst fs = Some (r, obj, fs') \<and> fat_ok sec fs' \<and>
    (if \<exists>c. 2 \<le> c \<and> c < n_fatent fs \<and> fat sec fs (unat c) = 0
     then 2 \<le> r \<and> r < n_fatent fs \<and> fat sec fs (unat r) = 0 \<and> fat sec fs' = links (fs_type fs) clst r (fat sec fs) \<and> last_clst fs' = r \<and>
       free_clst fs' = (if free_clst fs \<le> n_fatent fs - 2 then free_clst fs - 1 else free_clst fs)
     else r = 0 \<and> fat sec fs' = fat sec fs \<and> free_clst fs' = free_clst fs)"
proof -
  obtain scl fs1 where fs1: "stays sec fs fs1" "1 \<le> scl" "scl < n_fatent fs1" and create: "create_chain hal obj clst fs = fat_cluster hal obj clst scl fs1"
    using create_chain_search [OF disk ok free clst] by blast
  have "searched sec fs (\<lambda>c. 2 \<le> c \<and> c < n_fatent fs) (find_cluster hal obj clst scl fs1)"
    using searched_stays [OF find_cluster_works [OF disk stays_fields(9) [OF fs1(1)] _ fs1(2,3)] fs1(1)] m by (simp add: stays_fields [OF fs1(1)])
  then obtain b r fs2 where find: "find_cluster hal obj clst scl fs1 = Some (b, r, fs2)" "stays sec fs fs2"
    "if b then 2 \<le> r \<and> r < n_fatent fs \<and> fat sec fs (unat r) = 0 else r = 0 \<and> (\<forall>c. 2 \<le> c \<and> c < n_fatent fs \<longrightarrow> fat sec fs (unat c) \<noteq> 0)"
    by (auto simp: searched_def split: option.splits)
  note s2 = stays_fields [OF find(2)]
  show ?thesis
  proof (cases b)
    case True
    then have r: "2 \<le> r" "r < n_fatent fs" "fat sec fs (unat r) = 0"
      using find(3) by auto
    obtain fs3 where fs3: "link_cluster hal clst r fs2 = (FR_OK, fs3)" "geometry fs3 = geometry fs2"
      "fat_ok sec fs3" "fat sec fs3 = links (fs_type fs) clst r (fat sec fs)"
      using link_cluster_works [OF disk s2(9) r(1), of clst] r(2) clst by (auto simp: s2 chain_ends_def)
    have g: "free_clst fs3 = free_clst fs" "n_fatent fs3 = n_fatent fs"
      using fs3(2) s2 by (auto simp: geometry_def)
    show ?thesis
      using r fs3(3,4) by (auto simp: create fat_cluster_def find(1) True fs3(1) chain_created_ok fat_counters g)
  next
    case False
    then show ?thesis
      using find(3) s2 by (auto simp: create fat_cluster_def find(1))
  qed
qed

section \<open>The copies on the disk\<close>

text \<open>The bytes of the copy \<open>i\<close> of the FAT on the disk.\<close>

definition raw_fat :: "('w \<Rightarrow> u32 \<Rightarrow> u8 list) \<Rightarrow> ('w, 's) FATFS_scheme \<Rightarrow> nat \<Rightarrow> nat \<Rightarrow> u8" where
  "raw_fat sec fs i k = sec (disk fs) (fatbase fs + of_nat i * fsize fs + of_nat (k div SS)) ! (k mod SS)"

lemma fat_get_cong:
  assumes ok: "fat_ok sec fs" and c: "2 \<le> c" "c < n_fatent fs" and g: "\<And>k. k < unat (fsize fs) * SS \<Longrightarrow> g k = fat_bytes sec fs k"
  shows "fat_get (fs_type fs) g (unat c) = fat sec fs (unat c)"
proof -
  note e = entry_index(2,4,6) [OF ok c]
  have "fs_type fs \<in> {FS_FAT12, FS_FAT16, FS_FAT32}"
    using ok by (simp add: fat_ok_def)
  then consider "fs_type fs = FS_FAT12" | "fs_type fs = FS_FAT16" | "fs_type fs = FS_FAT32"
    by auto
  then show ?thesis
  proof cases
    case 1
    then show ?thesis
      using e(1) by (simp add: fat_def fat_get_def get12_def g)
  next
    case 2
    then show ?thesis
      using e(2) by (simp add: fat_def fat_get_def get16_def g FS_FAT12_def FS_FAT16_def)
  next
    case 3
    then show ?thesis
      using e(3) by (simp add: fat_def fat_get_def get32_def dword_at_def g FS_FAT12_def FS_FAT16_def FS_FAT32_def)
  qed
qed

lemma synced_copies:
  assumes disk: "disk_works hal sec" and ok: "fat_ok sec fs" and i: "i = 0 \<or> i = 1 \<and> n_fats fs = 2"
  obtains fs' where "sync_window hal fs = (FR_OK, fs')" "wflag fs' = 0" "\<And>k. k < unat (fsize fs) * SS \<Longrightarrow> raw_fat sec fs' i k = fat_bytes sec fs k"
proof -
  obtain fs' where fs': "sync_window hal fs = (FR_OK, fs')" "geometry fs' = geometry fs" "wflag fs' = 0"
    "\<forall>s. s \<noteq> 0xFFFFFFFF \<longrightarrow> \<not> in_copy fs s \<longrightarrow> sec (disk fs') s = sector_of sec fs s"
    using sync_window_works [OF disk ok] by blast
  have g: "fatbase fs' = fatbase fs" "fsize fs' = fsize fs" "n_fats fs' = n_fats fs"
    using fs'(2) by (auto simp: geometry_def)
  have "raw_fat sec fs' i k = fat_bytes sec fs k" if k: "k < unat (fsize fs) * SS" for k
  proof -
    have "of_nat (k div SS) < fsize fs"
      using fat_index [OF k] by (simp add: word_less_nat_alt)
    then have "i = 1 \<Longrightarrow> sec (disk fs') (fatbase fs + fsize fs + of_nat (k div SS)) = sec (disk fs') (fatbase fs + of_nat (k div SS))"
      using mirrored_sync [OF disk ok] i fs'(1) by (auto simp: mirrored_def g)
    moreover have "sec (disk fs') (fatbase fs + of_nat (k div SS)) = sector_of sec fs (fatbase fs + of_nat (k div SS))"
      using fs'(4) fat_sector [OF ok k] by blast
    ultimately show ?thesis
      using i k by (auto simp: raw_fat_def fat_bytes_def g)
  qed
  then show thesis
    using that fs'(1,3) by blast
qed

section \<open>Properties\<close>

text \<open>A disk in memory, and a FAT12 volume on it with ten entries and the chain of clusters 3 and 4.\<close>

definition sectors :: "(u32 \<Rightarrow> u8 list) \<Rightarrow> u32 \<Rightarrow> u8 list" where
  "sectors w s = (if length (w s) = SS then w s else replicate SS 0)"

definition memory_disk :: "(u32 \<Rightarrow> u8 list) disk_hal" where
  "memory_disk =
     \<lparr>disk_read = (\<lambda>s w. (RES_OK, sectors w s, w)), disk_write = (\<lambda>b s w. (RES_OK, w(s := b))),
      disk_ioctl_sync = (\<lambda>w. (RES_OK, w))\<rparr>"

definition small_table :: "u8 list" where
  "small_table = [0xF8, 0xFF, 0xFF, 0x00, 0x40, 0x00, 0xFF, 0x0F, 0x00] @ replicate 503 0"

definition small_volume :: "(u32 \<Rightarrow> u8 list) FATFS" where
  "small_volume =
     \<lparr>disk = (\<lambda>s. if s = 1 \<or> s = 2 then small_table else []), fs_type = FS_FAT12, n_fats = 2, wflag = 0, fsi_flag = 0x80,
      mount_id = 1, n_rootdir = 16, csize = 1, last_clst = 0xFFFFFFFF, free_clst = 0xFFFFFFFF, n_fatent = 10, fsize = 1, volbase = 0, fatbase = 1, dirbase = 3, database = 4,
      winsect = 1, win = small_table\<rparr>"

definition no_object :: FFOBJID where
  "no_object = \<lparr>stat = 0, sclust = 0, objsize = 0, n_cont = 0, n_frag = 0\<rparr>"

lemma memory_disk_works: "disk_works memory_disk sectors"
proof -
  have "sectors (w(s := b)) = (sectors w)(s := b)" if "length b = SS" for w s b
    using that by (auto simp: sectors_def)
  moreover have "length (sectors w s) = SS" for w s
    by (simp add: sectors_def)
  ultimately show ?thesis
    by (simp add: disk_works_def memory_disk_def del: fun_upd_apply)
qed

lemma small_volume_ok: "fat_ok sectors small_volume"
proof -
  have "mirrored sectors small_volume"
    by (auto simp: mirrored_def in_copy_def small_volume_def sectors_def small_table_def SS_def word_less_nat_alt unat_eq_0)
  then show ?thesis
    by (simp add: fat_ok_def small_volume_def sectors_def small_table_def SS_def max_entries_def table_bytes_def FS_FAT12_def)
qed

lemma small_fields:
  "n_fatent small_volume = 10" "fs_type small_volume = FS_FAT12" "free_clst small_volume = 0xFFFFFFFF"
  by (simp_all add: small_volume_def)

lemma small_entry:
  "k < 10 \<Longrightarrow> fat sectors small_volume k = [0xFF8, 0xFFF, 0, 4, 0xFFF, 0, 0, 0, 0, 0] ! k"
proof -
  have b: "fat_bytes sectors small_volume j = small_table ! j" if "j < 512" for j
    using that by (simp add: fat_bytes_def sector_of_def small_volume_def SS_def)
  assume "k < 10"
  then have "k = 0 \<or> k = 1 \<or> k = 2 \<or> k = 3 \<or> k = 4 \<or> k = 5 \<or> k = 6 \<or> k = 7 \<or> k = 8 \<or> k = 9"
    by presburger
  moreover have "fs_type small_volume = FS_FAT12"
    by (simp add: small_volume_def)
  ultimately show ?thesis
    by (elim disjE) (simp_all add: fat_def fat_get_def get12_def b small_table_def Let_def nth_append nth_Cons')
qed

text \<open>C10: The FAT is an array of entries. On a mounted FAT12, FAT16 or FAT32 volume and a disk that works, \<open>put_fat\<close>
  succeeds for every cluster of the volume; afterwards \<open>get_fat\<close> returns the value for this cluster, cut to the width
  of an entry, and what it returned before for every other cluster, the neighbour included that shares a byte with
  the entry on a FAT12 volume.\<close>

theorem put_fat_get_fat:
  assumes "disk_works hal sec" "fat_ok sec fs" "2 \<le> clst" "clst < n_fatent fs"
  shows "\<exists>fs'. put_fat hal clst val fs = (FR_OK, fs') \<and> fat_ok sec fs' \<and>
    (\<forall>c. 2 \<le> c \<and> c < n_fatent fs \<longrightarrow>
       fst (get_fat hal obj c fs') = (if c = clst then val AND fat_mask (fs_type fs) else fst (get_fat hal obj c fs)))"
proof -
  obtain fs' where fs': "put_fat hal clst val fs = (FR_OK, fs')" "geometry fs' = geometry fs" "fat_ok sec fs'"
    "fat sec fs' = (fat sec fs)(unat clst := val AND fat_mask (fs_type fs))"
    using put_fat_entry [OF assms] by blast
  have "fst (get_fat hal obj c fs') = (if c = clst then val AND fat_mask (fs_type fs) else fst (get_fat hal obj c fs))"
    if c: "2 \<le> c" "c < n_fatent fs" for c
  proof -
    have "fst (get_fat hal obj c fs) = fat sec fs (unat c)"
      using get_fat_entry [OF assms(1,2) c, of obj] by (metis fst_conv)
    moreover have "c < n_fatent fs'"
      using fs'(2) c by (simp add: geometry_def)
    then have "fst (get_fat hal obj c fs') = fat sec fs' (unat c)"
      using get_fat_entry [OF assms(1) fs'(3) c(1), of obj] by (metis fst_conv)
    ultimately show ?thesis
      using fs'(4) by (simp flip: word_unat_eq_iff)
  qed
  then show ?thesis
    using fs'(1,3) by blast
qed

theorem put_fat_get_fat_witness:
  "\<exists>fs'. put_fat memory_disk 5 0x1234 small_volume = (FR_OK, fs') \<and> fst (get_fat memory_disk no_object 5 fs') = 0x234 \<and>
     fst (get_fat memory_disk no_object 4 fs') = 0xFFF"
proof -
  have "2 \<le> (5 :: u32)" "5 < n_fatent small_volume" "2 \<le> (4 :: u32)" "4 < n_fatent small_volume"
    by (simp_all add: small_fields)
  note c = this
  from put_fat_get_fat [OF memory_disk_works small_volume_ok c(1,2), of "0x1234" no_object]
  obtain fs' where fs': "put_fat memory_disk 5 0x1234 small_volume = (FR_OK, fs')"
    "\<forall>c. 2 \<le> c \<and> c < n_fatent small_volume \<longrightarrow> fst (get_fat memory_disk no_object c fs') =
       (if c = 5 then 0x1234 AND fat_mask (fs_type small_volume) else fst (get_fat memory_disk no_object c small_volume))"
    by blast
  have "fst (get_fat memory_disk no_object 4 small_volume) = fat sectors small_volume (unat (4 :: u32))"
    using get_fat_entry [OF memory_disk_works small_volume_ok c(3,4), of no_object] by (metis fst_conv)
  then show ?thesis
    using fs' by (simp add: small_entry small_fields fat_mask_def)
qed

text \<open>C11: A changed entry reaches the disk. After \<open>put_fat\<close> and \<open>sync_window\<close>, the table that is on the disk, and the second
  one if the volume has two, holds the new value for the cluster and the former ones for all others.\<close>

theorem put_fat_written:
  assumes "disk_works hal sec" "fat_ok sec fs" "2 \<le> clst" "clst < n_fatent fs" "i = 0 \<or> i = 1 \<and> n_fats fs = 2"
  shows "\<exists>fs' fs''. put_fat hal clst val fs = (FR_OK, fs') \<and> sync_window hal fs' = (FR_OK, fs'') \<and> wflag fs'' = 0 \<and>
    (\<forall>c. 2 \<le> c \<and> c < n_fatent fs \<longrightarrow>
       fat_get (fs_type fs) (raw_fat sec fs'' i) (unat c) = (if c = clst then val AND fat_mask (fs_type fs) else fat sec fs (unat c)))"
proof -
  obtain fs' where fs': "put_fat hal clst val fs = (FR_OK, fs')" "geometry fs' = geometry fs" "fat_ok sec fs'"
    "fat sec fs' = (fat sec fs)(unat clst := val AND fat_mask (fs_type fs))"
    using put_fat_entry [OF assms(1-4)] by blast
  have g: "n_fats fs' = n_fats fs" "n_fatent fs' = n_fatent fs" "fs_type fs' = fs_type fs"
    using fs'(2) by (auto simp: geometry_def)
  obtain fs'' where fs'': "sync_window hal fs' = (FR_OK, fs'')" "wflag fs'' = 0"
    "\<And>k. k < unat (fsize fs') * SS \<Longrightarrow> raw_fat sec fs'' i k = fat_bytes sec fs' k"
    using synced_copies [OF assms(1) fs'(3)] assms(5) unfolding g by blast
  have "fat_get (fs_type fs) (raw_fat sec fs'' i) (unat c) = fat sec fs' (unat c)" if "2 \<le> c" "c < n_fatent fs" for c
    using fat_get_cong [OF fs'(3) that(1) _ fs''(3)] that(2) by (simp add: g)
  then show ?thesis
    using fs'(1,4) fs''(1,2) by (auto simp flip: word_unat_eq_iff)
qed

theorem put_fat_written_witness:
  "\<exists>fs' fs''. put_fat memory_disk 5 7 small_volume = (FR_OK, fs') \<and> sync_window memory_disk fs' = (FR_OK, fs'') \<and>
     fat_get FS_FAT12 (raw_fat sectors fs'' 1) 5 = 7 \<and> fat_get FS_FAT12 (raw_fat sectors fs'' 1) 4 = 0xFFF"
proof -
  have "2 \<le> (5 :: u32)" "5 < n_fatent small_volume" "1 = (0 :: nat) \<or> 1 = (1 :: nat) \<and> n_fats small_volume = 2"
    by (simp_all add: small_volume_def)
  from put_fat_written [OF memory_disk_works small_volume_ok this, of 7]
  obtain fs' fs'' where *: "put_fat memory_disk 5 7 small_volume = (FR_OK, fs')" "sync_window memory_disk fs' = (FR_OK, fs'')"
    "\<And>c. 2 \<le> c \<Longrightarrow> c < n_fatent small_volume \<Longrightarrow> fat_get (fs_type small_volume) (raw_fat sectors fs'' 1) (unat c) =
       (if c = 5 then 7 AND fat_mask (fs_type small_volume) else fat sectors small_volume (unat c))"
    by blast
  then show ?thesis
    using *(3) [of 5] *(3) [of 4] by (simp add: small_fields fat_mask_def small_entry)
qed

text \<open>C9: Removing a chain ends and frees its clusters. For a chain of clusters on a mounted FAT12, FAT16 or FAT32
  volume, \<open>remove_chain\<close> returns \<open>FR_OK\<close>; then the entries of all clusters of the chain are 0 and no other entry has
  changed, except that the entry of the previous cluster, if there is one, is the mark for the end of a chain; the
  number of free clusters grows by the length of the chain, up to the number of clusters.\<close>

theorem remove_chain_frees:
  assumes "disk_works hal sec" "fat_ok sec fs" "is_chain (fat sec fs) (n_fatent fs) (c # cs)"
    and "pclst = 0 \<or> 2 \<le> pclst \<and> pclst < n_fatent fs \<and> pclst \<notin> set (c # cs)"
  shows "\<exists>fs'. remove_chain hal obj c pclst fs = Some (FR_OK, obj, fs') \<and> fat_ok sec fs' \<and>
    (\<forall>k. fat sec fs' k =
       (if k \<in> unat ` set (c # cs) then 0 else if pclst \<noteq> 0 \<and> k = unat pclst then fat_mask (fs_type fs) else fat sec fs k)) \<and>
    unat (free_clst fs') = count_freed (unat (n_fatent fs - 2)) (unat (free_clst fs)) (length (c # cs))"
proof -
  obtain fs' where "remove_chain hal obj c pclst fs = Some (FR_OK, obj, fs')"
    "freed sec fs (free_entries (c # cs) (if pclst = 0 then fat sec fs else (fat sec fs)(unat pclst := fat_mask (fs_type fs))))
      (count_freed (unat (n_fatent fs - 2)) (unat (free_clst fs)) (Suc (length cs))) fs'"
    using remove_chain_lemma [OF assms, of obj] by blast
  then show ?thesis
    by (auto simp: freed_def free_entries_def)
qed

theorem remove_chain_frees_witness:
  "\<exists>fs'. remove_chain memory_disk no_object 3 0 small_volume = Some (FR_OK, no_object, fs') \<and>
     (\<forall>k \<in> {2..<10}. fat sectors fs' k = 0)"
proof -
  have "is_chain (fat sectors small_volume) (n_fatent small_volume) [3, 4]"
    by (simp add: small_fields small_entry)
  from remove_chain_frees [OF memory_disk_works small_volume_ok this, of 0 no_object]
  obtain fs' where fs': "remove_chain memory_disk no_object 3 0 small_volume = Some (FR_OK, no_object, fs')"
    "\<forall>k. fat sectors fs' k = (if k \<in> unat ` set [3, 4 :: u32] then 0 else fat sectors small_volume k)"
    by auto
  have "fat sectors fs' k = 0" if "k \<in> {2..<10}" for k
  proof -
    have "k = 2 \<or> k = 3 \<or> k = 4 \<or> k = 5 \<or> k = 6 \<or> k = 7 \<or> k = 8 \<or> k = 9"
      using that by simp presburger
    then show ?thesis
      using fs'(2) by (elim disjE) (simp_all add: small_entry)
  qed
  then show ?thesis
    using fs'(1) by blast
qed

text \<open>C8: A chain is started or extended by a free cluster. On a mounted FAT12, FAT16 or FAT32 volume whose counter
  does not say that it is full, the search of \<open>create_chain\<close> ends. If some cluster is free, the result is a cluster that
  was free; its entry is the mark for the end of a chain, the entry of the cluster to extend, if there is one, is the
  new cluster, and no other entry has changed. If no cluster is free, the result is 0 and the table is as before.\<close>

theorem create_chain_allocates:
  assumes "disk_works hal sec" "fat_ok sec fs" "no_marks (n_fatent fs) (fat sec fs)" "free_clst fs \<noteq> 0"
    and "clst = 0 \<or> chain_ends (fat sec fs) (n_fatent fs) clst"
  shows "\<exists>r fs'. create_chain hal obj clst fs = Some (r, obj, fs') \<and> fat_ok sec fs' \<and>
    (if \<exists>c. 2 \<le> c \<and> c < n_fatent fs \<and> fat sec fs (unat c) = 0
     then 2 \<le> r \<and> r < n_fatent fs \<and> fat sec fs (unat r) = 0 \<and> last_clst fs' = r \<and>
       (\<forall>k. fat sec fs' k =
          (if k = unat r then fat_mask (fs_type fs) else if clst \<noteq> 0 \<and> k = unat clst then r else fat sec fs k))
     else r = 0 \<and> fat sec fs' = fat sec fs)"
proof -
  obtain r fs' where *: "create_chain hal obj clst fs = Some (r, obj, fs')" "fat_ok sec fs'"
    "if \<exists>c. 2 \<le> c \<and> c < n_fatent fs \<and> fat sec fs (unat c) = 0
     then 2 \<le> r \<and> r < n_fatent fs \<and> fat sec fs (unat r) = 0 \<and> fat sec fs' = links (fs_type fs) clst r (fat sec fs) \<and> last_clst fs' = r \<and>
       free_clst fs' = (if free_clst fs \<le> n_fatent fs - 2 then free_clst fs - 1 else free_clst fs)
     else r = 0 \<and> fat sec fs' = fat sec fs \<and> free_clst fs' = free_clst fs"
    using create_chain_lemma [OF assms, of obj] by blast
  have "links (fs_type fs) clst r (fat sec fs) k =
      (if k = unat r then fat_mask (fs_type fs) else if clst \<noteq> 0 \<and> k = unat clst then r else fat sec fs k)"
    if "fat sec fs (unat r) = 0" for k
  proof -
    have "clst \<noteq> 0 \<Longrightarrow> clst \<noteq> r"
      using assms(5) that by (auto simp: chain_ends_def)
    then show ?thesis
      by (simp add: links_def flip: word_unat_eq_iff)
  qed
  then show ?thesis
    using * by (cases "\<exists>c. 2 \<le> c \<and> c < n_fatent fs \<and> fat sec fs (unat c) = 0") auto
qed

theorem create_chain_allocates_witness:
  "\<exists>r fs'. create_chain memory_disk no_object 4 small_volume = Some (r, no_object, fs') \<and>
     fat sectors small_volume (unat r) = 0 \<and> fat sectors fs' 4 = r \<and> fat sectors fs' (unat r) = 0xFFF"
proof -
  have m: "no_marks (n_fatent small_volume) (fat sectors small_volume)"
  proof -
    have "fat sectors small_volume k \<noteq> 1" if "k < 10" for k
      using that by (simp add: small_entry nth_Cons')
    then show ?thesis
      by (simp add: no_marks_def small_fields word_less_nat_alt)
  qed
  have f: "free_clst small_volume \<noteq> 0" "chain_ends (fat sectors small_volume) (n_fatent small_volume) 4"
    "\<exists>c. 2 \<le> c \<and> c < n_fatent small_volume \<and> fat sectors small_volume (unat c) = 0"
    by (auto simp: small_fields chain_ends_def small_entry intro!: exI [of _ 2])
  show ?thesis
    using create_chain_allocates [OF memory_disk_works small_volume_ok m f(1), of 4 no_object] f(2,3)
    by (auto simp: small_fields fat_mask_def small_entry)
qed

end
