(* ===== verification/Fat_Mount.thy ===== *)
theory Fat_Mount
  imports Fat_Table
begin

text \<open>
  Mounting a volume in FatFs, \<open>src/ext/fatfs/src/ff.c\<close>: finding the partition, reading the boot sector and setting up
  the file system object (\<open>find_volume\<close>, \<open>f_mount\<close>). The firmware has one such object; \<open>FatFs\<close> tells whether it is
  registered for the only drive. A mounted FAT volume satisfies \<open>fat_ok\<close>, on which the theory of the table rests.
\<close>

section \<open>Boot sectors\<close>

record 'w drive_hal = "'w disk_hal" +
  disk_status :: "'w \<Rightarrow> u8 \<times> 'w"
  disk_initialize :: "'w \<Rightarrow> u8 \<times> 'w"

record 'w ff = "'w FATFS" +
  FatFs :: bool
  Fsid :: u16

definition STA_NOINIT :: u8 where
  "STA_NOINIT = 0x01"

definition STA_PROTECT :: u8 where
  "STA_PROTECT = 0x04"

definition FA_READ :: u8 where
  "FA_READ = 0x01"

definition ld_qword :: "u8 list \<Rightarrow> nat \<Rightarrow> u64" where
  "ld_qword b i = fold (\<lambda>j rv. push_bit 8 rv OR ucast (b ! (i + j))) [6, 5, 4, 3, 2, 1, 0] (ucast (b ! (i + 7)))"

text \<open>The number of the drive, \<open>-1\<close> if there is none, and the path behind it. \<open>None\<close> is the null pointer.\<close>

definition get_ldnumber :: "string option \<Rightarrow> int \<times> string option" where
  "get_ldnumber path =
     (case path of
        None \<Rightarrow> (-1, None)
      | Some p \<Rightarrow>
          (case dropWhile (\<lambda>c. (of_char c :: u8) \<ge> 0x20 \<and> c \<noteq> CHR '':'') p of
             (c # rest) \<Rightarrow>
               if c = CHR '':''
               then (if length rest + 2 = length p \<and> p ! 0 = CHR ''0'' then (0, Some rest) else (-1, path))
               else (0, path)
           | [] \<Rightarrow> (0, path)))"

definition mem_eq :: "u8 list \<Rightarrow> nat \<Rightarrow> u8 list \<Rightarrow> bool" where
  "mem_eq b i s \<longleftrightarrow> take (length s) (drop i b) = s"

definition check_fs :: "('w, 'h) disk_hal_scheme \<Rightarrow> u32 \<Rightarrow> ('w, 's) FATFS_scheme \<Rightarrow> u8 \<times> ('w, 's) FATFS_scheme" where
  "check_fs hal sect fs =
     (let (res, fs) = move_window hal sect (fs\<lparr>wflag := 0, winsect := 0xFFFFFFFF\<rparr>)
      in if res \<noteq> FR_OK then (4, fs)
         else if ld_word (win fs) 510 \<noteq> 0xAA55 then (3, fs)
         else if mem_eq (win fs) 0 ([0xEB, 0x76, 0x90] @ map of_char ''EXFAT   '') then (1, fs)
         else if (win fs ! 0 = 0xE9 \<or> win fs ! 0 = 0xEB \<and> win fs ! 2 = 0x90) \<and>
                 (mem_eq (win fs) 54 (map of_char ''FAT'') \<or> mem_eq (win fs) 82 (map of_char ''FAT32'')) then (0, fs)
         else (2, fs))"

text \<open>The partitions of a drive, tried in turn.\<close>

definition partition_table :: "u8 list \<Rightarrow> u32 list" where
  "partition_table b = map (\<lambda>i. if b ! (446 + i * 16 + 4) \<noteq> 0 then ld_dword b (446 + i * 16 + 8) else 0) [0, 1, 2, 3]"

fun try_partitions ::
  "('w, 'h) disk_hal_scheme \<Rightarrow> u32 list \<Rightarrow> u32 \<Rightarrow> u8 \<Rightarrow> ('w, 's) FATFS_scheme \<Rightarrow> u32 \<times> u8 \<times> ('w, 's) FATFS_scheme" where
  "try_partitions hal [] bsect fmt fs = (bsect, fmt, fs)"
| "try_partitions hal (b # br) bsect fmt fs =
     (let (fmt, fs) = (if b \<noteq> 0 then check_fs hal b fs else (3, fs))
      in if fmt \<ge> 2 then try_partitions hal br b fmt fs else (b, fmt, fs))"

definition find_boot :: "('w, 'h) disk_hal_scheme \<Rightarrow> ('w, 's) FATFS_scheme \<Rightarrow> u32 \<times> u8 \<times> ('w, 's) FATFS_scheme" where
  "find_boot hal fs =
     (let (fmt, fs) = check_fs hal 0 fs
      in if fmt = 2 then try_partitions hal (partition_table (win fs)) 0 fmt fs else (0, fmt, fs))"

section \<open>Setting up the object\<close>

definition MAX_FAT12 :: u32 where
  "MAX_FAT12 = 0xFF5"

definition MAX_FAT16 :: u32 where
  "MAX_FAT16 = 0xFFF5"

definition MAX_FAT32 :: u32 where
  "MAX_FAT32 = 0x0FFFFFF5"

definition MAX_EXFAT :: u32 where
  "MAX_EXFAT = 0x7FFFFFFD"

text \<open>An exFAT volume: the result, and the type to store. A shift by 32 or more, which C leaves open, gives 0.\<close>

definition mount_exfat ::
  "('w, 'h) disk_hal_scheme \<Rightarrow> u32 \<Rightarrow> ('w, 's) FATFS_scheme \<Rightarrow> (FRESULT + u8) \<times> ('w, 's) FATFS_scheme" where
  "mount_exfat hal bsect fs =
     (if \<not> list_all (\<lambda>i. win fs ! i = 0) [11..<64] then (Inl FR_NO_FILESYSTEM, fs)
      else if ld_word (win fs) 104 \<noteq> 0x100 then (Inl FR_NO_FILESYSTEM, fs)
      else if push_bit (unat (win fs ! 108)) (1 :: u32) \<noteq> of_nat SS then (Inl FR_NO_FILESYSTEM, fs)
      else
        (let maxlba = ld_qword (win fs) 72 + ucast bsect
         in if maxlba \<ge> 0x100000000 then (Inl FR_NO_FILESYSTEM, fs)
            else
              (let fs = fs\<lparr>fsize := ld_dword (win fs) 84, n_fats := win fs ! 110\<rparr>
               in if n_fats fs \<noteq> 1 then (Inl FR_NO_FILESYSTEM, fs)
                  else
                    (let fs = fs\<lparr>csize := ucast (push_bit (unat (win fs ! 109)) (1 :: u32))\<rparr>
                     in if csize fs = 0 then (Inl FR_NO_FILESYSTEM, fs)
                        else
                          (let nclst = ld_dword (win fs) 92
                           in if nclst > MAX_EXFAT then (Inl FR_NO_FILESYSTEM, fs)
                              else
                                (let fs = fs\<lparr>n_fatent := nclst + 2, volbase := bsect, database := bsect + ld_dword (win fs) 88,
                                       fatbase := bsect + ld_dword (win fs) 80\<rparr>
                                 in if maxlba < ucast (database fs) + ucast (nclst * ucast (csize fs)) then (Inl FR_NO_FILESYSTEM, fs)
                                    else
                                      (let fs = fs\<lparr>dirbase := ld_dword (win fs) 96\<rparr>;
                                           (res, fs) = move_window hal (clst2sect fs (dirbase fs)) fs
                                       in if res \<noteq> FR_OK then (Inl FR_DISK_ERR, fs)
                                          else if \<not> list_ex (\<lambda>i. win fs ! (i * 32) = 0x81 \<and> ld_dword (win fs) (i * 32 + 20) = 2) [0..<SS div 32]
                                          then (Inl FR_NO_FILESYSTEM, fs)
                                          else (Inr FS_EXFAT, fs\<lparr>last_clst := 0xFFFFFFFF, free_clst := 0xFFFFFFFF\<rparr>))))))))"

text \<open>The information sector of a FAT32 volume.\<close>

definition load_fsinfo ::
  "('w, 'h) disk_hal_scheme \<Rightarrow> u32 \<Rightarrow> u8 \<Rightarrow> ('w, 's) FATFS_scheme \<Rightarrow> ('w, 's) FATFS_scheme" where
  "load_fsinfo hal bsect fmt fs =
     (let fs = fs\<lparr>last_clst := 0xFFFFFFFF, free_clst := 0xFFFFFFFF, fsi_flag := 0x80\<rparr>
      in if fmt = FS_FAT32 \<and> ld_word (win fs) 48 = 1
         then
           (let (res, fs) = move_window hal (bsect + 1) fs
            in if res = FR_OK
               then
                 (let fs = fs\<lparr>fsi_flag := 0\<rparr>
                  in if ld_word (win fs) 510 = 0xAA55 \<and> ld_dword (win fs) 0 = 0x41615252 \<and> ld_dword (win fs) 484 = 0x61417272
                     then fs\<lparr>free_clst := ld_dword (win fs) 488, last_clst := ld_dword (win fs) 492\<rparr> else fs)
               else fs)
         else fs)"

definition fat_sub_type :: "u32 \<Rightarrow> u8" where
  "fat_sub_type nclst =
     (if nclst \<le> MAX_FAT12 then FS_FAT12 else if nclst \<le> MAX_FAT16 then FS_FAT16
      else if nclst \<le> MAX_FAT32 then FS_FAT32 else 0)"

text \<open>The limits of a FAT volume with \<open>nclst\<close> clusters, behind \<open>nrsv\<close> reserved sectors and \<open>sysect\<close> system sectors.\<close>

definition fat_limits ::
  "('w, 'h) disk_hal_scheme \<Rightarrow> u32 \<Rightarrow> u16 \<Rightarrow> u32 \<Rightarrow> u32 \<Rightarrow> u32 \<Rightarrow> ('w, 's) FATFS_scheme \<Rightarrow> (FRESULT + u8) \<times> ('w, 's) FATFS_scheme" where
  "fat_limits hal bsect nrsv fasize sysect nclst fs =
     (let fmt = fat_sub_type nclst;
          fs = fs\<lparr>n_fatent := nclst + 2, volbase := bsect, fatbase := bsect + ucast nrsv, database := bsect + sysect\<rparr>
      in if fmt = FS_FAT32 \<and> (ld_word (win fs) 42 \<noteq> 0 \<or> n_rootdir fs \<noteq> 0) then (Inl FR_NO_FILESYSTEM, fs)
         else if fmt \<noteq> FS_FAT32 \<and> n_rootdir fs = 0 then (Inl FR_NO_FILESYSTEM, fs)
         else
           (let fs = fs\<lparr>dirbase := (if fmt = FS_FAT32 then ld_dword (win fs) 44 else fatbase fs + fasize)\<rparr>;
                szbfat =
                  (if fmt = FS_FAT32 then n_fatent fs * 4
                   else if fmt = FS_FAT16 then n_fatent fs * 2
                   else n_fatent fs * 3 div 2 + (n_fatent fs AND 1))
            in if fsize fs < (szbfat + (of_nat SS - 1)) div of_nat SS then (Inl FR_NO_FILESYSTEM, fs)
               else (Inr fmt, load_fsinfo hal bsect fmt fs)))"

definition mount_fat ::
  "('w, 'h) disk_hal_scheme \<Rightarrow> u32 \<Rightarrow> ('w, 's) FATFS_scheme \<Rightarrow> (FRESULT + u8) \<times> ('w, 's) FATFS_scheme" where
  "mount_fat hal bsect fs =
     (if ld_word (win fs) 11 \<noteq> of_nat SS then (Inl FR_NO_FILESYSTEM, fs)
      else
        (let fasize = ucast (ld_word (win fs) 22);
             fasize = (if fasize = 0 then ld_dword (win fs) 36 else fasize);
             fs = fs\<lparr>fsize := fasize, n_fats := win fs ! 16\<rparr>
         in if n_fats fs \<noteq> 1 \<and> n_fats fs \<noteq> 2 then (Inl FR_NO_FILESYSTEM, fs)
            else
              (let fasize = fasize * ucast (n_fats fs);
                   fs = fs\<lparr>csize := ucast (win fs ! 13)\<rparr>
               in if csize fs = 0 \<or> csize fs AND (csize fs - 1) \<noteq> 0 then (Inl FR_NO_FILESYSTEM, fs)
                  else
                    (let fs = fs\<lparr>n_rootdir := ld_word (win fs) 17\<rparr>
                     in if n_rootdir fs mod of_nat (SS div 32) \<noteq> 0 then (Inl FR_NO_FILESYSTEM, fs)
                        else
                          (let tsect = ucast (ld_word (win fs) 19);
                               tsect = (if tsect = 0 then ld_dword (win fs) 32 else tsect);
                               nrsv = ld_word (win fs) 14
                           in if nrsv = 0 then (Inl FR_NO_FILESYSTEM, fs)
                              else
                                (let sysect = ucast nrsv + fasize + ucast (n_rootdir fs) div of_nat (SS div 32)
                                 in if tsect < sysect then (Inl FR_NO_FILESYSTEM, fs)
                                    else
                                      (let nclst = (tsect - sysect) div ucast (csize fs)
                                       in if nclst = 0 then (Inl FR_NO_FILESYSTEM, fs)
                                          else if fat_sub_type nclst = 0 then (Inl FR_NO_FILESYSTEM, fs)
                                          else fat_limits hal bsect nrsv fasize sysect nclst fs)))))))"

text \<open>Reading the boot sectors of an initialised drive.\<close>

definition mount_volume :: "('w, 'h) disk_hal_scheme \<Rightarrow> ('w, 's) ff_scheme \<Rightarrow> FRESULT \<times> ('w, 's) ff_scheme" where
  "mount_volume hal fs =
     (let (bsect, fmt, fs) = find_boot hal fs
      in if fmt = 4 then (FR_DISK_ERR, fs)
         else if fmt \<ge> 2 then (FR_NO_FILESYSTEM, fs)
         else
           (let (r, fs) = (if fmt = 1 then mount_exfat hal bsect fs else mount_fat hal bsect fs)
            in case r of
                 Inl e \<Rightarrow> (e, fs)
               | Inr fmt \<Rightarrow> (FR_OK, fs\<lparr>fs_type := fmt, Fsid := Fsid fs + 1, mount_id := Fsid fs + 1\<rparr>)))"

text \<open>The path behind the drive number is returned as well.\<close>

definition find_volume ::
  "('w, 'h) drive_hal_scheme \<Rightarrow> string option \<Rightarrow> u8 \<Rightarrow> ('w, 's) ff_scheme \<Rightarrow> FRESULT \<times> string option \<times> ('w, 's) ff_scheme" where
  "find_volume hal path mode fs =
     (let (vol, path) = get_ldnumber path
      in if vol < 0 then (FR_INVALID_DRIVE, path, fs)
         else if \<not> FatFs fs then (FR_NOT_ENABLED, path, fs)
         else
           (let mode = mode AND NOT FA_READ;
                (stat, w) = (if fs_type fs \<noteq> 0 then disk_status hal (disk fs) else (STA_NOINIT, disk fs));
                fs = fs\<lparr>disk := w\<rparr>
            in if stat AND STA_NOINIT = 0
               then (if mode \<noteq> 0 \<and> stat AND STA_PROTECT \<noteq> 0 then FR_WRITE_PROTECTED else FR_OK, path, fs)
               else
                 (let (stat, w) = disk_initialize hal (disk fs);
                      fs = fs\<lparr>fs_type := 0, disk := w\<rparr>
                  in if stat AND STA_NOINIT \<noteq> 0 then (FR_NOT_READY, path, fs)
                     else if mode \<noteq> 0 \<and> stat AND STA_PROTECT \<noteq> 0 then (FR_WRITE_PROTECTED, path, fs)
                     else (let (res, fs) = mount_volume hal fs in (res, path, fs)))))"

text \<open>Registering the object, or taking it away (\<open>given\<close> is false), and mounting it at once if \<open>opt\<close> is not 0.\<close>

definition f_mount ::
  "('w, 'h) drive_hal_scheme \<Rightarrow> bool \<Rightarrow> string option \<Rightarrow> u8 \<Rightarrow> ('w, 's) ff_scheme \<Rightarrow> FRESULT \<times> ('w, 's) ff_scheme" where
  "f_mount hal given path opt fs =
     (if fst (get_ldnumber path) < 0 then (FR_INVALID_DRIVE, fs)
      else
        (let fs = (if FatFs fs then fs\<lparr>fs_type := 0\<rparr> else fs);
             fs = (if given then fs\<lparr>fs_type := 0\<rparr> else fs);
             fs = fs\<lparr>FatFs := given\<rparr>
         in if opt = 0 then (FR_OK, fs)
            else (let (res, _, fs) = find_volume hal path 0 fs in (res, fs))))"

text \<open>An object of the volume (its mount number \<open>oid\<close>) is valid as long as the volume was not mounted anew.\<close>

definition validate :: "('w, 'h) drive_hal_scheme \<Rightarrow> u16 \<Rightarrow> ('w, 's) FATFS_scheme \<Rightarrow> FRESULT \<times> ('w, 's) FATFS_scheme" where
  "validate hal oid fs =
     (if fs_type fs \<noteq> 0 \<and> oid = mount_id fs
      then
        (let (stat, w) = disk_status hal (disk fs);
             fs = fs\<lparr>disk := w\<rparr>
         in (if stat AND STA_NOINIT = 0 then FR_OK else FR_INVALID_OBJECT, fs))
      else (FR_INVALID_OBJECT, fs))"

section \<open>A mounted volume\<close>

text \<open>Moving the window leaves the geometry alone, also on a disk that fails.\<close>

lemma move_window_geometry: "move_window hal s fs = (res, fs') \<Longrightarrow> geometry fs' = geometry fs"
  by (auto simp: move_window_def sync_window_def geometry_def Let_def split: prod.splits if_splits)

lemma check_fs_geometry: "check_fs hal s fs = (fmt, fs') \<Longrightarrow> geometry fs' = geometry fs"
  by (auto simp: check_fs_def dest!: move_window_geometry split: prod.splits if_splits) (auto simp: geometry_def)

lemma try_partitions_geometry: "try_partitions hal br bsect fmt fs = (b, fmt', fs') \<Longrightarrow> geometry fs' = geometry fs"
  by (induction hal br bsect fmt fs rule: try_partitions.induct)
    (auto simp: Let_def dest: check_fs_geometry split: prod.splits if_splits)

lemma find_boot_geometry: "find_boot hal fs = (b, fmt, fs') \<Longrightarrow> geometry fs' = geometry fs"
  by (auto simp: find_boot_def dest!: try_partitions_geometry check_fs_geometry split: prod.splits if_splits)

text \<open>The window holds the sector \<open>s\<close> and is not changed.\<close>

definition loaded :: "('w \<Rightarrow> u32 \<Rightarrow> u8 list) \<Rightarrow> u32 \<Rightarrow> ('w, 's) FATFS_scheme \<Rightarrow> bool" where
  "loaded sec s fs \<longleftrightarrow> wflag fs = 0 \<and> winsect fs = s \<and> win fs = sec (disk fs) s"

lemma move_window_loads:
  assumes "disk_works hal sec" "wflag fs = 0" "s \<noteq> winsect fs \<or> loaded sec s fs" "move_window hal s fs = (res, fs')"
  shows "res = FR_OK" "loaded sec s fs'"
proof -
  obtain w where "disk_read hal s (disk fs) = (RES_OK, sec (disk fs) s, w)" "sec w = sec (disk fs)"
    using disk_worksD(2) [OF assms(1)] by blast
  then show "res = FR_OK" "loaded sec s fs'"
    using assms(2-4) by (auto simp: move_window_def sync_window_def loaded_def split: if_splits)
qed

lemma check_fs_loads:
  assumes "disk_works hal sec" "check_fs hal s fs = (fmt, fs')" "s \<noteq> 0xFFFFFFFF"
  shows "loaded sec s fs'"
proof -
  obtain res fs1 where m: "move_window hal s (fs\<lparr>wflag := 0, winsect := 0xFFFFFFFF\<rparr>) = (res, fs1)"
    by fastforce
  with assms show ?thesis
    using move_window_loads [OF assms(1) _ _ m] by (auto simp: check_fs_def split: if_splits)
qed

lemma try_partitions_loads:
  assumes "disk_works hal sec"
  shows "try_partitions hal br bsect fmt fs = (b, fmt', fs') \<Longrightarrow> 2 \<le> fmt \<Longrightarrow> fmt' < 2 \<Longrightarrow> b \<noteq> 0xFFFFFFFF \<Longrightarrow> loaded sec b fs'"
  using assms
  by (induction hal br bsect fmt fs rule: try_partitions.induct)
    (auto simp: Let_def dest: check_fs_loads split: prod.splits if_splits)

lemma find_boot_loads:
  assumes "disk_works hal sec" "find_boot hal fs = (b, fmt, fs')" "fmt < 2" "b \<noteq> 0xFFFFFFFF"
  shows "loaded sec b fs'"
  using assms
  by (auto simp: find_boot_def dest: check_fs_loads try_partitions_loads [OF assms(1)] split: prod.splits if_splits)

text \<open>The information sector leaves everything but the counters.\<close>

lemma load_fsinfo_fields:
  "n_fats (load_fsinfo hal b fmt fs) = n_fats fs" "n_fatent (load_fsinfo hal b fmt fs) = n_fatent fs"
  "fsize (load_fsinfo hal b fmt fs) = fsize fs" "volbase (load_fsinfo hal b fmt fs) = volbase fs"
  "fatbase (load_fsinfo hal b fmt fs) = fatbase fs" "csize (load_fsinfo hal b fmt fs) = csize fs"
  "FATFS.more (load_fsinfo hal b fmt fs) = FATFS.more fs" "database (load_fsinfo hal b fmt fs) = database fs"
proof -
  obtain res fs1 where "move_window hal (b + 1) (fs\<lparr>last_clst := 0xFFFFFFFF, free_clst := 0xFFFFFFFF, fsi_flag := 0x80\<rparr>) = (res, fs1)"
    by fastforce
  moreover from this have "geometry fs1 = geometry (fs\<lparr>last_clst := 0xFFFFFFFF, free_clst := 0xFFFFFFFF, fsi_flag := 0x80\<rparr>)"
    by (rule move_window_geometry)
  ultimately show "n_fats (load_fsinfo hal b fmt fs) = n_fats fs" "n_fatent (load_fsinfo hal b fmt fs) = n_fatent fs"
  "fsize (load_fsinfo hal b fmt fs) = fsize fs" "volbase (load_fsinfo hal b fmt fs) = volbase fs"
  "fatbase (load_fsinfo hal b fmt fs) = fatbase fs" "csize (load_fsinfo hal b fmt fs) = csize fs"
  "FATFS.more (load_fsinfo hal b fmt fs) = FATFS.more fs" "database (load_fsinfo hal b fmt fs) = database fs"
    by (auto simp: load_fsinfo_def Let_def geometry_def)
qed

lemma load_fsinfo_loads:
  assumes "disk_works hal sec" "loaded sec b fs"
  shows "loaded sec b (load_fsinfo hal b fmt fs) \<or> loaded sec (b + 1) (load_fsinfo hal b fmt fs)"
proof -
  obtain res fs1 where m: "move_window hal (b + 1) (fs\<lparr>last_clst := 0xFFFFFFFF, free_clst := 0xFFFFFFFF, fsi_flag := 0x80\<rparr>) = (res, fs1)"
    by fastforce
  have "loaded sec (b + 1) fs1" "res = FR_OK"
    using move_window_loads [OF assms(1) _ _ m] assms(2) by (auto simp: loaded_def)
  then show ?thesis
    using m assms(2) by (auto simp: load_fsinfo_def Let_def loaded_def)
qed

text \<open>The size that \<open>find_volume\<close> demands of the FAT holds all entries.\<close>

definition needed_size :: "u8 \<Rightarrow> u32 \<Rightarrow> u32" where
  "needed_size fmt n =
     (if fmt = FS_FAT32 then n * 4 else if fmt = FS_FAT16 then n * 2 else n * 3 div 2 + (n AND 1))"

lemma fat_sub_type_max:
  assumes "fat_sub_type nclst \<noteq> 0"
  shows "unat nclst + 2 \<le> max_entries (fat_sub_type nclst)" "fat_sub_type nclst \<in> {FS_FAT12, FS_FAT16, FS_FAT32}"
  using assms unfolding fat_sub_type_def max_entries_def
  by (auto simp: MAX_FAT12_def MAX_FAT16_def MAX_FAT32_def FS_FAT12_def FS_FAT16_def FS_FAT32_def word_le_nat_alt split: if_splits)

lemma fat12_bytes: "0 < n \<Longrightarrow> n + (n - 1) div 2 + 1 = n * 3 div 2 + n mod 2" for n :: nat
  by (cases "even n") (auto elim!: evenE oddE)

lemma needed_size_bytes:
  assumes "fmt \<in> {FS_FAT12, FS_FAT16, FS_FAT32}" "unat n \<le> max_entries fmt" "0 < unat n"
  shows "unat (needed_size fmt n) = table_bytes fmt (unat n)" "unat (needed_size fmt n) + 511 < 2 ^ 32"
proof -
  have "unat (n AND 1) = unat n mod 2"
    by (simp add: and_one_eq unat_mod)
  moreover have "unat (n * 3 div 2) = unat n * 3 div 2" if "unat n \<le> 0xFF7"
    using that by (simp add: unat_div unat_word_ariths)
  ultimately show *: "unat (needed_size fmt n) = table_bytes fmt (unat n)"
    using assms fat12_bytes [OF assms(3)]
    by (auto simp: needed_size_def table_bytes_def max_entries_def FS_FAT12_def FS_FAT16_def FS_FAT32_def unat_word_ariths)
  show "unat (needed_size fmt n) + 511 < 2 ^ 32"
    using assms unfolding * by (auto simp: table_bytes_def max_entries_def FS_FAT12_def FS_FAT16_def FS_FAT32_def)
qed

lemma fat_fits:
  assumes "fat_sub_type nclst \<noteq> 0" "nclst \<noteq> 0" "(needed_size (fat_sub_type nclst) (nclst + 2) + 511) div 512 \<le> sz"
  shows "2 < unat (nclst + 2)" "unat (nclst + 2) \<le> max_entries (fat_sub_type nclst)"
    "table_bytes (fat_sub_type nclst) (unat (nclst + 2)) \<le> unat sz * SS"
proof -
  note t = fat_sub_type_max [OF assms(1)]
  have "max_entries (fat_sub_type nclst) < 2 ^ 32"
    by (simp add: max_entries_def)
  then have n: "unat (nclst + 2) = unat nclst + 2"
    using t(1) by (simp add: unat_word_ariths)
  then show "2 < unat (nclst + 2)" "unat (nclst + 2) \<le> max_entries (fat_sub_type nclst)"
    using assms(2) t(1) by (simp_all add: unat_gt_0)
  then have "unat (needed_size (fat_sub_type nclst) (nclst + 2)) = table_bytes (fat_sub_type nclst) (unat (nclst + 2))"
    "unat (needed_size (fat_sub_type nclst) (nclst + 2)) + 511 < 2 ^ 32"
    using needed_size_bytes [OF t(2)] by simp_all
  then have "(table_bytes (fat_sub_type nclst) (unat (nclst + 2)) + 511) div 512 \<le> unat sz"
    using assms(3) by (simp add: word_le_nat_alt unat_div unat_plus_small)
  then show "table_bytes (fat_sub_type nclst) (unat (nclst + 2)) \<le> unat sz * SS"
    unfolding SS_def by linarith
qed

text \<open>What \<open>mount_fat\<close> promises of the geometry.\<close>

definition fat_geometry :: "u8 \<Rightarrow> u32 \<Rightarrow> ('w, 's) FATFS_scheme \<Rightarrow> bool" where
  "fat_geometry fmt bsect fs \<longleftrightarrow>
     fmt \<in> {FS_FAT12, FS_FAT16, FS_FAT32} \<and> n_fats fs \<in> {1, 2} \<and> 2 < unat (n_fatent fs) \<and>
     unat (n_fatent fs) \<le> max_entries fmt \<and> table_bytes fmt (unat (n_fatent fs)) \<le> unat (fsize fs) * SS \<and>
     volbase fs = bsect \<and> fatbase fs \<noteq> bsect"

lemma fat_limits_geometry:
  assumes "fat_limits hal bsect nrsv fasize sysect nclst fs = (Inr fmt, fs')" "fat_sub_type nclst \<noteq> 0" "nclst \<noteq> 0" "nrsv \<noteq> 0"
    "n_fats fs \<in> {1, 2}"
  shows "fat_geometry fmt bsect fs'"
proof -
  define fs1 where "fs1 = fs\<lparr>n_fatent := nclst + 2, volbase := bsect, fatbase := bsect + ucast nrsv, database := bsect + sysect,
    dirbase := (if fat_sub_type nclst = FS_FAT32 then ld_dword (win fs) 44 else bsect + ucast nrsv + fasize)\<rparr>"
  have "fmt = fat_sub_type nclst" "fs' = load_fsinfo hal bsect fmt fs1"
    "\<not> fsize fs < (needed_size (fat_sub_type nclst) (nclst + 2) + 511) div 512"
    using assms(1) by (auto simp: fat_limits_def Let_def fs1_def needed_size_def SS_def split: if_splits)
  moreover have "ucast nrsv \<noteq> (0 :: u32)"
    using assms(4) by (simp add: word_unat_eq_iff unat_ucast_widen)
  ultimately show ?thesis
    using fat_fits [OF assms(2,3), of "fsize fs"] fat_sub_type_max(2) [OF assms(2)] assms(5)
    by (auto simp: fat_geometry_def load_fsinfo_fields fs1_def not_less)
qed

lemma mount_fat_limits:
  assumes "mount_fat hal bsect fs = (Inr fmt, fs')"
  obtains nrsv fasize sysect nclst fs1 where "fat_limits hal bsect nrsv fasize sysect nclst fs1 = (Inr fmt, fs')"
    "fat_sub_type nclst \<noteq> 0" "nclst \<noteq> 0" "nrsv \<noteq> 0" "n_fats fs1 \<in> {1, 2}"
    "disk fs1 = disk fs" "wflag fs1 = wflag fs" "winsect fs1 = winsect fs" "win fs1 = win fs" "FATFS.more fs1 = FATFS.more fs"
  using assms that by (auto simp: mount_fat_def Let_def split: if_splits)

lemma fat_limits_loads:
  assumes "disk_works hal sec" "fat_limits hal bsect nrsv fasize sysect nclst fs = (Inr fmt, fs')" "loaded sec bsect fs"
  shows "loaded sec bsect fs' \<or> loaded sec (bsect + 1) fs'" "FATFS.more fs' = FATFS.more fs"
proof -
  obtain fs1 where "fs' = load_fsinfo hal bsect fmt fs1" "loaded sec bsect fs1" "FATFS.more fs1 = FATFS.more fs"
    using assms(2,3) by (auto simp: fat_limits_def Let_def loaded_def split: if_splits)
  then show "loaded sec bsect fs' \<or> loaded sec (bsect + 1) fs'" "FATFS.more fs' = FATFS.more fs"
    using load_fsinfo_loads [OF assms(1)] by (simp_all add: load_fsinfo_fields)
qed

text \<open>The sectors of the volume up to the end of its FATs have numbers of 32 bits, and the FATs on the disk agree.\<close>

definition no_wrap :: "('w, 's) FATFS_scheme \<Rightarrow> bool" where
  "no_wrap fs \<longleftrightarrow> unat (volbase fs) + unat (fatbase fs - volbase fs) + 2 * unat (fsize fs) < 2 ^ 32"

definition copies_agree :: "('w \<Rightarrow> u32 \<Rightarrow> u8 list) \<Rightarrow> ('w, 's) FATFS_scheme \<Rightarrow> bool" where
  "copies_agree sec fs \<longleftrightarrow>
     (n_fats fs = 2 \<longrightarrow> (\<forall>i < fsize fs. sec (disk fs) (fatbase fs + fsize fs + i) = sec (disk fs) (fatbase fs + i)))"

lemma unat_neg: "unat (- x) = (if x = 0 then 0 else 2 ^ 32 - unat x)" for x :: u32
  using unat_sub_if' [of 0 x] by (auto simp: unat_eq_0)

lemma boot_not_in_copy:
  assumes "no_wrap fs" "fatbase fs \<noteq> volbase fs" "s = volbase fs \<or> s = volbase fs + 1"
  shows "\<not> in_copy fs s" "0 < fsize fs \<Longrightarrow> s \<noteq> 0xFFFFFFFF" "unat (fatbase fs) + 2 * unat (fsize fs) < 2 ^ 32"
proof -
  define d where "d = fatbase fs - volbase fs"
  have w: "unat (volbase fs) + unat d + 2 * unat (fsize fs) < 2 ^ 32" "fatbase fs = volbase fs + d" "d \<noteq> 0"
    using assms(1,2) by (simp_all add: no_wrap_def d_def)
  then show "unat (fatbase fs) + 2 * unat (fsize fs) < 2 ^ 32"
    by (simp add: unat_plus_small)
  have "0 < unat d"
    using w(3) by (simp add: unat_gt_0)
  then show "s \<noteq> 0xFFFFFFFF" if "0 < fsize fs"
    using w(1) assms(3) that by (auto simp: word_unat_eq_iff word_less_nat_alt unat_plus_small)
  define e where "e = (if s = volbase fs then d + fsize fs else d - 1 + fsize fs)"
  have "in_copy fs s \<longleftrightarrow> unat (- e) < unat (fsize fs)"
    using assms(3) by (auto simp: in_copy_def w(2) word_less_nat_alt e_def)
  moreover have "unat e = (if s = volbase fs then unat d + unat (fsize fs) else unat d - 1 + unat (fsize fs))"
    using w(1) \<open>0 < unat d\<close> by (simp add: e_def unat_plus_small unat_minus_one w(3))
  ultimately show "\<not> in_copy fs s"
    using w(1) \<open>0 < unat d\<close> unat_neg [of e] by (auto split: if_splits)
qed

lemma fat_geometry_size:
  assumes "fat_geometry fmt b fs"
  shows "0 < fsize fs"
proof (rule ccontr)
  assume "\<not> 0 < fsize fs"
  then have "table_bytes fmt (unat (n_fatent fs)) = 0"
    using assms by (simp add: fat_geometry_def word_less_nat_alt)
  then show False
    using assms by (simp add: fat_geometry_def table_bytes_def split: if_splits)
qed

lemma mounted_fat_ok:
  assumes "disk_works hal sec" "loaded sec s fs" "s = volbase fs \<or> s = volbase fs + 1" "fat_geometry (fs_type fs) (volbase fs) fs"
    "no_wrap fs" "copies_agree sec fs"
  shows "fat_ok sec fs"
proof -
  note g = assms(4) [unfolded fat_geometry_def]
  have b: "\<not> in_copy fs s" "s \<noteq> 0xFFFFFFFF" "unat (fatbase fs) + 2 * unat (fsize fs) < 2 ^ 32"
    using boot_not_in_copy [OF assms(5) _ assms(3)] g fat_geometry_size [OF assms(4)] by blast+
  have "length (win fs) = SS" "wflag fs = 0" "winsect fs = s" "win fs = sec (disk fs) s"
    using assms(2) disk_worksD(1) [OF assms(1)] by (auto simp: loaded_def)
  then show ?thesis
    using g b assms(6) by (simp add: fat_ok_def mirrored_def copies_agree_def)
qed

text \<open>The first component of what nested conditionals and bindings return.\<close>

lemma fst_in:
  "fst a \<in> S \<Longrightarrow> fst b \<in> S \<Longrightarrow> fst (if c then a else b) \<in> S"
  "(\<And>x. fst (f x) \<in> S) \<Longrightarrow> fst (Let x f) \<in> S"
  "(\<And>x y. fst (g x y) \<in> S) \<Longrightarrow> fst (case p of (x, y) \<Rightarrow> g x y) \<in> S"
  by (auto split: prod.splits)

lemma mount_exfat_result: "fst (mount_exfat hal bsect fs) \<in> {Inr FS_EXFAT, Inl FR_NO_FILESYSTEM, Inl FR_DISK_ERR}"
  unfolding mount_exfat_def by (intro fst_in) simp_all

lemma mount_fat_error: "fst (mount_fat hal bsect fs) \<in> {Inl FR_NO_FILESYSTEM} \<union> range Inr"
  unfolding mount_fat_def fat_limits_def by (intro fst_in) simp_all

lemma ff_more: "FATFS.more fs = FATFS.more fs' \<Longrightarrow> Fsid fs = Fsid fs'" for fs fs' :: "('w, 's) ff_scheme"
  by (cases fs; cases fs') simp

lemma mount_volume_fat:
  assumes "mount_volume hal fs = (FR_OK, fs')" "fs_type fs' \<noteq> FS_EXFAT"
  obtains bsect fmt fs1 t fs2 where "find_boot hal fs = (bsect, fmt, fs1)" "fmt < 2" "mount_fat hal bsect fs1 = (Inr t, fs2)"
    "fs' = fs2\<lparr>fs_type := t, Fsid := Fsid fs2 + 1, mount_id := Fsid fs2 + 1\<rparr>"
proof -
  obtain bsect fmt fs1 where b: "find_boot hal fs = (bsect, fmt, fs1)"
    using prod_cases3 by blast
  obtain r fs2 where r: "(if fmt = 1 then mount_exfat hal bsect fs1 else mount_fat hal bsect fs1) = (r, fs2)"
    by fastforce
  have f: "fmt < 2" "(case r of Inl e \<Rightarrow> (e, fs2) | Inr t \<Rightarrow> (FR_OK, fs2\<lparr>fs_type := t, Fsid := Fsid fs2 + 1, mount_id := Fsid fs2 + 1\<rparr>)) = (FR_OK, fs')"
    using assms(1) b r by (simp_all add: mount_volume_def not_le split: if_splits)
  then have "fmt \<noteq> 1"
    using assms(2) r mount_exfat_result [of hal bsect fs1] by auto
  then show thesis
    using that b f r mount_fat_error [of hal bsect fs1] by (cases r) auto
qed

lemma mount_volume_ok:
  assumes "disk_works hal sec" "mount_volume hal fs = (FR_OK, fs')" "fs_type fs' \<noteq> FS_EXFAT" "no_wrap fs'"
  shows "fat_geometry (fs_type fs') (volbase fs') fs'" "\<exists>s. loaded sec s fs' \<and> (s = volbase fs' \<or> s = volbase fs' + 1)"
    "mount_id fs' = Fsid fs + 1" "Fsid fs' = Fsid fs + 1"
proof -
  obtain bsect fmt fs1 t fs2 where b: "find_boot hal fs = (bsect, fmt, fs1)" and m: "fmt < 2" "mount_fat hal bsect fs1 = (Inr t, fs2)"
    "fs' = fs2\<lparr>fs_type := t, Fsid := Fsid fs2 + 1, mount_id := Fsid fs2 + 1\<rparr>"
    using mount_volume_fat [OF assms(2,3)] by blast
  obtain nrsv fasize sysect nclst fs3 where l: "fat_limits hal bsect nrsv fasize sysect nclst fs3 = (Inr t, fs2)"
    "fat_sub_type nclst \<noteq> 0" "nclst \<noteq> 0" "nrsv \<noteq> 0" "n_fats fs3 \<in> {1, 2}"
    "disk fs3 = disk fs1" "wflag fs3 = wflag fs1" "winsect fs3 = winsect fs1" "win fs3 = win fs1" "FATFS.more fs3 = FATFS.more fs1"
    using mount_fat_limits [OF m(2)] by blast
  have g: "fat_geometry t bsect fs2"
    using fat_limits_geometry [OF l(1-5)] .
  then have v: "volbase fs' = bsect" "fat_geometry t bsect fs'"
    by (simp_all add: fat_geometry_def m(3))
  then show "fat_geometry (fs_type fs') (volbase fs') fs'"
    by (simp add: m(3))
  have "bsect \<noteq> 0xFFFFFFFF"
    using boot_not_in_copy(2) [OF assms(4), of bsect] v fat_geometry_size [OF v(2)] by (auto simp: fat_geometry_def)
  then have "loaded sec bsect fs3"
    using find_boot_loads [OF assms(1) b m(1)] by (simp add: loaded_def l)
  then have "loaded sec bsect fs2 \<or> loaded sec (bsect + 1) fs2" "FATFS.more fs2 = FATFS.more fs1"
    using fat_limits_loads [OF assms(1) l(1)] l(10) by auto
  moreover from calculation(2) have "Fsid fs2 = Fsid fs"
    using find_boot_geometry [OF b] by (intro ff_more) (simp add: geometry_def)
  ultimately show "\<exists>s. loaded sec s fs' \<and> (s = volbase fs' \<or> s = volbase fs' + 1)" "mount_id fs' = Fsid fs + 1" "Fsid fs' = Fsid fs + 1"
    using v(1) by (auto simp: m(3) loaded_def)
qed

lemma move_window_more: "FATFS.more (snd (move_window hal s fs)) = FATFS.more fs"
proof -
  have "geometry (snd (move_window hal s fs)) = geometry fs"
    by (rule move_window_geometry [of _ _ _ "fst (move_window hal s fs)"]) simp
  then show ?thesis
    by (simp add: geometry_def)
qed

lemma more_if: "FATFS.more (snd a) = m \<Longrightarrow> FATFS.more (snd b) = m \<Longrightarrow> FATFS.more (snd (if c then a else b)) = m"
  by simp

lemma more_let_fs: "FATFS.more x = m \<Longrightarrow> (\<And>y. FATFS.more y = m \<Longrightarrow> FATFS.more (snd (f y)) = m) \<Longrightarrow> FATFS.more (snd (Let x f)) = m"
  by simp

lemma more_let: "(\<And>y. FATFS.more (snd (f y)) = m) \<Longrightarrow> FATFS.more (snd (Let x f)) = m"
  by simp

lemma more_let_pair:
  "FATFS.more (snd p) = m \<Longrightarrow> (\<And>r fs. FATFS.more fs = m \<Longrightarrow> FATFS.more (snd (g r fs)) = m)
    \<Longrightarrow> FATFS.more (snd (let (r, fs) = p in g r fs)) = m"
  by (cases p) simp

lemma mount_exfat_more: "FATFS.more fs = m \<Longrightarrow> FATFS.more (snd (mount_exfat hal bsect fs)) = m"
  unfolding mount_exfat_def
  by (rule more_if more_let_fs more_let_pair more_let | simp add: move_window_more)+

lemma fat_limits_more: "FATFS.more fs = m \<Longrightarrow> FATFS.more (snd (fat_limits hal bsect nrsv fasize sysect nclst fs)) = m"
  unfolding fat_limits_def
  by (rule more_if more_let_fs more_let_pair more_let | simp add: load_fsinfo_fields)+

lemma mount_fat_more: "FATFS.more fs = m \<Longrightarrow> FATFS.more (snd (mount_fat hal bsect fs)) = m"
  unfolding mount_fat_def
  by (rule more_if more_let_fs more_let_pair more_let fat_limits_more | simp)+

lemma mount_volume_id:
  assumes "mount_volume hal fs = (FR_OK, fs')"
  shows "mount_id fs' = Fsid fs + 1"
proof -
  obtain bsect fmt fs1 where b: "find_boot hal fs = (bsect, fmt, fs1)"
    using prod_cases3 by blast
  obtain r fs2 where r: "(if fmt = 1 then mount_exfat hal bsect fs1 else mount_fat hal bsect fs1) = (r, fs2)"
    by fastforce
  have f: "fmt < 2" "(case r of Inl e \<Rightarrow> (e, fs2) | Inr t \<Rightarrow> (FR_OK, fs2\<lparr>fs_type := t, Fsid := Fsid fs2 + 1, mount_id := Fsid fs2 + 1\<rparr>)) = (FR_OK, fs')"
    using assms b r by (simp_all add: mount_volume_def not_le split: if_splits)
  have "FATFS.more fs2 = FATFS.more fs1"
    using r mount_exfat_more [of fs1 _ hal bsect] mount_fat_more [of fs1 _ hal bsect] by (auto split: if_splits)
  then have "Fsid fs2 = Fsid fs"
    using find_boot_geometry [OF b] by (intro ff_more) (simp add: geometry_def)
  moreover have "r \<noteq> Inl FR_OK"
    using r mount_exfat_result [of hal bsect fs1] mount_fat_error [of hal bsect fs1] by (auto split: if_splits)
  ultimately show ?thesis
    using f(2) by (auto split: sum.splits)
qed

section \<open>Properties\<close>

text \<open>A drive in memory with the small volume on it, mounted.\<close>

definition boot_sector :: "(nat \<times> u8) list \<Rightarrow> u8 list" where
  "boot_sector xs = fold (\<lambda>(i, b) l. l[i := b]) xs (replicate SS 0)"

definition memory_drive :: "(u32 \<Rightarrow> u8 list) drive_hal" where
  "memory_drive = disk_hal.extend memory_disk (drive_hal.fields (\<lambda>w. (0, w)) (\<lambda>w. (0, w)))"

definition unmounted :: "(u32 \<Rightarrow> u8 list) \<Rightarrow> (u32 \<Rightarrow> u8 list) ff" where
  "unmounted w =
     \<lparr>disk = w, fs_type = 0, n_fats = 0, wflag = 0, fsi_flag = 0, mount_id = 0, n_rootdir = 0, csize = 0, last_clst = 0, free_clst = 0,
      n_fatent = 0, fsize = 0, volbase = 0, fatbase = 0, dirbase = 0, database = 0, winsect = 0, win = [], FatFs = True, Fsid = 0\<rparr>"

definition small_boot :: "u8 list" where
  "small_boot = boot_sector [(0, 0xEB), (2, 0x90), (12, 2), (13, 1), (14, 1), (16, 2), (17, 16), (19, 12), (22, 1),
     (54, 0x46), (55, 0x41), (56, 0x54), (510, 0x55), (511, 0xAA)]"

definition small_disk :: "u32 \<Rightarrow> u8 list" where
  "small_disk s = (if s = 0 then small_boot else if s = 1 \<or> s = 2 then small_table else [])"

text \<open>A FAT32 volume of 0xFFF6 clusters whose two FATs are said to have 0x80000000 sectors each.\<close>

definition huge_boot :: "u8 list" where
  "huge_boot = boot_sector [(0, 0xEB), (2, 0x90), (12, 2), (13, 1), (14, 32), (16, 2), (32, 0x16), (34, 1), (39, 0x80), (44, 2),
     (82, 0x46), (83, 0x41), (84, 0x54), (85, 0x33), (86, 0x32), (510, 0x55), (511, 0xAA)]"

definition huge_mounted :: "FRESULT \<times> string option \<times> (u32 \<Rightarrow> u8 list) ff" where
  "huge_mounted = find_volume memory_drive (Some ''/'') 0 (unmounted (\<lambda>s. if s = 0 then huge_boot else []))"

definition small_mounted :: "FRESULT \<times> string option \<times> (u32 \<Rightarrow> u8 list) ff" where
  "small_mounted = find_volume memory_drive (Some ''/'') 0 (unmounted small_disk)"

lemma memory_drive_works: "disk_works memory_drive sectors"
  using memory_disk_works by (simp add: disk_works_def memory_drive_def disk_hal.defs drive_hal.defs memory_disk_def)

lemma small_mounted_fields:
  "fst small_mounted = FR_OK \<and> fst (snd small_mounted) = Some ''/'' \<and>
   (let fs = snd (snd small_mounted)
    in fs_type fs = FS_FAT12 \<and> n_fats fs = 2 \<and> fsize fs = 1 \<and> volbase fs = 0 \<and> fatbase fs = 1 \<and> n_fatent fs = 10 \<and>
       sectors (disk fs) 2 = sectors (disk fs) 1)"
  by code_simp




text \<open>Mounting anew makes old objects invalid. An object of the volume that was opened before the volume is mounted
  again with \<open>f_mount\<close> is refused from then on.\<close>

theorem f_mount_invalidates:
  assumes "mount_id fs = Fsid fs" "f_mount hal True path opt fs = (FR_OK, fs')"
  shows "validate hal (mount_id fs) fs' = (FR_INVALID_OBJECT, fs')"
proof (cases "opt = 0")
  case True
  then show ?thesis
    using assms(2) by (auto simp: f_mount_def validate_def split: if_splits)
next
  case False
  then obtain path' fs1 where "find_volume hal path 0 (fs\<lparr>fs_type := 0, FatFs := True\<rparr>) = (FR_OK, path', fs')"
    using assms(2) by (auto simp: f_mount_def split: prod.splits if_splits)
  then obtain fs1 where "mount_volume hal fs1 = (FR_OK, fs')" "Fsid fs1 = Fsid fs"
    by (auto simp: find_volume_def STA_NOINIT_def Let_def split: prod.splits if_splits)
  then show ?thesis
    using mount_volume_id [of hal fs1 fs'] assms(1) by (simp add: validate_def)
qed

theorem f_mount_invalidates_witness:
  "\<exists>fs'. f_mount memory_drive True (Some ''/'') 1 (unmounted small_disk) = (FR_OK, fs') \<and> fst (validate memory_drive 0 fs') = FR_INVALID_OBJECT"
proof -
  have "mount_id (unmounted small_disk) = Fsid (unmounted small_disk)" "mount_id (unmounted small_disk) = 0"
    by (simp_all add: unmounted_def)
  moreover have "fst (f_mount memory_drive True (Some ''/'') 1 (unmounted small_disk)) = FR_OK"
    by code_simp
  then obtain fs' where "f_mount memory_drive True (Some ''/'') 1 (unmounted small_disk) = (FR_OK, fs')"
    by (metis prod.collapse)
  ultimately show ?thesis
    using f_mount_invalidates [of "unmounted small_disk" memory_drive "Some ''/''" 1 fs'] by simp
qed

end
