(* ===== verification/Spec2Isabelle.thy ===== *)
theory Spec2Isabelle
  imports Ptime Firmware Fat_Mount
begin

text \<open>
  Verification of the WaferSat flight firmware: the C files directly under \<open>src/\<close>, and the lower half of the FAT file
  system \<open>src/ext/fatfs\<close> that they store images with.

  \<^bold>\<open>The program.\<close> A small satellite board has a camera, sensors on an I2C bus, an external memory and a memory card. The
  thread of \<open>main.c\<close> starts the drivers, then waits for events: a timer polls the card slot and tells it to mount or
  to release the card, and a shell on a serial line is restarted whenever it ends. The commands of the shell take a
  picture (\<open>ov5640.c\<close> programs the camera over \<open>pi2c.c\<close> and receives the image with \<open>dcmi_dma.c\<close>) and write it to the card
  (FatFs), read all sensors (\<open>collector.c\<close>), list the files, or measure the memory. A watchdog thread runs beside
  them. FatFs keeps the clusters of a file as a chain in the file allocation table of the card.

  \<^bold>\<open>How it is modelled.\<close> Integers of C are machine words of their width. Every module has a record with its variables;
  the records extend each other, \<open>module_state\<close>, \<open>pi2c\<close>, \<open>dcmi_dma\<close>, \<open>ov5640\<close>, \<open>ltr329\<close>, \<open>mpu9250\<close>, \<open>debug\<close>, \<open>collector\<close>,
  \<open>storage\<close>, \<open>app\<close>, \<open>shell\<close>, so that an operation of one module runs on the state of every later one. Code that is not
  in the repository (ChibiOS, the C library, the hardware) is a record of functions on an arbitrary type of worlds, an
  argument of the operations that call it; these records extend each other in the same way (\<open>os_hal\<close> up to \<open>cmd_hal\<close>, and
  \<open>disk_hal\<close>, \<open>drive_hal\<close> for FatFs). What a theorem needs of this code is a named hypothesis with its documented
  behaviour, and a witness shows the hypothesis for a concrete board. A null pointer, an access outside an array or a
  halt of the system is a value of the type \<open>fault\<close>; the error codes of the source are data types.

  \<^bold>\<open>Theories.\<close>
  \<^item> \<open>Wafer_Prelude\<close>: words, lists and the interface locales \<open>codec\<close> (inverse conversions), \<open>transition_invariant\<close>,
    \<open>keeps\<close> (operations that preserve a property), \<open>polling_loop\<close> (loops bounded by a clock), \<open>bounded_log\<close> (the last
    entries of a log). \<open>Chibios\<close>: console and clock.
  \<^item> \<open>Ptime\<close> (\<open>ptime.c\<close>): the two conversions between dates and timestamps are inverse to each other and agree with a
    reference calendar.
  \<^item> \<open>Pi2c\<close> (\<open>pi2c.c\<close>): register accesses, what the error flag means, and that any sequence of accesses keeps to the bus
    protocol.
  \<^item> \<open>Dcmi_Dma\<close>, \<open>Dcmi_Transfer\<close> (\<open>dcmi_dma.c\<close>): both interrupt handlers refine one abstract handler (locale
    \<open>shuffle_handler\<close>); in every run of hardware and handler the blocks fill the buffer in order; where a transfer ends;
    what the two initialisations configure.
  \<^item> \<open>Ov5640_Regs\<close>, \<open>Reg_Table\<close>, \<open>No_Camera_Image\<close>, \<open>No_Camera_Jpeg\<close>, \<open>Ov5640\<close>, \<open>Camera\<close>, \<open>Camera_Capture\<close> (\<open>ov5640.c\<close>): the
    register tables (locale \<open>reg_table\<close>) reach the sensor, the waits for an image return, and the buffer holds the image
    or the stored picture, which is a complete JPEG file.
  \<^item> \<open>Sensors\<close> (\<open>tmp100.c\<close>, \<open>ltr329.c\<close>, \<open>mpu9250.c\<close>), \<open>Bme280\<close>, \<open>Bme280_Device\<close> (\<open>bme280.c\<close>), \<open>Padc\<close> (\<open>padc.c\<close>): every
    reading in terms of the registers of the device; the compensation of the temperature equals the formula of the data
    sheet over the integers.
  \<^item> \<open>Debug\<close> (\<open>debug.c\<close>, \<open>debug.h\<close>): the error list is a log of the last 32 errors.
  \<^item> \<open>Collector\<close>, \<open>Telemetry\<close> (\<open>collector.c\<close>): the data point of a collection, its error word, and the bus afterwards.
  \<^item> \<open>Watchdog\<close> (\<open>watchdog.c\<close>), \<open>Membench\<close> (\<open>memcpy_dma.c\<close>, \<open>membench.c\<close>): the calls of the watchdog thread; which bytes
    a copy transfers.
  \<^item> \<open>Storage\<close>, \<open>Image_Files\<close> (\<open>write_rgb\<close>, \<open>write_jpeg\<close> of \<open>main.c\<close>): an image never replaces a file, and on a working card
    it is stored under the first unused name.
  \<^item> \<open>Card_Monitor\<close> (timer, event handlers and loop of \<open>main.c\<close>): the monitor refines a debounced edge detector; in every
    interleaving of polls and main thread the file system is ready only with a card.
  \<^item> \<open>Shell_Commands\<close>, \<open>Firmware\<close> (commands and start of \<open>main.c\<close>): a round of the image command from camera to card, the
    listing of the files, the state after the start.
  \<^item> \<open>Fat_Types\<close>, \<open>Fat_Volume\<close> (\<open>ff.c\<close> from \<open>ld_word\<close> to \<open>create_chain\<close>): window, table entries, exFAT bitmap and chains.
    \<open>Fat_Table\<close>: for the three FAT types \<open>get_fat\<close> and \<open>put_fat\<close> refine an array (locale \<open>fat_array\<close>), the copies on the disk
    follow, \<open>remove_chain\<close> frees exactly a chain, \<open>create_chain\<close> allocates a free cluster; both end.
  \<^item> \<open>Fat_Mount\<close> (\<open>get_ldnumber\<close>, \<open>check_fs\<close>, \<open>find_volume\<close>, \<open>validate\<close>, \<open>f_mount\<close> of \<open>ff.c\<close>): a mounted FAT volume meets the
    invariant \<open>fat_ok\<close> of \<open>Fat_Table\<close>; mounting anew invalidates the objects of the volume.

  \<^bold>\<open>Loops and bounds.\<close> Loops over data are structural or have a termination proof. Loops that may run for ever are
  partial functions with result \<open>None\<close>: the waits for an image, the repetition of the image command, and the loops over
  clusters; the theorems about them show that they return. \<open>scan_files\<close> recurses over directories with the argument
  \<open>fuel\<close>, and the theorem on the listing gives an amount that is enough for the tree at hand. Threads without an end
  (watchdog, blinking lights) are sequences of rounds. In \<open>Fat_Table\<close> the hypothesis \<open>fat_ok\<close> bounds the table by the FAT
  and the cluster numbers by the type, as \<open>find_volume\<close> checks; \<open>no_wrap\<close> excludes sector numbers beyond 32 bits, which
  it does not check, and a theorem shows what can happen then.

  \<^bold>\<open>Not modelled.\<close>
  \<^item> The upper half of FatFs (directories, long names, code pages, and the file operations on them). The program's calls
    of it are parameters of \<open>Storage\<close>, \<open>Card_Monitor\<close> and \<open>Shell_Commands\<close>; they are not derived from \<open>Fat_Volume\<close>. The exFAT
    branches of the lower half are defined, but only those of the three FAT types have theorems. \<open>diskio.c\<close> is not compiled.
  \<^item> \<open>usbcfg.c\<close>, and the parts of \<open>main.c\<close> for a USB port and an SPI card, which the configuration switches off.
  \<^item> \<open>BME280_getAltitude\<close> and \<open>speed_mibps\<close>, floating-point functions that nothing calls; the empty callback \<open>adccb\<close>.
  \<^item> Configuration headers and the linker script: settings without operations. The constants the code uses are defined
    where they are used.
  \<^item> ChibiOS kernel and drivers, which are not in the repository. The directory \<open>chibios-svn2\<close> has demos and test cases for
    other boards, \<open>test\<close> the test suite of ChibiOS, and \<open>ext/lwip\<close>, \<open>ext/wolfssl\<close> are libraries that the program does not
    include: none of it is part of the firmware.
\<close>

end
